(* ===== verification/Prelude.thy ===== *)
theory Prelude
  imports Main "HOL-Library.Word" "HOL-Library.List_Lexorder" "HOL-Library.Char_ord"
begin

text \<open>
  Shared ground of the development: the machine-integer types of the code, the
  collections the proofs use, and the generic facts on lists of rows that every table
  of the database shares.  A table is a list of rows in insertion order; a row is found
  by a key.
\<close>

type_synonym u8 = "8 word"
type_synonym u16 = "16 word"
type_synonym u32 = "32 word"
type_synonym u64 = "64 word"
type_synonym bytes = "u8 list"

named_theorems stmt_defs "definitions of the SQL statements of the store"
named_theorems tx_defs "definitions of the transaction combinators"
named_theorems table_simps "selection from inserted, deleted and updated tables"

section \<open>32-bit words as numbers\<close>

lemma unat_u32_lt: "unat (x :: u32) < 4294967296"
  using unsigned_less [of x] by simp

lemma unat_u32_add:
  "unat (x + y :: u32) =
     (if unat x + unat y < 4294967296 then unat x + unat y else unat x + unat y - 4294967296)"
  using unat_u32_lt [of x] unat_u32_lt [of y] by (auto simp: unat_word_ariths mod_if)

lemma unat_u32_add_le: "unat x + unat y < 4294967296 \<Longrightarrow> unat (x + y :: u32) = unat x + unat y"
  by (simp add: unat_u32_add)

lemma unat_u32_sub: "unat y \<le> unat x \<Longrightarrow> unat (x - y :: u32) = unat x - unat y"
  by (simp add: unat_sub word_le_nat_alt)

lemma unat_u32_of_nat: "n < 4294967296 \<Longrightarrow> unat (of_nat n :: u32) = n"
  by (simp add: unat_of_nat take_bit_nat_eq_self)

lemma u32_of_u64 [simp]: "(ucast (ucast (i :: u32) :: u64) :: u32) = i"
  by (rule bit_word_eqI) (simp add: bit_simps)

section \<open>Options and sums\<close>

definition map_result :: "('a \<Rightarrow> 'b) \<Rightarrow> 'e + 'a \<Rightarrow> 'e + 'b" where
  "map_result f r = (case r of Inl e \<Rightarrow> Inl e | Inr a \<Rightarrow> Inr (f a))"

lemma map_result_simps [simp]:
  "map_result f (Inl e) = Inl e"
  "map_result f (Inr a) = Inr (f a)"
  by (simp_all add: map_result_def)

text \<open>Rust's \<open>?\<close> on a result, and a loop that stops at the first error.\<close>

definition rbind :: "'e + 'a \<Rightarrow> ('a \<Rightarrow> 'e + 'b) \<Rightarrow> 'e + 'b" where
  "rbind r f = (case r of Inl x \<Rightarrow> Inl x | Inr a \<Rightarrow> f a)"

lemma rbind_simps [simp]:
  "rbind (Inl x) f = Inl x"
  "rbind (Inr a) f = f a"
  by (simp_all add: rbind_def)

fun collect :: "('r \<Rightarrow> 'e + 'a) \<Rightarrow> 'r list \<Rightarrow> 'e + 'a list" where
  "collect f [] = Inr []"
| "collect f (r # rs) = rbind (f r) (\<lambda>a. map_result (\<lambda>as. a # as) (collect f rs))"

lemma collect_total: "\<forall>r \<in> set rs. \<exists>a. f r = Inr a \<Longrightarrow> \<exists>as. collect f rs = Inr as"
  by (induction rs) fastforce+

section \<open>Rows found by a key\<close>

definition tab_get :: "('r \<Rightarrow> 'k) \<Rightarrow> 'k \<Rightarrow> 'r list \<Rightarrow> 'r option" where
  "tab_get key k t = find (\<lambda>r. key r = k) t"

definition keyed :: "('r \<Rightarrow> 'k) \<Rightarrow> 'r list \<Rightarrow> bool" where
  "keyed key t \<longleftrightarrow> distinct (map key t)"

lemma tab_get_simps [simp, table_simps]:
  "tab_get key k [] = None"
  "tab_get key k (r # t) = (if key r = k then Some r else tab_get key k t)"
  by (simp_all add: tab_get_def)

lemma tab_get_SomeD: "tab_get key k t = Some r \<Longrightarrow> r \<in> set t \<and> key r = k"
  by (induction t) (auto split: if_splits)

lemma tab_get_None_iff: "tab_get key k t = None \<longleftrightarrow> k \<notin> key ` set t"
  by (induction t) auto

lemma tab_get_NoneD: "tab_get key k t = None \<Longrightarrow> r \<in> set t \<Longrightarrow> key r \<noteq> k"
  by (auto simp: tab_get_None_iff)

lemma keyed_simps [simp]:
  "keyed key []"
  "keyed key (r # t) \<longleftrightarrow> key r \<notin> key ` set t \<and> keyed key t"
  by (simp_all add: keyed_def)

lemma tab_get_mem: "keyed key t \<Longrightarrow> r \<in> set t \<Longrightarrow> tab_get key (key r) t = Some r"
  by (induction t) (auto simp: image_iff)

lemma tab_get_append [table_simps]:
  "tab_get key k (t @ u) =
     (case tab_get key k t of Some r \<Rightarrow> Some r | None \<Rightarrow> tab_get key k u)"
  by (induction t) auto

lemma tab_get_filter [table_simps]:
  "keyed key t \<Longrightarrow> tab_get key k (filter P t) =
     (case tab_get key k t of Some r \<Rightarrow> if P r then Some r else None | None \<Rightarrow> None)"
proof (induction t)
  case (Cons r t)
  then have "key r = k \<Longrightarrow> tab_get key k t = None"
    by (auto simp: tab_get_None_iff)
  with Cons show ?case by auto
qed simp

lemma tab_get_filter_key [table_simps]:
  "tab_get key k (filter (\<lambda>r. Q (key r)) t) = (if Q k then tab_get key k t else None)"
  by (induction t) auto

lemma tab_get_filter_neq [table_simps]:
  "tab_get key k (filter (\<lambda>r. key r \<noteq> k') t) = (if k = k' then None else tab_get key k t)"
  by (induction t) auto

lemma tab_get_map_key [table_simps]:
  "(\<And>r. key (f r) = key r) \<Longrightarrow> tab_get key k (map f t) = map_option f (tab_get key k t)"
  by (induction t) auto

lemma keyed_append [simp]:
  "keyed key (t @ u) \<longleftrightarrow> keyed key t \<and> keyed key u \<and> key ` set t \<inter> key ` set u = {}"
  by (simp add: keyed_def)

lemma keyed_filter [intro]: "keyed key t \<Longrightarrow> keyed key (filter P t)"
  by (simp add: keyed_def distinct_map_filter)

lemma keyed_map_key [intro]:
  "(\<And>r. key (f r) = key r) \<Longrightarrow> keyed key t \<Longrightarrow> keyed key (map f t)"
  by (simp add: keyed_def comp_def)

lemma keyed_unique: "keyed key t \<Longrightarrow> r \<in> set t \<Longrightarrow> r' \<in> set t \<Longrightarrow> key r = key r' \<Longrightarrow> r = r'"
  by (metis option.inject tab_get_mem)

lemma key_in_filter:
  "keyed key t \<Longrightarrow> k \<in> key ` set (filter P t) \<longleftrightarrow> (\<exists>r. tab_get key k t = Some r \<and> P r)"
  using tab_get_mem tab_get_SomeD by (fastforce simp: image_iff)

lemma filter_key_tab_get:
  "keyed key t \<Longrightarrow> filter (\<lambda>r. key r = k) t =
     (case tab_get key k t of None \<Rightarrow> [] | Some r \<Rightarrow> [r])"
proof (induction t)
  case (Cons r t)
  then have "key r = k \<Longrightarrow> tab_get key k t = None"
    by (auto simp: tab_get_None_iff)
  with Cons show ?case by auto
qed simp

section \<open>Resizing a byte vector\<close>

text \<open>
  \<open>resize n xs\<close> is Rust's \<open>Vec::resize(n, 0)\<close>: cut to \<open>n\<close> elements or filled with zeros.
\<close>

definition resize :: "nat \<Rightarrow> bytes \<Rightarrow> bytes" where
  "resize n xs = take n xs @ replicate (n - length xs) 0"

lemma length_resize [simp]: "length (resize n xs) = n"
  by (simp add: resize_def)

text \<open>Byte \<open>k\<close> of a vector, with the zero that padding would supply beyond its end.\<close>

definition byte_at :: "bytes \<Rightarrow> nat \<Rightarrow> u8" where
  "byte_at xs k = (if k < length xs then xs ! k else 0)"

lemma byte_at_Nil [simp]: "byte_at [] k = 0"
  by (simp add: byte_at_def)

lemma byte_at_replicate [simp]: "byte_at (replicate n 0) k = 0"
  by (simp add: byte_at_def)

lemma byte_at_resize: "byte_at (resize n xs) k = (if k < n then byte_at xs k else 0)"
  by (auto simp: byte_at_def resize_def nth_append)

lemma nth_resize: "k < n \<Longrightarrow> resize n xs ! k = byte_at xs k"
  using byte_at_resize [of n xs k] by (simp add: byte_at_def)

lemma byte_at_append:
  "byte_at (xs @ ys) k = (if k < length xs then xs ! k else byte_at ys (k - length xs))"
  by (auto simp: byte_at_def nth_append)

section \<open>Slices\<close>

text \<open>
  Rust's \<open>&xs[a..b]\<close>: \<open>None\<close> stands for the panic when \<open>a > b\<close> or \<open>b > len\<close>.
\<close>

definition slice :: "'a list \<Rightarrow> nat \<Rightarrow> nat \<Rightarrow> 'a list option" where
  "slice xs a b = (if a \<le> b \<and> b \<le> length xs then Some (take (b - a) (drop a xs)) else None)"

lemma slice_length: "slice xs a b = Some ys \<Longrightarrow> length ys = b - a"
  by (auto simp: slice_def split: if_splits)

lemma slice_nth: "slice xs a b = Some ys \<Longrightarrow> k < b - a \<Longrightarrow> ys ! k = xs ! (a + k)"
  by (auto simp: slice_def split: if_splits)

end
