(* ===== verification/Sqerror.thy ===== *)
theory Sqerror
  imports Prelude
begin

text \<open>
  The error type of the program (\<open>src/sqerror.rs\<close>) and the shape of the code that
  produces it: a piece of a transaction reads and changes a state and may stop with an
  error (Rust's \<open>?\<close>).  The description strings only reach the debug log; an SQLite error
  keeps the reason instead.
\<close>

datatype sql_failure =
    ConstraintFailed
  | ForeignKeyFailed
  | NoSuchFunction
  | NoSuchTable
  | ObjectExists
  | QueryReturnedNoRows
  | InvalidColumnType
  | FunctionFailed

datatype error_kind =
    SqliteError sql_failure
  | FsIsDir
  | FsIsNotDir
  | FsNoEnt
  | FsNotEmpty
  | FsFileExist
  | FsParm
  | Undefined

type_synonym ('s, 'a) tx = "'s \<Rightarrow> error_kind + 'a \<times> 's"

definition tret :: "'a \<Rightarrow> ('s, 'a) tx" where
  [tx_defs]: "tret a = (\<lambda>d. Inr (a, d))"

definition tfail :: "error_kind \<Rightarrow> ('s, 'a) tx" where
  [tx_defs]: "tfail x = (\<lambda>d. Inl x)"

definition tbind :: "('s, 'a) tx \<Rightarrow> ('a \<Rightarrow> ('s, 'b) tx) \<Rightarrow> ('s, 'b) tx" where
  [tx_defs]: "tbind m f = (\<lambda>d. case m d of Inl x \<Rightarrow> Inl x | Inr (a, d') \<Rightarrow> f a d')"

definition tseq :: "('s, 'a) tx \<Rightarrow> ('s, 'b) tx \<Rightarrow> ('s, 'b) tx" where
  [tx_defs]: "tseq m n = tbind m (\<lambda>_. n)"

definition twhen :: "bool \<Rightarrow> ('s, unit) tx \<Rightarrow> ('s, unit) tx" where
  [tx_defs]: "twhen b m = (if b then m else tret ())"

lemma twhen_False: "twhen False m = tret ()"
  by (simp add: twhen_def)

text \<open>A query of the state that may fail, and an update that cannot.\<close>

definition tquery :: "('s \<Rightarrow> error_kind + 'a) \<Rightarrow> ('s, 'a) tx" where
  [tx_defs]: "tquery q = (\<lambda>d. case q d of Inl x \<Rightarrow> Inl x | Inr a \<Rightarrow> Inr (a, d))"

definition tmodify :: "('s \<Rightarrow> 's) \<Rightarrow> ('s, unit) tx" where
  [tx_defs]: "tmodify f = (\<lambda>d. Inr ((), f d))"

section \<open>Relations every step of a transaction keeps\<close>

text \<open>
  \<open>keeps R m\<close>: whenever \<open>m\<close> succeeds, its start and end states are related by \<open>R\<close>.
  An invariant \<open>I\<close> is the relation \<open>\<lambda>d d'. I d \<longrightarrow> I d'\<close>; a frame or a monotone log is a
  relation of its own.  The combinators respect every reflexive and transitive relation
  their parts respect, which the locale states once for all of them.
\<close>

definition keeps :: "('s \<Rightarrow> 's \<Rightarrow> bool) \<Rightarrow> ('s, 'a) tx \<Rightarrow> bool" where
  "keeps R m \<longleftrightarrow> (\<forall>d a d'. m d = Inr (a, d') \<longrightarrow> R d d')"

lemma keepsI [intro?]: "(\<And>d a d'. m d = Inr (a, d') \<Longrightarrow> R d d') \<Longrightarrow> keeps R m"
  by (simp add: keeps_def)

lemma keepsD: "keeps R m \<Longrightarrow> m d = Inr (a, d') \<Longrightarrow> R d d'"
  by (simp add: keeps_def)

locale step_relation =
  fixes R :: "'s \<Rightarrow> 's \<Rightarrow> bool"
  assumes refl: "R s s"
    and trans: "R s t \<Longrightarrow> R t u \<Longrightarrow> R s u"
begin

lemma keeps_tret: "keeps R (tret a)"
  by (auto simp: keeps_def tret_def refl)

lemma keeps_tfail: "keeps R (tfail x)"
  by (auto simp: keeps_def tfail_def)

lemma keeps_tbind:
  assumes "keeps R m" and "\<And>a. keeps R (f a)"
  shows "keeps R (tbind m f)"
proof
  fix d b d'
  assume "tbind m f d = Inr (b, d')"
  then obtain a d1 where "m d = Inr (a, d1)" "f a d1 = Inr (b, d')"
    by (auto simp: tbind_def split: sum.splits prod.splits)
  with assms show "R d d'"
    by (meson keepsD trans)
qed

lemma keeps_tseq: "keeps R m \<Longrightarrow> keeps R n \<Longrightarrow> keeps R (tseq m n)"
  unfolding tseq_def by (rule keeps_tbind)

lemma keeps_twhen: "keeps R m \<Longrightarrow> keeps R (twhen b m)"
  by (simp add: twhen_def keeps_tret)

lemma keeps_tquery: "keeps R (tquery q)"
  by (auto simp: keeps_def tquery_def refl split: sum.splits)

lemma keeps_tmodify: "(\<And>d. R d (f d)) \<Longrightarrow> keeps R (tmodify f)"
  by (auto simp: keeps_def tmodify_def)

lemmas keeps_intros =
  keeps_tret keeps_tfail keeps_tbind keeps_tseq keeps_twhen keeps_tquery

end

end
