(* ===== verification/Attributes.thy ===== *)
theory Attributes
  imports Sqerror
begin

text \<open>
  The data that crosses the \<open>DbModule\<close> interface (\<open>src/db_module.rs\<close>): file types and
  their on-disk constants, attributes, directory entries, and the conversions between
  the clock of the standard library and the \<open>Timespec\<close> of the fuse crate.
\<close>

datatype file_type =
    NamedPipe
  | CharDevice
  | BlockDevice
  | Directory
  | RegularFile
  | Symlink
  | Socket

section \<open>File types on disk\<close>

definition DB_IFIFO :: u32 where "DB_IFIFO = 0x1000"
definition DB_IFCHR :: u32 where "DB_IFCHR = 0x2000"
definition DB_IFDIR :: u32 where "DB_IFDIR = 0x4000"
definition DB_IFBLK :: u32 where "DB_IFBLK = 0x6000"
definition DB_IFREG :: u32 where "DB_IFREG = 0x8000"
definition DB_IFLNK :: u32 where "DB_IFLNK = 0xA000"
definition DB_IFSOCK :: u32 where "DB_IFSOCK = 0xC000"

lemmas db_if_defs =
  DB_IFIFO_def DB_IFCHR_def DB_IFDIR_def DB_IFBLK_def DB_IFREG_def DB_IFLNK_def DB_IFSOCK_def

definition BLOCK_SIZE :: u32 where "BLOCK_SIZE = 4096"

lemma unat_BLOCK_SIZE [simp]: "unat BLOCK_SIZE = 4096"
  by (simp add: BLOCK_SIZE_def)

fun file_type_to_const :: "file_type \<Rightarrow> u32" where
  "file_type_to_const RegularFile = DB_IFREG"
| "file_type_to_const Socket = DB_IFSOCK"
| "file_type_to_const Directory = DB_IFDIR"
| "file_type_to_const Symlink = DB_IFLNK"
| "file_type_to_const BlockDevice = DB_IFBLK"
| "file_type_to_const CharDevice = DB_IFCHR"
| "file_type_to_const NamedPipe = DB_IFIFO"

definition const_to_file_type :: "u32 \<Rightarrow> file_type" where
  "const_to_file_type kind =
     (if kind = DB_IFREG then RegularFile
      else if kind = DB_IFSOCK then Socket
      else if kind = DB_IFDIR then Directory
      else if kind = DB_IFLNK then Symlink
      else if kind = DB_IFBLK then BlockDevice
      else if kind = DB_IFCHR then CharDevice
      else if kind = DB_IFIFO then NamedPipe
      else RegularFile)"

lemma const_to_file_type_inverse [simp]: "const_to_file_type (file_type_to_const k) = k"
  by (cases k) (simp_all add: const_to_file_type_def db_if_defs)

lemma file_type_to_const_inject: "file_type_to_const k = file_type_to_const k' \<longleftrightarrow> k = k'"
  by (metis const_to_file_type_inverse)

text \<open>File types are ordered as their constants are in the database.\<close>

instantiation file_type :: linorder
begin

definition less_eq_file_type :: "file_type \<Rightarrow> file_type \<Rightarrow> bool" where
  "less_eq_file_type a b \<longleftrightarrow> file_type_to_const a \<le> file_type_to_const b"

definition less_file_type :: "file_type \<Rightarrow> file_type \<Rightarrow> bool" where
  "less_file_type a b \<longleftrightarrow> file_type_to_const a < file_type_to_const b"

instance
  by standard
    (auto simp: less_eq_file_type_def less_file_type_def file_type_to_const_inject [symmetric])

end

section \<open>Times\<close>

text \<open>
  \<open>SystemTime\<close> is a number of whole seconds since the epoch, negative before it, and
  the nanoseconds above that second.
\<close>

record systime =
  st_sec :: int
  st_nsec :: u32

record timespec =
  ts_sec :: u64
  ts_nsec :: u32

definition valid_systime :: "systime \<Rightarrow> bool" where
  "valid_systime st \<longleftrightarrow> unat (st_nsec st) < 1000000000"

text \<open>
  \<open>timespec_from\<close>: a time before the epoch has no duration since it and becomes 0.
  \<open>as i64\<close> and \<open>as i32\<close> keep the low bits.
\<close>

definition timespec_from :: "systime \<Rightarrow> timespec" where
  "timespec_from st =
     (if 0 \<le> st_sec st then \<lparr>ts_sec = word_of_int (st_sec st), ts_nsec = st_nsec st\<rparr>
      else \<lparr>ts_sec = 0, ts_nsec = 0\<rparr>)"

text \<open>
  \<open>datetime_from\<close>: \<open>NaiveDateTime::from_timestamp\<close> panics (\<open>None\<close>) on seconds outside
  the years chrono represents, which the parameter \<open>in_range\<close> decides, and on
  nanoseconds from two billion up; a leap second carries into the next second.
\<close>

definition datetime_from :: "(int \<Rightarrow> bool) \<Rightarrow> timespec \<Rightarrow> systime option" where
  "datetime_from in_range ts =
     (if in_range (sint (ts_sec ts)) \<and> unat (ts_nsec ts) < 2000000000
      then Some (if unat (ts_nsec ts) < 1000000000
                 then \<lparr>st_sec = sint (ts_sec ts), st_nsec = ts_nsec ts\<rparr>
                 else \<lparr>st_sec = sint (ts_sec ts) + 1, st_nsec = ts_nsec ts - 1000000000\<rparr>)
      else None)"

text \<open>The same, with comparisons that evaluate.\<close>

lemma datetime_from_code [code]:
  "datetime_from in_range ts =
     (if in_range (sint (ts_sec ts)) \<and> ts_nsec ts < 2000000000
      then Some (if ts_nsec ts < 1000000000
                 then \<lparr>st_sec = sint (ts_sec ts), st_nsec = ts_nsec ts\<rparr>
                 else \<lparr>st_sec = sint (ts_sec ts) + 1, st_nsec = ts_nsec ts - 1000000000\<rparr>)
      else None)"
  by (simp add: datetime_from_def word_less_nat_alt)

section \<open>Attributes and directory entries\<close>

record db_file_attr =
  a_ino :: u32
  a_size :: u32
  a_blocks :: u32
  a_atime :: systime
  a_mtime :: systime
  a_ctime :: systime
  a_crtime :: systime
  a_kind :: file_type
  a_perm :: u16
  a_nlink :: u32
  a_uid :: u32
  a_gid :: u32
  a_rdev :: u32
  a_flags :: u32

text \<open>The fuse crate's \<open>FileAttr\<close>.\<close>

record file_attr =
  fa_ino :: u64
  fa_size :: u64
  fa_blocks :: u64
  fa_atime :: timespec
  fa_mtime :: timespec
  fa_ctime :: timespec
  fa_crtime :: timespec
  fa_kind :: file_type
  fa_perm :: u16
  fa_nlink :: u32
  fa_uid :: u32
  fa_gid :: u32
  fa_rdev :: u32
  fa_flags :: u32

definition get_file_attr :: "db_file_attr \<Rightarrow> file_attr" where
  "get_file_attr a =
     \<lparr>fa_ino = ucast (a_ino a), fa_size = ucast (a_size a), fa_blocks = ucast (a_blocks a),
      fa_atime = timespec_from (a_atime a), fa_mtime = timespec_from (a_mtime a),
      fa_ctime = timespec_from (a_ctime a), fa_crtime = timespec_from (a_crtime a),
      fa_kind = a_kind a, fa_perm = a_perm a, fa_nlink = a_nlink a, fa_uid = a_uid a,
      fa_gid = a_gid a, fa_rdev = a_rdev a, fa_flags = a_flags a\<rparr>"

record dentry =
  parent_ino :: u32
  child_ino :: u32
  filename :: string
  file_type :: file_type

section \<open>Properties of the conversions\<close>

lemma datetime_from_timespec_from:
  assumes "valid_systime st" and "0 \<le> st_sec st" and "st_sec st < 2 ^ 63"
    and "in_range (st_sec st)"
  shows "datetime_from in_range (timespec_from st) = Some st"
proof -
  have "sint (word_of_int (st_sec st) :: u64) = st_sec st"
    using assms(2,3) by (simp add: sint_sbintrunc' signed_take_bit_int_eq_self)
  with assms show ?thesis
    by (cases st) (auto simp: datetime_from_def timespec_from_def valid_systime_def)
qed

end
