(* ===== verification/Store.thy ===== *)
theory Store
  imports Attributes
begin

text \<open>
  The database: the tables \<open>init\<close> creates in \<open>src/db_module/sqlite.rs\<close>, their audit
  tables and triggers, and one definition for every SQL statement that changes a table,
  with the constraints SQLite checks for it.  A table is the list of its rows in rowid
  order.  A time is stored as a text and a number of nanoseconds; the text is kept as
  the seconds it denotes, \<open>None\<close> for NULL.
\<close>

type_synonym time_cols = "int option \<times> u32"

record meta_row =
  m_id :: u32
  m_size :: u32
  m_atime :: time_cols
  m_mtime :: time_cols
  m_ctime :: time_cols
  m_crtime :: time_cols
  m_kind :: u32
  m_mode :: u16
  m_nlink :: u32
  m_uid :: u32
  m_gid :: u32
  m_rdev :: u32
  m_flags :: u32

record dentry_row =
  d_parent :: u32
  d_child :: u32
  d_type :: u32
  d_name :: string

record data_row =
  b_file :: u32
  b_num :: u32
  b_data :: bytes

record xattr_row =
  x_file :: u32
  x_name :: string
  x_value :: bytes

definition dentry_key :: "dentry_row \<Rightarrow> u32 \<times> string" where
  "dentry_key r = (d_parent r, d_name r)"

definition data_key :: "data_row \<Rightarrow> u32 \<times> u32" where
  "data_key r = (b_file r, b_num r)"

definition xattr_key :: "xattr_row \<Rightarrow> u32 \<times> string" where
  "xattr_key r = (x_file r, x_name r)"

lemmas key_defs = dentry_key_def data_key_def xattr_key_def

section \<open>Audit tables\<close>

text \<open>The column \<open>TG_OP\<close> and a row of an audit table, with the audited columns last.\<close>

datatype tg_op = TG_INSERT | TG_UPDATE | TG_DELETE

record 'r audit =
  au_seq :: nat
  au_time :: string
  au_op :: tg_op
  au_row :: 'r

text \<open>
  A trigger appends one audit row per changed row; \<open>seq\<close> is an AUTOINCREMENT key of a
  table that is never deleted from.
\<close>

definition log_rows :: "string \<Rightarrow> tg_op \<Rightarrow> 'r list \<Rightarrow> 'r audit list \<Rightarrow> 'r audit list" where
  "log_rows t op rs log =
     log @ map (\<lambda>(n, r). \<lparr>au_seq = n, au_time = t, au_op = op, au_row = r\<rparr>)
             (enumerate (Suc (length log)) rs)"

section \<open>The database and its environment\<close>

record db =
  t_meta :: "meta_row list"
  t_dentry :: "dentry_row list"
  t_data :: "data_row list"
  t_xattr :: "xattr_row list"
  autoinc :: u32
  l_meta :: "meta_row audit list"
  l_dentry :: "dentry_row audit list"
  l_data :: "data_row audit list"
  l_xattr :: "xattr_row audit list"
  t_bdata :: "data_row list"

definition empty_db :: db where
  "empty_db = \<lparr>t_meta = [], t_dentry = [], t_data = [], t_xattr = [], autoinc = 0,
     l_meta = [], l_dentry = [], l_data = [], l_xattr = [], t_bdata = []\<rparr>"

text \<open>
  The functions of the two loadable extensions, as the statements call them: \<open>None\<close> is an
  SQL error raised by the function.
\<close>

record codec =
  x_compress :: "bytes \<Rightarrow> bytes"
  x_uncompress :: "bytes \<Rightarrow> bytes option"
  x_delta_create :: "bytes \<Rightarrow> bytes \<Rightarrow> bytes option"
  x_delta_apply :: "bytes \<Rightarrow> bytes \<Rightarrow> bytes option"

text \<open>
  What the outside supplies: \<open>wall\<close> is \<open>Utc::now()\<close>, \<open>stamp\<close> the text that the triggers'
  \<open>strftime\<close> yields (both as a function of the number of audit rows written so far, so
  that they may differ from one statement to the next), \<open>bare_col\<close> the value SQLite
  chooses for a column that is not aggregated in an aggregate query, and \<open>chrono_range\<close>
  the seconds chrono can represent.
\<close>

record env =
  wall :: "nat \<Rightarrow> systime"
  stamp :: "nat \<Rightarrow> string"
  bare_col :: "data_row list \<Rightarrow> u32"
  chrono_range :: "int \<Rightarrow> bool"

definition audit_count :: "db \<Rightarrow> nat" where
  "audit_count d = length (l_meta d) + length (l_dentry d) + length (l_data d) + length (l_xattr d)"

definition utc_now :: "env \<Rightarrow> db \<Rightarrow> systime" where
  "utc_now e d = wall e (audit_count d)"

definition stamp_now :: "env \<Rightarrow> db \<Rightarrow> string" where
  "stamp_now e d = stamp e (audit_count d)"

text \<open>
  SQLite's \<open>datetime(X)\<close> on a text chrono formatted.  It is documented for the years 0000
  to 9999, whose text it keeps.  From 10000 on chrono writes a sign and five digits, which is
  no valid time string and gives NULL; the model takes NULL for the years before 0000 too.
\<close>

definition sql_datetime :: "int \<Rightarrow> int option" where
  "sql_datetime s = (if -62167219200 \<le> s \<and> s \<le> 253402300799 then Some s else None)"

definition time_param :: "systime \<Rightarrow> time_cols" where
  "time_param t = (sql_datetime (st_sec t), st_nsec t)"

definition time_param_raw :: "systime \<Rightarrow> time_cols" where
  "time_param_raw t = (Some (st_sec t), st_nsec t)"

definition has_inode :: "u32 \<Rightarrow> db \<Rightarrow> bool" where
  "has_inode i d \<longleftrightarrow> i \<in> m_id ` set (t_meta d)"

section \<open>Statements on the table metadata\<close>

text \<open>
  INSERT INTO metadata: the new id is one more than the largest ever used.  Ids are read
  back as u32 right after the statement, so the id after the last u32 is an error.
\<close>

definition meta_insert :: "env \<Rightarrow> meta_row \<Rightarrow> (db, u32) tx" where
  [stmt_defs]: "meta_insert e r d =
     (if autoinc d = - 1 then Inl (SqliteError InvalidColumnType)
      else let i = autoinc d + 1; r' = r\<lparr>m_id := i\<rparr> in
        Inr (i, d\<lparr>t_meta := t_meta d @ [r'], autoinc := i,
                 l_meta := log_rows (stamp_now e d) TG_INSERT [r'] (l_meta d)\<rparr>))"

text \<open>UPDATE metadata SET ... WHERE id=i, for a change \<open>f\<close> of the columns other than id.\<close>

definition meta_set :: "u32 \<Rightarrow> (meta_row \<Rightarrow> meta_row) \<Rightarrow> meta_row \<Rightarrow> meta_row" where
  "meta_set i f r = (if m_id r = i then (f r)\<lparr>m_id := i\<rparr> else r)"

lemma m_id_meta_set [simp]: "m_id (meta_set i f r) = m_id r"
  by (simp add: meta_set_def)

definition meta_update :: "env \<Rightarrow> u32 \<Rightarrow> (meta_row \<Rightarrow> meta_row) \<Rightarrow> (db, unit) tx" where
  [stmt_defs]: "meta_update e i f d =
     Inr ((), d\<lparr>t_meta := map (meta_set i f) (t_meta d),
       l_meta := log_rows (stamp_now e d) TG_UPDATE
         (map (meta_set i f) (filter (\<lambda>r. m_id r = i) (t_meta d))) (l_meta d)\<rparr>)"

text \<open>
  DELETE FROM metadata WHERE P: the foreign keys of the other tables are declared with
  ON DELETE CASCADE, and the deletions they cause fire the delete triggers too.
\<close>

definition meta_delete :: "env \<Rightarrow> (meta_row \<Rightarrow> bool) \<Rightarrow> (db, unit) tx" where
  [stmt_defs]: "meta_delete e P d =
     (let dead = (\<lambda>i. i \<in> m_id ` set (filter P (t_meta d))); t = stamp_now e d;
          dd = (\<lambda>r. dead (d_parent r) \<or> dead (d_child r)) in
      Inr ((), d\<lparr>
        t_meta := filter (\<lambda>r. \<not> P r) (t_meta d),
        l_meta := log_rows t TG_DELETE (filter P (t_meta d)) (l_meta d),
        t_data := filter (\<lambda>r. \<not> dead (b_file r)) (t_data d),
        l_data := log_rows t TG_DELETE (filter (\<lambda>r. dead (b_file r)) (t_data d)) (l_data d),
        t_dentry := filter (\<lambda>r. \<not> dd r) (t_dentry d),
        l_dentry := log_rows t TG_DELETE (filter dd (t_dentry d)) (l_dentry d),
        t_xattr := filter (\<lambda>r. \<not> dead (x_file r)) (t_xattr d),
        l_xattr := log_rows t TG_DELETE (filter (\<lambda>r. dead (x_file r)) (t_xattr d)) (l_xattr d)\<rparr>))"

section \<open>Statements on the table dentry\<close>

definition dentry_insert :: "env \<Rightarrow> dentry_row \<Rightarrow> (db, unit) tx" where
  [stmt_defs]: "dentry_insert e r d =
     (if tab_get dentry_key (dentry_key r) (t_dentry d) \<noteq> None
      then Inl (SqliteError ConstraintFailed)
      else if \<not> has_inode (d_parent r) d \<or> \<not> has_inode (d_child r) d
      then Inl (SqliteError ForeignKeyFailed)
      else Inr ((), d\<lparr>t_dentry := t_dentry d @ [r],
                     l_dentry := log_rows (stamp_now e d) TG_INSERT [r] (l_dentry d)\<rparr>))"

definition dentry_delete :: "env \<Rightarrow> (dentry_row \<Rightarrow> bool) \<Rightarrow> (db, unit) tx" where
  [stmt_defs]: "dentry_delete e P d =
     Inr ((), d\<lparr>t_dentry := filter (\<lambda>r. \<not> P r) (t_dentry d),
       l_dentry := log_rows (stamp_now e d) TG_DELETE (filter P (t_dentry d)) (l_dentry d)\<rparr>)"

text \<open>
  UPDATE dentry ... WHERE parent_id=p AND name=n: the primary key selects at most one
  row.  The trigger logs the new row only.
\<close>

definition dentry_update ::
  "env \<Rightarrow> u32 \<times> string \<Rightarrow> (dentry_row \<Rightarrow> dentry_row) \<Rightarrow> (db, unit) tx" where
  [stmt_defs]: "dentry_update e k f d =
     (case tab_get dentry_key k (t_dentry d) of
        None \<Rightarrow> Inr ((), d)
      | Some old \<Rightarrow>
          let r = f old in
          if dentry_key r \<noteq> k \<and> tab_get dentry_key (dentry_key r) (t_dentry d) \<noteq> None
          then Inl (SqliteError ConstraintFailed)
          else if \<not> has_inode (d_parent r) d \<or> \<not> has_inode (d_child r) d
          then Inl (SqliteError ForeignKeyFailed)
          else Inr ((), d\<lparr>t_dentry := map (\<lambda>q. if dentry_key q = k then r else q) (t_dentry d),
                         l_dentry := log_rows (stamp_now e d) TG_UPDATE [r] (l_dentry d)\<rparr>))"

section \<open>Statements on the table data\<close>

text \<open>
  REPLACE INTO data: a row with the same key goes without its delete trigger, which fires
  for a replaced row only under PRAGMA recursive_triggers.
\<close>

definition data_replace :: "env \<Rightarrow> data_row \<Rightarrow> (db, unit) tx" where
  [stmt_defs]: "data_replace e r d =
     (if \<not> has_inode (b_file r) d then Inl (SqliteError ForeignKeyFailed)
      else Inr ((), d\<lparr>t_data := filter (\<lambda>q. data_key q \<noteq> data_key r) (t_data d) @ [r],
                     l_data := log_rows (stamp_now e d) TG_INSERT [r] (l_data d)\<rparr>))"

text \<open>
  INSERT INTO data ... ON CONFLICT DO UPDATE: the statement holds the update trigger,
  which calls \<open>compress\<close> and \<open>delta_create\<close>, so that it cannot be prepared at all on a
  connection without the extensions.
\<close>

definition data_upsert :: "env \<Rightarrow> codec option \<Rightarrow> data_row \<Rightarrow> (db, unit) tx" where
  [stmt_defs]: "data_upsert e ext r d =
     (case ext of None \<Rightarrow> Inl (SqliteError NoSuchFunction)
      | Some c \<Rightarrow>
         (case tab_get data_key (data_key r) (t_data d) of
            None \<Rightarrow>
              if \<not> has_inode (b_file r) d then Inl (SqliteError ForeignKeyFailed)
              else Inr ((), d\<lparr>t_data := t_data d @ [r],
                             l_data := log_rows (stamp_now e d) TG_INSERT [r] (l_data d)\<rparr>)
          | Some old \<Rightarrow>
              (case x_delta_create c (b_data old) (b_data r) of
                 None \<Rightarrow> Inl (SqliteError FunctionFailed)
               | Some delta \<Rightarrow>
                   Inr ((), d\<lparr>t_data := map (\<lambda>q. if data_key q = data_key r then r else q) (t_data d),
                     l_data := log_rows (stamp_now e d) TG_UPDATE
                       [r\<lparr>b_data := x_compress c delta\<rparr>] (l_data d)\<rparr>))))"

definition data_delete :: "env \<Rightarrow> (data_row \<Rightarrow> bool) \<Rightarrow> (db, unit) tx" where
  [stmt_defs]: "data_delete e P d =
     Inr ((), d\<lparr>t_data := filter (\<lambda>r. \<not> P r) (t_data d),
       l_data := log_rows (stamp_now e d) TG_DELETE (filter P (t_data d)) (l_data d)\<rparr>)"

section \<open>Statements on the table xattr\<close>

definition xattr_replace :: "env \<Rightarrow> xattr_row \<Rightarrow> (db, unit) tx" where
  [stmt_defs]: "xattr_replace e r d =
     (if \<not> has_inode (x_file r) d then Inl (SqliteError ForeignKeyFailed)
      else Inr ((), d\<lparr>t_xattr := filter (\<lambda>q. xattr_key q \<noteq> xattr_key r) (t_xattr d) @ [r],
                     l_xattr := log_rows (stamp_now e d) TG_INSERT [r] (l_xattr d)\<rparr>))"

definition xattr_delete :: "env \<Rightarrow> (xattr_row \<Rightarrow> bool) \<Rightarrow> (db, unit) tx" where
  [stmt_defs]: "xattr_delete e P d =
     Inr ((), d\<lparr>t_xattr := filter (\<lambda>r. \<not> P r) (t_xattr d),
       l_xattr := log_rows (stamp_now e d) TG_DELETE (filter P (t_xattr d)) (l_xattr d)\<rparr>)"

section \<open>Statements on the table bdata\<close>

text \<open>DROP and CREATE of the table, and the insertion of a row; it has no trigger.\<close>

definition bdata_create :: "(db, unit) tx" where
  [stmt_defs]: "bdata_create d = Inr ((), d\<lparr>t_bdata := []\<rparr>)"

definition bdata_insert :: "data_row \<Rightarrow> (db, unit) tx" where
  [stmt_defs]: "bdata_insert r d =
     (if tab_get data_key (data_key r) (t_bdata d) \<noteq> None then Inl (SqliteError ConstraintFailed)
      else Inr ((), d\<lparr>t_bdata := t_bdata d @ [r]\<rparr>))"

end
