(* ===== verification/Store_Laws.thy ===== *)
theory Store_Laws
  imports Store
begin

text \<open>
  The laws of the SQL statements.  The locale \<open>store_relation\<close> is the interface between
  the store and the code above it: a relation every statement keeps is kept by every
  operation built from statements.  Its interpretations are the well-formedness of the
  tables, the growth of the audit tables, and the agreement of the tables with their
  audit tables.
\<close>

section \<open>The interface\<close>

text \<open>Times as the statements store them, with or without \<open>datetime\<close>.\<close>

definition col_times :: "(systime \<Rightarrow> bool) \<Rightarrow> time_cols \<Rightarrow> bool" where
  "col_times good c \<longleftrightarrow> (\<exists>t. good t \<and> (c = time_param t \<or> c = time_param_raw t))"

definition row_times :: "(systime \<Rightarrow> bool) \<Rightarrow> meta_row \<Rightarrow> bool" where
  "row_times good m \<longleftrightarrow> col_times good (m_atime m) \<and> col_times good (m_mtime m)
     \<and> col_times good (m_ctime m) \<and> col_times good (m_crtime m)"

definition attr_times :: "(systime \<Rightarrow> bool) \<Rightarrow> db_file_attr \<Rightarrow> bool" where
  "attr_times good a \<longleftrightarrow> good (a_atime a) \<and> good (a_mtime a) \<and> good (a_ctime a) \<and> good (a_crtime a)"

lemma attr_times_True [simp]: "attr_times (\<lambda>_. True) a"
  by (simp add: attr_times_def)

lemma col_timesI [simp]: "good t \<Longrightarrow> col_times good (time_param t)"
  "good t \<Longrightarrow> col_times good (time_param_raw t)"
  by (auto simp: col_times_def)

text \<open>An update of rows whose times are as good as before and that leaves the type alone.\<close>

definition tame :: "(systime \<Rightarrow> bool) \<Rightarrow> (meta_row \<Rightarrow> meta_row) \<Rightarrow> bool" where
  "tame good f \<longleftrightarrow> (\<forall>m. (row_times good m \<longrightarrow> row_times good (f m)) \<and> m_kind (f m) = m_kind m)"

text \<open>
  A relation that the statements keep as long as the blocks written are \<open>legal\<close>, which those
  of one block size at a number a file can have must be, and the times written are \<open>good\<close>,
  which those of the clock must be, and no update changes the type of an inode.
\<close>

locale guarded_store_relation = step_relation R
  for R :: "db \<Rightarrow> db \<Rightarrow> bool" +
  fixes e :: env and ext :: "codec option" and legal :: "data_row \<Rightarrow> bool"
    and good :: "systime \<Rightarrow> bool"
  assumes small_legal: "length (b_data br) \<le> 4096 \<Longrightarrow> b_num br \<noteq> 0 \<Longrightarrow> unat (b_num br) \<le> 1048576 \<Longrightarrow>
      legal br"
    and good_clock: "good (utc_now e d)"
    and meta_insert: "row_times good mr \<Longrightarrow> keeps R (meta_insert e mr)"
    and meta_update: "tame good mf \<Longrightarrow> keeps R (meta_update e i mf)"
    and meta_delete: "keeps R (meta_delete e mp)"
    and dentry_insert: "keeps R (dentry_insert e dr)"
    and dentry_delete: "keeps R (dentry_delete e dp)"
    and dentry_update: "keeps R (dentry_update e k df)"
    and data_replace: "legal br \<Longrightarrow> keeps R (data_replace e br)"
    and data_upsert: "legal br \<Longrightarrow> keeps R (data_upsert e ext br)"
    and data_delete: "keeps R (data_delete e bp)"
    and xattr_replace: "keeps R (xattr_replace e xr)"
    and xattr_delete: "keeps R (xattr_delete e xp)"
    and bdata_create: "keeps R bdata_create"
    and bdata_insert: "keeps R (bdata_insert br)"
begin

lemmas keeps_stmts =
  meta_insert meta_update meta_delete dentry_insert dentry_delete dentry_update
  data_replace data_upsert data_delete xattr_replace xattr_delete bdata_create
  bdata_insert

end

text \<open>A relation that every statement of the code keeps, whatever blocks and times it writes.\<close>

locale any_write_relation = guarded_store_relation R e ext "\<lambda>_. True" "\<lambda>_. True"
  for R :: "db \<Rightarrow> db \<Rightarrow> bool" and e :: env and ext :: "codec option"

text \<open>A relation that every statement keeps, with any update of the rows.\<close>

locale store_relation = step_relation R
  for R :: "db \<Rightarrow> db \<Rightarrow> bool" +
  fixes e :: env and ext :: "codec option"
  assumes meta_insert: "keeps R (meta_insert e mr)"
    and meta_update: "keeps R (meta_update e i mf)"
    and meta_delete: "keeps R (meta_delete e mp)"
    and dentry_insert: "keeps R (dentry_insert e dr)"
    and dentry_delete: "keeps R (dentry_delete e dp)"
    and dentry_update: "keeps R (dentry_update e k df)"
    and data_replace: "keeps R (data_replace e br)"
    and data_upsert: "keeps R (data_upsert e ext br)"
    and data_delete: "keeps R (data_delete e bp)"
    and xattr_replace: "keeps R (xattr_replace e xr)"
    and xattr_delete: "keeps R (xattr_delete e xp)"
    and bdata_create: "keeps R bdata_create"
    and bdata_insert: "keeps R (bdata_insert br)"

sublocale store_relation \<subseteq> every_write?: any_write_relation R e ext
  by unfold_locales
    (auto intro: meta_insert meta_update meta_delete dentry_insert dentry_delete dentry_update
      data_replace data_upsert data_delete xattr_replace xattr_delete bdata_create bdata_insert)

section \<open>Audit tables only grow\<close>

text \<open>Rows appended to an audit table carry the numbers that follow its length.\<close>

definition numbered :: "'r audit list \<Rightarrow> bool" where
  "numbered log \<longleftrightarrow> map au_seq log = [1..<Suc (length log)]"

lemma length_log_rows [simp]: "length (log_rows t op rs log) = length log + length rs"
  by (simp add: log_rows_def)

lemma log_rows_Nil [simp]: "log_rows t op [] log = log"
  by (simp add: log_rows_def)

lemma au_row_log_rows: "map au_row (log_rows t op rs log) = map au_row log @ rs"
  by (simp add: log_rows_def comp_def case_prod_unfold)

lemma map_fst_enumerate_upt: "map fst (enumerate n xs) = [n..<n + length xs]"
  by (simp add: enumerate_eq_zip)

lemma numbered_log_rows: "numbered log \<Longrightarrow> numbered (log_rows t op rs log)"
proof -
  have "map au_seq (log_rows t op rs log) = map au_seq log @ map fst (enumerate (Suc (length log)) rs)"
    by (simp add: log_rows_def comp_def case_prod_unfold)
  also assume "numbered log"
  then have "map au_seq log @ map fst (enumerate (Suc (length log)) rs) =
      [1..<Suc (length log)] @ [Suc (length log)..<Suc (length log) + length rs]"
    by (simp add: numbered_def map_fst_enumerate_upt del: upt_Suc)
  also have "\<dots> = [1..<Suc (length log + length rs)]"
    using upt_add_eq_append [of 1 "Suc (length log)" "length rs"] by (simp del: upt_Suc)
  finally show ?thesis by (simp add: numbered_def del: upt_Suc)
qed

definition extends :: "'a list \<Rightarrow> 'a list \<Rightarrow> bool" where
  "extends xs ys \<longleftrightarrow> (\<exists>zs. ys = xs @ zs)"

lemma extends_refl [simp]: "extends xs xs"
  by (simp add: extends_def)

lemma extends_trans: "extends xs ys \<Longrightarrow> extends ys zs \<Longrightarrow> extends xs zs"
  by (auto simp: extends_def)

lemma extends_log_rows [simp]: "extends log (log_rows t op rs log)"
  by (simp add: extends_def log_rows_def)

definition logs_extend :: "db \<Rightarrow> db \<Rightarrow> bool" where
  "logs_extend d d' \<longleftrightarrow> extends (l_meta d) (l_meta d') \<and> extends (l_dentry d) (l_dentry d')
     \<and> extends (l_data d) (l_data d') \<and> extends (l_xattr d) (l_xattr d')"

definition numbered_logs :: "db \<Rightarrow> bool" where
  "numbered_logs d \<longleftrightarrow> numbered (l_meta d) \<and> numbered (l_dentry d)
     \<and> numbered (l_data d) \<and> numbered (l_xattr d)"

lemma keepsI_stmt: "(\<And>d a d'. m d = Inr (a, d') \<Longrightarrow> R d d') \<Longrightarrow> keeps R m"
  by (rule keepsI)

lemmas stmt_splits = if_splits option.splits sum.splits prod.splits

interpretation growth: store_relation logs_extend e ext for e ext
  by unfold_locales
    (auto simp: logs_extend_def stmt_defs Let_def keeps_def intro: extends_trans
      split: stmt_splits)

section \<open>Well-formed tables\<close>

text \<open>
  Primary keys are unique, ids are among those handed out, and every foreign key names
  a row.
\<close>

definition db_wf :: "db \<Rightarrow> bool" where
  "db_wf d \<longleftrightarrow> keyed m_id (t_meta d) \<and> keyed dentry_key (t_dentry d)
     \<and> keyed data_key (t_data d) \<and> keyed xattr_key (t_xattr d)
     \<and> (\<forall>r \<in> set (t_meta d). m_id r \<le> autoinc d)
     \<and> (\<forall>r \<in> set (t_dentry d). has_inode (d_parent r) d \<and> has_inode (d_child r) d)
     \<and> (\<forall>r \<in> set (t_data d). has_inode (b_file r) d)
     \<and> (\<forall>r \<in> set (t_xattr d). has_inode (x_file r) d)
     \<and> numbered_logs d"

definition keeps_wf :: "db \<Rightarrow> db \<Rightarrow> bool" where
  "keeps_wf d d' \<longleftrightarrow> (db_wf d \<longrightarrow> db_wf d')"

lemma db_wf_empty: "db_wf empty_db"
  by (simp add: db_wf_def empty_db_def numbered_logs_def numbered_def)

lemma word_Suc_gt: "(x :: u32) \<noteq> - 1 \<Longrightarrow> x < x + 1"
proof -
  assume "x \<noteq> - 1"
  then have "1 + x \<noteq> 0" by (metis add.commute eq_neg_iff_add_eq_0)
  then have "unat (1 + x) = Suc (unat x)" by (rule unatSuc)
  then show ?thesis by (simp add: word_less_nat_alt add.commute)
qed

lemma has_inode_simps [simp]:
  "has_inode i (d\<lparr>t_dentry := a\<rparr>) = has_inode i d"
  "has_inode i (d\<lparr>l_dentry := a'\<rparr>) = has_inode i d"
  "has_inode i (d\<lparr>t_data := b\<rparr>) = has_inode i d"
  "has_inode i (d\<lparr>l_data := b'\<rparr>) = has_inode i d"
  "has_inode i (d\<lparr>t_xattr := c\<rparr>) = has_inode i d"
  "has_inode i (d\<lparr>l_xattr := c'\<rparr>) = has_inode i d"
  "has_inode i (d\<lparr>l_meta := f\<rparr>) = has_inode i d"
  "has_inode i (d\<lparr>autoinc := g\<rparr>) = has_inode i d"
  "has_inode i (d\<lparr>t_meta := h\<rparr>) \<longleftrightarrow> i \<in> m_id ` set h"
  by (simp_all add: has_inode_def)

lemmas wf_simps = db_wf_def keeps_wf_def numbered_logs_def

lemma wf_meta_insert: "keeps keeps_wf (meta_insert e r)"
proof
  fix d a d' assume *: "meta_insert e r d = Inr (a, d')"
  show "keeps_wf d d'"
    unfolding keeps_wf_def
  proof
    assume wf: "db_wf d"
    let ?i = "autoinc d + 1"
    from * have ne: "autoinc d \<noteq> - 1" and d': "d' = d\<lparr>t_meta := t_meta d @ [r\<lparr>m_id := ?i\<rparr>],
        autoinc := ?i, l_meta := log_rows (stamp_now e d) TG_INSERT [r\<lparr>m_id := ?i\<rparr>] (l_meta d)\<rparr>"
      by (auto simp: stmt_defs Let_def split: if_splits)
    from ne have gt: "autoinc d < ?i" by (rule word_Suc_gt)
    with wf have new: "\<forall>q \<in> set (t_meta d). m_id q < ?i"
      by (auto simp: db_wf_def)
    with wf show "db_wf d'"
      by (auto simp: d' db_wf_def numbered_logs_def numbered_log_rows has_inode_def less_imp_le)
  qed
qed

lemma ids_meta_set [simp]: "m_id ` meta_set i f ` A = m_id ` A"
  by (simp add: image_image)

lemma wf_meta_update: "keeps keeps_wf (meta_update e i f)"
  by (auto simp: keeps_def stmt_defs wf_simps numbered_log_rows has_inode_def
      intro!: keyed_map_key)

lemma surviving_id:
  "i \<in> m_id ` A \<Longrightarrow> i \<notin> m_id ` {x \<in> A. P x} \<Longrightarrow> i \<in> m_id ` {x \<in> A. \<not> P x}"
  by blast

lemma wf_meta_delete: "keeps keeps_wf (meta_delete e P)"
  by (auto simp: keeps_def stmt_defs wf_simps numbered_log_rows Let_def has_inode_def keyed_filter
      intro!: surviving_id)

lemma wf_dentry_insert: "keeps keeps_wf (dentry_insert e r)"
  by (auto simp: keeps_def stmt_defs wf_simps numbered_log_rows tab_get_None_iff
      split: if_splits)

lemma wf_dentry_delete: "keeps keeps_wf (dentry_delete e P)"
  by (auto simp: keeps_def stmt_defs wf_simps numbered_log_rows)

text \<open>Replacing one row of a table keeps the keys unique if the new key is free.\<close>

lemma keyed_replace:
  assumes "keyed key t" and "key r \<noteq> k \<longrightarrow> key r \<notin> key ` set t"
  shows "keyed key (map (\<lambda>q. if key q = k then r else q) t)"
  using assms
proof (induction t)
  case (Cons q t)
  then show ?case
    by (cases "key q = k") (auto simp: image_iff)
qed simp

lemma wf_dentry_update: "keeps keeps_wf (dentry_update e k f)"
  by (auto simp: keeps_def stmt_defs wf_simps numbered_log_rows tab_get_None_iff Let_def
      split: if_splits option.splits intro!: keyed_replace)

lemma wf_data_replace: "keeps keeps_wf (data_replace e r)"
  by (auto simp: keeps_def stmt_defs wf_simps numbered_log_rows split: if_splits)

lemma keyed_overwrite:
  "keyed key t \<Longrightarrow> keyed key (map (\<lambda>q. if key q = key r then r else q) t)"
  by (rule keyed_replace) simp_all

lemma wf_data_overwrite:
  assumes "db_wf d" and "tab_get data_key (data_key r) (t_data d) = Some old"
  shows "db_wf (d\<lparr>t_data := map (\<lambda>q. if data_key q = data_key r then r else q) (t_data d),
    l_data := log_rows s TG_UPDATE rs (l_data d)\<rparr>)"
proof -
  from assms(2) have "old \<in> set (t_data d)" and "b_file old = b_file r"
    by (auto dest!: tab_get_SomeD simp: data_key_def)
  with assms(1) have "has_inode (b_file r) d" by (force simp: db_wf_def)
  with assms(1) show ?thesis
    by (auto simp: db_wf_def numbered_logs_def numbered_log_rows keyed_overwrite)
qed

lemma wf_data_upsert: "keeps keeps_wf (data_upsert e ext r)"
proof
  fix d a d' assume *: "data_upsert e ext r d = Inr (a, d')"
  show "keeps_wf d d'"
  proof (cases "tab_get data_key (data_key r) (t_data d)")
    case None
    then have "data_key r \<notin> data_key ` set (t_data d)" by (simp add: tab_get_None_iff)
    with * None show ?thesis
      by (auto simp: stmt_defs wf_simps numbered_log_rows split: if_splits option.splits)
  next
    case (Some old)
    with * show ?thesis
      by (auto simp: stmt_defs keeps_wf_def wf_data_overwrite split: option.splits)
  qed
qed

lemma wf_data_delete: "keeps keeps_wf (data_delete e P)"
  by (auto simp: keeps_def stmt_defs wf_simps numbered_log_rows)

lemma wf_xattr_replace: "keeps keeps_wf (xattr_replace e r)"
  by (auto simp: keeps_def stmt_defs wf_simps numbered_log_rows split: if_splits)

lemma wf_xattr_delete: "keeps keeps_wf (xattr_delete e P)"
  by (auto simp: keeps_def stmt_defs wf_simps numbered_log_rows)

lemma wf_bdata: "keeps keeps_wf bdata_create" "keeps keeps_wf (bdata_insert r)"
  by (auto simp: keeps_def stmt_defs wf_simps has_inode_def split: if_splits)

lemmas wf_stmts =
  wf_meta_insert wf_meta_update wf_meta_delete wf_dentry_insert wf_dentry_delete
  wf_dentry_update wf_data_replace wf_data_upsert wf_data_delete wf_xattr_replace
  wf_xattr_delete wf_bdata

interpretation wf: store_relation keeps_wf e ext for e ext
  by unfold_locales (auto simp: keeps_wf_def intro: wf_stmts)

end
