(* ===== verification/Journal.thy ===== *)
theory Journal
  imports Store_Laws
begin

text \<open>
  The tables and their audit tables agree: reading an audit table from its end gives the
  current row of every key of metadata and xattr (and of dentry as long as no entry was
  renamed), and replaying the audit table of data gives the current blocks.  These are
  the facts that the reconstruction of blocks and the rewinding to a past time rest on.
\<close>

section \<open>The last audit row of a key\<close>

definition latest :: "('r \<Rightarrow> 'k) \<Rightarrow> 'k \<Rightarrow> 'r audit list \<Rightarrow> 'r audit option" where
  "latest key k log = find (\<lambda>a. key (au_row a) = k) (rev log)"

definition journal_state :: "('r \<Rightarrow> 'k) \<Rightarrow> 'k \<Rightarrow> 'r audit list \<Rightarrow> 'r option" where
  "journal_state key k log =
     (case latest key k log of None \<Rightarrow> None
      | Some a \<Rightarrow> if au_op a = TG_DELETE then None else Some (au_row a))"

definition journaled :: "('r \<Rightarrow> 'k) \<Rightarrow> 'r list \<Rightarrow> 'r audit list \<Rightarrow> bool" where
  "journaled key t log \<longleftrightarrow> (\<forall>k. tab_get key k t = journal_state key k log)"

lemma journal_state_Nil [simp]: "journal_state key k [] = None"
  by (simp add: journal_state_def latest_def)

lemma journal_state_snoc:
  "journal_state key k (log @ [a]) =
     (if key (au_row a) = k then if au_op a = TG_DELETE then None else Some (au_row a)
      else journal_state key k log)"
  by (simp add: journal_state_def latest_def)

lemma log_rows_Cons:
  "log_rows t op (r # rs) log =
     log_rows t op rs (log @ [\<lparr>au_seq = Suc (length log), au_time = t, au_op = op, au_row = r\<rparr>])"
  by (simp add: log_rows_def)

lemma journal_state_log_rows:
  "keyed key rs \<Longrightarrow> journal_state key k (log_rows t op rs log) =
     (case tab_get key k rs of None \<Rightarrow> journal_state key k log
      | Some r \<Rightarrow> if op = TG_DELETE then None else Some r)"
proof (induction rs arbitrary: log)
  case (Cons r rs)
  then have "key r = k \<Longrightarrow> tab_get key k rs = None"
    by (auto simp: tab_get_None_iff)
  with Cons show ?case
    by (auto simp: log_rows_Cons journal_state_snoc split: option.split)
qed simp

lemma journal_state_one:
  "journal_state key k (log_rows t op [r] log) =
     (if key r = k then if op = TG_DELETE then None else Some r else journal_state key k log)"
  by (simp add: log_rows_def journal_state_snoc)

lemma journal_state_other:
  "\<forall>r \<in> set rs. key r \<noteq> k \<Longrightarrow> journal_state key k (log_rows t op rs log) = journal_state key k log"
  by (induction rs arbitrary: log) (simp_all add: log_rows_Cons journal_state_snoc)

lemma journaled_Nil [simp]: "journaled key [] []"
  by (simp add: journaled_def)

lemma journaled_insert:
  assumes "journaled key t log" and "tab_get key (key r) t = None"
  shows "journaled key (t @ [r]) (log_rows s TG_INSERT [r] log)"
  using assms by (auto simp: journaled_def journal_state_log_rows table_simps split: option.splits)

lemma journaled_replace:
  assumes "journaled key t log"
  shows "journaled key (filter (\<lambda>q. key q \<noteq> key r) t @ [r]) (log_rows s TG_INSERT [r] log)"
  using assms by (auto simp: journaled_def journal_state_log_rows table_simps split: option.splits)

lemma journaled_delete:
  assumes "journaled key t log" and "keyed key t" and "\<And>q. Q q \<longleftrightarrow> \<not> P q"
  shows "journaled key (filter Q t) (log_rows s TG_DELETE (filter P t) log)"
  using assms
  by (auto simp: journaled_def journal_state_log_rows keyed_filter table_simps split: option.splits)

lemma journaled_update:
  assumes "journaled key t log" and "keyed key t" and "\<And>q. key (f q) = key q"
    and "\<And>q. q \<in> set t \<Longrightarrow> \<not> P q \<Longrightarrow> f q = q"
  shows "journaled key (map f t) (log_rows s TG_UPDATE (map f (filter P t)) log)"
proof -
  have k: "keyed key (map f (filter P t))"
    using assms(2,3) by (auto intro!: keyed_map_key)
  have "map_option f (tab_get key i t) =
      (case tab_get key i t of None \<Rightarrow> journal_state key i log
       | Some q \<Rightarrow> if P q then Some (f q) else journal_state key i log)" for i
    using assms(1,4) tab_get_SomeD [of key i t]
    by (cases "tab_get key i t") (auto simp: journaled_def)
  then show ?thesis
    using assms(2,3) k
    by (auto simp: journaled_def journal_state_log_rows table_simps split: option.splits)
qed

section \<open>Agreement of a table with its audit table\<close>

lemma keyed_meta: "db_wf d \<Longrightarrow> keyed m_id (t_meta d)"
  by (simp add: db_wf_def)

lemma keyed_xattr: "db_wf d \<Longrightarrow> keyed xattr_key (t_xattr d)"
  by (simp add: db_wf_def)

lemma keyed_dentry: "db_wf d \<Longrightarrow> keyed dentry_key (t_dentry d)"
  by (simp add: db_wf_def)

lemma keyed_data: "db_wf d \<Longrightarrow> keyed data_key (t_data d)"
  by (simp add: db_wf_def)

lemmas keyed_wf = keyed_meta keyed_xattr keyed_dentry keyed_data

lemma fresh_id: "db_wf d \<Longrightarrow> autoinc d \<noteq> - 1 \<Longrightarrow> tab_get m_id (autoinc d + 1) (t_meta d) = None"
proof -
  assume "db_wf d" and "autoinc d \<noteq> - 1"
  then have "\<forall>r \<in> set (t_meta d). m_id r < autoinc d + 1"
    using word_Suc_gt by (auto simp: db_wf_def intro: le_less_trans)
  then show ?thesis by (auto simp: tab_get_None_iff)
qed

text \<open>
  An agreement \<open>J\<close> that every statement keeps on well-formed tables is, together with
  well-formedness, a relation of the store.
\<close>

definition keeps_both :: "(db \<Rightarrow> bool) \<Rightarrow> db \<Rightarrow> db \<Rightarrow> bool" where
  "keeps_both J d d' \<longleftrightarrow> (db_wf d \<and> J d \<longrightarrow> db_wf d' \<and> J d')"

lemma keeps_bothI:
  assumes "keeps keeps_wf m"
    and "\<And>d a d'. m d = Inr (a, d') \<Longrightarrow> db_wf d \<Longrightarrow> J d \<Longrightarrow> J d'"
  shows "keeps (keeps_both J) m"
  using assms by (fastforce simp: keeps_def keeps_wf_def keeps_both_def)

locale wf_agreement =
  fixes J :: "db \<Rightarrow> bool" and e :: env and ext :: "codec option"
  assumes J_meta_insert: "meta_insert e mr d = Inr (a, d') \<Longrightarrow> db_wf d \<Longrightarrow> J d \<Longrightarrow> J d'"
    and J_meta_update: "meta_update e i mf d = Inr (u, d') \<Longrightarrow> db_wf d \<Longrightarrow> J d \<Longrightarrow> J d'"
    and J_meta_delete: "meta_delete e mp d = Inr (u, d') \<Longrightarrow> db_wf d \<Longrightarrow> J d \<Longrightarrow> J d'"
    and J_dentry_insert: "dentry_insert e dr d = Inr (u, d') \<Longrightarrow> db_wf d \<Longrightarrow> J d \<Longrightarrow> J d'"
    and J_dentry_delete: "dentry_delete e dp d = Inr (u, d') \<Longrightarrow> db_wf d \<Longrightarrow> J d \<Longrightarrow> J d'"
    and J_dentry_update: "dentry_update e k df d = Inr (u, d') \<Longrightarrow> db_wf d \<Longrightarrow> J d \<Longrightarrow> J d'"
    and J_data_replace: "data_replace e br d = Inr (u, d') \<Longrightarrow> db_wf d \<Longrightarrow> J d \<Longrightarrow> J d'"
    and J_data_upsert: "data_upsert e ext br d = Inr (u, d') \<Longrightarrow> db_wf d \<Longrightarrow> J d \<Longrightarrow> J d'"
    and J_data_delete: "data_delete e bp d = Inr (u, d') \<Longrightarrow> db_wf d \<Longrightarrow> J d \<Longrightarrow> J d'"
    and J_xattr_replace: "xattr_replace e xr d = Inr (u, d') \<Longrightarrow> db_wf d \<Longrightarrow> J d \<Longrightarrow> J d'"
    and J_xattr_delete: "xattr_delete e xp d = Inr (u, d') \<Longrightarrow> db_wf d \<Longrightarrow> J d \<Longrightarrow> J d'"
    and J_bdata_create: "bdata_create d = Inr (u, d') \<Longrightarrow> db_wf d \<Longrightarrow> J d \<Longrightarrow> J d'"
    and J_bdata_insert: "bdata_insert br d = Inr (u, d') \<Longrightarrow> db_wf d \<Longrightarrow> J d \<Longrightarrow> J d'"

sublocale wf_agreement \<subseteq> store_relation "keeps_both J" e ext
  by unfold_locales
    (auto simp: keeps_both_def intro!: keeps_bothI wf_stmts intro: J_meta_insert J_meta_update
      J_meta_delete J_dentry_insert J_dentry_delete J_dentry_update J_data_replace J_data_upsert
      J_data_delete J_xattr_replace J_xattr_delete J_bdata_create J_bdata_insert)

section \<open>Metadata and extended attributes are journaled\<close>

definition meta_journaled :: "db \<Rightarrow> bool" where
  "meta_journaled d \<longleftrightarrow> journaled m_id (t_meta d) (l_meta d)"

definition xattr_journaled :: "db \<Rightarrow> bool" where
  "xattr_journaled d \<longleftrightarrow> journaled xattr_key (t_xattr d) (l_xattr d)"

interpretation meta: wf_agreement meta_journaled e ext for e ext
  by unfold_locales
    (auto simp: meta_journaled_def stmt_defs Let_def fresh_id keyed_wf meta_set_def
      intro!: journaled_insert journaled_update journaled_delete split: stmt_splits)

interpretation xattr: wf_agreement xattr_journaled e ext for e ext
  by unfold_locales
    (auto simp: xattr_journaled_def stmt_defs Let_def keyed_wf
      intro!: journaled_replace journaled_delete split: stmt_splits)

text \<open>
  The update trigger of dentry does not log the key it takes away, so the agreement of
  dentry holds while no row was updated.
\<close>

definition dentry_full :: "dentry_row \<Rightarrow> u32 \<times> u32 \<times> string" where
  "dentry_full r = (d_parent r, d_child r, d_name r)"

definition never_renamed :: "db \<Rightarrow> bool" where
  "never_renamed d \<longleftrightarrow> (\<forall>a \<in> set (l_dentry d). au_op a \<noteq> TG_UPDATE)"

definition dentry_journaled :: "db \<Rightarrow> bool" where
  "dentry_journaled d \<longleftrightarrow>
     (never_renamed d \<longrightarrow> journaled dentry_full (t_dentry d) (l_dentry d))"

lemma keyed_full: "keyed dentry_key t \<Longrightarrow> keyed dentry_full t"
  by (induction t) (auto simp: dentry_full_def dentry_key_def image_iff)

lemma dentry_full_None:
  "tab_get dentry_key (dentry_key r) t = None \<Longrightarrow> tab_get dentry_full (dentry_full r) t = None"
  by (auto simp: tab_get_None_iff image_iff dentry_full_def dentry_key_def)

lemma never_renamed_log_rows:
  "(\<forall>a \<in> set (log_rows t op rs log). au_op a \<noteq> TG_UPDATE) \<longleftrightarrow>
   (\<forall>a \<in> set log. au_op a \<noteq> TG_UPDATE) \<and> (rs = [] \<or> op \<noteq> TG_UPDATE)"
  by (cases rs) (auto simp: log_rows_def in_set_enumerate_eq)

interpretation dentry: wf_agreement dentry_journaled e ext for e ext
  by unfold_locales
    (auto simp: dentry_journaled_def never_renamed_def never_renamed_log_rows stmt_defs Let_def
      keyed_wf keyed_full dentry_full_None
      intro!: journaled_insert journaled_delete split: stmt_splits)

end
