(* ===== verification/Diffs.thy ===== *)
theory Diffs
  imports Journal
begin

text \<open>
  The audit table of the blocks and \<open>apply_diffs\<close> (\<open>src/db_module/sqlite.rs\<close>), which
  rebuilds every live block from it: the last full copy of the block, then the deltas
  the update trigger stored after it.
\<close>

section \<open>get_max_creation_seq and apply_diffs\<close>

record block_relevant_from =
  br_file :: u32
  br_block :: u32
  br_seq :: u32

definition br_key :: "block_relevant_from \<Rightarrow> u32 \<times> u32" where
  "br_key b = (br_file b, br_block b)"

text \<open>max(seq) over the rows of one block with one TG_OP; \<open>None\<close> when there are none.\<close>

definition max_seq :: "tg_op \<Rightarrow> u32 \<times> u32 \<Rightarrow> data_row audit list \<Rightarrow> nat option" where
  "max_seq op k log =
     (let xs = map au_seq (filter (\<lambda>a. au_op a = op \<and> data_key (au_row a) = k) log)
      in if xs = [] then None else Some (Max (set xs)))"

definition live_seq :: "u32 \<times> u32 \<Rightarrow> data_row audit list \<Rightarrow> nat option" where
  "live_seq k log =
     (case max_seq TG_INSERT k log of None \<Rightarrow> None
      | Some cr \<Rightarrow>
          (case max_seq TG_DELETE k log of None \<Rightarrow> Some cr
           | Some de \<Rightarrow> if de < cr then Some cr else None))"

text \<open>The groups come in the order of their first INSERT; \<open>seq\<close> is read as a u32.\<close>

definition created_blocks :: "data_row audit list \<Rightarrow> (u32 \<times> u32) list" where
  "created_blocks log = remdups (map (data_key \<circ> au_row) (filter (\<lambda>a. au_op a = TG_INSERT) log))"

fun read_brfs :: "data_row audit list \<Rightarrow> (u32 \<times> u32) list \<Rightarrow> error_kind + block_relevant_from list" where
  "read_brfs log [] = Inr []"
| "read_brfs log (k # ks) =
     (case live_seq k log of
        None \<Rightarrow> read_brfs log ks
      | Some n \<Rightarrow>
          if n < 2 ^ 32
          then map_result (\<lambda>bs. \<lparr>br_file = fst k, br_block = snd k, br_seq = of_nat n\<rparr> # bs)
                 (read_brfs log ks)
          else Inl (SqliteError InvalidColumnType))"

definition get_max_creation_seq :: "db \<Rightarrow> error_kind + block_relevant_from list" where
  "get_max_creation_seq d = read_brfs (l_data d) (created_blocks (l_data d))"

text \<open>delta_apply(base, uncompress(p)); \<open>None\<close> is an SQL error or NULL.\<close>

definition patch :: "codec \<Rightarrow> bytes \<Rightarrow> bytes \<Rightarrow> bytes option" where
  "patch c base p =
     (case x_uncompress c p of None \<Rightarrow> None | Some delta \<Rightarrow> x_delta_apply c base delta)"

text \<open>The loop over the deltas: a delta that does not apply is only logged.\<close>

definition apply_patches :: "codec \<Rightarrow> bytes \<Rightarrow> bytes list \<Rightarrow> bytes" where
  "apply_patches c genesis ps =
     foldl (\<lambda>x p. case patch c x p of Some v \<Rightarrow> v | None \<Rightarrow> x) genesis ps"

definition data_and_patches :: "block_relevant_from \<Rightarrow> db \<Rightarrow> bytes list" where
  "data_and_patches b d =
     map (b_data \<circ> au_row) (sort_key au_seq
       (filter (\<lambda>a. data_key (au_row a) = br_key b \<and> unat (br_seq b) \<le> au_seq a) (l_data d)))"

definition patch_block :: "codec option \<Rightarrow> block_relevant_from \<Rightarrow> db \<Rightarrow> error_kind + bytes" where
  "patch_block ext b d =
     (case data_and_patches b d of
        [] \<Rightarrow> Inl Undefined
      | genesis # patches \<Rightarrow>
          (case ext of
             None \<Rightarrow> if patches = [] then Inr genesis else Inl (SqliteError NoSuchFunction)
           | Some c \<Rightarrow> Inr (apply_patches c genesis patches)))"

fun apply_brfs :: "codec option \<Rightarrow> block_relevant_from list \<Rightarrow> db \<Rightarrow> (error_kind + unit) \<times> db" where
  "apply_brfs ext [] d = (Inr (), d)"
| "apply_brfs ext (b # bs) d =
     (case patch_block ext b d of
        Inl x \<Rightarrow> (Inl x, d)
      | Inr patched_data \<Rightarrow>
          (case bdata_insert \<lparr>b_file = br_file b, b_num = br_block b, b_data = patched_data\<rparr> d of
             Inl x \<Rightarrow> (Inl x, d)
           | Inr (u, d') \<Rightarrow> apply_brfs ext bs d'))"

text \<open>
  The table is dropped and created again first, outside a transaction, so an error keeps
  the rows written before it.
\<close>

definition apply_diffs :: "codec option \<Rightarrow> db \<Rightarrow> (error_kind + unit) \<times> db" where
  "apply_diffs ext d =
     (case bdata_create d of
        Inl x \<Rightarrow> (Inl x, d)
      | Inr (u, d0) \<Rightarrow>
          (case get_max_creation_seq d0 of
             Inl x \<Rightarrow> (Inl x, d0)
           | Inr brfs \<Rightarrow> apply_brfs ext brfs d0))"

section \<open>Replaying the audit table of the blocks\<close>

text \<open>
  The specification: the content of one block after the audited changes to it, in order.
\<close>

definition replay_step :: "codec \<Rightarrow> bytes option \<Rightarrow> data_row audit \<Rightarrow> bytes option" where
  "replay_step c st a =
     (case au_op a of
        TG_INSERT \<Rightarrow> Some (b_data (au_row a))
      | TG_DELETE \<Rightarrow> None
      | TG_UPDATE \<Rightarrow> map_option (\<lambda>x. apply_patches c x [b_data (au_row a)]) st)"

definition data_replay :: "codec \<Rightarrow> u32 \<times> u32 \<Rightarrow> data_row audit list \<Rightarrow> bytes option" where
  "data_replay c k log =
     foldl (replay_step c) None (filter (\<lambda>a. data_key (au_row a) = k) log)"

lemma data_replay_Nil [simp]: "data_replay c k [] = None"
  by (simp add: data_replay_def)

lemma data_replay_snoc:
  "data_replay c k (log @ [a]) =
     (if data_key (au_row a) = k then replay_step c (data_replay c k log) a
      else data_replay c k log)"
  by (simp add: data_replay_def)

lemma data_replay_delete:
  "data_replay c k (log_rows t TG_DELETE rs log) =
     (if k \<in> data_key ` set rs then None else data_replay c k log)"
  by (induction rs arbitrary: log)
    (auto simp: log_rows_Cons data_replay_snoc replay_step_def)

lemma data_replay_delete_filter:
  "keyed data_key t \<Longrightarrow> data_replay c k (log_rows s TG_DELETE (filter P t) log) =
     (case tab_get data_key k t of None \<Rightarrow> data_replay c k log
      | Some r \<Rightarrow> if P r then None else data_replay c k log)"
  by (auto simp: data_replay_delete key_in_filter simp del: set_filter split: option.split)

lemma data_replay_insert:
  "data_replay c k (log_rows t TG_INSERT [r] log) =
     (if data_key r = k then Some (b_data r) else data_replay c k log)"
  by (simp add: log_rows_Cons data_replay_snoc replay_step_def)

lemma data_replay_update:
  "data_replay c k (log_rows t TG_UPDATE [r] log) =
     (if data_key r = k then map_option (\<lambda>x. apply_patches c x [b_data r]) (data_replay c k log)
      else data_replay c k log)"
  by (simp add: log_rows_Cons data_replay_snoc replay_step_def)

text \<open>
  What the code relies on the extensions for: a delta that was created and compressed
  gives the new content back.
\<close>

definition codec_ok :: "codec \<Rightarrow> bool" where
  "codec_ok c \<longleftrightarrow>
     (\<forall>a b delta. x_delta_create c a b = Some delta \<longrightarrow> patch c a (x_compress c delta) = Some b)"

definition data_journaled :: "codec \<Rightarrow> db \<Rightarrow> bool" where
  "data_journaled c d \<longleftrightarrow>
     (codec_ok c \<longrightarrow> (\<forall>k. data_replay c k (l_data d) = map_option b_data (tab_get data_key k (t_data d))))"

lemma apply_created:
  "codec_ok c \<Longrightarrow> x_delta_create c a b = Some delta \<Longrightarrow> apply_patches c a [x_compress c delta] = b"
  by (simp add: codec_ok_def apply_patches_def)

lemma tab_get_overwrite:
  "tab_get key k (map (\<lambda>q. if key q = key r then r else q) t) =
     (case tab_get key k t of None \<Rightarrow> None | Some q \<Rightarrow> Some (if k = key r then r else q))"
  by (induction t) auto

lemma data_key_b_data [simp]: "data_key (r\<lparr>b_data := x\<rparr>) = data_key r"
  by (simp add: data_key_def)

interpretation data: wf_agreement "data_journaled c" e "Some c" for c e
proof
  fix d d' u br
  assume "data_upsert e (Some c) br d = Inr (u, d')" and "db_wf d" and "data_journaled c d"
  then show "data_journaled c d'"
    by (auto simp: data_journaled_def stmt_defs data_replay_insert data_replay_update table_simps
        tab_get_overwrite apply_created simp del: split_paired_All split: option.splits if_splits)
qed (auto simp: data_journaled_def stmt_defs Let_def data_replay_delete_filter data_replay_insert
      table_simps keyed_wf simp del: split_paired_All
      split: stmt_splits)

text \<open>
  A connection without the extensions cannot run the statement that writes deltas, and
  every other statement keeps the agreement as well.
\<close>

interpretation data_plain: wf_agreement "data_journaled c" e None for c e
proof
  fix d d' u br
  assume "data_upsert e None br d = Inr (u, d')"
  then show "data_journaled c d'" by (simp add: stmt_defs)
qed (rule data.J_meta_insert data.J_meta_update data.J_meta_delete data.J_dentry_insert
      data.J_dentry_delete data.J_dentry_update data.J_data_replace data.J_data_delete
      data.J_xattr_replace data.J_xattr_delete data.J_bdata_create data.J_bdata_insert, assumption+)+

text \<open>
  Without any assumption on the extensions, the last audit row of a block tells whether
  the block is there.
\<close>

definition blocks_journaled :: "db \<Rightarrow> bool" where
  "blocks_journaled d \<longleftrightarrow>
     (\<forall>k. map_option data_key (journal_state data_key k (l_data d)) =
          map_option data_key (tab_get data_key k (t_data d)))"

interpretation blocks: wf_agreement blocks_journaled e ext for e ext
proof
  fix d d' u br
  assume "data_upsert e ext br d = Inr (u, d')" and "db_wf d" and "blocks_journaled d"
  then show "blocks_journaled d'"
    by (auto simp: blocks_journaled_def stmt_defs journal_state_log_rows table_simps
        tab_get_overwrite simp del: split_paired_All split: option.splits if_splits)
qed (auto simp: blocks_journaled_def stmt_defs Let_def journal_state_log_rows keyed_filter
      table_simps keyed_wf simp del: split_paired_All split: stmt_splits)

section \<open>apply_diffs rebuilds the table of blocks\<close>

lemma numbered_snoc: "numbered (log @ [a]) \<longleftrightarrow> numbered log \<and> au_seq a = Suc (length log)"
  by (simp add: numbered_def)

lemma numbered_bound: "numbered log \<Longrightarrow> a \<in> set log \<Longrightarrow> au_seq a \<le> length log"
proof -
  assume "numbered log" and "a \<in> set log"
  then have "au_seq a \<in> set [1..<Suc (length log)]"
    unfolding numbered_def by (metis image_eqI list.set_map)
  then show ?thesis by (simp del: upt_Suc)
qed

lemma numbered_sorted: "numbered log \<Longrightarrow> sorted (map au_seq (filter P log))"
proof -
  assume "numbered log"
  then have "sorted (map au_seq log)" by (simp add: numbered_def del: upt_Suc)
  then show ?thesis by (rule sorted_filter)
qed

lemma max_seq_SomeD:
  "max_seq op k log = Some n \<Longrightarrow>
     \<exists>a \<in> set log. au_op a = op \<and> data_key (au_row a) = k \<and> au_seq a = n"
proof -
  assume *: "max_seq op k log = Some n"
  let ?S = "set (map au_seq (filter (\<lambda>a. au_op a = op \<and> data_key (au_row a) = k) log))"
  from * have "?S \<noteq> {}" and n: "n = Max ?S"
    by (auto simp: max_seq_def Let_def filter_empty_conv split: if_splits)
  then have "n \<in> ?S" using Max_in [of ?S] by simp
  then obtain a where "a \<in> set log" "au_op a = op \<and> data_key (au_row a) = k" "n = au_seq a"
    by auto
  then show ?thesis by blast
qed

lemma max_seq_bound: "numbered log \<Longrightarrow> max_seq op k log = Some n \<Longrightarrow> n \<le> length log"
  using max_seq_SomeD numbered_bound by fastforce

lemma max_seq_snoc:
  assumes "numbered (log @ [a])"
  shows "max_seq op k (log @ [a]) =
    (if au_op a = op \<and> data_key (au_row a) = k then Some (au_seq a) else max_seq op k log)"
proof -
  let ?S = "set (map au_seq (filter (\<lambda>a. au_op a = op \<and> data_key (au_row a) = k) log))"
  have "\<forall>n \<in> ?S. n \<le> au_seq a"
    using assms numbered_bound [of log] by (fastforce simp: numbered_snoc)
  then have "Max (insert (au_seq a) ?S) = au_seq a"
    by (intro Max_eqI) auto
  then show ?thesis by (auto simp: max_seq_def Let_def)
qed

lemma live_seq_snoc:
  assumes "numbered (log @ [a])"
  shows "live_seq k (log @ [a]) =
    (if data_key (au_row a) = k
     then (case au_op a of TG_INSERT \<Rightarrow> Some (au_seq a) | TG_DELETE \<Rightarrow> None
           | TG_UPDATE \<Rightarrow> live_seq k log)
     else live_seq k log)"
proof -
  from assms have "numbered log" and "au_seq a = Suc (length log)"
    by (simp_all add: numbered_snoc)
  then show ?thesis
    using max_seq_bound [of log TG_INSERT k] max_seq_bound [of log TG_DELETE k]
    by (cases "au_op a") (auto simp: live_seq_def max_seq_snoc [OF assms] not_less le_Suc_eq
        split: option.splits)
qed

lemma live_seq_SomeD:
  "live_seq k log = Some n \<Longrightarrow>
     \<exists>a \<in> set log. au_op a = TG_INSERT \<and> data_key (au_row a) = k \<and> au_seq a = n"
  by (auto simp: live_seq_def dest: max_seq_SomeD split: option.splits if_splits)

lemma live_seq_bound: "numbered log \<Longrightarrow> live_seq k log = Some n \<Longrightarrow> n \<le> length log"
  using live_seq_SomeD numbered_bound by fastforce

lemma live_created: "live_seq k log = Some n \<Longrightarrow> k \<in> set (created_blocks log)"
  by (force simp: created_blocks_def dest: live_seq_SomeD)

text \<open>The audited contents of a block from one audit number on.\<close>

definition entries_from :: "u32 \<times> u32 \<Rightarrow> nat \<Rightarrow> data_row audit list \<Rightarrow> bytes list" where
  "entries_from k n log =
     map (b_data \<circ> au_row) (filter (\<lambda>a. data_key (au_row a) = k \<and> n \<le> au_seq a) log)"

lemma entries_from_beyond: "numbered log \<Longrightarrow> length log < n \<Longrightarrow> entries_from k n log = []"
  using numbered_bound by (fastforce simp: entries_from_def filter_empty_conv)

lemma entries_from_snoc:
  "entries_from k n (log @ [a]) =
     entries_from k n log @ (if data_key (au_row a) = k \<and> n \<le> au_seq a then [b_data (au_row a)] else [])"
  by (simp add: entries_from_def)

lemma apply_patches_Nil [simp]: "apply_patches c g [] = g"
  by (simp add: apply_patches_def)

lemma apply_patches_snoc: "apply_patches c g (ps @ [p]) = apply_patches c (apply_patches c g ps) [p]"
  by (simp add: apply_patches_def)

lemma replay_live:
  "numbered log \<Longrightarrow>
   (case live_seq k log of
      None \<Rightarrow> data_replay c k log = None
    | Some n \<Rightarrow> \<exists>g ps. entries_from k n log = g # ps
                   \<and> data_replay c k log = Some (apply_patches c g ps))"
proof (induction log rule: rev_induct)
  case Nil
  then show ?case by (simp add: live_seq_def max_seq_def)
next
  case (snoc a log)
  then have num: "numbered log" and a: "au_seq a = Suc (length log)"
    by (simp_all add: numbered_snoc)
  from snoc.IH [OF num] show ?case
    using live_seq_bound [OF num, of k] entries_from_beyond [OF num, of "Suc (length log)" k]
    by (cases "au_op a")
      (auto simp: live_seq_snoc [OF snoc.prems] data_replay_snoc replay_step_def a
        entries_from_snoc split: option.splits intro: apply_patches_snoc [symmetric])
qed

definition brf_of :: "data_row audit list \<Rightarrow> u32 \<times> u32 \<Rightarrow> block_relevant_from" where
  "brf_of log k = \<lparr>br_file = fst k, br_block = snd k, br_seq = of_nat (the (live_seq k log))\<rparr>"

lemma br_key_brf_of [simp]: "br_key (brf_of log k) = k"
  by (simp add: br_key_def brf_of_def)

lemma read_brfs_eq:
  assumes "numbered log" and "length log < 2 ^ 32"
  shows "read_brfs log ks = Inr (map (brf_of log) (filter (\<lambda>k. live_seq k log \<noteq> None) ks))"
proof (induction ks)
  case (Cons k ks)
  have "live_seq k log = Some n \<Longrightarrow> n < 2 ^ 32" for n
    using live_seq_bound [OF assms(1), of k n] assms(2) by simp
  with Cons show ?case
    by (auto simp: brf_of_def split: option.splits)
qed simp

lemma patch_block_live:
  assumes "numbered (l_data d)" and "length (l_data d) < 2 ^ 32"
    and "live_seq k (l_data d) = Some n"
  shows "\<exists>v. patch_block (Some c) (brf_of (l_data d) k) d = Inr v
    \<and> data_replay c k (l_data d) = Some v"
proof -
  have "n < 2 ^ 32" using live_seq_bound [OF assms(1,3)] assms(2) by simp
  then have "unat (br_seq (brf_of (l_data d) k)) = n"
    by (simp add: brf_of_def assms(3) unat_of_nat take_bit_nat_eq_self)
  then have "data_and_patches (brf_of (l_data d) k) d = entries_from k n (l_data d)"
    by (simp add: data_and_patches_def entries_from_def sort_key_id_if_sorted
        numbered_sorted [OF assms(1)])
  then show ?thesis
    using replay_live [OF assms(1), where k = k and c = c] assms(3) by (auto simp: patch_block_def)
qed

definition rebuilt_row :: "codec \<Rightarrow> data_row audit list \<Rightarrow> u32 \<times> u32 \<Rightarrow> data_row" where
  "rebuilt_row c log k = \<lparr>b_file = fst k, b_num = snd k, b_data = the (data_replay c k log)\<rparr>"

lemma data_key_rebuilt [simp]: "data_key (rebuilt_row c log k) = k"
  by (simp add: rebuilt_row_def data_key_def)

lemma apply_brfs_live:
  assumes "numbered (l_data d)" and "length (l_data d) < 2 ^ 32"
    and "distinct ks" and "\<forall>k \<in> set ks. live_seq k (l_data d) \<noteq> None"
    and "\<forall>k \<in> set ks. tab_get data_key k (t_bdata d) = None"
  shows "apply_brfs (Some c) (map (brf_of (l_data d)) ks) d =
    (Inr (), d\<lparr>t_bdata := t_bdata d @ map (rebuilt_row c (l_data d)) ks\<rparr>)"
  using assms
proof (induction ks arbitrary: d)
  case (Cons k ks)
  then obtain n where "live_seq k (l_data d) = Some n" by auto
  from patch_block_live [OF Cons.prems(1,2) this] obtain v
    where v: "patch_block (Some c) (brf_of (l_data d) k) d = Inr v"
      "data_replay c k (l_data d) = Some v" by blast
  let ?r = "rebuilt_row c (l_data d) k"
  let ?d = "d\<lparr>t_bdata := t_bdata d @ [?r]\<rparr>"
  have "\<forall>k' \<in> set ks. tab_get data_key k' (t_bdata ?d) = None"
    using Cons.prems(3,5) by (auto simp: table_simps split: option.splits)
  then have "apply_brfs (Some c) (map (brf_of (l_data ?d)) ks) ?d =
      (Inr (), ?d\<lparr>t_bdata := t_bdata ?d @ map (rebuilt_row c (l_data ?d)) ks\<rparr>)"
    using Cons.prems(1-4) by (intro Cons.IH) auto
  moreover have "?r = \<lparr>b_file = fst k, b_num = snd k, b_data = v\<rparr>"
    by (simp add: rebuilt_row_def v)
  moreover have "data_key \<lparr>b_file = fst k, b_num = snd k, b_data = v\<rparr> = k"
    by (simp add: data_key_def)
  ultimately show ?case
    using v Cons.prems(5) by (simp add: brf_of_def [of _ k] bdata_insert_def)
qed simp

lemma tab_get_rebuilt:
  "tab_get data_key k (map (rebuilt_row c log) ks) =
     (if k \<in> set ks then Some (rebuilt_row c log k) else None)"
  by (induction ks) auto

lemma apply_diffs_eq:
  assumes "numbered (l_data d)" and "length (l_data d) < 2 ^ 32"
  shows "\<exists>b. apply_diffs (Some c) d = (Inr (), d\<lparr>t_bdata := b\<rparr>)
    \<and> (\<forall>k. map_option b_data (tab_get data_key k b) = data_replay c k (l_data d))"
proof -
  let ?log = "l_data d"
  let ?ks = "filter (\<lambda>k. live_seq k ?log \<noteq> None) (created_blocks ?log)"
  let ?b = "map (rebuilt_row c ?log) ?ks"
  have "apply_brfs (Some c) (map (brf_of ?log) ?ks) (d\<lparr>t_bdata := []\<rparr>) = (Inr (), d\<lparr>t_bdata := ?b\<rparr>)"
    using apply_brfs_live [of "d\<lparr>t_bdata := []\<rparr>" ?ks c] assms
    by (simp add: created_blocks_def)
  then have 1: "apply_diffs (Some c) d = (Inr (), d\<lparr>t_bdata := ?b\<rparr>)"
    using assms by (simp add: apply_diffs_def bdata_create_def get_max_creation_seq_def read_brfs_eq)
  have "map_option b_data (tab_get data_key k ?b) = data_replay c k ?log" for k
    using replay_live [OF assms(1), where k = k and c = c] live_created [of k ?log]
    by (auto simp: tab_get_rebuilt rebuilt_row_def simp del: split_paired_All split: option.splits)
  with 1 show ?thesis by blast
qed

text \<open>It changes no other table.\<close>

lemma apply_brfs_only: "(snd (apply_brfs ext bs d))\<lparr>t_bdata := []\<rparr> = d\<lparr>t_bdata := []\<rparr>"
  by (induction bs arbitrary: d) (auto simp: bdata_insert_def split: sum.split)

lemma apply_diffs_only: "(snd (apply_diffs ext d))\<lparr>t_bdata := []\<rparr> = d\<lparr>t_bdata := []\<rparr>"
  by (simp add: apply_diffs_def bdata_create_def apply_brfs_only split: sum.split)

lemma apply_diffs_keeps: "l_data (snd (apply_diffs ext d)) = l_data d"
  using arg_cong [OF apply_diffs_only, of l_data] by simp

context guarded_store_relation
begin

lemma apply_brfs_R: "apply_brfs ext' bs d = (r, d') \<Longrightarrow> R d d'"
proof (induction bs arbitrary: d)
  case (Cons b bs)
  show ?case
  proof (cases "\<exists>x. patch_block ext' b d = Inl x")
    case False
    then obtain v where v: "patch_block ext' b d = Inr v" by (cases "patch_block ext' b d") auto
    let ?row = "\<lparr>b_file = br_file b, b_num = br_block b, b_data = v\<rparr>"
    show ?thesis
    proof (cases "bdata_insert ?row d")
      case (Inr p)
      then obtain u d1 where p: "bdata_insert ?row d = Inr (u, d1)" by (cases p) auto
      with Cons.prems v have "apply_brfs ext' bs d1 = (r, d')" by simp
      with keepsD [OF bdata_insert p] Cons.IH show ?thesis by (blast intro: trans)
    qed (use Cons.prems v in \<open>simp add: refl\<close>)
  qed (use Cons.prems in \<open>auto simp: refl\<close>)
qed (simp add: refl)

lemma apply_diffs_R: "apply_diffs ext' d = (r, d') \<Longrightarrow> R d d'"
  using keepsD [OF bdata_create, of d]
  by (auto simp: apply_diffs_def bdata_create_def intro: trans dest: apply_brfs_R
      split: sum.splits)

end

end
