(* ===== verification/Inodes.thy ===== *)
theory Inodes
  imports Diffs
begin

text \<open>
  The connection object \<open>Sqlite\<close> and the operations on inodes
  (\<open>src/db_module/sqlite.rs\<close>): reading attributes, adding and updating an inode, and
  deleting inodes no directory entry refers to.  An operation takes the connection and
  returns its result with the connection after it; a transaction that stops with an
  error leaves the database as it was.
\<close>

section \<open>The connection\<close>

text \<open>The temporary tables \<open>new_at_time\<close> creates.\<close>

record temp_tables =
  tt_meta :: "meta_row list"
  tt_dentry :: "dentry_row list"
  tt_data :: "data_row list"
  tt_xattr :: "xattr_row list"

text \<open>
  \<open>sq_ext\<close> holds the functions \<open>load_extensions\<close> adds to a connection, \<open>None\<close> where a
  constructor does not load them; \<open>sq_temp\<close> the temporary tables, where there are any.
\<close>

record sqlite =
  conn :: db
  sq_read_only :: bool
  sq_time_recording :: bool
  sq_ext :: "codec option"
  sq_temp :: "temp_tables option"

definition transact :: "(db, 'a) tx \<Rightarrow> sqlite \<Rightarrow> (error_kind + 'a) \<times> sqlite" where
  "transact m s =
     (case m (conn s) of Inl x \<Rightarrow> (Inl x, s) | Inr (a, d) \<Rightarrow> (Inr a, s\<lparr>conn := d\<rparr>))"

definition flatten :: "(error_kind + (error_kind + 'a)) \<times> sqlite \<Rightarrow> (error_kind + 'a) \<times> sqlite" where
  "flatten p = (case p of (Inl x, s) \<Rightarrow> (Inl x, s) | (Inr r, s) \<Rightarrow> (r, s))"

text \<open>What every operation leaves alone: the fields other than the database.\<close>

definition same_handle :: "sqlite \<Rightarrow> sqlite \<Rightarrow> bool" where
  "same_handle s s' \<longleftrightarrow> sq_read_only s' = sq_read_only s
     \<and> sq_time_recording s' = sq_time_recording s \<and> sq_ext s' = sq_ext s \<and> sq_temp s' = sq_temp s"

lemma same_handle_refl [simp]: "same_handle s s"
  by (simp add: same_handle_def)

lemma same_handle_trans: "same_handle s t \<Longrightarrow> same_handle t u \<Longrightarrow> same_handle s u"
  by (simp add: same_handle_def)

lemma transact_same_handle: "transact m s = (r, s') \<Longrightarrow> same_handle s s'"
  by (auto simp: transact_def same_handle_def split: sum.splits prod.splits)

lemma transact_Inl: "transact m s = (Inl x, s') \<Longrightarrow> s' = s"
  by (auto simp: transact_def split: sum.splits prod.splits)

lemma transact_Inr: "transact m s = (Inr a, s') \<longleftrightarrow> (\<exists>d. m (conn s) = Inr (a, d) \<and> s' = s\<lparr>conn := d\<rparr>)"
  by (auto simp: transact_def split: sum.splits prod.splits)

lemma keeps_transact_conn:
  assumes "keeps R m" and "\<And>d. R d d" and "transact m s = (r, s')"
  shows "R (conn s) (conn s')"
  using assms by (auto simp: transact_def dest: keepsD split: sum.splits prod.splits)

section \<open>Times of an inode\<close>

definition update_atime :: "env \<Rightarrow> u32 \<Rightarrow> systime \<Rightarrow> (db, unit) tx" where
  "update_atime e i t = meta_update e i (\<lambda>m. m\<lparr>m_atime := time_param t\<rparr>)"

definition update_mtime :: "env \<Rightarrow> u32 \<Rightarrow> systime \<Rightarrow> (db, unit) tx" where
  "update_mtime e i t = meta_update e i (\<lambda>m. m\<lparr>m_mtime := time_param t\<rparr>)"

definition update_ctime :: "env \<Rightarrow> u32 \<Rightarrow> systime \<Rightarrow> (db, unit) tx" where
  "update_ctime e i t = meta_update e i (\<lambda>m. m\<lparr>m_ctime := time_param t\<rparr>)"

lemmas update_time_defs = update_atime_def update_mtime_def update_ctime_def

section \<open>Reading attributes\<close>

text \<open>A text column that is NULL cannot be read as a string.\<close>

definition string_to_systemtime :: "time_cols \<Rightarrow> error_kind + systime" where
  "string_to_systemtime c =
     (case fst c of
        None \<Rightarrow> Inl (SqliteError InvalidColumnType)
      | Some s \<Rightarrow> Inr \<lparr>st_sec = s, st_nsec = snd c\<rparr>)"

definition u32_col :: "nat option \<Rightarrow> error_kind + u32" where
  "u32_col c =
     (case c of
        None \<Rightarrow> Inl (SqliteError InvalidColumnType)
      | Some n \<Rightarrow> if n < 2 ^ 32 then Inr (of_nat n) else Inl (SqliteError InvalidColumnType))"

text \<open>The same, with a comparison that evaluates.\<close>

lemma u32_col_code [code]:
  "u32_col c =
     (case c of
        None \<Rightarrow> Inl (SqliteError InvalidColumnType)
      | Some n \<Rightarrow> if int n < 4294967296 then Inr (of_nat n) else Inl (SqliteError InvalidColumnType))"
  by (auto simp: u32_col_def split: option.split)

text \<open>
  A result row of the attribute queries: the columns of metadata, the joined count of
  directory entries and the joined count of blocks, \<open>None\<close> for a NULL of the left join.
\<close>

type_synonym attr_cols = "meta_row \<times> nat option \<times> nat option"

fun attr_of_cols :: "attr_cols \<Rightarrow> error_kind + db_file_attr" where
  "attr_of_cols (m, nl, bl) =
     rbind (string_to_systemtime (m_atime m)) (\<lambda>at.
     rbind (string_to_systemtime (m_mtime m)) (\<lambda>mt.
     rbind (string_to_systemtime (m_ctime m)) (\<lambda>ct.
     rbind (string_to_systemtime (m_crtime m)) (\<lambda>crt.
     rbind (u32_col nl) (\<lambda>n.
       Inr \<lparr>a_ino = m_id m, a_size = m_size m,
            a_blocks = (case u32_col bl of Inl _ \<Rightarrow> 0 | Inr b \<Rightarrow> b),
            a_atime = at, a_mtime = mt, a_ctime = ct, a_crtime = crt,
            a_kind = const_to_file_type (m_kind m), a_perm = m_mode m, a_nlink = n,
            a_uid = m_uid m, a_gid = m_gid m, a_rdev = m_rdev m, a_flags = m_flags m\<rparr>)))))"

definition parse_attr :: "attr_cols list \<Rightarrow> error_kind + db_file_attr option" where
  "parse_attr rows =
     map_result (\<lambda>attrs. case attrs of [] \<Rightarrow> None | a # _ \<Rightarrow> Some a) (collect attr_of_cols rows)"

text \<open>
  The joined counts: the entries of one child, NULL when there is none (GROUP BY has no
  group then), and the blocks of one file.
\<close>

definition nlink_col :: "u32 \<Rightarrow> dentry_row list \<Rightarrow> nat option" where
  "nlink_col i t =
     (let n = length (filter (\<lambda>r. d_child r = i) t) in if n = 0 then None else Some n)"

definition block_count :: "u32 \<Rightarrow> data_row list \<Rightarrow> nat" where
  "block_count i t = length (filter (\<lambda>r. b_file r = i) t)"

definition get_inode_local :: "u32 \<Rightarrow> db \<Rightarrow> error_kind + db_file_attr option" where
  "get_inode_local i d =
     parse_attr (map (\<lambda>m. (m, nlink_col i (t_dentry d), Some (block_count i (t_data d))))
       (filter (\<lambda>m. m_id m = i) (t_meta d)))"

definition get_inode_local_at_time :: "u32 \<Rightarrow> sqlite \<Rightarrow> error_kind + db_file_attr option" where
  "get_inode_local_at_time i s =
     (case sq_temp s of
        None \<Rightarrow> Inl (SqliteError NoSuchTable)
      | Some tt \<Rightarrow>
          parse_attr (map (\<lambda>m. (m, nlink_col i (tt_dentry tt), Some (block_count i (tt_data tt))))
            (filter (\<lambda>m. m_id m = i \<and> nlink_col i (tt_dentry tt) \<noteq> None) (tt_meta tt))))"

definition get_inode :: "u32 \<Rightarrow> sqlite \<Rightarrow> error_kind + db_file_attr option" where
  "get_inode i s = get_inode_local i (conn s)"

definition get_inode_at_time :: "u32 \<Rightarrow> sqlite \<Rightarrow> error_kind + db_file_attr option" where
  "get_inode_at_time i s = get_inode_local_at_time i s"

text \<open>What a successful read of the attributes says about the row.\<close>

lemma rbind_Inr: "rbind r f = Inr b \<longleftrightarrow> (\<exists>a. r = Inr a \<and> f a = Inr b)"
  by (cases r) auto

lemma collect_ConsD: "collect f (r # rs) = Inr as \<Longrightarrow> \<exists>a as'. f r = Inr a \<and> as = a # as'"
  by (cases "collect f rs") (auto simp: rbind_Inr)

lemma attr_of_colsD:
  assumes "attr_of_cols (m, nl, bl) = Inr a"
  shows "a_ino a = m_id m" and "a_size a = m_size m" and "a_perm a = m_mode m"
    and "a_kind a = const_to_file_type (m_kind m)" and "u32_col nl = Inr (a_nlink a)"
    and "a_uid a = m_uid m" and "a_gid a = m_gid m"
  using assms by (auto simp: rbind_Inr)

declare attr_of_cols.simps [simp del]

lemma parse_attr_SomeD:
  assumes "parse_attr rows = Inr (Some a)"
  shows "\<exists>r rs. rows = r # rs \<and> attr_of_cols r = Inr a"
proof (cases rows)
  case (Cons r rs)
  with assms obtain as where "collect attr_of_cols (r # rs) = Inr as"
      "(case as of [] \<Rightarrow> None | b # _ \<Rightarrow> Some b) = Some a"
    by (cases "collect attr_of_cols rows") (auto simp: parse_attr_def)
  with collect_ConsD [of attr_of_cols r rs as] Cons show ?thesis by auto
qed (use assms in \<open>simp add: parse_attr_def\<close>)

lemma parse_attr_None_iff: "parse_attr rows = Inr None \<longleftrightarrow> rows = []"
proof (cases rows)
  case (Cons r rs)
  have "collect attr_of_cols rows \<noteq> Inr []"
    using collect_ConsD [of attr_of_cols r rs "[]"] unfolding Cons by blast
  then show ?thesis
    using Cons by (cases "collect attr_of_cols rows") (auto simp: parse_attr_def split: list.splits)
qed (simp add: parse_attr_def)

lemma filter_tab_get: "filter (\<lambda>r. key r = k) t = r # rs \<Longrightarrow> tab_get key k t = Some r"
  by (induction t) (auto split: if_splits)

lemma get_inode_local_SomeD:
  assumes "get_inode_local i d = Inr (Some a)"
  shows "\<exists>m. tab_get m_id i (t_meta d) = Some m
    \<and> attr_of_cols (m, nlink_col i (t_dentry d), Some (block_count i (t_data d))) = Inr a
    \<and> a_ino a = i"
proof -
  obtain r rs where *: "map (\<lambda>m. (m, nlink_col i (t_dentry d), Some (block_count i (t_data d))))
        (filter (\<lambda>m. m_id m = i) (t_meta d)) = r # rs" "attr_of_cols r = Inr a"
    using parse_attr_SomeD [OF assms [unfolded get_inode_local_def]] by (elim exE conjE) (rule that)
  then obtain m ms where "filter (\<lambda>m. m_id m = i) (t_meta d) = m # ms"
      "r = (m, nlink_col i (t_dentry d), Some (block_count i (t_data d)))"
    by auto
  moreover then have g: "tab_get m_id i (t_meta d) = Some m" by (intro filter_tab_get)
  ultimately show ?thesis
    using *(2) attr_of_colsD(1) tab_get_SomeD [OF g] by blast
qed

lemma get_inode_local_None_iff: "get_inode_local i d = Inr None \<longleftrightarrow> \<not> has_inode i d"
  by (auto simp: get_inode_local_def parse_attr_None_iff filter_empty_conv has_inode_def)

text \<open>A row whose access time is NULL makes its inode unreadable.\<close>

lemma tab_get_filter_Cons:
  "tab_get key k t = Some r \<Longrightarrow> \<exists>rs. filter (\<lambda>r. key r = k) t = r # rs"
  by (induction t) (auto split: if_splits)

lemma get_inode_local_NULL_atime:
  assumes "tab_get m_id i (t_meta d) = Some m" and "fst (m_atime m) = None"
  shows "get_inode_local i d = Inl (SqliteError InvalidColumnType)"
  using tab_get_filter_Cons [OF assms(1)] assms(2)
  by (auto simp: get_inode_local_def parse_attr_def attr_of_cols.simps string_to_systemtime_def)

lemma get_inode_local_has: "get_inode_local i d = Inr (Some a) \<Longrightarrow> has_inode i d"
  by (drule get_inode_local_SomeD, elim exE conjE, drule tab_get_SomeD) (force simp: has_inode_def)

section \<open>Adding, updating and deleting inodes\<close>

definition add_inode_local :: "env \<Rightarrow> db_file_attr \<Rightarrow> (db, u32) tx" where
  "add_inode_local e attr =
     meta_insert e \<lparr>m_id = 0, m_size = a_size attr,
       m_atime = time_param_raw (a_atime attr), m_mtime = time_param_raw (a_mtime attr),
       m_ctime = time_param_raw (a_ctime attr), m_crtime = time_param_raw (a_crtime attr),
       m_kind = file_type_to_const (a_kind attr), m_mode = a_perm attr, m_nlink = 0,
       m_uid = a_uid attr, m_gid = a_gid attr, m_rdev = a_rdev attr, m_flags = a_flags attr\<rparr>"

text \<open>Truncation of the blocks of a file to \<open>offset\<close> bytes; blocks are numbered from 1.\<close>

definition release_data :: "env \<Rightarrow> u32 \<Rightarrow> u32 \<Rightarrow> (db, unit) tx" where
  "release_data e inode offset =
     (if offset = 0 then data_delete e (\<lambda>r. b_file r = inode)
      else
        tbind
          (if offset mod BLOCK_SIZE \<noteq> 0
           then let block = offset div BLOCK_SIZE + 1 in
             tbind (tquery (\<lambda>d. Inr (case tab_get data_key (inode, block) (t_data d) of
                       Some r \<Rightarrow> b_data r
                     | None \<Rightarrow> replicate (unat BLOCK_SIZE) 0))) (\<lambda>data.
             tseq (data_replace e
                     \<lparr>b_file = inode, b_num = block,
                      b_data = resize (unat (offset mod BLOCK_SIZE)) data\<rparr>)
               (tret block))
           else tret (offset div BLOCK_SIZE))
          (\<lambda>block. data_delete e (\<lambda>r. b_file r = inode \<and> block < b_num r)))"

definition update_inode :: "env \<Rightarrow> db_file_attr \<Rightarrow> bool \<Rightarrow> sqlite \<Rightarrow> (error_kind + unit) \<times> sqlite" where
  "update_inode e attr trunc = transact
     (tbind (tquery (get_inode_local (a_ino attr))) (\<lambda>oldattr.
        case oldattr of
          None \<Rightarrow> tfail FsNoEnt
        | Some old \<Rightarrow>
            tbind (tquery (\<lambda>d. Inr (utc_now e d))) (\<lambda>now.
            tseq (meta_update e (a_ino attr) (\<lambda>m. m\<lparr>
                    m_size := a_size attr,
                    m_atime := time_param (a_atime attr),
                    m_mtime := time_param (if a_size old \<noteq> a_size attr then now else a_mtime attr),
                    m_ctime := time_param now,
                    m_crtime := time_param (a_crtime attr),
                    m_mode := a_perm attr, m_uid := a_uid attr, m_gid := a_gid attr,
                    m_rdev := a_rdev attr, m_flags := a_flags attr\<rparr>))
              (twhen trunc (release_data e (a_ino attr) (a_size attr))))))"

definition delete_inode_if_noref :: "env \<Rightarrow> u32 \<Rightarrow> sqlite \<Rightarrow> (error_kind + unit) \<times> sqlite" where
  "delete_inode_if_noref e inode = transact
     (tbind (tquery (\<lambda>d. Inr (length (filter (\<lambda>r. d_child r = inode) (t_dentry d))))) (\<lambda>nlink.
        twhen (nlink = 0) (meta_delete e (\<lambda>m. m_id m = inode))))"

definition delete_all_noref_inode :: "env \<Rightarrow> sqlite \<Rightarrow> (error_kind + unit) \<times> sqlite" where
  "delete_all_noref_inode e = transact
     (tbind (tquery (\<lambda>d. Inr (map d_child (t_dentry d)))) (\<lambda>children.
        meta_delete e (\<lambda>m. m_id m \<notin> set children)))"

section \<open>The operations keep every relation of the store\<close>

text \<open>The block a truncation cuts is one a file can have.\<close>

lemma cut_block:
  fixes off :: u32
  shows "unat (off mod BLOCK_SIZE) \<le> 4096" "off div BLOCK_SIZE + 1 \<noteq> 0"
    "unat (off div BLOCK_SIZE + 1) \<le> 1048576"
proof -
  have off: "unat off < 4294967296" by (rule unat_u32_lt)
  then have d: "unat (off div BLOCK_SIZE + 1) = unat off div 4096 + 1"
    by (subst unat_u32_add_le) (simp_all add: BLOCK_SIZE_def unat_div)
  with off show "unat (off div BLOCK_SIZE + 1) \<le> 1048576" by simp
  from d show "off div BLOCK_SIZE + 1 \<noteq> 0" by (metis add_is_0 one_neq_zero unat_0)
  show "unat (off mod BLOCK_SIZE) \<le> 4096" by (simp add: BLOCK_SIZE_def unat_mod)
qed

context guarded_store_relation
begin

lemma keeps_update_time:
  "good t \<Longrightarrow> keeps R (update_atime e i t)"
  "good t \<Longrightarrow> keeps R (update_mtime e i t)"
  "good t \<Longrightarrow> keeps R (update_ctime e i t)"
  by (auto simp: update_time_defs tame_def row_times_def intro!: meta_update)

lemma keeps_add_inode_local: "attr_times good attr \<Longrightarrow> keeps R (add_inode_local e attr)"
  by (auto simp: add_inode_local_def attr_times_def row_times_def intro!: meta_insert)

text \<open>The clock is read in a query of its own, whose answer the rest of the transaction uses.\<close>

lemma keeps_with_clock:
  assumes "\<And>now. good now \<Longrightarrow> keeps R (k now)"
  shows "keeps R (tbind (tquery (\<lambda>d. Inr (utc_now e d))) k)"
proof
  fix d a d' assume "tbind (tquery (\<lambda>d. Inr (utc_now e d))) k d = Inr (a, d')"
  then have "k (utc_now e d) d = Inr (a, d')" by (simp add: tx_defs)
  with assms [OF good_clock] show "R d d'" by (rule keepsD)
qed

lemma keeps_release_data: "keeps R (release_data e i off)"
  by (auto simp: release_data_def Let_def small_legal cut_block
      intro!: keeps_intros data_delete data_replace)

lemma update_inode_R:
  "update_inode e attr tr s = (r, s') \<Longrightarrow> attr_times good attr \<Longrightarrow> R (conn s) (conn s')"
  unfolding update_inode_def
  by (erule keeps_transact_conn [rotated 2])
    (auto simp: attr_times_def tame_def row_times_def intro!: keeps_with_clock keeps_intros keeps_release_data
      meta_update refl split: option.split)

lemma delete_inode_if_noref_R: "delete_inode_if_noref e i s = (r, s') \<Longrightarrow> R (conn s) (conn s')"
  unfolding delete_inode_if_noref_def
  by (erule keeps_transact_conn [rotated 2]) (auto intro!: keeps_intros meta_delete refl)

lemma delete_all_noref_inode_R: "delete_all_noref_inode e s = (r, s') \<Longrightarrow> R (conn s) (conn s')"
  unfolding delete_all_noref_inode_def
  by (erule keeps_transact_conn [rotated 2]) (auto intro!: keeps_intros meta_delete refl)

lemmas inode_ops_R = update_inode_R delete_inode_if_noref_R delete_all_noref_inode_R

end

end
