(* ===== verification/Dentries.thy ===== *)
theory Dentries
  imports Inodes
begin

text \<open>
  The operations on directory entries (\<open>src/db_module/sqlite.rs\<close>): adding an inode with
  its entry, hard links, removing and moving an entry, lookup and listing.
\<close>

section \<open>Pieces of the transactions\<close>

definition add_dentry :: "env \<Rightarrow> dentry \<Rightarrow> (db, unit) tx" where
  "add_dentry e entry =
     dentry_insert e \<lparr>d_parent = parent_ino entry, d_child = child_ino entry,
       d_type = file_type_to_const (file_type entry), d_name = filename entry\<rparr>"

definition get_dentry_single :: "u32 \<Rightarrow> string \<Rightarrow> db \<Rightarrow> error_kind + dentry option" where
  "get_dentry_single parent name d =
     Inr (map_option
       (\<lambda>r. \<lparr>parent_ino = parent, child_ino = d_child r, filename = name,
             file_type = const_to_file_type (d_type r)\<rparr>)
       (tab_get dentry_key (parent, name) (t_dentry d)))"

definition delete_dentry_local :: "env \<Rightarrow> u32 \<Rightarrow> string \<Rightarrow> (db, unit) tx" where
  "delete_dentry_local e parent name =
     twhen (\<not> (name = ''..'' \<or> name = ''.''))
       (dentry_delete e (\<lambda>r. d_parent r = parent \<and> d_name r = name))"

definition delete_sub_dentry :: "env \<Rightarrow> u32 \<Rightarrow> (db, unit) tx" where
  "delete_sub_dentry e i = dentry_delete e (\<lambda>r. d_parent r = i)"

text \<open>The loop over the names stops at the first that is neither . nor .. .\<close>

fun only_dots :: "string list \<Rightarrow> bool" where
  "only_dots [] = True"
| "only_dots (name # names) = (if name \<noteq> ''.'' \<and> name \<noteq> ''..'' then False else only_dots names)"

definition check_directory_is_empty_local :: "u32 \<Rightarrow> db \<Rightarrow> error_kind + bool" where
  "check_directory_is_empty_local inode d =
     Inr (only_dots (map d_name (filter (\<lambda>r. d_parent r = inode) (t_dentry d))))"

lemma only_dots_iff: "only_dots names \<longleftrightarrow> (\<forall>n \<in> set names. n = ''.'' \<or> n = ''..'')"
  by (induction names) auto

section \<open>The operations\<close>

definition add_inode_and_dentry ::
  "env \<Rightarrow> u32 \<Rightarrow> string \<Rightarrow> db_file_attr \<Rightarrow> sqlite \<Rightarrow> (error_kind + u32) \<times> sqlite" where
  "add_inode_and_dentry e parent name attr s = transact
     (tbind (add_inode_local e attr) (\<lambda>child.
      tseq (add_dentry e \<lparr>parent_ino = parent, child_ino = child, filename = name,
              file_type = a_kind attr\<rparr>)
     (tseq (twhen (a_kind attr = Directory)
              (tseq (add_dentry e \<lparr>parent_ino = child, child_ino = parent, filename = ''..'',
                       file_type = a_kind attr\<rparr>)
                    (add_dentry e \<lparr>parent_ino = child, child_ino = child, filename = ''.'',
                       file_type = a_kind attr\<rparr>)))
     (tbind (tquery (\<lambda>d. Inr (utc_now e d))) (\<lambda>now.
      tseq (twhen (sq_time_recording s)
              (tseq (update_mtime e parent now) (update_ctime e parent now)))
           (tret child)))))) s"

text \<open>\<open>ORDER BY name\<close> compares bytes, which is the order of \<open>char list\<close> used here.\<close>

definition dentries_of :: "u32 \<Rightarrow> dentry_row list \<Rightarrow> dentry list" where
  "dentries_of inode t =
     map (\<lambda>r. \<lparr>parent_ino = inode, child_ino = d_child r, filename = d_name r,
               file_type = const_to_file_type (d_type r)\<rparr>)
       (sort_key d_name (filter (\<lambda>r. d_parent r = inode) t))"

definition get_dentry :: "u32 \<Rightarrow> sqlite \<Rightarrow> error_kind + dentry list" where
  "get_dentry inode s = Inr (dentries_of inode (t_dentry (conn s)))"

definition get_dentry_at_time :: "u32 \<Rightarrow> sqlite \<Rightarrow> error_kind + dentry list" where
  "get_dentry_at_time inode s =
     (case sq_temp s of None \<Rightarrow> Inl (SqliteError NoSuchTable)
      | Some tt \<Rightarrow> Inr (dentries_of inode (tt_dentry tt)))"

definition link_dentry ::
  "env \<Rightarrow> u32 \<Rightarrow> u32 \<Rightarrow> string \<Rightarrow> sqlite \<Rightarrow> (error_kind + db_file_attr) \<times> sqlite" where
  "link_dentry e inode parent name s =
     (let now = utc_now e (conn s) in transact
       (tbind (tquery (get_inode_local inode)) (\<lambda>a. case a of
          None \<Rightarrow> tfail FsNoEnt
        | Some attr \<Rightarrow>
            if a_kind attr \<noteq> RegularFile then tfail FsParm
            else tbind (tquery (get_dentry_single parent name)) (\<lambda>new_inode.
              if new_inode \<noteq> None then tfail FsFileExist
              else tseq (add_dentry e \<lparr>parent_ino = parent, child_ino = inode, filename = name,
                           file_type = RegularFile\<rparr>)
                  (tseq (twhen (sq_time_recording s)
                     (tseq (update_mtime e inode now)
                     (tseq (update_mtime e parent now) (update_ctime e parent now))))
                   (tret attr))))) s)"

definition delete_dentry :: "env \<Rightarrow> u32 \<Rightarrow> string \<Rightarrow> sqlite \<Rightarrow> (error_kind + u32) \<times> sqlite" where
  "delete_dentry e parent name s =
     (let now = utc_now e (conn s) in transact
       (tbind (tquery (\<lambda>d. case tab_get dentry_key (parent, name) (t_dentry d) of
                  None \<Rightarrow> Inl (SqliteError QueryReturnedNoRows)
                | Some r \<Rightarrow> Inr (d_child r))) (\<lambda>child.
        tseq (delete_dentry_local e parent name)
       (tseq (delete_sub_dentry e child)
       (tseq (twhen (sq_time_recording s)
                (tseq (update_ctime e child now)
                (tseq (update_mtime e parent now) (update_ctime e parent now))))
        (tret child))))) s)"

text \<open>
  The checks of \<open>move_dentry\<close> on an entry that already has the new name: the result is the
  inode of the entry it removes.
\<close>

definition replace_existing ::
  "env \<Rightarrow> dentry \<Rightarrow> u32 \<Rightarrow> string \<Rightarrow> dentry option \<Rightarrow> (db, u32 option) tx" where
  "replace_existing e dentry new_parent new_name exist_entry =
     (case exist_entry of
        None \<Rightarrow> tret None
      | Some v \<Rightarrow>
          if file_type dentry \<noteq> file_type v
          then (case file_type v of
                  Directory \<Rightarrow> tfail FsIsDir
                | RegularFile \<Rightarrow> tfail FsIsNotDir
                | _ \<Rightarrow> tfail Undefined)
          else tseq
            (if file_type v = Directory
             then tbind (tquery (check_directory_is_empty_local (child_ino v))) (\<lambda>empty.
                    if \<not> empty then tfail FsNotEmpty else tret ())
             else tret ())
            (tseq (delete_dentry_local e new_parent new_name) (tret (Some (child_ino v)))))"

definition move_dentry ::
  "env \<Rightarrow> u32 \<Rightarrow> string \<Rightarrow> u32 \<Rightarrow> string \<Rightarrow> sqlite \<Rightarrow> (error_kind + u32 option) \<times> sqlite" where
  "move_dentry e parent name new_parent new_name s =
     (let now = utc_now e (conn s) in transact
       (tbind (tquery (get_dentry_single parent name)) (\<lambda>found. case found of
          None \<Rightarrow> tfail FsNoEnt
        | Some dentry \<Rightarrow>
            tbind (tquery (get_dentry_single new_parent new_name)) (\<lambda>exist_entry.
            tbind (replace_existing e dentry new_parent new_name exist_entry) (\<lambda>res.
            tseq (dentry_update e (parent, name) (\<lambda>r. r\<lparr>d_parent := new_parent, d_name := new_name\<rparr>))
           (tseq (twhen (parent \<noteq> new_parent \<and> file_type dentry = Directory)
                    (dentry_update e (child_ino dentry, ''..'') (\<lambda>r. r\<lparr>d_child := new_parent\<rparr>)))
           (tseq (twhen (sq_time_recording s)
                    (tseq (update_ctime e (child_ino dentry) now)
                    (tseq (update_mtime e parent now)
                    (tseq (update_ctime e parent now)
                     (twhen (parent \<noteq> new_parent)
                       (tseq (update_mtime e new_parent now) (update_ctime e new_parent now)))))))
            (tret res))))))) s)"

definition check_directory_is_empty :: "u32 \<Rightarrow> sqlite \<Rightarrow> error_kind + bool" where
  "check_directory_is_empty inode s = check_directory_is_empty_local inode (conn s)"

section \<open>Lookup\<close>

text \<open>
  The rows of the lookup query over the three tables.  The joined block count comes from an
  aggregate without GROUP BY: one row, whose count is over the whole table and whose
  file_id is the one SQLite picks.
\<close>

definition lookup_rows ::
  "env \<Rightarrow> u32 \<Rightarrow> string \<Rightarrow> meta_row list \<Rightarrow> dentry_row list \<Rightarrow> data_row list \<Rightarrow> attr_cols list" where
  "lookup_rows e parent name meta dent data =
     concat (map (\<lambda>r.
       map (\<lambda>m. (m, nlink_col (d_child r) dent,
                 if data \<noteq> [] \<and> bare_col e data = d_child r then Some (length data) else None))
         (filter (\<lambda>m. m_id m = d_child r) meta))
       (filter (\<lambda>r. d_parent r = parent \<and> d_name r = name) dent))"

definition lookup :: "env \<Rightarrow> u32 \<Rightarrow> string \<Rightarrow> sqlite \<Rightarrow> (error_kind + db_file_attr option) \<times> sqlite" where
  "lookup e parent name s = flatten (transact
     (tbind (tquery (\<lambda>d. Inr (parse_attr (lookup_rows e parent name (t_meta d) (t_dentry d) (t_data d)))))
       (\<lambda>result.
        tbind (tquery (\<lambda>d. Inr (utc_now e d))) (\<lambda>now.
        tseq (twhen (sq_time_recording s) (update_atime e parent now)) (tret result)))) s)"

definition lookup_at_time ::
  "env \<Rightarrow> u32 \<Rightarrow> string \<Rightarrow> sqlite \<Rightarrow> (error_kind + db_file_attr option) \<times> sqlite" where
  "lookup_at_time e parent name s =
     (case sq_temp s of None \<Rightarrow> (Inl (SqliteError NoSuchTable), s)
      | Some tt \<Rightarrow> (parse_attr (lookup_rows e parent name (tt_meta tt) (tt_dentry tt) (tt_data tt)), s))"

section \<open>The operations keep every relation of the store\<close>

lemma flatten_snd [simp]: "snd (flatten p) = snd p"
  by (auto simp: flatten_def split: prod.split sum.split)

lemma flatten_pair: "flatten p = (r, s') \<Longrightarrow> \<exists>r'. p = (r', s')"
  by (auto simp: flatten_def split: prod.splits sum.splits)

context guarded_store_relation
begin

lemma keeps_dentry_parts:
  "keeps R (add_dentry e entry)" "keeps R (delete_dentry_local e p n)"
  "keeps R (delete_sub_dentry e i)"
  by (auto simp: add_dentry_def delete_dentry_local_def delete_sub_dentry_def
      intro!: keeps_intros dentry_insert dentry_delete)

lemma keeps_replace_existing: "keeps R (replace_existing e de np nn x)"
  by (auto simp: replace_existing_def intro!: keeps_intros keeps_dentry_parts
      split: option.split file_type.split)

lemmas keeps_parts =
  good_clock keeps_with_clock keeps_intros keeps_update_time keeps_add_inode_local keeps_dentry_parts
  keeps_replace_existing dentry_update

lemma add_inode_and_dentry_R:
  "add_inode_and_dentry e p n attr s = (r, s') \<Longrightarrow> attr_times good attr \<Longrightarrow> R (conn s) (conn s')"
  unfolding add_inode_and_dentry_def
  by (erule keeps_transact_conn [rotated 2]) (auto intro!: keeps_parts refl)

lemma link_dentry_R: "link_dentry e i p n s = (r, s') \<Longrightarrow> R (conn s) (conn s')"
  unfolding link_dentry_def Let_def
  by (erule keeps_transact_conn [rotated 2]) (auto intro!: keeps_parts refl split: option.split)

lemma delete_dentry_R: "delete_dentry e p n s = (r, s') \<Longrightarrow> R (conn s) (conn s')"
  unfolding delete_dentry_def Let_def
  by (erule keeps_transact_conn [rotated 2]) (auto intro!: keeps_parts refl)

lemma move_dentry_R: "move_dentry e p n np nn s = (r, s') \<Longrightarrow> R (conn s) (conn s')"
  unfolding move_dentry_def Let_def
  by (erule keeps_transact_conn [rotated 2]) (auto intro!: keeps_parts refl split: option.split)

lemma lookup_R: "lookup e p n s = (r, s') \<Longrightarrow> R (conn s) (conn s')"
  unfolding lookup_def
  by (drule flatten_pair, elim exE, erule keeps_transact_conn [rotated 2])
    (auto intro!: keeps_parts refl)

lemma lookup_at_time_R: "lookup_at_time e p n s = (r, s') \<Longrightarrow> R (conn s) (conn s')"
  by (auto simp: lookup_at_time_def refl split: option.splits)

lemmas dentry_ops_R =
  add_inode_and_dentry_R link_dentry_R delete_dentry_R move_dentry_R lookup_R lookup_at_time_R

end

end
