(* ===== verification/Blocks.thy ===== *)
theory Blocks
  imports Inodes
begin

text \<open>
  Reading and writing whole blocks, and the extended attributes
  (\<open>src/db_module/sqlite.rs\<close>).
\<close>

section \<open>Blocks\<close>

definition get_data :: "env \<Rightarrow> u32 \<Rightarrow> u32 \<Rightarrow> u32 \<Rightarrow> sqlite \<Rightarrow> (error_kind + bytes) \<times> sqlite" where
  "get_data e inode block len s = transact
     (tbind (tquery (\<lambda>d. Inr (case tab_get data_key (inode, block) (t_data d) of
                Some r \<Rightarrow> b_data r
              | None \<Rightarrow> replicate (unat len) 0))) (\<lambda>row.
      tbind (tquery (\<lambda>d. Inr (utc_now e d))) (\<lambda>now.
      tseq (twhen (\<not> sq_read_only s \<and> sq_time_recording s) (update_atime e inode now))
           (tret row)))) s"

definition get_data_at_time :: "env \<Rightarrow> u32 \<Rightarrow> u32 \<Rightarrow> u32 \<Rightarrow> sqlite \<Rightarrow> (error_kind + bytes) \<times> sqlite" where
  "get_data_at_time e inode block len s =
     (case sq_temp s of None \<Rightarrow> (Inl (SqliteError NoSuchTable), s)
      | Some tt \<Rightarrow> transact
         (tbind (tquery (\<lambda>d. Inr (case tab_get data_key (inode, block) (tt_data tt) of
                    Some r \<Rightarrow> b_data r
                  | None \<Rightarrow> replicate (unat len) 0))) (\<lambda>row.
          tbind (tquery (\<lambda>d. Inr (utc_now e d))) (\<lambda>now.
          tseq (twhen (sq_time_recording s) (update_atime e inode now))
               (tret row)))) s)"

definition write_data ::
  "env \<Rightarrow> u32 \<Rightarrow> u32 \<Rightarrow> bytes \<Rightarrow> u32 \<Rightarrow> sqlite \<Rightarrow> (error_kind + unit) \<times> sqlite" where
  "write_data e inode block data len s = transact
     (tbind (tquery (\<lambda>d. case tab_get m_id inode (t_meta d) of
                None \<Rightarrow> Inl (SqliteError QueryReturnedNoRows)
              | Some m \<Rightarrow> Inr (m_size m))) (\<lambda>db_size.
      tseq (data_upsert e (sq_ext s) \<lparr>b_file = inode, b_num = block, b_data = data\<rparr>)
     (tseq (twhen (db_size < len) (meta_update e inode (\<lambda>m. m\<lparr>m_size := len\<rparr>)))
     (tbind (tquery (\<lambda>d. Inr (utc_now e d))) (\<lambda>time.
      twhen (sq_time_recording s)
        (tseq (update_mtime e inode time) (update_ctime e inode time))))))) s"

definition release_all_data :: "env \<Rightarrow> u32 \<Rightarrow> sqlite \<Rightarrow> (error_kind + unit) \<times> sqlite" where
  "release_all_data e inode = transact (data_delete e (\<lambda>r. b_file r = inode))"

definition get_db_block_size :: "sqlite \<Rightarrow> u32" where
  "get_db_block_size s = BLOCK_SIZE"

section \<open>Extended attributes\<close>

definition set_xattr :: "env \<Rightarrow> u32 \<Rightarrow> string \<Rightarrow> bytes \<Rightarrow> sqlite \<Rightarrow> (error_kind + unit) \<times> sqlite" where
  "set_xattr e inode key value s = transact
     (tseq (xattr_replace e \<lparr>x_file = inode, x_name = key, x_value = value\<rparr>)
     (tbind (tquery (\<lambda>d. Inr (utc_now e d))) (\<lambda>time.
      twhen (sq_time_recording s) (update_ctime e inode time)))) s"

definition get_xattr :: "u32 \<Rightarrow> string \<Rightarrow> sqlite \<Rightarrow> error_kind + bytes" where
  "get_xattr inode key s =
     (case tab_get xattr_key (inode, key) (t_xattr (conn s)) of
        Some r \<Rightarrow> Inr (x_value r) | None \<Rightarrow> Inl FsNoEnt)"

definition get_xattr_at_time :: "u32 \<Rightarrow> string \<Rightarrow> sqlite \<Rightarrow> error_kind + bytes" where
  "get_xattr_at_time inode key s =
     (case sq_temp s of None \<Rightarrow> Inl (SqliteError NoSuchTable)
      | Some tt \<Rightarrow>
          (case tab_get xattr_key (inode, key) (tt_xattr tt) of
             Some r \<Rightarrow> Inr (x_value r) | None \<Rightarrow> Inl FsNoEnt))"

definition names_of :: "u32 \<Rightarrow> xattr_row list \<Rightarrow> string list" where
  "names_of inode t = sort (map x_name (filter (\<lambda>r. x_file r = inode) t))"

definition list_xattr :: "u32 \<Rightarrow> sqlite \<Rightarrow> error_kind + string list" where
  "list_xattr inode s = Inr (names_of inode (t_xattr (conn s)))"

definition list_xattr_at_time :: "u32 \<Rightarrow> sqlite \<Rightarrow> error_kind + string list" where
  "list_xattr_at_time inode s =
     (case sq_temp s of None \<Rightarrow> Inl (SqliteError NoSuchTable)
      | Some tt \<Rightarrow> Inr (names_of inode (tt_xattr tt)))"

definition delete_xattr :: "env \<Rightarrow> u32 \<Rightarrow> string \<Rightarrow> sqlite \<Rightarrow> (error_kind + unit) \<times> sqlite" where
  "delete_xattr e inode key s = transact
     (tseq (xattr_delete e (\<lambda>r. x_file r = inode \<and> x_name r = key))
     (tbind (tquery (\<lambda>d. Inr (utc_now e d))) (\<lambda>time.
      twhen (sq_time_recording s) (update_ctime e inode time)))) s"

section \<open>The operations keep every relation of the store\<close>

context guarded_store_relation
begin

lemma get_data_R: "get_data e i b n s = (r, s') \<Longrightarrow> R (conn s) (conn s')"
  unfolding get_data_def
  by (erule keeps_transact_conn [rotated 2]) (auto intro!: keeps_with_clock keeps_intros keeps_update_time refl)

lemma get_data_at_time_R: "get_data_at_time e i b n s = (r, s') \<Longrightarrow> R (conn s) (conn s')"
proof (cases "sq_temp s")
  case (Some tt)
  assume "get_data_at_time e i b n s = (r, s')"
  then show ?thesis
    unfolding get_data_at_time_def Some option.case
    by (elim keeps_transact_conn [rotated 2]) (auto intro!: keeps_with_clock keeps_intros keeps_update_time refl)
qed (simp add: get_data_at_time_def refl)

lemma write_data_R:
  "write_data e i b data n s = (r, s') \<Longrightarrow> sq_ext s = ext \<Longrightarrow>
   legal \<lparr>b_file = i, b_num = b, b_data = data\<rparr> \<Longrightarrow> R (conn s) (conn s')"
proof -
  assume w: "write_data e i b data n s = (r, s')" and "sq_ext s = ext"
    and "legal \<lparr>b_file = i, b_num = b, b_data = data\<rparr>"
  then have up: "keeps R (data_upsert e (sq_ext s) \<lparr>b_file = i, b_num = b, b_data = data\<rparr>)"
    by (simp add: data_upsert)
  from w show ?thesis
    unfolding write_data_def
    by (elim keeps_transact_conn [rotated 2])
      (auto simp: tame_def row_times_def intro!: keeps_with_clock keeps_intros keeps_update_time meta_update up refl)
qed

lemma release_all_data_R: "release_all_data e i s = (r, s') \<Longrightarrow> R (conn s) (conn s')"
  unfolding release_all_data_def
  by (erule keeps_transact_conn [rotated 2]) (auto intro!: data_delete refl)

lemma set_xattr_R: "set_xattr e i k v s = (r, s') \<Longrightarrow> R (conn s) (conn s')"
  unfolding set_xattr_def
  by (erule keeps_transact_conn [rotated 2])
    (auto intro!: keeps_with_clock keeps_intros keeps_update_time xattr_replace refl)

lemma delete_xattr_R: "delete_xattr e i k s = (r, s') \<Longrightarrow> R (conn s) (conn s')"
  unfolding delete_xattr_def
  by (erule keeps_transact_conn [rotated 2])
    (auto intro!: keeps_with_clock keeps_intros keeps_update_time xattr_delete refl)

lemmas block_ops_R = get_data_R get_data_at_time_R write_data_R release_all_data_R
lemmas xattr_ops_R = set_xattr_R delete_xattr_R

end

end
