(* ===== verification/Mount.thy ===== *)
theory Mount
  imports Dentries Blocks
begin

text \<open>
  Opening a database (\<open>src/db_module/sqlite.rs\<close>): the constructors of \<open>Sqlite\<close>, among
  them the one that rewinds to a past time from the audit tables, and \<open>init\<close>, which
  creates what is missing and rebuilds the blocks.
\<close>

section \<open>Rewinding a table\<close>

text \<open>
  One CREATE TEMP TABLE pair of \<open>new_at_time\<close>: the audit rows before the time, grouped by
  the key, joined with the rows of the group at its greatest time, less the deletions.
  Times are compared as the texts they are.
\<close>

definition before :: "string \<Rightarrow> 'r audit list \<Rightarrow> 'r audit list" where
  "before T log = filter (\<lambda>a. au_time a < T) log"

definition group_latest :: "('r \<Rightarrow> 'k) \<Rightarrow> 'k \<Rightarrow> 'r audit list \<Rightarrow> 'r list" where
  "group_latest key k es =
     (let g = filter (\<lambda>a. key (au_row a) = k) es in
      map au_row (filter (\<lambda>a. au_time a = Max (au_time ` set g) \<and> au_op a \<noteq> TG_DELETE) g))"

definition rewound_rows :: "('r \<Rightarrow> 'k) \<Rightarrow> string \<Rightarrow> 'r audit list \<Rightarrow> 'r list" where
  "rewound_rows key T log =
     (let es = before T log in
      concat (map (\<lambda>k. group_latest key k es) (remdups (map (key \<circ> au_row) es))))"

definition rewound_tables :: "string \<Rightarrow> db \<Rightarrow> temp_tables" where
  "rewound_tables T d =
     \<lparr>tt_meta = rewound_rows m_id T (l_meta d),
      tt_dentry = rewound_rows dentry_full T (l_dentry d),
      tt_data = rewound_rows data_key T (l_data d),
      tt_xattr = rewound_rows xattr_key T (l_xattr d)\<rparr>"

section \<open>Constructors\<close>

text \<open>
  The database behind the path is an argument; \<open>c\<close> stands for the two extensions that
  \<open>load_extensions\<close> adds.
\<close>

definition sqlite_new :: "codec \<Rightarrow> db \<Rightarrow> sqlite" where
  "sqlite_new c d =
     \<lparr>conn = d, sq_read_only = False, sq_time_recording = True, sq_ext = Some c, sq_temp = None\<rparr>"

definition sqlite_new_no_time_recording :: "codec \<Rightarrow> db \<Rightarrow> sqlite" where
  "sqlite_new_no_time_recording c d =
     \<lparr>conn = d, sq_read_only = False, sq_time_recording = False, sq_ext = Some c, sq_temp = None\<rparr>"

definition sqlite_new_at_time :: "string \<Rightarrow> db \<Rightarrow> sqlite" where
  "sqlite_new_at_time T d =
     \<lparr>conn = d, sq_read_only = True, sq_time_recording = True, sq_ext = None,
      sq_temp = Some (rewound_tables T d)\<rparr>"

definition sqlite_new_read_only :: "db \<Rightarrow> sqlite" where
  "sqlite_new_read_only d =
     \<lparr>conn = d, sq_read_only = True, sq_time_recording = False, sq_ext = None, sq_temp = None\<rparr>"

definition sqlite_new_in_memory :: sqlite where
  "sqlite_new_in_memory =
     \<lparr>conn = empty_db, sq_read_only = False, sq_time_recording = True, sq_ext = None,
      sq_temp = None\<rparr>"

section \<open>init\<close>

text \<open>
  A file without the tables is the empty database.  The statements of \<open>init\<close> commit one by
  one, and the error of \<open>apply_diffs\<close> is dropped.
\<close>

definition root_attr :: "systime \<Rightarrow> db_file_attr" where
  "root_attr now =
     \<lparr>a_ino = 1, a_size = 0, a_blocks = 0, a_atime = now, a_mtime = now, a_ctime = now,
      a_crtime = now, a_kind = Directory, a_perm = 0x41FF, a_nlink = 0, a_uid = 0, a_gid = 0,
      a_rdev = 0, a_flags = 0\<rparr>"

definition root_entry :: "string \<Rightarrow> dentry" where
  "root_entry name = \<lparr>parent_ino = 1, child_ino = 1, filename = name, file_type = Directory\<rparr>"

definition init_inode :: "env \<Rightarrow> (db, unit) tx" where
  "init_inode e =
     tbind (tquery (\<lambda>d. Inr (length (filter (\<lambda>m. m_id m = 1) (t_meta d))))) (\<lambda>row_count.
     tbind (tquery (\<lambda>d. Inr (utc_now e d))) (\<lambda>now.
       twhen (row_count = 0) (tbind (add_inode_local e (root_attr now)) (\<lambda>_. tret ()))))"

definition init_entry :: "env \<Rightarrow> string \<Rightarrow> (db, unit) tx" where
  "init_entry e name =
     tbind (tquery (\<lambda>d. Inr (length (filter (\<lambda>r. d_parent r = 1 \<and> d_name r = name) (t_dentry d)))))
       (\<lambda>row_count. twhen (row_count = 0) (add_dentry e (root_entry name)))"

definition init :: "env \<Rightarrow> sqlite \<Rightarrow> (error_kind + unit) \<times> sqlite" where
  "init e s =
     (case transact (init_inode e) s of
        (Inl x, s1) \<Rightarrow> (Inl x, s1)
      | (Inr _, s1) \<Rightarrow>
          (case transact (init_entry e ''.'') s1 of
             (Inl x, s2) \<Rightarrow> (Inl x, s2)
           | (Inr _, s2) \<Rightarrow>
               (case transact (init_entry e ''..'') s2 of
                  (Inl x, s3) \<Rightarrow> (Inl x, s3)
                | (Inr _, s3) \<Rightarrow> (Inr (), s3\<lparr>conn := snd (apply_diffs (sq_ext s3) (conn s3))\<rparr>))))"

context guarded_store_relation
begin

lemma keeps_init: "keeps R (init_inode e)" "keeps R (init_entry e name)"
  by (auto simp: init_inode_def init_entry_def root_attr_def attr_times_def intro!: keeps_parts)

lemma apply_diffs_snd_R: "R d (snd (apply_diffs ext' d))"
  using apply_diffs_R [of ext' d "fst (apply_diffs ext' d)" "snd (apply_diffs ext' d)"] by simp

lemma transact_R: "keeps R m \<Longrightarrow> transact m s = (r, s') \<Longrightarrow> R (conn s) (conn s')"
  by (erule (1) keeps_transact_conn [OF _ refl])

lemma init_R:
  assumes "init e s = (r, s')"
  shows "R (conn s) (conn s')"
proof -
  obtain r1 s1 where 1: "transact (init_inode e) s = (r1, s1)" by fastforce
  obtain r2 s2 where 2: "transact (init_entry e ''.'') s1 = (r2, s2)" by fastforce
  obtain r3 s3 where 3: "transact (init_entry e ''..'') s2 = (r3, s3)" by fastforce
  note R1 = transact_R [OF keeps_init(1) 1]
  note R2 = trans [OF R1 transact_R [OF keeps_init(2) 2]]
  note R3 = trans [OF R2 transact_R [OF keeps_init(2) 3]]
  note R4 = trans [OF R3 apply_diffs_snd_R]
  from assms R1 R2 R3 R4 show ?thesis
    by (simp add: init_def 1 2 3 split: sum.splits)
      (auto split: sum.splits)
qed

end

end
