(* ===== verification/FsState.thy ===== *)
theory FsState
  imports Mount "HOL-Library.AList"
begin

unbundle bit_operations_syntax

text \<open>
  The filesystem object \<open>SqliteFs\<close> (\<open>src/filesystem.rs\<close>): its state, its constructors,
  the replies of the fuse crate, and the handlers for names and attributes.  A handler
  takes the state and returns its reply with the state after it.  Integers are those of
  the release profile: \<open>+\<close> and \<open>-\<close> wrap, \<open>as\<close> keeps the low bits.
\<close>

datatype errno =
    ENOENT | EPERM | EINVAL | EISDIR | ENOTDIR | ENOTEMPTY | EEXIST | ENAMETOOLONG
  | ENODATA | ERANGE | EIO | ENOSYS | EPROTO

text \<open>What the host says about its root filesystem, for statfs.\<close>

record statvfs =
  sv_blocks :: u64
  sv_blocks_free :: u64
  sv_blocks_available :: u64
  sv_files :: u64
  sv_files_free :: u64
  sv_block_size :: u64
  sv_name_max :: u64
  sv_fragment_size :: u64

text \<open>
  What a handler sends back through its reply object.  \<open>Reply_directory\<close> lists the entries
  added to the buffer: inode, offset of the next entry, type and name.
\<close>

datatype reply =
    Reply_none
  | Reply_ok
  | Reply_error errno
  | Reply_entry timespec file_attr u64
  | Reply_attr timespec file_attr
  | Reply_data bytes
  | Reply_opened u64 u32
  | Reply_written u32
  | Reply_created timespec file_attr u64 u64 u32
  | Reply_size u32
  | Reply_directory "(u64 \<times> u64 \<times> file_type \<times> string) list"
  | Reply_statfs statvfs

definition ONE_SEC :: timespec where
  "ONE_SEC = \<lparr>ts_sec = 1, ts_nsec = 0\<rparr>"

record open_file_stat =
  of_readonly :: bool
  of_append :: bool
  of_noatime :: bool

record open_file_handler =
  of_count :: u64
  of_list :: "u64 \<rightharpoonup> open_file_stat"

record open_dir_handler =
  od_count :: u64
  od_list :: "u64 \<rightharpoonup> dentry list"

text \<open>
  The lookup counts are an association list because \<open>destroy\<close> iterates over their keys.
\<close>

record fs =
  fs_db :: sqlite
  lookup_count :: "(u32 \<times> u32) list"
  open_files :: "u32 \<rightharpoonup> open_file_handler"
  open_dirs :: "u32 \<rightharpoonup> open_dir_handler"
  fs_read_only :: bool
  fs_rewind :: bool
  fs_time :: string

definition open_file_stat_new :: open_file_stat where
  "open_file_stat_new = \<lparr>of_readonly = False, of_append = False, of_noatime = False\<rparr>"

definition open_file_handler_new :: open_file_handler where
  "open_file_handler_new = \<lparr>of_count = 0, of_list = Map.empty\<rparr>"

definition open_dir_handler_new :: open_dir_handler where
  "open_dir_handler_new = \<lparr>od_count = 0, od_list = Map.empty\<rparr>"

section \<open>Constructors\<close>

definition fs_with :: "sqlite \<Rightarrow> bool \<Rightarrow> bool \<Rightarrow> string \<Rightarrow> fs" where
  "fs_with s ro rw t =
     \<lparr>fs_db = s, lookup_count = [], open_files = Map.empty, open_dirs = Map.empty,
      fs_read_only = ro, fs_rewind = rw, fs_time = t\<rparr>"

definition fs_new :: "env \<Rightarrow> codec \<Rightarrow> db \<Rightarrow> error_kind + fs" where
  "fs_new e c d =
     (case init e (sqlite_new c d) of
        (Inl x, s) \<Rightarrow> Inl x | (Inr _, s) \<Rightarrow> Inr (fs_with s False False ''''))"

definition fs_new_at_time :: "env \<Rightarrow> db \<Rightarrow> string \<Rightarrow> error_kind + fs" where
  "fs_new_at_time e d t =
     (case init e (sqlite_new_at_time t d) of
        (Inl x, s) \<Rightarrow> Inl x | (Inr _, s) \<Rightarrow> Inr (fs_with s True True t))"

definition fs_new_no_time_recording :: "env \<Rightarrow> codec \<Rightarrow> db \<Rightarrow> error_kind + fs" where
  "fs_new_no_time_recording e c d =
     (case init e (sqlite_new_no_time_recording c d) of
        (Inl x, s) \<Rightarrow> Inl x | (Inr _, s) \<Rightarrow> Inr (fs_with s False False ''''))"

definition fs_new_read_only :: "env \<Rightarrow> db \<Rightarrow> error_kind + fs" where
  "fs_new_read_only e d =
     (case init e (sqlite_new_read_only d) of
        (Inl x, s) \<Rightarrow> Inl x | (Inr _, s) \<Rightarrow> Inr (fs_with s True False ''''))"

definition fs_new_with_db :: "sqlite \<Rightarrow> fs" where
  "fs_new_with_db s = fs_with s False False ''''"

section \<open>Counting lookups\<close>

definition lookups :: "fs \<Rightarrow> u32 \<Rightarrow> u32 option" where
  "lookups f i = map_of (lookup_count f) i"

text \<open>\<open>*entry(ino).or_insert(0) += 1\<close>\<close>

definition count_lookup :: "u32 \<Rightarrow> fs \<Rightarrow> fs" where
  "count_lookup i f =
     f\<lparr>lookup_count := AList.update i
        ((case map_of (lookup_count f) i of None \<Rightarrow> 0 | Some n \<Rightarrow> n) + 1) (lookup_count f)\<rparr>"

lemma fs_db_count_lookup [simp]:
  "fs_db (count_lookup i f) = fs_db f" "fs_rewind (count_lookup i f) = fs_rewind f"
  "fs_read_only (count_lookup i f) = fs_read_only f"
  by (simp_all add: count_lookup_def)

text \<open>
  After an entry went away: the inode is deleted at once unless the kernel knows it.
\<close>

definition drop_inode :: "env \<Rightarrow> u32 \<Rightarrow> fs \<Rightarrow> (error_kind + unit) \<times> fs" where
  "drop_inode e i f =
     (if i \<notin> set (map fst (lookup_count f))
      then (case delete_inode_if_noref e i (fs_db f) of (r, s) \<Rightarrow> (r, f\<lparr>fs_db := s\<rparr>))
      else (Inr (), f))"

section \<open>Handlers: the life of a mount\<close>

definition fs_init :: "env \<Rightarrow> fs \<Rightarrow> reply \<times> fs" where
  "fs_init e f =
     (if \<not> fs_rewind f
      then (Reply_none, f\<lparr>fs_db := snd (delete_all_noref_inode e (fs_db f))\<rparr>)
      else (Reply_none, f))"

definition fs_destroy :: "env \<Rightarrow> fs \<Rightarrow> reply \<times> fs" where
  "fs_destroy e f =
     (if \<not> fs_read_only f
      then (Reply_none, f\<lparr>fs_db :=
              foldl (\<lambda>s key. snd (delete_inode_if_noref e key s)) (fs_db f)
                (map fst (lookup_count f))\<rparr>)
      else (Reply_none, f))"

section \<open>Handlers: lookup and attributes\<close>

definition fs_lookup :: "env \<Rightarrow> u64 \<Rightarrow> string \<Rightarrow> fs \<Rightarrow> reply \<times> fs" where
  "fs_lookup e parent name f =
     (let p = (ucast parent :: u32) in
      case (if \<not> fs_rewind f then lookup e p name (fs_db f)
            else lookup_at_time e p name (fs_db f)) of
        (Inr (Some v), s) \<Rightarrow>
          (Reply_entry ONE_SEC (get_file_attr v) 0, count_lookup (a_ino v) (f\<lparr>fs_db := s\<rparr>))
      | (Inr None, s) \<Rightarrow> (Reply_error ENOENT, f\<lparr>fs_db := s\<rparr>)
      | (Inl x, s) \<Rightarrow> (Reply_error ENOENT, f\<lparr>fs_db := s\<rparr>))"

definition fs_forget :: "env \<Rightarrow> u64 \<Rightarrow> u64 \<Rightarrow> fs \<Rightarrow> reply \<times> fs" where
  "fs_forget e i nlookup f =
     (if \<not> fs_read_only f
      then let i' = (ucast i :: u32);
               lc = (case map_of (lookup_count f) i' of None \<Rightarrow> 0 | Some n \<Rightarrow> n) - ucast nlookup in
        if lc = 0
        then (Reply_none, f\<lparr>lookup_count := AList.delete i' (lookup_count f),
                            fs_db := snd (delete_inode_if_noref e i' (fs_db f))\<rparr>)
        else (Reply_none, f\<lparr>lookup_count := AList.update i' lc (lookup_count f)\<rparr>)
      else (Reply_none, f))"

definition fs_getattr :: "u64 \<Rightarrow> fs \<Rightarrow> reply \<times> fs" where
  "fs_getattr i f =
     (case (if \<not> fs_rewind f then get_inode (ucast i) (fs_db f)
            else get_inode_at_time (ucast i) (fs_db f)) of
        Inr (Some v) \<Rightarrow> (Reply_attr ONE_SEC (get_file_attr v), f)
      | Inr None \<Rightarrow> (Reply_error ENOENT, f)
      | Inl x \<Rightarrow> (Reply_error ENOENT, f))"

text \<open>The times setattr was given; \<open>None\<close> of the outer option is the panic of a conversion.\<close>

definition opt_time :: "env \<Rightarrow> timespec option \<Rightarrow> systime \<Rightarrow> systime option" where
  "opt_time e t old = (case t of None \<Rightarrow> Some old | Some n \<Rightarrow> datetime_from (chrono_range e) n)"

definition setattr_fields ::
  "env \<Rightarrow> u32 option \<Rightarrow> u32 option \<Rightarrow> u32 option \<Rightarrow> u64 option \<Rightarrow> timespec option \<Rightarrow>
   timespec option \<Rightarrow> timespec option \<Rightarrow> u32 option \<Rightarrow> db_file_attr \<Rightarrow> db_file_attr option" where
  "setattr_fields e mode uid gid sz at mt crt fl attr =
     (case opt_time e at (a_atime attr) of None \<Rightarrow> None | Some at' \<Rightarrow>
      case opt_time e mt (a_mtime attr) of None \<Rightarrow> None | Some mt' \<Rightarrow>
      case opt_time e crt (a_crtime attr) of None \<Rightarrow> None | Some crt' \<Rightarrow>
        Some (attr\<lparr>a_perm := (case mode of Some n \<Rightarrow> ucast n | None \<Rightarrow> a_perm attr),
                   a_uid := (case uid of Some n \<Rightarrow> n | None \<Rightarrow> a_uid attr),
                   a_gid := (case gid of Some n \<Rightarrow> n | None \<Rightarrow> a_gid attr),
                   a_size := (case sz of Some n \<Rightarrow> ucast n | None \<Rightarrow> a_size attr),
                   a_atime := at', a_mtime := mt', a_crtime := crt',
                   a_flags := (case fl of Some n \<Rightarrow> n | None \<Rightarrow> a_flags attr)\<rparr>))"

definition fs_setattr ::
  "env \<Rightarrow> u64 \<Rightarrow> u32 option \<Rightarrow> u32 option \<Rightarrow> u32 option \<Rightarrow> u64 option \<Rightarrow> timespec option \<Rightarrow>
   timespec option \<Rightarrow> timespec option \<Rightarrow> u32 option \<Rightarrow> fs \<Rightarrow> (reply \<times> fs) option" where
  "fs_setattr e i mode uid gid sz at mt crt fl f =
     (if \<not> fs_read_only f then
        case get_inode (ucast i) (fs_db f) of
          Inl x \<Rightarrow> Some (Reply_error ENOENT, f)
        | Inr None \<Rightarrow> Some (Reply_error ENOENT, f)
        | Inr (Some old) \<Rightarrow>
            (case setattr_fields e mode uid gid sz at mt crt fl old of
               None \<Rightarrow> None
             | Some attr \<Rightarrow>
                 (case update_inode e attr (a_size attr < a_size old) (fs_db f) of
                    (Inl x, s) \<Rightarrow> Some (Reply_error ENOENT, f\<lparr>fs_db := s\<rparr>)
                  | (Inr u, s) \<Rightarrow> Some (Reply_attr ONE_SEC (get_file_attr attr), f\<lparr>fs_db := s\<rparr>)))
      else Some (Reply_error EPERM, f))"

definition fs_readlink :: "env \<Rightarrow> u64 \<Rightarrow> fs \<Rightarrow> reply \<times> fs" where
  "fs_readlink e i f =
     (let i' = (ucast i :: u32) in
      case (if \<not> fs_rewind f then get_inode i' (fs_db f) else get_inode_at_time i' (fs_db f)) of
        Inl x \<Rightarrow> (Reply_error ENOENT, f)
      | Inr None \<Rightarrow> (Reply_error ENOENT, f)
      | Inr (Some attr) \<Rightarrow>
          if a_kind attr \<noteq> Symlink then (Reply_error EINVAL, f)
          else
            (case (if \<not> fs_rewind f then get_data e i' 1 (a_size attr) (fs_db f)
                   else get_data_at_time e i' 1 (a_size attr) (fs_db f)) of
               (Inl x, s) \<Rightarrow> (Reply_error ENOENT, f\<lparr>fs_db := s\<rparr>)
             | (Inr data, s) \<Rightarrow>
                 (Reply_data (resize (unat (a_size attr)) data), f\<lparr>fs_db := s\<rparr>)))"

text \<open>statfs describes the root of the host; the call to the host is unwrapped.\<close>

definition fs_statfs :: "statvfs option \<Rightarrow> u64 \<Rightarrow> fs \<Rightarrow> (reply \<times> fs) option" where
  "fs_statfs host i f = (case host of None \<Rightarrow> None | Some st \<Rightarrow> Some (Reply_statfs st, f))"

end
