(* ===== verification/FsNames.thy ===== *)
theory FsNames
  imports FsState
begin

unbundle bit_operations_syntax

text \<open>
  The handlers that change the names of the filesystem (\<open>src/filesystem.rs\<close>): mkdir,
  create, symlink, link, unlink, rmdir and rename.  A name is the byte string after
  \<open>to_str().unwrap()\<close>; \<open>ruid\<close> and \<open>rgid\<close> are those of the request.
\<close>

definition S_ISGID :: u16 where "S_ISGID = 0x400"
definition S_ISVTX :: u16 where "S_ISVTX = 0x200"

definition new_attr :: "systime \<Rightarrow> file_type \<Rightarrow> u16 \<Rightarrow> u32 \<Rightarrow> u32 \<Rightarrow> db_file_attr" where
  "new_attr now k p ruid rgid =
     \<lparr>a_ino = 0, a_size = 0, a_blocks = 0, a_atime = now, a_mtime = now, a_ctime = now,
      a_crtime = now, a_kind = k, a_perm = p, a_nlink = 0, a_uid = ruid, a_gid = rgid,
      a_rdev = 0, a_flags = 0\<rparr>"

definition mkdir_attr :: "systime \<Rightarrow> u32 \<Rightarrow> u32 \<Rightarrow> u32 \<Rightarrow> db_file_attr \<Rightarrow> db_file_attr" where
  "mkdir_attr now mode ruid rgid parent_attr =
     (let attr = new_attr now Directory (ucast mode) ruid rgid;
          attr' = (if 0 < a_perm parent_attr AND S_ISGID
                   then attr\<lparr>a_perm := a_perm attr OR S_ISGID, a_gid := a_gid parent_attr\<rparr>
                   else attr) in
      if 0 < a_perm parent_attr AND S_ISVTX
      then attr'\<lparr>a_perm := a_perm attr' OR S_ISVTX\<rparr> else attr')"

definition fs_mkdir ::
  "env \<Rightarrow> u32 \<Rightarrow> u32 \<Rightarrow> u64 \<Rightarrow> string \<Rightarrow> u32 \<Rightarrow> fs \<Rightarrow> reply \<times> fs" where
  "fs_mkdir e ruid rgid parent name mode f =
     (if \<not> fs_read_only f then
        let now = utc_now e (conn (fs_db f)); p = (ucast parent :: u32) in
        case get_inode p (fs_db f) of
          Inl x \<Rightarrow> (Reply_error ENOENT, f)
        | Inr None \<Rightarrow> (Reply_error ENOENT, f)
        | Inr (Some parent_attr) \<Rightarrow>
            let attr = mkdir_attr now mode ruid rgid parent_attr in
            (case add_inode_and_dentry e p name attr (fs_db f) of
               (Inl x, s) \<Rightarrow> (Reply_error ENOENT, f\<lparr>fs_db := s\<rparr>)
             | (Inr i, s) \<Rightarrow>
                 (Reply_entry ONE_SEC (get_file_attr (attr\<lparr>a_ino := i\<rparr>)) 0,
                  count_lookup i (f\<lparr>fs_db := s\<rparr>)))
      else (Reply_error EPERM, f))"

definition fs_unlink :: "env \<Rightarrow> u64 \<Rightarrow> string \<Rightarrow> fs \<Rightarrow> reply \<times> fs" where
  "fs_unlink e parent name f =
     (if \<not> fs_read_only f then
        case delete_dentry e (ucast parent) name (fs_db f) of
          (Inl x, s) \<Rightarrow> (Reply_error ENOENT, f\<lparr>fs_db := s\<rparr>)
        | (Inr i, s) \<Rightarrow>
            (case drop_inode e i (f\<lparr>fs_db := s\<rparr>) of
               (Inl x, f') \<Rightarrow> (Reply_error ENOENT, f')
             | (Inr u, f') \<Rightarrow> (Reply_ok, f'))
      else (Reply_error EPERM, f))"

definition fs_rmdir :: "env \<Rightarrow> u64 \<Rightarrow> string \<Rightarrow> fs \<Rightarrow> reply \<times> fs" where
  "fs_rmdir e parent name f =
     (if \<not> fs_read_only f then
        let p = (ucast parent :: u32) in
        case lookup e p name (fs_db f) of
          (Inl x, s) \<Rightarrow> (Reply_error ENOENT, f\<lparr>fs_db := s\<rparr>)
        | (Inr None, s) \<Rightarrow> (Reply_error ENOENT, f\<lparr>fs_db := s\<rparr>)
        | (Inr (Some attr), s) \<Rightarrow>
            (case check_directory_is_empty (a_ino attr) s of
               Inl x \<Rightarrow> (Reply_error ENOENT, f\<lparr>fs_db := s\<rparr>)
             | Inr emp \<Rightarrow>
                 if \<not> emp then (Reply_error ENOTEMPTY, f\<lparr>fs_db := s\<rparr>)
                 else
                   (case delete_dentry e p name s of
                      (Inl x, s') \<Rightarrow> (Reply_error ENOENT, f\<lparr>fs_db := s'\<rparr>)
                    | (Inr i, s') \<Rightarrow>
                        (case drop_inode e i (f\<lparr>fs_db := s'\<rparr>) of
                           (Inl x, f') \<Rightarrow> (Reply_error ENOENT, f')
                         | (Inr u, f') \<Rightarrow> (Reply_ok, f'))))
      else (Reply_error EPERM, f))"

definition fs_symlink ::
  "env \<Rightarrow> u32 \<Rightarrow> u32 \<Rightarrow> u64 \<Rightarrow> string \<Rightarrow> bytes \<Rightarrow> fs \<Rightarrow> reply \<times> fs" where
  "fs_symlink e ruid rgid parent name data f =
     (if \<not> fs_read_only f then
        let now = utc_now e (conn (fs_db f)); attr = new_attr now Symlink 0x1FF ruid rgid in
        case add_inode_and_dentry e (ucast parent) name attr (fs_db f) of
          (Inl x, s) \<Rightarrow> (Reply_error ENOENT, f\<lparr>fs_db := s\<rparr>)
        | (Inr i, s) \<Rightarrow>
            if unat (get_db_block_size s) < length data then (Reply_error ENAMETOOLONG, f\<lparr>fs_db := s\<rparr>)
            else
              (case write_data e i 1 data (of_nat (length data)) s of
                 (Inl x, s') \<Rightarrow> (Reply_error ENOENT, f\<lparr>fs_db := s'\<rparr>)
               | (Inr u, s') \<Rightarrow>
                   (Reply_entry ONE_SEC (get_file_attr (attr\<lparr>a_ino := i\<rparr>)) 0,
                    count_lookup i (f\<lparr>fs_db := s'\<rparr>)))
      else (Reply_error EPERM, f))"

definition rename_errno :: "error_kind \<Rightarrow> errno" where
  "rename_errno x =
     (case x of FsNotEmpty \<Rightarrow> ENOTEMPTY | FsIsDir \<Rightarrow> EISDIR | FsIsNotDir \<Rightarrow> ENOTDIR | _ \<Rightarrow> ENOENT)"

definition fs_rename ::
  "env \<Rightarrow> u64 \<Rightarrow> string \<Rightarrow> u64 \<Rightarrow> string \<Rightarrow> fs \<Rightarrow> reply \<times> fs" where
  "fs_rename e parent name newparent newname f =
     (if \<not> fs_read_only f then
        case move_dentry e (ucast parent) name (ucast newparent) newname (fs_db f) of
          (Inl x, s) \<Rightarrow> (Reply_error (rename_errno x), f\<lparr>fs_db := s\<rparr>)
        | (Inr None, s) \<Rightarrow> (Reply_ok, f\<lparr>fs_db := s\<rparr>)
        | (Inr (Some i), s) \<Rightarrow>
            (case drop_inode e i (f\<lparr>fs_db := s\<rparr>) of
               (Inl x, f') \<Rightarrow> (Reply_error ENOENT, f')
             | (Inr u, f') \<Rightarrow> (Reply_ok, f'))
      else (Reply_error EPERM, f))"

definition link_errno :: "error_kind \<Rightarrow> errno" where
  "link_errno x = (case x of FsParm \<Rightarrow> EPERM | FsFileExist \<Rightarrow> EEXIST | _ \<Rightarrow> ENOENT)"

definition fs_link :: "env \<Rightarrow> u64 \<Rightarrow> u64 \<Rightarrow> string \<Rightarrow> fs \<Rightarrow> reply \<times> fs" where
  "fs_link e i newparent newname f =
     (if \<not> fs_read_only f then
        case link_dentry e (ucast i) (ucast newparent) newname (fs_db f) of
          (Inl x, s) \<Rightarrow> (Reply_error (link_errno x), f\<lparr>fs_db := s\<rparr>)
        | (Inr attr, s) \<Rightarrow>
            (Reply_entry ONE_SEC (get_file_attr attr) 0, count_lookup (ucast i) (f\<lparr>fs_db := s\<rparr>))
      else (Reply_error EPERM, f))"

definition fs_create ::
  "env \<Rightarrow> u32 \<Rightarrow> u32 \<Rightarrow> u64 \<Rightarrow> string \<Rightarrow> u32 \<Rightarrow> fs \<Rightarrow> reply \<times> fs" where
  "fs_create e ruid rgid parent name mode f =
     (if \<not> fs_read_only f then
        let p = (ucast parent :: u32) in
        case lookup e p name (fs_db f) of
          (Inl x, s) \<Rightarrow> (Reply_error ENOENT, f\<lparr>fs_db := s\<rparr>)
        | (Inr (Some attr), s) \<Rightarrow>
            (Reply_created ONE_SEC (get_file_attr attr) 0 0 0,
             count_lookup (a_ino attr) (f\<lparr>fs_db := s\<rparr>))
        | (Inr None, s) \<Rightarrow>
            (case get_inode p s of
               Inl x \<Rightarrow> (Reply_error ENOENT, f\<lparr>fs_db := s\<rparr>)
             | Inr None \<Rightarrow> (Reply_error ENOENT, f\<lparr>fs_db := s\<rparr>)
             | Inr (Some parent_attr) \<Rightarrow>
                 let now = utc_now e (conn s);
                     attr = new_attr now RegularFile (ucast mode) ruid
                       (if 0 < a_perm parent_attr AND S_ISGID then a_gid parent_attr else rgid) in
                 (case add_inode_and_dentry e p name attr s of
                    (Inl x, s') \<Rightarrow> (Reply_error ENOENT, f\<lparr>fs_db := s'\<rparr>)
                  | (Inr i, s') \<Rightarrow>
                      (Reply_created ONE_SEC (get_file_attr (attr\<lparr>a_ino := i\<rparr>)) 0 0 0,
                       count_lookup i (f\<lparr>fs_db := s'\<rparr>))))
      else (Reply_error EPERM, f))"

end
