(* ===== verification/FsData.thy ===== *)
theory FsData
  imports FsState
begin

text \<open>
  Reading and writing files (\<open>src/filesystem.rs\<close>): the loops of \<open>read\<close> and \<open>write\<close> over
  whole blocks.  The loops take the block operations of the database as arguments, since
  \<open>read\<close> chooses between the present and the rewound one.  \<open>None\<close> is a panic.
\<close>

type_synonym 's get_block = "u32 \<Rightarrow> 's \<Rightarrow> (error_kind + bytes) \<times> 's"
type_synonym 's put_block = "u32 \<Rightarrow> bytes \<Rightarrow> u32 \<Rightarrow> 's \<Rightarrow> (error_kind + unit) \<times> 's"

section \<open>The loop of read\<close>

definition read_end :: "u32 \<Rightarrow> u32 \<Rightarrow> u32" where
  "read_end b_offset sz =
     (if 1 \<le> (sz + b_offset) div BLOCK_SIZE then BLOCK_SIZE else sz + b_offset)"

definition pad_to :: "nat \<Rightarrow> bytes \<Rightarrow> bytes" where
  "pad_to n xs = (if length xs < n then resize n xs else xs)"

lemma read_end_progress:
  assumes "sz \<noteq> 0" and "unat (offset mod BLOCK_SIZE) \<le> unat (read_end (offset mod BLOCK_SIZE) sz)"
  defines "n \<equiv> read_end (offset mod BLOCK_SIZE) sz - offset mod BLOCK_SIZE"
  shows "unat n = unat (read_end (offset mod BLOCK_SIZE) sz) - unat (offset mod BLOCK_SIZE)"
    and "0 < unat n" and "unat n \<le> unat sz"
proof -
  let ?o = "offset mod BLOCK_SIZE"
  have o: "unat ?o < 4096" by (simp add: unat_mod)
  show n: "unat n = unat (read_end ?o sz) - unat ?o"
    using assms(2) unfolding n_def by (simp add: unat_sub word_le_nat_alt)
  have sz: "0 < unat sz" using assms(1) by (simp add: unat_gt_0)
  have ge: "1 \<le> (sz + ?o) div BLOCK_SIZE \<longleftrightarrow> 4096 \<le> unat (sz + ?o)"
    by (simp add: word_le_nat_alt unat_div div_greater_zero_iff Suc_le_eq)
  have "0 < unat n \<and> unat n \<le> unat sz"
    using n sz o assms(2) ge unat_u32_lt [of sz]
    by (auto simp: read_end_def unat_u32_add split: if_splits)
  then show "0 < unat n" "unat n \<le> unat sz" by auto
qed

function read_loop ::
  "'s get_block \<Rightarrow> u32 \<Rightarrow> u32 \<Rightarrow> bytes \<Rightarrow> 's \<Rightarrow> ((error_kind + bytes) \<times> 's) option" where
  "read_loop get offset sz data s =
     (if sz = 0 then Some (Inr data, s)
      else
        let b_num = offset div BLOCK_SIZE + 1; b_offset = offset mod BLOCK_SIZE;
            b_end = read_end b_offset sz in
        case get b_num s of
          (Inl x, s') \<Rightarrow> Some (Inl x, s')
        | (Inr block_data, s') \<Rightarrow>
            (case slice (pad_to (unat b_end) block_data) (unat b_offset) (unat b_end) of
               None \<Rightarrow> None
             | Some part \<Rightarrow>
                 read_loop get (offset + (b_end - b_offset)) (sz - (b_end - b_offset))
                   (data @ part) s'))"
  by pat_completeness auto
termination
proof (relation "measure (\<lambda>(get, offset, sz, data, s). unat sz)")
  fix get :: "'s get_block" and offset sz :: u32 and data part :: bytes and s s' :: 's
    and b_num b_offset b_end p r xs
  assume *: "sz \<noteq> 0" "b_offset = offset mod BLOCK_SIZE" "b_end = read_end b_offset sz"
    "slice (pad_to (unat b_end) xs) (unat b_offset) (unat b_end) = Some part"
  then have "unat b_offset \<le> unat b_end" by (simp add: slice_def split: if_splits)
  with * have "0 < unat (b_end - b_offset)" "unat (b_end - b_offset) \<le> unat sz"
    using read_end_progress [of sz offset] by auto
  then show "((get, offset + (b_end - b_offset), sz - (b_end - b_offset), data @ part, s'),
      get, offset, sz, data, s) \<in> measure (\<lambda>(get, offset, sz, data, s). unat sz)"
    by (simp add: unat_sub word_le_nat_alt)
qed simp

declare read_loop.simps [simp del]

lemma read_loop_0 [simp]: "read_loop get offset 0 data s = Some (Inr data, s)"
  by (simp add: read_loop.simps)

text \<open>A step of the loop takes at least one byte off what is left to read.\<close>

lemma read_step_decreases:
  assumes "sz \<noteq> 0"
    and "slice xs (unat (offset mod BLOCK_SIZE)) (unat (read_end (offset mod BLOCK_SIZE) sz)) = Some part"
  shows "unat (sz - (read_end (offset mod BLOCK_SIZE) sz - offset mod BLOCK_SIZE)) < unat sz"
proof -
  have le: "unat (offset mod BLOCK_SIZE) \<le> unat (read_end (offset mod BLOCK_SIZE) sz)"
    using assms(2) by (simp add: slice_def split: if_splits)
  from read_end_progress(2,3) [OF assms(1) le] show ?thesis
    by (simp add: unat_sub word_le_nat_alt)
qed

text \<open>What every access to a block keeps, the loop keeps.\<close>

lemma read_loop_keeps:
  assumes "\<And>t. Q t t" and "\<And>t u v. Q t u \<Longrightarrow> Q u v \<Longrightarrow> Q t v"
    and "\<And>b t r t'. get b t = (r, t') \<Longrightarrow> Q t t'"
  shows "read_loop get off sz data s = Some (r, s') \<Longrightarrow> Q s s'"
proof (induction "unat sz" arbitrary: off sz data s rule: less_induct)
  case less
  show ?case
  proof (cases "sz = 0")
    case False
    obtain x t where t: "get (off div BLOCK_SIZE + 1) s = (x, t)" by fastforce
    note st = assms(3) [OF t]
    have IH: "Q t s'" if "slice xs (unat (off mod BLOCK_SIZE))
        (unat (read_end (off mod BLOCK_SIZE) sz)) = Some part"
      "read_loop get off' (sz - (read_end (off mod BLOCK_SIZE) sz - off mod BLOCK_SIZE)) data' t =
        Some (r, s')" for xs part off' data'
      using less.hyps [OF read_step_decreases [OF False that(1)] that(2)] .
    from less.prems False t st show ?thesis
      by (subst (asm) read_loop.simps)
        (auto simp: Let_def split: sum.splits option.splits intro: assms(2) dest: IH)
  qed (use less.prems assms(1) in simp)
qed

definition fs_read :: "env \<Rightarrow> u64 \<Rightarrow> u64 \<Rightarrow> u32 \<Rightarrow> fs \<Rightarrow> (reply \<times> fs) option" where
  "fs_read e i offset sz f =
     (case read_loop
             (\<lambda>b. if \<not> fs_rewind f then get_data e (ucast i) b (get_db_block_size (fs_db f))
                  else get_data_at_time e (ucast i) b (get_db_block_size (fs_db f)))
             (ucast offset) sz [] (fs_db f) of
        None \<Rightarrow> None
      | Some (Inl x, s) \<Rightarrow> Some (Reply_error ENOENT, f\<lparr>fs_db := s\<rparr>)
      | Some (Inr data, s) \<Rightarrow> Some (Reply_data data, f\<lparr>fs_db := s\<rparr>))"

section \<open>The loop of write\<close>

definition start_block :: "u32 \<Rightarrow> u32" where
  "start_block offset = offset div BLOCK_SIZE + 1"

definition end_block :: "u32 \<Rightarrow> u32 \<Rightarrow> u32" where
  "end_block offset sz = (offset + sz - 1) div BLOCK_SIZE + 1"

definition b_start_index :: "u32 \<Rightarrow> u32 \<Rightarrow> u32" where
  "b_start_index offset i = (if i = start_block offset then offset mod BLOCK_SIZE else 0)"

definition b_end_index :: "u32 \<Rightarrow> u32 \<Rightarrow> u32 \<Rightarrow> u32" where
  "b_end_index offset sz i =
     (if i = end_block offset sz then (offset + sz - 1) mod BLOCK_SIZE + 1 else BLOCK_SIZE)"

definition data_offset :: "u32 \<Rightarrow> u32 \<Rightarrow> u32" where
  "data_offset offset i =
     (if start_block offset < i
      then (i - start_block offset - 1) * BLOCK_SIZE + BLOCK_SIZE - offset mod BLOCK_SIZE
      else 0)"

text \<open>The block written for one index, from the data and, for a partial block, the old one.\<close>

definition partial_block :: "bytes \<Rightarrow> bytes \<Rightarrow> u32 \<Rightarrow> u32 \<Rightarrow> u32 \<Rightarrow> bytes option" where
  "partial_block data pre0 doff bs be =
     (let data_pre = pad_to (unat BLOCK_SIZE) pre0 in
      case (if bs \<noteq> 0 then slice data_pre 0 (unat bs) else Some []) of None \<Rightarrow> None | Some xs \<Rightarrow>
      case slice data (unat doff) (unat (doff + be - bs)) of None \<Rightarrow> None | Some ys \<Rightarrow>
      case (if be \<noteq> BLOCK_SIZE then slice data_pre (unat be) (unat BLOCK_SIZE) else Some []) of
        None \<Rightarrow> None | Some zs \<Rightarrow> Some (xs @ ys @ zs))"

fun write_loop ::
  "'s get_block \<Rightarrow> 's put_block \<Rightarrow> u32 \<Rightarrow> u32 \<Rightarrow> bytes \<Rightarrow> u32 list \<Rightarrow> 's \<Rightarrow>
   ((error_kind + unit) \<times> 's) option" where
  "write_loop get put offset sz data [] s = Some (Inr (), s)"
| "write_loop get put offset sz data (i # is) s =
     (let bs = b_start_index offset i; be = b_end_index offset sz i; doff = data_offset offset i;
          step = (\<lambda>block s'. case block of None \<Rightarrow> None
            | Some block_data \<Rightarrow>
                (case put i block_data ((i - 1) * BLOCK_SIZE + be) s' of
                   (Inl x, s2) \<Rightarrow> Some (Inl x, s2)
                 | (Inr u, s2) \<Rightarrow> write_loop get put offset sz data is s2)) in
      if bs \<noteq> 0 \<or> be \<noteq> BLOCK_SIZE
      then (case get i s of
              (Inl x, s') \<Rightarrow> Some (Inl x, s')
            | (Inr pre0, s') \<Rightarrow> step (partial_block data pre0 doff bs be) s')
      else step (slice data (unat doff) (unat (doff + BLOCK_SIZE))) s)"

text \<open>
  The blocks the loop may write for an index.  What it keeps depends on what reading a block
  and writing one of these keep.
\<close>

definition may_write :: "u32 \<Rightarrow> u32 \<Rightarrow> bytes \<Rightarrow> u32 \<Rightarrow> bytes \<Rightarrow> bool" where
  "may_write offset sz data i x \<longleftrightarrow>
     (let bs = b_start_index offset i; be = b_end_index offset sz i; doff = data_offset offset i in
      if bs \<noteq> 0 \<or> be \<noteq> BLOCK_SIZE then \<exists>pre. partial_block data pre doff bs be = Some x
      else slice data (unat doff) (unat (doff + BLOCK_SIZE)) = Some x)"

lemma write_loop_keeps:
  assumes "\<And>t. Q t t" and "\<And>t u v. Q t u \<Longrightarrow> Q u v \<Longrightarrow> Q t v"
    and "\<And>b t r t'. get b t = (r, t') \<Longrightarrow> Q t t'"
    and "\<And>b x n t r t'. b \<in> set bs0 \<Longrightarrow> may_write off sz data b x \<Longrightarrow> put b x n t = (r, t') \<Longrightarrow> Q t t'"
  shows "set bs \<subseteq> set bs0 \<Longrightarrow> write_loop get put off sz data bs s = Some (r, s') \<Longrightarrow> Q s s'"
proof (induction bs arbitrary: s)
  case (Cons b bs)
  from Cons.prems have b: "b \<in> set bs0" and bs: "set bs \<subseteq> set bs0" by auto
  let ?bs = "b_start_index off b" and ?be = "b_end_index off sz b" and ?doff = "data_offset off b"
  let ?len = "(b - 1) * BLOCK_SIZE + ?be"
  have put: "Q t s'" if "may_write off sz data b x"
      and "(case put b x ?len t of (Inl err, s2) \<Rightarrow> Some (Inl err, s2)
            | (Inr u, s2) \<Rightarrow> write_loop get put off sz data bs s2) = Some (r, s')" for x t
  proof -
    obtain q t' where t': "put b x ?len t = (q, t')" by fastforce
    note st = assms(4) [OF b that(1) t']
    from that(2) t' st show ?thesis
      by (cases q) (auto dest: Cons.IH [OF bs] intro: assms(2))
  qed
  show ?case
  proof (cases "?bs \<noteq> 0 \<or> ?be \<noteq> BLOCK_SIZE")
    case True
    obtain q t where t: "get b s = (q, t)" by fastforce
    note st = assms(3) [OF t]
    show ?thesis
    proof (cases q)
      case (Inl err)
      with Cons.prems(2) True t st show ?thesis by (simp add: Let_def)
    next
      case (Inr pre0)
      with Cons.prems(2) True t obtain x where x: "partial_block data pre0 ?doff ?bs ?be = Some x"
        by (auto simp: Let_def split: option.splits)
      then have "may_write off sz data b x" using True by (auto simp: may_write_def Let_def)
      from put [OF this, of t] Cons.prems(2) True t x Inr have "Q t s'" by (simp add: Let_def)
      with st show ?thesis by (rule assms(2))
    qed
  next
    case False
    with Cons.prems(2) obtain x where x: "slice data (unat ?doff) (unat (?doff + BLOCK_SIZE)) = Some x"
      by (auto simp: Let_def split: option.splits)
    then have "may_write off sz data b x" using False by (simp add: may_write_def Let_def)
    from put [OF this, of s] Cons.prems(2) False x show ?thesis by (simp add: Let_def)
  qed
qed (simp add: assms(1))

definition block_range :: "u32 \<Rightarrow> u32 \<Rightarrow> u32 list" where
  "block_range a b = map of_nat [unat a..<Suc (unat b)]"

lemma unat_block_number: "unat (off div BLOCK_SIZE + 1) = unat off div 4096 + 1"
  using unat_u32_lt [of off] by (subst unat_u32_add_le) (simp_all add: BLOCK_SIZE_def unat_div)

text \<open>The blocks of one write have the numbers a file can have and the length of a block.\<close>

lemma block_range_bounds:
  assumes "i \<in> set (block_range (start_block off) (end_block off sz))"
  shows "i \<noteq> 0" and "unat i \<le> 1048576"
proof -
  obtain n where n: "i = of_nat n" "unat (start_block off) \<le> n" "n \<le> unat (end_block off sz)"
    using assms by (auto simp: block_range_def less_Suc_eq_le)
  have "1 \<le> n" "n \<le> 1048576"
    using n(2,3) unat_u32_lt [of "off + sz - 1"]
    by (simp_all add: start_block_def end_block_def unat_block_number)
  then have "unat i = n" using n(1) by (simp add: unat_u32_of_nat)
  with \<open>1 \<le> n\<close> \<open>n \<le> 1048576\<close> show "i \<noteq> 0" and "unat i \<le> 1048576" by auto
qed

lemma b_start_index_le: "unat (b_start_index off i) \<le> 4096"
  by (simp add: b_start_index_def BLOCK_SIZE_def unat_mod)

lemma b_end_index_le: "unat (b_end_index off sz i) \<le> 4096"
proof -
  have "unat ((off + sz - 1) mod BLOCK_SIZE + 1) = unat (off + sz - 1) mod 4096 + 1"
    by (subst unat_u32_add_le) (simp_all add: BLOCK_SIZE_def unat_mod)
  then show ?thesis by (simp add: b_end_index_def BLOCK_SIZE_def Suc_le_eq)
qed

lemma slice_middle_length:
  fixes doff be bs :: u32
  assumes "slice data (unat doff) (unat (doff + be - bs)) = Some ys" and "length data < 2147483648"
    and "unat be \<le> 4096" and "unat bs \<le> 4096"
  shows "unat bs \<le> unat be \<and> length ys \<le> unat be - unat bs"
proof -
  have le: "unat doff \<le> unat (doff + be - bs)" "unat (doff + be - bs) \<le> length data"
      "length ys = unat (doff + be - bs) - unat doff"
    using assms(1) by (auto simp: slice_def split: if_splits)
  have s: "unat (doff + be) = (unat doff + unat be) mod 4294967296"
    by (simp add: unat_word_ariths)
  have d: "unat doff < 2147483648" using le(1,2) assms(2) by simp
  then have s: "unat (doff + be) = unat doff + unat be"
    using assms(3) by (subst unat_u32_add_le) simp_all
  have "unat bs \<le> unat (doff + be)"
  proof (rule ccontr)
    assume n: "\<not> unat bs \<le> unat (doff + be)"
    then have "unat (doff + be - bs) = unat (doff + be) + 4294967296 - unat bs"
      by (simp add: unat_sub_if_size word_size)
    with le(2) assms(2,4) show False by simp
  qed
  then have "unat (doff + be - bs) = unat doff + unat be - unat bs"
    using s by (simp add: unat_u32_sub)
  with le(1,3) \<open>unat bs \<le> unat (doff + be)\<close> s show ?thesis by simp
qed

lemma three_parts:
  "(case A of None \<Rightarrow> None | Some xs \<Rightarrow> case B of None \<Rightarrow> None | Some ys \<Rightarrow>
     case C of None \<Rightarrow> None | Some zs \<Rightarrow> Some (xs @ ys @ zs)) = Some x \<Longrightarrow>
   \<exists>xs ys zs. A = Some xs \<and> B = Some ys \<and> C = Some zs \<and> x = xs @ ys @ zs"
  by (auto split: option.splits)

lemma partial_blockD:
  assumes "partial_block data pre0 doff bs be = Some x"
  obtains pre xs ys zs where "x = xs @ ys @ zs"
    and "slice data (unat doff) (unat (doff + be - bs)) = Some ys"
    and "(if bs \<noteq> 0 then slice pre 0 (unat bs) else Some []) = Some xs"
    and "(if be \<noteq> BLOCK_SIZE then slice pre (unat be) (unat BLOCK_SIZE) else Some []) = Some zs"
  using three_parts [OF assms [unfolded partial_block_def Let_def]] by (elim exE conjE) (rule that)

lemma may_write_small:
  assumes "may_write off sz data i x" and "length data < 2147483648"
  shows "length x \<le> 4096"
proof (cases "b_start_index off i \<noteq> 0 \<or> b_end_index off sz i \<noteq> BLOCK_SIZE")
  case True
  let ?bs = "b_start_index off i" and ?be = "b_end_index off sz i" and ?doff = "data_offset off i"
  obtain pre xs ys zs where x: "x = xs @ ys @ zs"
      "slice data (unat ?doff) (unat (?doff + ?be - ?bs)) = Some ys"
      "(if ?bs \<noteq> 0 then slice pre 0 (unat ?bs) else Some []) = Some xs"
      "(if ?be \<noteq> BLOCK_SIZE then slice pre (unat ?be) (unat BLOCK_SIZE) else Some []) = Some zs"
    using assms(1) unfolding may_write_def Let_def if_P [OF True] by (elim exE partial_blockD) (rule that)
  note m = slice_middle_length [OF x(2) assms(2) b_end_index_le b_start_index_le]
  have "length xs \<le> unat ?bs"
    using x(3) slice_length [of pre 0 "unat ?bs" xs] by (cases "?bs = 0") simp_all
  moreover have "length zs \<le> 4096 - unat ?be"
    using x(4) slice_length [of pre "unat ?be" "unat BLOCK_SIZE" zs]
    by (cases "?be = BLOCK_SIZE") (simp_all add: BLOCK_SIZE_def)
  ultimately show ?thesis
    using conjunct1 [OF m] conjunct2 [OF m] x(1) b_end_index_le [of off sz i] by (simp; linarith)
next
  case False
  let ?doff = "data_offset off i"
  have "length x = unat (?doff + BLOCK_SIZE) - unat ?doff"
    using assms(1) False slice_length by (auto simp: may_write_def Let_def)
  also have "unat (?doff + BLOCK_SIZE) \<le> unat ?doff + 4096"
    unfolding unat_u32_add by (simp add: BLOCK_SIZE_def; arith)
  finally show ?thesis by simp
qed

definition fs_write :: "env \<Rightarrow> u64 \<Rightarrow> u64 \<Rightarrow> bytes \<Rightarrow> fs \<Rightarrow> (reply \<times> fs) option" where
  "fs_write e i offset data f =
     (if \<not> fs_read_only f then
        let i' = (ucast i :: u32); sz = (of_nat (length data) :: u32); off = (ucast offset :: u32) in
        case write_loop (\<lambda>b. get_data e i' b (get_db_block_size (fs_db f))) (write_data e i')
               off sz data (block_range (start_block off) (end_block off sz)) (fs_db f) of
          None \<Rightarrow> None
        | Some (Inl x, s) \<Rightarrow> Some (Reply_error ENOENT, f\<lparr>fs_db := s\<rparr>)
        | Some (Inr u, s) \<Rightarrow> Some (Reply_written sz, f\<lparr>fs_db := s\<rparr>)
      else Some (Reply_error EPERM, f))"

end
