(* ===== verification/FsHandles.thy ===== *)
theory FsHandles
  imports FsState
begin

unbundle bit_operations_syntax

text \<open>
  The handlers for open files and directories and for extended attributes
  (\<open>src/filesystem.rs\<close>), with the buffer of the fuse crate's directory reply
  (\<open>fuse/patches/reply.rs\<close>).  The flag constants are those of Linux.
\<close>

section \<open>Open files\<close>

definition O_RDONLY :: u32 where "O_RDONLY = 0"
definition O_WRONLY :: u32 where "O_WRONLY = 1"
definition O_RDWR :: u32 where "O_RDWR = 2"
definition O_CREAT :: u32 where "O_CREAT = 0x40"
definition O_APPEND :: u32 where "O_APPEND = 0x400"
definition O_NOATIME :: u32 where "O_NOATIME = 0x40000"

lemmas open_flag_defs =
  O_RDONLY_def O_WRONLY_def O_RDWR_def O_CREAT_def O_APPEND_def O_NOATIME_def

definition open_stat :: "u32 \<Rightarrow> open_file_stat" where
  "open_stat fl =
     (let stat = open_file_stat_new;
          stat1 = (if 0 < fl AND O_APPEND then stat\<lparr>of_append := True\<rparr> else stat);
          stat2 = (if 0 < fl AND O_RDONLY then stat1\<lparr>of_readonly := True\<rparr> else stat1) in
      if 0 < fl AND O_NOATIME then stat2\<lparr>of_noatime := True\<rparr> else stat2)"

definition file_handler :: "u32 \<Rightarrow> fs \<Rightarrow> open_file_handler" where
  "file_handler i f = (case open_files f i of Some h \<Rightarrow> h | None \<Rightarrow> open_file_handler_new)"

definition fs_open :: "u64 \<Rightarrow> u32 \<Rightarrow> fs \<Rightarrow> reply \<times> fs" where
  "fs_open i fl f =
     (let i' = (ucast i :: u32); stat = open_stat fl in
      if fs_read_only f
        \<and> (0 < fl AND O_RDWR \<or> 0 < fl AND O_WRONLY \<or> 0 < fl AND O_APPEND \<or> 0 < fl AND O_CREAT)
      then (Reply_error EPERM, f)
      else
        let h = file_handler i' f; fh = of_count h in
        (Reply_opened fh 0,
         f\<lparr>open_files := (open_files f)
             (i' \<mapsto> h\<lparr>of_list := (of_list h)(fh \<mapsto> stat), of_count := fh + 1\<rparr>)\<rparr>))"

definition fs_release :: "u64 \<Rightarrow> u64 \<Rightarrow> fs \<Rightarrow> reply \<times> fs" where
  "fs_release i fh f =
     (let i' = (ucast i :: u32); h = file_handler i' f;
          h' = h\<lparr>of_list := (of_list h)(fh := None)\<rparr> in
      (Reply_ok, f\<lparr>open_files :=
         (if of_count h' = 0 then (open_files f)(i' := None) else (open_files f)(i' \<mapsto> h'))\<rparr>))"

section \<open>Open directories\<close>

definition dir_handler :: "u32 \<Rightarrow> fs \<Rightarrow> open_dir_handler" where
  "dir_handler i f = (case open_dirs f i of Some h \<Rightarrow> h | None \<Rightarrow> open_dir_handler_new)"

definition fs_opendir :: "u64 \<Rightarrow> fs \<Rightarrow> reply \<times> fs" where
  "fs_opendir i f =
     (let i' = (ucast i :: u32) in
      case (if \<not> fs_rewind f then get_dentry i' (fs_db f) else get_dentry_at_time i' (fs_db f)) of
        Inl x \<Rightarrow> (Reply_error ENOENT, f)
      | Inr dentries \<Rightarrow>
          let h = dir_handler i' f; fh = od_count h in
          (Reply_opened fh 0,
           f\<lparr>open_dirs := (open_dirs f)
               (i' \<mapsto> h\<lparr>od_list := (od_list h)(fh \<mapsto> dentries), od_count := fh + 1\<rparr>)\<rparr>))"

definition fs_releasedir :: "u64 \<Rightarrow> u64 \<Rightarrow> fs \<Rightarrow> reply \<times> fs" where
  "fs_releasedir i fh f =
     (let i' = (ucast i :: u32); h = dir_handler i' f;
          h' = h\<lparr>od_list := (od_list h)(fh := None)\<rparr> in
      (Reply_ok, f\<lparr>open_dirs :=
         (if od_count h' = 0 then (open_dirs f)(i' := None) else (open_dirs f)(i' \<mapsto> h'))\<rparr>))"

text \<open>
  \<open>ReplyDirectory::add\<close>: the size of an entry in the buffer is that of its header and
  name, rounded up to 8 bytes; an entry that does not fit is not added.
\<close>

definition entsize :: "string \<Rightarrow> nat" where
  "entsize name = (24 + length name + 7) div 8 * 8"

text \<open>The loop over the entries from the offset on; \<open>used\<close> bytes of the buffer are taken.\<close>

fun add_entries ::
  "nat \<Rightarrow> nat \<Rightarrow> (nat \<times> dentry) list \<Rightarrow> (u64 \<times> u64 \<times> file_type \<times> string) list" where
  "add_entries cap used [] = []"
| "add_entries cap used ((i, entry) # rest) =
     (if cap < used + entsize (filename entry) then []
      else (ucast (child_ino entry), of_nat (i + 1), file_type entry, filename entry)
           # add_entries cap (used + entsize (filename entry)) rest)"

definition fs_readdir :: "nat \<Rightarrow> u64 \<Rightarrow> u64 \<Rightarrow> u64 \<Rightarrow> fs \<Rightarrow> reply \<times> fs" where
  "fs_readdir cap i fh offset f =
     (case (case open_dirs f (ucast i) of Some h \<Rightarrow> od_list h fh | None \<Rightarrow> None) of
        None \<Rightarrow> (Reply_error ENOENT, f)
      | Some db_entries \<Rightarrow>
          (Reply_directory (add_entries cap 0 (drop (unat offset) (enumerate 0 db_entries))), f))"

section \<open>Extended attributes\<close>

definition XATTR_CREATE :: u32 where "XATTR_CREATE = 1"
definition XATTR_REPLACE :: u32 where "XATTR_REPLACE = 2"

definition fs_setxattr :: "env \<Rightarrow> u64 \<Rightarrow> string \<Rightarrow> bytes \<Rightarrow> u32 \<Rightarrow> fs \<Rightarrow> reply \<times> fs" where
  "fs_setxattr e i name value fl f =
     (if \<not> fs_read_only f then
        let i' = (ucast i :: u32);
            put = (case set_xattr e i' name value (fs_db f) of
                     (Inl x, s) \<Rightarrow> (Reply_error ENOENT, f\<lparr>fs_db := s\<rparr>)
                   | (Inr u, s) \<Rightarrow> (Reply_ok, f\<lparr>fs_db := s\<rparr>)) in
        if 0 < fl AND XATTR_CREATE \<or> 0 < fl AND XATTR_REPLACE
        then (case get_xattr i' name (fs_db f) of
                Inr v \<Rightarrow> if 0 < fl AND XATTR_CREATE then (Reply_error EEXIST, f) else put
              | Inl x \<Rightarrow>
                  if x = FsNoEnt
                  then (if 0 < fl AND XATTR_REPLACE then (Reply_error ENODATA, f) else put)
                  else (Reply_error ENOENT, f))
        else put
      else (Reply_error EPERM, f))"

text \<open>The reply to a request for \<open>sz\<close> bytes of a value; \<open>as u32\<close> keeps the low bits.\<close>

definition sized_reply :: "u32 \<Rightarrow> bytes \<Rightarrow> reply" where
  "sized_reply sz value =
     (if sz = 0 then Reply_size (of_nat (length value))
      else if sz < of_nat (length value) then Reply_error ERANGE
      else Reply_data value)"

definition fs_getxattr :: "u64 \<Rightarrow> string \<Rightarrow> u32 \<Rightarrow> fs \<Rightarrow> reply \<times> fs" where
  "fs_getxattr i name sz f =
     (case (if \<not> fs_rewind f then get_xattr (ucast i) name (fs_db f)
            else get_xattr_at_time (ucast i) name (fs_db f)) of
        Inl x \<Rightarrow> (Reply_error ENODATA, f)
      | Inr value \<Rightarrow> (sized_reply sz value, f))"

text \<open>A name as its bytes.\<close>

definition name_bytes :: "string \<Rightarrow> bytes" where
  "name_bytes name = map of_char name"

fun xattr_list :: "string list \<Rightarrow> bytes" where
  "xattr_list [] = []"
| "xattr_list (v # names) = name_bytes v @ [0] @ xattr_list names"

definition fs_listxattr :: "u64 \<Rightarrow> u32 \<Rightarrow> fs \<Rightarrow> reply \<times> fs" where
  "fs_listxattr i sz f =
     (case (if \<not> fs_rewind f then list_xattr (ucast i) (fs_db f)
            else list_xattr_at_time (ucast i) (fs_db f)) of
        Inl x \<Rightarrow> (Reply_error ENODATA, f)
      | Inr names \<Rightarrow> (sized_reply sz (xattr_list names), f))"

definition fs_removexattr :: "env \<Rightarrow> u64 \<Rightarrow> string \<Rightarrow> fs \<Rightarrow> reply \<times> fs" where
  "fs_removexattr e i name f =
     (if \<not> fs_read_only f then
        case delete_xattr e (ucast i) name (fs_db f) of
          (Inl x, s) \<Rightarrow> (Reply_error ENOENT, f\<lparr>fs_db := s\<rparr>)
        | (Inr u, s) \<Rightarrow> (Reply_ok, f\<lparr>fs_db := s\<rparr>)
      else (Reply_error EPERM, f))"

end
