(* ===== verification/Requests.thy ===== *)
theory Requests
  imports FsNames FsData FsHandles
begin

text \<open>
  The filesystem as a state machine: the requests the fuse crate dispatches to the methods
  of \<open>SqliteFs\<close>, one after the other, and the states they lead to.  A relation that every
  SQL statement keeps is kept by every request.
\<close>

section \<open>Requests\<close>

datatype request =
    Init
  | Destroy
  | Lookup u64 string
  | Forget u64 u64
  | Getattr u64
  | Setattr u64 "u32 option" "u32 option" "u32 option" "u64 option" "timespec option"
      "timespec option" "timespec option" "u32 option"
  | Readlink u64
  | Mkdir u64 string u32
  | Unlink u64 string
  | Rmdir u64 string
  | MkSymlink u64 string bytes
  | Rename u64 string u64 string
  | Link u64 u64 string
  | Open u64 u32
  | Read u64 u64 u32
  | Write u64 u64 bytes
  | Release u64 u64
  | Opendir u64
  | Readdir nat u64 u64 u64
  | Releasedir u64 u64
  | Setxattr u64 string bytes u32
  | Getxattr u64 string u32
  | Listxattr u64 u32
  | Removexattr u64 string
  | Create u64 string u32
  | Statfs u64 "statvfs option"

fun handle :: "env \<Rightarrow> u32 \<Rightarrow> u32 \<Rightarrow> request \<Rightarrow> fs \<Rightarrow> (reply \<times> fs) option" where
  "handle e ruid rgid Init f = Some (fs_init e f)"
| "handle e ruid rgid Destroy f = Some (fs_destroy e f)"
| "handle e ruid rgid (Lookup p n) f = Some (fs_lookup e p n f)"
| "handle e ruid rgid (Forget i n) f = Some (fs_forget e i n f)"
| "handle e ruid rgid (Getattr i) f = Some (fs_getattr i f)"
| "handle e ruid rgid (Setattr i mode uid gid sz at mt crt fl) f =
     fs_setattr e i mode uid gid sz at mt crt fl f"
| "handle e ruid rgid (Readlink i) f = Some (fs_readlink e i f)"
| "handle e ruid rgid (Mkdir p n mode) f = Some (fs_mkdir e ruid rgid p n mode f)"
| "handle e ruid rgid (Unlink p n) f = Some (fs_unlink e p n f)"
| "handle e ruid rgid (Rmdir p n) f = Some (fs_rmdir e p n f)"
| "handle e ruid rgid (MkSymlink p n data) f = Some (fs_symlink e ruid rgid p n data f)"
| "handle e ruid rgid (Rename p n np nn) f = Some (fs_rename e p n np nn f)"
| "handle e ruid rgid (Link i p n) f = Some (fs_link e i p n f)"
| "handle e ruid rgid (Open i fl) f = Some (fs_open i fl f)"
| "handle e ruid rgid (Read i off sz) f = fs_read e i off sz f"
| "handle e ruid rgid (Write i off data) f = fs_write e i off data f"
| "handle e ruid rgid (Release i fh) f = Some (fs_release i fh f)"
| "handle e ruid rgid (Opendir i) f = Some (fs_opendir i f)"
| "handle e ruid rgid (Readdir cap i fh off) f = Some (fs_readdir cap i fh off f)"
| "handle e ruid rgid (Releasedir i fh) f = Some (fs_releasedir i fh f)"
| "handle e ruid rgid (Setxattr i n v fl) f = Some (fs_setxattr e i n v fl f)"
| "handle e ruid rgid (Getxattr i n sz) f = Some (fs_getxattr i n sz f)"
| "handle e ruid rgid (Listxattr i sz) f = Some (fs_listxattr i sz f)"
| "handle e ruid rgid (Removexattr i n) f = Some (fs_removexattr e i n f)"
| "handle e ruid rgid (Create p n mode) f = Some (fs_create e ruid rgid p n mode f)"
| "handle e ruid rgid (Statfs i host) f = fs_statfs host i f"

fun_cases handle_SomeE: "handle e ruid rgid q f = Some p"

text \<open>A request that panics kills the process and has no successor state.\<close>

inductive fs_step :: "env \<Rightarrow> fs \<Rightarrow> fs \<Rightarrow> bool" for e :: env where
  request: "handle e ruid rgid q f = Some (r, f') \<Longrightarrow> fs_step e f f'"

inductive reachable :: "env \<Rightarrow> fs \<Rightarrow> fs \<Rightarrow> bool" for e :: env and f0 :: fs where
  start: "reachable e f0 f0"
| step: "reachable e f0 f \<Longrightarrow> fs_step e f f' \<Longrightarrow> reachable e f0 f'"

lemma fs_step_snd: "handle e ruid rgid q f = Some p \<Longrightarrow> fs_step e f (snd p)"
  by (cases p) (auto intro: fs_step.request)

inductive_cases fs_stepE: "fs_step e f f'"
inductive_simps reachable_simps: "reachable e f0 f"

section \<open>Operations leave the connection's other fields alone\<close>

lemma flatten_same: "flatten (transact m s) = (r, s') \<Longrightarrow> same_handle s s'"
  by (auto dest!: flatten_pair transact_same_handle)

lemma ops_same_handle:
  "update_inode e attr tr s = (ru, s') \<Longrightarrow> same_handle s s'"
  "delete_inode_if_noref e i s = (ru, s') \<Longrightarrow> same_handle s s'"
  "delete_all_noref_inode e s = (ru, s') \<Longrightarrow> same_handle s s'"
  "add_inode_and_dentry e p n attr s = (rw, s') \<Longrightarrow> same_handle s s'"
  "link_dentry e i p n s = (ra, s') \<Longrightarrow> same_handle s s'"
  "delete_dentry e p n s = (rw, s') \<Longrightarrow> same_handle s s'"
  "move_dentry e p n np nn s = (ro, s') \<Longrightarrow> same_handle s s'"
  "lookup e p n s = (rl, s') \<Longrightarrow> same_handle s s'"
  "lookup_at_time e p n s = (rl, s') \<Longrightarrow> same_handle s s'"
  "get_data e i b k s = (rb, s') \<Longrightarrow> same_handle s s'"
  "get_data_at_time e i b k s = (rb, s') \<Longrightarrow> same_handle s s'"
  "write_data e i b data k s = (ru, s') \<Longrightarrow> same_handle s s'"
  "set_xattr e i n v s = (ru, s') \<Longrightarrow> same_handle s s'"
  "delete_xattr e i n s = (ru, s') \<Longrightarrow> same_handle s s'"
  by (auto simp: update_inode_def delete_inode_if_noref_def delete_all_noref_inode_def
      add_inode_and_dentry_def link_dentry_def delete_dentry_def move_dentry_def lookup_def
      lookup_at_time_def get_data_def get_data_at_time_def write_data_def set_xattr_def
      delete_xattr_def Let_def transact_same_handle flatten_same split: option.splits)

text \<open>
  The relation of two connections: the same fields, and databases related by \<open>R\<close> when the
  extensions are those \<open>R\<close> knows.
\<close>

definition conn_rel :: "(db \<Rightarrow> db \<Rightarrow> bool) \<Rightarrow> codec option \<Rightarrow> sqlite \<Rightarrow> sqlite \<Rightarrow> bool" where
  "conn_rel R ext s s' \<longleftrightarrow> same_handle s s' \<and> (sq_ext s = ext \<longrightarrow> R (conn s) (conn s'))"

text \<open>The times a setattr request would store are good.\<close>

definition good_times :: "(systime \<Rightarrow> bool) \<Rightarrow> env \<Rightarrow> request \<Rightarrow> fs \<Rightarrow> bool" where
  "good_times good e q f =
     (case q of
        Setattr i mode uid gid sz at mt crt fl \<Rightarrow>
          (case get_inode (ucast i) (fs_db f) of
             Inr (Some old) \<Rightarrow>
               (case setattr_fields e mode uid gid sz at mt crt fl old of
                  Some attr \<Rightarrow> attr_times good attr
                | None \<Rightarrow> True)
           | _ \<Rightarrow> True)
      | _ \<Rightarrow> True)"

lemma good_times_True [simp]: "good_times (\<lambda>_. True) e q f"
  by (simp add: good_times_def split: request.split sum.split option.split)

context guarded_store_relation
begin

lemma clock_attr_times [simp]:
  "attr_times good (new_attr (utc_now e d) k m ruid rgid)"
  "attr_times good (mkdir_attr (utc_now e d) mode ruid rgid pa)"
  by (simp_all add: new_attr_def mkdir_attr_def attr_times_def good_clock Let_def)

lemma hr_refl: "conn_rel R ext s s"
  by (simp add: conn_rel_def refl)

lemma hr_trans: "conn_rel R ext s t \<Longrightarrow> conn_rel R ext t u \<Longrightarrow> conn_rel R ext s u"
  by (auto simp: conn_rel_def intro: trans same_handle_trans) (simp add: same_handle_def trans)

lemma hr_ops:
  "update_inode e attr tr s = (ru, s') \<Longrightarrow> attr_times good attr \<Longrightarrow> conn_rel R ext s s'"
  "delete_inode_if_noref e i s = (ru, s') \<Longrightarrow> conn_rel R ext s s'"
  "delete_all_noref_inode e s = (ru, s') \<Longrightarrow> conn_rel R ext s s'"
  "add_inode_and_dentry e p n attr s = (rw, s') \<Longrightarrow> attr_times good attr \<Longrightarrow> conn_rel R ext s s'"
  "link_dentry e i p n s = (ra, s') \<Longrightarrow> conn_rel R ext s s'"
  "delete_dentry e p n s = (rw, s') \<Longrightarrow> conn_rel R ext s s'"
  "move_dentry e p n np nn s = (ro, s') \<Longrightarrow> conn_rel R ext s s'"
  "lookup e p n s = (rl, s') \<Longrightarrow> conn_rel R ext s s'"
  "lookup_at_time e p n s = (rl, s') \<Longrightarrow> conn_rel R ext s s'"
  "get_data e i b k s = (rb, s') \<Longrightarrow> conn_rel R ext s s'"
  "get_data_at_time e i b k s = (rb, s') \<Longrightarrow> conn_rel R ext s s'"
  "write_data e i b data k s = (ru, s') \<Longrightarrow> legal \<lparr>b_file = i, b_num = b, b_data = data\<rparr> \<Longrightarrow>
     conn_rel R ext s s'"
  "set_xattr e i n v s = (ru, s') \<Longrightarrow> conn_rel R ext s s'"
  "delete_xattr e i n s = (ru, s') \<Longrightarrow> conn_rel R ext s s'"
  unfolding conn_rel_def
  by (rule conjI, erule ops_same_handle, rule impI,
      erule inode_ops_R dentry_ops_R block_ops_R xattr_ops_R, assumption?, assumption?)+

lemma hr_drop_inode: "drop_inode e i f = (r, f') \<Longrightarrow> conn_rel R ext (fs_db f) (fs_db f')"
  by (auto simp: drop_inode_def hr_refl split: if_splits prod.splits dest: hr_ops)

lemma hr_destroy:
  "conn_rel R ext s (foldl (\<lambda>s key. snd (delete_inode_if_noref e key s)) s keys)"
proof (induction keys arbitrary: s)
  case (Cons key keys)
  have "conn_rel R ext s (snd (delete_inode_if_noref e key s))"
    by (rule hr_ops(2)) (rule prod.collapse [symmetric])
  with Cons show ?case by (auto intro: hr_trans)
qed (simp add: hr_refl)

lemma hr_simple_handlers:
  "fs_getattr i f = (r, f') \<Longrightarrow> conn_rel R ext (fs_db f) (fs_db f')"
  "fs_open i fl f = (r, f') \<Longrightarrow> conn_rel R ext (fs_db f) (fs_db f')"
  "fs_release i fh f = (r, f') \<Longrightarrow> conn_rel R ext (fs_db f) (fs_db f')"
  "fs_opendir i f = (r, f') \<Longrightarrow> conn_rel R ext (fs_db f) (fs_db f')"
  "fs_readdir cap i fh off f = (r, f') \<Longrightarrow> conn_rel R ext (fs_db f) (fs_db f')"
  "fs_releasedir i fh f = (r, f') \<Longrightarrow> conn_rel R ext (fs_db f) (fs_db f')"
  "fs_getxattr i n sz f = (r, f') \<Longrightarrow> conn_rel R ext (fs_db f) (fs_db f')"
  "fs_listxattr i sz f = (r, f') \<Longrightarrow> conn_rel R ext (fs_db f) (fs_db f')"
  by (auto simp: fs_getattr_def fs_open_def fs_release_def fs_opendir_def fs_readdir_def
      fs_releasedir_def fs_getxattr_def fs_listxattr_def Let_def hr_refl
      split: if_splits option.splits sum.splits)

lemma hr_single_op_handlers:
  "fs_init e f = (r, f') \<Longrightarrow> conn_rel R ext (fs_db f) (fs_db f')"
  "fs_lookup e p n f = (r, f') \<Longrightarrow> conn_rel R ext (fs_db f) (fs_db f')"
  "fs_forget e i k f = (r, f') \<Longrightarrow> conn_rel R ext (fs_db f) (fs_db f')"
  "fs_readlink e i f = (r, f') \<Longrightarrow> conn_rel R ext (fs_db f) (fs_db f')"
  "fs_mkdir e ruid rgid p n mode f = (r, f') \<Longrightarrow> conn_rel R ext (fs_db f) (fs_db f')"
  "fs_link e i p n f = (r, f') \<Longrightarrow> conn_rel R ext (fs_db f) (fs_db f')"
  "fs_setxattr e i n v fl f = (r, f') \<Longrightarrow> conn_rel R ext (fs_db f) (fs_db f')"
  "fs_removexattr e i n f = (r, f') \<Longrightarrow> conn_rel R ext (fs_db f) (fs_db f')"
  by (auto simp: fs_init_def fs_lookup_def fs_forget_def fs_readlink_def fs_mkdir_def fs_link_def
      fs_setxattr_def fs_removexattr_def Let_def hr_refl intro: hr_ops [OF prod.collapse [symmetric]]
      dest: hr_ops split: if_splits option.splits sum.splits prod.splits)

lemma hr_setattr:
  "fs_setattr e i mode uid gid sz at mt crt fl f = Some (r, f') \<Longrightarrow>
   good_times good e (Setattr i mode uid gid sz at mt crt fl) f \<Longrightarrow> conn_rel R ext (fs_db f) (fs_db f')"
  by (auto simp: fs_setattr_def good_times_def hr_refl dest: hr_ops
      split: if_splits option.splits sum.splits prod.splits)

lemma hr_statfs: "fs_statfs host i f = Some (r, f') \<Longrightarrow> conn_rel R ext (fs_db f) (fs_db f')"
  by (auto simp: fs_statfs_def hr_refl split: option.splits)

lemma hr_destroy_handler: "fs_destroy e f = (r, f') \<Longrightarrow> conn_rel R ext (fs_db f) (fs_db f')"
  by (auto simp: fs_destroy_def hr_refl hr_destroy split: if_splits)

lemma hr_then_drop:
  "conn_rel R ext s t \<Longrightarrow> drop_inode e i (f\<lparr>fs_db := t\<rparr>) = (r, f') \<Longrightarrow> conn_rel R ext s (fs_db f')"
  using hr_drop_inode [of i "f\<lparr>fs_db := t\<rparr>"] by (auto intro: hr_trans)

lemma hr_unlink: "fs_unlink e p n f = (r, f') \<Longrightarrow> conn_rel R ext (fs_db f) (fs_db f')"
  by (auto simp: fs_unlink_def hr_refl split: if_splits sum.splits prod.splits
      dest: hr_ops intro: hr_then_drop)

lemma hr_rename: "fs_rename e p n np nn f = (r, f') \<Longrightarrow> conn_rel R ext (fs_db f) (fs_db f')"
  by (auto simp: fs_rename_def hr_refl split: if_splits option.splits sum.splits prod.splits
      dest: hr_ops intro: hr_then_drop)

lemma hr_rmdir: "fs_rmdir e p n f = (r, f') \<Longrightarrow> conn_rel R ext (fs_db f) (fs_db f')"
  by (auto simp: fs_rmdir_def hr_refl Let_def split: if_splits option.splits sum.splits prod.splits
      dest!: hr_ops intro: hr_trans hr_then_drop [OF hr_trans])

lemma first_block_legal:
  "length data \<le> unat BLOCK_SIZE \<Longrightarrow> legal \<lparr>b_file = i, b_num = 1, b_data = data\<rparr>"
  by (rule small_legal) (simp_all add: BLOCK_SIZE_def)

lemma hr_symlink:
  "fs_symlink e ruid rgid p n data f = (r, f') \<Longrightarrow> conn_rel R ext (fs_db f) (fs_db f')"
  by (auto simp: fs_symlink_def hr_refl get_db_block_size_def not_less Let_def
      split: if_splits sum.splits prod.splits
      dest!: hr_ops(1-11,13-14) hr_ops(12) [OF _ first_block_legal] intro: hr_trans)

lemma hr_create:
  "fs_create e ruid rgid p n mode f = (r, f') \<Longrightarrow> conn_rel R ext (fs_db f) (fs_db f')"
  by (auto simp: fs_create_def hr_refl Let_def split: if_splits option.splits sum.splits prod.splits
      dest!: hr_ops intro: hr_trans)

lemma hr_read_loop:
  assumes "\<And>b t r t'. get b t = (r, t') \<Longrightarrow> conn_rel R ext t t'"
  shows "read_loop get off sz data s = Some (r, s') \<Longrightarrow> conn_rel R ext s s'"
  by (rule read_loop_keeps [of "conn_rel R ext"]) (blast intro: hr_refl hr_trans assms)+

lemma hr_write_loop:
  assumes "\<And>b t r t'. get b t = (r, t') \<Longrightarrow> conn_rel R ext t t'"
    and "\<And>b x n t r t'. b \<in> set bs \<Longrightarrow> may_write off sz data b x \<Longrightarrow> put b x n t = (r, t') \<Longrightarrow>
      conn_rel R ext t t'"
  shows "write_loop get put off sz data bs s = Some (r, s') \<Longrightarrow> conn_rel R ext s s'"
  by (rule write_loop_keeps [of "conn_rel R ext", OF _ _ _ _ order.refl])
    (blast intro: hr_refl hr_trans assms)+

lemma hr_read: "fs_read e i off sz f = Some (r, f') \<Longrightarrow> conn_rel R ext (fs_db f) (fs_db f')"
  unfolding fs_read_def
  by (auto split: option.splits prod.splits sum.splits if_splits dest!: hr_read_loop [rotated]
      intro: hr_ops)

text \<open>The data of a write fit into a message, or every block is legal.\<close>

lemma hr_write:
  assumes "fs_write e i off data f = Some (r, f')" and "length data < 2147483648 \<or> (\<forall>br. legal br)"
  shows "conn_rel R ext (fs_db f) (fs_db f')"
proof -
  have legal: "legal \<lparr>b_file = j, b_num = b, b_data = x\<rparr>"
    if "b \<in> set (block_range (start_block off') (end_block off' sz))" "may_write off' sz data b x"
    for j b x off' sz
    using assms(2) block_range_bounds [OF that(1)] may_write_small [OF that(2)]
    by (auto intro: small_legal)
  show ?thesis
    using assms(1) unfolding fs_write_def
    by (auto simp: Let_def hr_refl split: option.splits prod.splits sum.splits if_splits
        dest!: hr_write_loop [rotated 2] intro: hr_ops legal)
qed

lemmas hr_handlers =
  hr_simple_handlers hr_single_op_handlers hr_destroy_handler hr_unlink hr_rename
  hr_rmdir hr_symlink hr_create hr_read hr_statfs

lemma handle_conn_rel:
  assumes "handle e ruid rgid q f = Some (r, f')"
    and "\<And>i off data. q = Write i off data \<Longrightarrow> length data < 2147483648 \<or> (\<forall>br. legal br)"
    and "good_times good e q f"
  shows "conn_rel R ext (fs_db f) (fs_db f')"
  using assms by (cases q) (auto intro: hr_handlers hr_write hr_setattr)

end

context any_write_relation
begin

lemma reachable_conn_rel: "reachable e f0 f \<Longrightarrow> conn_rel R ext (fs_db f0) (fs_db f)"
proof (induction rule: reachable.induct)
  case (step f f')
  from step.hyps(2) have "conn_rel R ext (fs_db f) (fs_db f')"
    by (elim fs_stepE) (rule handle_conn_rel, simp_all)
  with step.IH show ?case by (rule hr_trans)
qed (rule hr_refl)

lemma reachable_R:
  "reachable e f0 f \<Longrightarrow> sq_ext (fs_db f0) = ext \<Longrightarrow> R (conn (fs_db f0)) (conn (fs_db f))"
  using reachable_conn_rel by (auto simp: conn_rel_def)

end

end
