(* ===== verification/Content.thy ===== *)
theory Content
  imports FsData
begin

text \<open>
  What the loops of \<open>read\<close> and \<open>write\<close> promise: a file is a sequence of bytes laid out in
  blocks of 4096 bytes numbered from 1.  The locales state the contract of a block device;
  the lemmas about the loops are proved in them, and the interpretations show that the
  database operations keep the contract.
\<close>

section \<open>The bytes of a file\<close>

text \<open>\<open>g b k\<close> is byte \<open>k\<close> of block \<open>b\<close>.\<close>

definition file_byte :: "(u32 \<Rightarrow> nat \<Rightarrow> u8) \<Rightarrow> nat \<Rightarrow> u8" where
  "file_byte g p = g (of_nat (p div 4096 + 1)) (p mod 4096)"

text \<open>The byte at \<open>p\<close> after the data were laid over the file at offset \<open>off\<close>.\<close>

definition overlay :: "nat \<Rightarrow> bytes \<Rightarrow> u8 \<Rightarrow> nat \<Rightarrow> u8" where
  "overlay off data old p = (if off \<le> p \<and> p < off + length data then data ! (p - off) else old)"

lemma file_byte_in_block:
  "k < 4096 \<Longrightarrow> file_byte g (b * 4096 + k) = g (of_nat (b + 1)) k"
  by (simp add: file_byte_def)

lemma map_file_byte_block:
  assumes "off mod 4096 + n \<le> 4096"
  shows "map (file_byte g) [off..<off + n] =
    map (g (of_nat (off div 4096 + 1))) [off mod 4096..<off mod 4096 + n]"
proof (rule nth_equalityI)
  fix k assume "k < length (map (file_byte g) [off..<off + n])"
  then have k: "k < n" by simp
  have "off + k = (off div 4096) * 4096 + (off mod 4096 + k)" by simp
  then have "file_byte g (off + k) = g (of_nat (off div 4096 + 1)) (off mod 4096 + k)"
    using k assms file_byte_in_block [of "off mod 4096 + k" g "off div 4096"] by simp
  with k show "map (file_byte g) [off..<off + n] ! k =
      map (g (of_nat (off div 4096 + 1))) [off mod 4096..<off mod 4096 + n] ! k"
    by simp
qed simp

lemma length_pad_to: "length (pad_to n xs) = max n (length xs)"
  by (simp add: pad_to_def)

lemma nth_pad_to: "k < n \<Longrightarrow> pad_to n xs ! k = byte_at xs k"
  by (simp add: pad_to_def nth_resize byte_at_def)

lemma slice_pad_to:
  assumes "a \<le> b" and "b \<le> n"
  shows "slice (pad_to n xs) a b = Some (map (byte_at xs) [a..<b])"
  using assms
  by (auto simp: slice_def length_pad_to nth_pad_to intro!: nth_equalityI)

lemma unat_block_num: "unat (off div BLOCK_SIZE) = unat off div 4096"
  by (simp add: unat_div)

lemma unat_block_off: "unat (off mod BLOCK_SIZE) = unat off mod 4096"
  by (simp add: unat_mod)

lemma block_num_of_nat: "off div BLOCK_SIZE + 1 = of_nat (unat off div 4096 + 1)"
  by (simp add: unat_block_num [symmetric])

section \<open>The contract for reading\<close>

locale block_device =
  fixes get :: "'s get_block" and byte :: "'s \<Rightarrow> u32 \<Rightarrow> nat \<Rightarrow> u8" and ok :: "'s \<Rightarrow> bool"
  assumes get_ok: "ok s \<Longrightarrow>
    \<exists>xs s'. get b s = (Inr xs, s') \<and> ok s' \<and> byte s' = byte s \<and> (\<forall>k. byte_at xs k = byte s b k)"
begin

lemma read_loop_bytes:
  "ok s \<Longrightarrow> unat off + unat sz < 4294967296 \<Longrightarrow>
   \<exists>s'. read_loop get off sz data s =
          Some (Inr (data @ map (file_byte (byte s)) [unat off..<unat off + unat sz]), s')
      \<and> ok s' \<and> byte s' = byte s"
proof (induction "unat sz" arbitrary: off sz data s rule: less_induct)
  case less
  show ?case
  proof (cases "sz = 0")
    case False
    let ?o = "off mod BLOCK_SIZE"
    let ?e = "read_end ?o sz"
    let ?n = "?e - ?o"
    have sum: "unat (sz + ?o) = unat sz + unat off mod 4096"
      using less.prems(2) mod_less_eq_dividend [of "unat off" 4096]
      by (subst unat_u32_add_le) (simp_all add: unat_block_off)
    have e: "unat ?e = min 4096 (unat sz + unat off mod 4096)"
      using sum by (auto simp: read_end_def word_le_nat_alt unat_div min_def Suc_le_eq
          div_greater_zero_iff)
    have oe: "unat ?o \<le> unat ?e"
      by (simp add: e unat_block_off)
    have n: "unat ?n = unat ?e - unat off mod 4096"
      using oe by (simp add: unat_u32_sub unat_block_off)
    have nsz: "unat ?n \<le> unat sz" by (simp add: n e)
    have n0: "0 < unat ?n" using False by (simp add: n e unat_gt_0)
    have sub: "unat (sz - ?n) = unat sz - unat ?n"
      using nsz by (rule unat_u32_sub)
    have add: "unat (off + ?n) = unat off + unat ?n"
      using less.prems(2) nsz by (intro unat_u32_add_le) simp
    from get_ok [OF less.prems(1), of "off div BLOCK_SIZE + 1"]
    obtain xs t where t: "get (off div BLOCK_SIZE + 1) s = (Inr xs, t)" "ok t" "byte t = byte s"
      and xs: "byte_at xs = byte s (off div BLOCK_SIZE + 1)" by auto
    let ?part = "map (file_byte (byte s)) [unat off..<unat off + unat ?n]"
    have "?part = map (byte s (off div BLOCK_SIZE + 1)) [unat ?o..<unat ?e]"
      using map_file_byte_block [of "unat off" "unat ?n" "byte s"] e n oe
      by (simp add: block_num_of_nat unat_block_off)
    then have part: "slice (pad_to (unat ?e) xs) (unat ?o) (unat ?e) = Some ?part"
      using slice_pad_to [OF oe order_refl] by (simp add: xs)
    have *: "read_loop get off sz data s = read_loop get (off + ?n) (sz - ?n) (data @ ?part) t"
      using False t part by (subst read_loop.simps) (simp add: Let_def)
    from less.hyps [of "sz - ?n" t "off + ?n" "data @ ?part"] t(2) sub n0 nsz add less.prems(2)
    obtain s' where s': "read_loop get (off + ?n) (sz - ?n) (data @ ?part) t =
          Some (Inr ((data @ ?part) @ map (file_byte (byte s))
            [unat off + unat ?n..<unat off + unat ?n + (unat sz - unat ?n)]), s')"
        "ok s'" "byte s' = byte s"
      using False t(3) by (auto simp: add.commute)
    have split: "[unat off..<unat off + unat sz] = [unat off..<unat off + unat ?n]
        @ [unat off + unat ?n..<unat off + unat ?n + (unat sz - unat ?n)]"
      using nsz upt_add_eq_append [of "unat off" "unat off + unat ?n" "unat sz - unat ?n"] by simp
    show ?thesis
      using s' unfolding * split by simp
  qed (use less.prems in simp)
qed

end

text \<open>The loop ends for every device: the slices it takes exist while the size is in bounds.\<close>

lemma read_loop_total:
  "unat sz + 4096 \<le> 4294967296 \<Longrightarrow>
   \<exists>r s'. read_loop get off sz data s = Some (r, s')
      \<and> (\<forall>d. r = Inr d \<longrightarrow> length d = length data + unat sz)"
proof (induction "unat sz" arbitrary: off sz data s rule: less_induct)
  case less
  show ?case
  proof (cases "sz = 0")
    case False
    let ?o = "off mod BLOCK_SIZE"
    let ?e = "read_end ?o sz"
    let ?n = "?e - ?o"
    have o: "unat ?o < 4096" by (simp add: unat_block_off)
    have sum: "unat (sz + ?o) = unat sz + unat ?o"
      using less.prems o by (intro unat_u32_add_le) simp
    have e: "unat ?e = min 4096 (unat sz + unat ?o)"
      using sum by (auto simp: read_end_def word_le_nat_alt unat_div min_def Suc_le_eq
          div_greater_zero_iff)
    have oe: "unat ?o \<le> unat ?e" using o by (simp add: e)
    have n: "unat ?n = unat ?e - unat ?o" using oe by (simp add: unat_u32_sub)
    have nsz: "0 < unat ?n" "unat ?n \<le> unat sz"
      using False o by (simp_all add: n e unat_gt_0)
    have sub: "unat (sz - ?n) = unat sz - unat ?n" using nsz(2) by (rule unat_u32_sub)
    obtain x t where t: "get (off div BLOCK_SIZE + 1) s = (x, t)" by fastforce
    show ?thesis
    proof (cases x)
      case (Inl a)
      then show ?thesis using False t by (subst read_loop.simps) (simp add: Let_def)
    next
      case (Inr xs)
      obtain part where part: "slice (pad_to (unat ?e) xs) (unat ?o) (unat ?e) = Some part"
        using slice_pad_to [OF oe order_refl] by blast
      then have "length part = unat ?n" using n slice_length by fastforce
      moreover have "read_loop get off sz data s = read_loop get (off + ?n) (sz - ?n) (data @ part) t"
        using False t part Inr by (subst read_loop.simps) (simp add: Let_def)
      moreover obtain r s' where "read_loop get (off + ?n) (sz - ?n) (data @ part) t = Some (r, s')"
          "\<forall>d. r = Inr d \<longrightarrow> length d = length (data @ part) + unat (sz - ?n)"
      proof -
        have "unat (sz - ?n) < unat sz" "unat (sz - ?n) + 4096 \<le> 4294967296"
          using less.prems nsz unfolding sub by auto
        from less.hyps [OF this, of "off + ?n" "data @ part" t] show ?thesis using that by blast
      qed
      ultimately show ?thesis using sub nsz(2) by auto
    qed
  qed simp
qed

section \<open>The contract for writing\<close>

text \<open>The indices the loop computes for a block of a write, as numbers.\<close>

definition first_block :: "nat \<Rightarrow> nat" where
  "first_block off = off div 4096 + 1"

definition last_block :: "nat \<Rightarrow> nat \<Rightarrow> nat" where
  "last_block off n = (off + n - 1) div 4096 + 1"

lemma block_bounds:
  assumes "0 < n" and "off + n < 4294967296"
  shows "first_block off \<le> last_block off n" and "last_block off n \<le> 1048576"
  using assms by (simp_all add: first_block_def last_block_def div_le_mono)

text \<open>A write that stays below 4 GiB, where the arithmetic on \<open>u32\<close> does not wrap.\<close>

definition write_fits :: "u32 \<Rightarrow> u32 \<Rightarrow> bool" where
  "write_fits off sz \<longleftrightarrow> 0 < unat sz \<and> unat off + unat sz < 4294967296"

lemma unat_last: "write_fits off sz \<Longrightarrow> unat (off + sz - 1) = unat off + unat sz - 1"
  by (subst unat_u32_sub) (simp_all add: unat_u32_add_le write_fits_def)

lemma unat_start_block: "unat (start_block off) = first_block (unat off)"
  using unat_u32_lt [of off]
  by (simp add: start_block_def first_block_def unat_block_num unat_u32_add_le)

lemma unat_end_block:
  "write_fits off sz \<Longrightarrow> unat (end_block off sz) = last_block (unat off) (unat sz)"
  unfolding end_block_def last_block_def
  by (subst unat_u32_add_le) (auto simp: unat_block_num unat_last write_fits_def)

lemma block_range_eq:
  "write_fits off sz \<Longrightarrow> block_range (start_block off) (end_block off sz) =
     map of_nat [first_block (unat off)..<Suc (last_block (unat off) (unat sz))]"
  by (simp add: block_range_def unat_start_block unat_end_block)

lemma of_nat_block_eq:
  assumes "write_fits off sz" and "i \<le> 1048576"
  shows "of_nat i = start_block off \<longleftrightarrow> i = first_block (unat off)"
    and "of_nat i = end_block off sz \<longleftrightarrow> i = last_block (unat off) (unat sz)"
    and "start_block off < of_nat i \<longleftrightarrow> first_block (unat off) < i"
  using assms
  by (simp_all add: word_unat_eq_iff word_less_nat_alt unat_start_block unat_end_block
      unat_u32_of_nat)

text \<open>The indices within a block, as numbers.\<close>

lemma unat_b_start_index:
  "write_fits off sz \<Longrightarrow> i \<le> 1048576 \<Longrightarrow> unat (b_start_index off (of_nat i)) =
     (if i = first_block (unat off) then unat off mod 4096 else 0)"
  by (simp add: b_start_index_def of_nat_block_eq unat_block_off)

lemma unat_b_end_index:
  "write_fits off sz \<Longrightarrow> i \<le> 1048576 \<Longrightarrow> unat (b_end_index off sz (of_nat i)) =
     (if i = last_block (unat off) (unat sz) then (unat off + unat sz - 1) mod 4096 + 1 else 4096)"
  using mod_less_divisor [of 4096 "unat off + unat sz - 1"]
  by (auto simp: b_end_index_def of_nat_block_eq unat_u32_add unat_block_off unat_last
      simp del: mod_less_divisor)

lemma unat_data_offset:
  assumes "write_fits off sz" and "first_block (unat off) \<le> i"
    and "i \<le> last_block (unat off) (unat sz)"
  shows "unat (data_offset off (of_nat i)) = (i - 1) * 4096 - unat off"
proof -
  let ?S = "first_block (unat off)"
  have i: "i \<le> 1048576"
    using assms block_bounds(2) [of "unat sz" "unat off"] by (simp add: write_fits_def)
  have S: "?S * 4096 = unat off - unat off mod 4096 + 4096"
    by (simp add: first_block_def algebra_simps minus_mod_eq_div_mult)
  show ?thesis
  proof (cases "?S < i")
    case True
    then obtain k where k: "i = ?S + 1 + k"
      by (metis Suc_eq_plus1 add.commute add_Suc_right less_iff_Suc_add)
    have w: "(of_nat i - start_block off - 1) = (of_nat k :: u32)"
      by (simp add: k flip: unat_start_block)
    have kl: "k * 4096 + 4096 \<le> 4294967295"
      using i k by (simp add: first_block_def)
    have m: "unat (of_nat k * BLOCK_SIZE) = k * 4096"
      using kl by (simp add: BLOCK_SIZE_def unat_word_ariths unat_u32_of_nat)
    have "unat (of_nat k * BLOCK_SIZE + BLOCK_SIZE) = k * 4096 + 4096"
      using kl by (subst unat_u32_add_le) (simp_all add: m)
    then have "unat (of_nat k * BLOCK_SIZE + BLOCK_SIZE - off mod BLOCK_SIZE) =
        k * 4096 + 4096 - unat off mod 4096"
      by (subst unat_u32_sub) (simp_all add: unat_block_off mod_less_divisor less_imp_le trans_le_add2)
    moreover have "(i - 1) * 4096 - unat off = k * 4096 + 4096 - unat off mod 4096"
      using S k by (simp add: algebra_simps)
    ultimately show ?thesis
      using True by (simp add: data_offset_def of_nat_block_eq [OF assms(1) i] w)
  next
    case False
    with assms(2) have "i = ?S" by simp
    then show ?thesis
      using of_nat_block_eq(3) [OF assms(1) i]
      using div_times_less_eq_dividend [of "unat off" 4096]
      by (simp add: data_offset_def first_block_def)
  qed
qed

section \<open>One block of a write\<close>

text \<open>
  The part of block \<open>i\<close> that is written starts at its byte \<open>bs\<close>, ends before \<open>be\<close> and comes
  from the data at \<open>doff\<close>.
\<close>

lemma block_part_bounds:
  assumes "0 < n" and "first_block off \<le> i" and "i \<le> last_block off n"
  defines "bs \<equiv> if i = first_block off then off mod 4096 else 0"
    and "be \<equiv> if i = last_block off n then (off + n - 1) mod 4096 + 1 else 4096"
    and "B \<equiv> (i - 1) * 4096"
  shows "B + bs = max off B" and "B + be = min (off + n) (B + 4096)"
    and "bs < be" and "be \<le> 4096" and "B + be \<le> off + n" and "off \<le> B + bs"
proof -
  have i: "1 \<le> i" using assms(2) by (simp add: first_block_def)
  obtain q r where q: "off div 4096 = q" "off mod 4096 = r" by simp
  obtain q' r' where q': "(off + n - 1) div 4096 = q'" "(off + n - 1) mod 4096 = r'" by simp
  have lo: "off = q * 4096 + r" "r < 4096"
    unfolding q [symmetric] by simp_all
  have hi: "off + n = q' * 4096 + r' + 1" "r' < 4096"
    using assms(1) unfolding q' [symmetric] by simp_all
  obtain j where j: "i = Suc j" using i by (cases i) auto
  have lj: "q \<le> j" "j \<le> q'"
    using assms(2,3) q q' by (simp_all add: j first_block_def last_block_def)
  have B: "B = j * 4096" by (simp add: B_def j)
  have bs: "bs = (if j = q then r else 0)"
    using q by (simp add: bs_def j first_block_def)
  have be: "be = (if j = q' then r' + 1 else 4096)"
    using q' by (simp add: be_def j last_block_def)
  have 1: "B + bs = max off B"
    using lj(1) lo by (cases "j = q") (auto simp: B bs)
  have 2: "B + be = min (off + n) (B + 4096)"
    using lj(2) hi by (cases "j = q'") (auto simp: B be)
  have 3: "max off B < min (off + n) (B + 4096)"
    using lj lo hi assms(1) by (auto simp: B)
  from 1 show "B + bs = max off B" .
  from 2 show "B + be = min (off + n) (B + 4096)" .
  from 1 2 3 show "bs < be" "be \<le> 4096" "B + be \<le> off + n" "off \<le> B + bs" by linarith+
qed

lemma slice_data:
  assumes "a \<le> b" and "d + b \<le> length data + a"
  shows "slice data d (d + b - a) = Some (map (\<lambda>k. data ! (d + k - a)) [a..<b])"
  using assms by (auto simp: slice_def intro!: nth_equalityI)

definition new_block :: "nat \<Rightarrow> bytes \<Rightarrow> (nat \<Rightarrow> u8) \<Rightarrow> nat \<Rightarrow> bytes" where
  "new_block off data g i = map (\<lambda>k. overlay off data (g k) ((i - 1) * 4096 + k)) [0..<4096]"

lemma byte_at_new_block:
  "k < 4096 \<Longrightarrow> byte_at (new_block off data g i) k = overlay off data (g k) ((i - 1) * 4096 + k)"
  by (simp add: byte_at_def new_block_def)

lemma new_block_parts:
  assumes "bs \<le> be" and "be \<le> 4096" and "(i - 1) * 4096 + bs = max off ((i - 1) * 4096)"
    and "(i - 1) * 4096 + be = min (off + length data) ((i - 1) * 4096 + 4096)"
  shows "new_block off data g i = map g [0..<bs]
    @ map (\<lambda>k. data ! ((i - 1) * 4096 - off + k - bs)) [bs..<be] @ map g [be..<4096]"
proof -
  let ?B = "(i - 1) * 4096"
  have "[0..<4096] = [0..<bs] @ [bs..<be] @ [be..<4096]"
    using assms(1,2) upt_add_eq_append [of 0 bs "4096 - bs"] upt_add_eq_append [of bs be "4096 - be"]
    by simp
  moreover have "map (\<lambda>k. overlay off data (g k) (?B + k)) [0..<bs] = map g [0..<bs]"
    using assms(3) by (auto simp: overlay_def)
  moreover have "?B + k - off = ?B - off + k - bs" if "bs \<le> k" for k
    using assms(3) that by (auto simp: max_def split: if_splits)
  then have "map (\<lambda>k. overlay off data (g k) (?B + k)) [bs..<be] =
      map (\<lambda>k. data ! (?B - off + k - bs)) [bs..<be]"
    using assms(3,4) by (auto simp: overlay_def)
  moreover have "map (\<lambda>k. overlay off data (g k) (?B + k)) [be..<4096] = map g [be..<4096]"
    using assms(4) by (auto simp: overlay_def)
  ultimately show ?thesis by (simp add: new_block_def)
qed

text \<open>The indices of block \<open>i\<close> of a write, and what they bound.\<close>

lemma write_block_indices:
  assumes w: "write_fits off (of_nat (length data))" and n: "length data < 4294967296"
    and i: "first_block (unat off) \<le> i" "i \<le> last_block (unat off) (length data)"
  defines "bs \<equiv> b_start_index off (of_nat i)"
    and "be \<equiv> b_end_index off (of_nat (length data)) (of_nat i)"
    and "doff \<equiv> data_offset off (of_nat i)"
    and "B \<equiv> (i - 1) * 4096"
  shows "B + unat bs = max (unat off) B"
    and "B + unat be = min (unat off + length data) (B + 4096)"
    and "unat bs < unat be" and "unat be \<le> 4096" and "unat doff = B - unat off"
    and "unat doff + unat be \<le> length data + unat bs"
    and "unat (doff + be - bs) = unat doff + unat be - unat bs"
    and "unat ((of_nat i - 1) * BLOCK_SIZE + be) = B + unat be"
proof -
  let ?n = "of_nat (length data) :: u32"
  have un: "unat ?n = length data" using n by (rule unat_u32_of_nat)
  have fits: "0 < length data" "unat off + length data < 4294967296"
    using w un by (simp_all add: write_fits_def)
  have i0: "i \<le> 1048576" "1 \<le> i"
    using i block_bounds(2) [OF fits] by (simp_all add: first_block_def)
  have bs: "unat bs = (if i = first_block (unat off) then unat off mod 4096 else 0)"
    unfolding bs_def by (rule unat_b_start_index [OF w i0(1)])
  have be: "unat be = (if i = last_block (unat off) (length data)
      then (unat off + length data - 1) mod 4096 + 1 else 4096)"
    unfolding be_def using unat_b_end_index [OF w i0(1)] by (simp add: un)
  note bounds = block_part_bounds [OF fits(1) i]
  show 1: "B + unat bs = max (unat off) B" and 2: "B + unat be = min (unat off + length data) (B + 4096)"
    and 3: "unat bs < unat be" and 4: "unat be \<le> 4096"
    using bounds(1-4) by (simp_all add: bs be B_def)
  show 5: "unat doff = B - unat off"
    unfolding doff_def B_def using unat_data_offset [OF w i(1)] i(2) by (simp add: un)
  show 6: "unat doff + unat be \<le> length data + unat bs"
    using 1 2 5 by linarith
  have "unat doff + unat be < 4294967296"
    using 1 5 6 4 fits(2) by linarith
  then show "unat (doff + be - bs) = unat doff + unat be - unat bs"
    using 3 by (subst unat_u32_sub) (simp_all add: unat_u32_add_le)
  have "unat ((of_nat i - 1) * BLOCK_SIZE) = B"
  proof -
    obtain j where j: "i = Suc j" using i0(2) by (cases i) auto
    then show ?thesis
      using i0(1) by (simp add: B_def BLOCK_SIZE_def unat_word_ariths unat_u32_of_nat)
  qed
  moreover have "B + unat be < 4294967296"
    using 2 fits(2) by linarith
  ultimately show "unat ((of_nat i - 1) * BLOCK_SIZE + be) = B + unat be"
    by (simp add: unat_u32_add_le)
qed

lemma partial_block_eq:
  assumes "write_fits off (of_nat (length data))" and "length data < 4294967296"
    and "first_block (unat off) \<le> i" and "i \<le> last_block (unat off) (length data)"
  shows "partial_block data pre (data_offset off (of_nat i)) (b_start_index off (of_nat i))
      (b_end_index off (of_nat (length data)) (of_nat i)) =
    Some (new_block (unat off) data (byte_at pre) i)"
proof -
  let ?bs = "b_start_index off (of_nat i)"
  let ?be = "b_end_index off (of_nat (length data)) (of_nat i)"
  let ?doff = "data_offset off (of_nat i)"
  note ix = write_block_indices [OF assms]
  have xs: "(if ?bs \<noteq> 0 then slice (pad_to (unat BLOCK_SIZE) pre) 0 (unat ?bs) else Some []) =
      Some (map (byte_at pre) [0..<unat ?bs])"
    using ix(3,4) by (auto simp: slice_pad_to)
  have ys: "slice data (unat ?doff) (unat (?doff + ?be - ?bs)) =
      Some (map (\<lambda>k. data ! ((i - 1) * 4096 - unat off + k - unat ?bs)) [unat ?bs..<unat ?be])"
    unfolding ix(7) using slice_data [of "unat ?bs" "unat ?be" "unat ?doff" data] ix(3,5,6) by simp
  have zs: "(if ?be \<noteq> BLOCK_SIZE then slice (pad_to (unat BLOCK_SIZE) pre) (unat ?be) (unat BLOCK_SIZE)
      else Some []) = Some (map (byte_at pre) [unat ?be..<4096])"
    using ix(4) by (auto simp: slice_pad_to word_unat_eq_iff)
  show ?thesis
    unfolding partial_block_def Let_def xs ys zs option.case
      new_block_parts [OF less_imp_le [OF ix(3)] ix(4,1,2)] ..
qed

lemma whole_block_eq:
  assumes "write_fits off (of_nat (length data))" and "length data < 4294967296"
    and "first_block (unat off) \<le> i" and "i \<le> last_block (unat off) (length data)"
    and "b_start_index off (of_nat i) = 0"
    and "b_end_index off (of_nat (length data)) (of_nat i) = BLOCK_SIZE"
  shows "slice data (unat (data_offset off (of_nat i))) (unat (data_offset off (of_nat i) + BLOCK_SIZE)) =
    Some (new_block (unat off) data g i)"
proof -
  note ix = write_block_indices [OF assms(1-4)]
  show ?thesis
    using new_block_parts [of 0 4096 i "unat off" data g] ix assms(5,6)
      slice_data [of 0 4096 "unat (data_offset off (of_nat i))" data]
    by simp
qed

section \<open>The beginning of a write\<close>

text \<open>
  The loop over the first \<open>k\<close> blocks writes the data up to the end of the \<open>k\<close>-th block: it is
  a shorter write.
\<close>

definition cut_data :: "nat \<Rightarrow> nat \<Rightarrow> bytes \<Rightarrow> bytes" where
  "cut_data off k data = take ((off div 4096 + k) * 4096 - off) data"

lemma block_end_covers: "off < (off div 4096 + 1) * (4096 :: nat)"
  using dividend_less_times_div [of 4096 off] by (simp add: algebra_simps)

lemma last_block_covers: "0 < n \<Longrightarrow> off + n \<le> last_block off n * 4096"
  using block_end_covers [of "off + n - 1"] by (simp add: last_block_def)

lemma length_cut_data:
  assumes "0 < k"
  shows "off + length (cut_data off k data) = min (off + length data) ((off div 4096 + k) * 4096)"
proof -
  have "off \<le> (off div 4096 + k) * 4096"
    using assms block_end_covers [of off] by (cases k) simp_all
  then show ?thesis by (simp add: cut_data_def min_def) linarith
qed

lemma overlay_cut_data:
  "p < (off div 4096 + k) * 4096 \<Longrightarrow> overlay off (cut_data off k data) x p = overlay off data x p"
  "(off div 4096 + k) * 4096 \<le> p \<Longrightarrow> overlay off (cut_data off k data) x p = x"
  by (auto simp: overlay_def cut_data_def)

section \<open>The loop of write\<close>

locale writable_device = block_device get byte ok
  for get :: "'s get_block" and byte :: "'s \<Rightarrow> u32 \<Rightarrow> nat \<Rightarrow> u8" and ok :: "'s \<Rightarrow> bool" +
  fixes put :: "'s put_block" and fsize :: "'s \<Rightarrow> nat"
  assumes get_fsize: "ok s \<Longrightarrow> get b s = (r, s') \<Longrightarrow> fsize s' = fsize s"
    and put_ok: "ok s \<Longrightarrow> \<exists>s'. put b xs n s = (Inr (), s') \<and> ok s'
      \<and> byte s' = (byte s)(b := byte_at xs) \<and> fsize s' = max (fsize s) (unat n)"
begin

lemma write_step:
  assumes "ok s" and "write_fits off (of_nat (length data))" and "length data < 4294967296"
    and "first_block (unat off) \<le> i" and "i \<le> last_block (unat off) (length data)"
  shows "\<exists>s'. write_loop get put off (of_nat (length data)) data (of_nat i # is) s =
          write_loop get put off (of_nat (length data)) data is s'
    \<and> ok s' \<and> fsize s' = max (fsize s) (min (unat off + length data) ((i - 1) * 4096 + 4096))
    \<and> byte s' = (byte s)(of_nat i := byte_at (new_block (unat off) data (byte s (of_nat i)) i))"
proof -
  let ?n = "of_nat (length data) :: u32"
  let ?blk = "new_block (unat off) data (byte s (of_nat i)) i"
  let ?len = "(of_nat i - 1) * BLOCK_SIZE + b_end_index off ?n (of_nat i)"
  note ix = write_block_indices [OF assms(2-5)]
  have len: "unat ?len = min (unat off + length data) ((i - 1) * 4096 + 4096)"
    using ix(2,8) by simp
  show ?thesis
  proof (cases "b_start_index off (of_nat i) = 0 \<and> b_end_index off ?n (of_nat i) = BLOCK_SIZE")
    case True
    obtain s' where s': "put (of_nat i) ?blk ?len s = (Inr (), s')" "ok s'"
        "byte s' = (byte s)(of_nat i := byte_at ?blk)" "fsize s' = max (fsize s) (unat ?len)"
      using put_ok [OF assms(1)] by blast
    with True whole_block_eq [OF assms(2-5), where g = "byte s (of_nat i)"] len show ?thesis
      by (intro exI [of _ s']) (simp add: Let_def)
  next
    case False
    obtain xs t where t: "get (of_nat i) s = (Inr xs, t)" "ok t" "byte t = byte s"
        "byte_at xs = byte s (of_nat i)"
      using get_ok [OF assms(1), of "of_nat i"] by auto
    obtain s' where s': "put (of_nat i) ?blk ?len t = (Inr (), s')" "ok s'"
        "byte s' = (byte t)(of_nat i := byte_at ?blk)" "fsize s' = max (fsize t) (unat ?len)"
      using put_ok [OF t(2)] by blast
    with False t partial_block_eq [OF assms(2-5), of xs] len get_fsize [OF assms(1) t(1)]
    show ?thesis
      by (intro exI [of _ s']) (simp add: Let_def)
  qed
qed

lemma write_blocks:
  assumes "write_fits off (of_nat (length data))" and "length data < 4294967296"
    and "first_block (unat off) \<le> a" and "a \<le> b" and "b \<le> Suc (last_block (unat off) (length data))"
    and "ok s"
  shows "\<exists>s'. write_loop get put off (of_nat (length data)) data (map of_nat [a..<b]) s = Some (Inr (), s')
    \<and> ok s'
    \<and> fsize s' = (if a < b then max (fsize s) (min (unat off + length data) ((b - 1) * 4096)) else fsize s)
    \<and> (\<forall>j. byte s' j = (if a \<le> unat j \<and> unat j < b
          then byte_at (new_block (unat off) data (byte s j) (unat j)) else byte s j))"
  using assms(3-)
proof (induction "b - a" arbitrary: a s)
  case 0
  then show ?case by (auto simp del: upt_Suc)
next
  case (Suc m)
  let ?n = "of_nat (length data) :: u32"
  let ?N = "unat off + length data"
  have a: "a < b" "a \<le> last_block (unat off) (length data)" "[a..<b] = a # [Suc a..<b]"
    using Suc.hyps(2) Suc.prems(3) by (simp_all add: upt_conv_Cons del: upt_Suc)
  have fits: "0 < length data" "unat off + length data < 4294967296"
    using assms(1,2) by (simp_all add: write_fits_def unat_u32_of_nat)
  have a32: "a < 4294967296" "0 < a"
    using a(2) block_bounds(2) [OF fits] Suc.prems(1) by (simp_all add: first_block_def)
  from write_step [OF Suc.prems(4) assms(1,2) Suc.prems(1) a(2), of "map of_nat [Suc a..<b]"]
  obtain s1 where s1: "write_loop get put off ?n data (map of_nat [a..<b]) s =
        write_loop get put off ?n data (map of_nat [Suc a..<b]) s1" "ok s1"
      "fsize s1 = max (fsize s) (min ?N ((a - 1) * 4096 + 4096))"
      "byte s1 = (byte s)(of_nat a := byte_at (new_block (unat off) data (byte s (of_nat a)) a))"
    unfolding a(3) by auto
  have m: "m = b - Suc a" "first_block (unat off) \<le> Suc a" "Suc a \<le> b"
    using Suc.hyps(2) Suc.prems(1) a(1) by simp_all
  obtain s' where s': "write_loop get put off ?n data (map of_nat [Suc a..<b]) s1 = Some (Inr (), s')"
      "ok s'" "fsize s' = (if Suc a < b then max (fsize s1) (min ?N ((b - 1) * 4096)) else fsize s1)"
      "\<forall>j. byte s' j = (if Suc a \<le> unat j \<and> unat j < b
          then byte_at (new_block (unat off) data (byte s1 j) (unat j)) else byte s1 j)"
    using Suc.hyps(1) [OF m Suc.prems(3) s1(2)] by blast
  have eq: "unat j = a \<longleftrightarrow> j = of_nat a" for j :: u32
    using a32 by (auto simp: unat_u32_of_nat)
  have "(byte s' j = (if a \<le> unat j \<and> unat j < b
          then byte_at (new_block (unat off) data (byte s j) (unat j)) else byte s j))" for j
    using s'(4) s1(4) eq [of j] a(1) by (cases "j = of_nat a") auto
  moreover have "fsize s' = max (fsize s) (min ?N ((b - 1) * 4096))"
  proof (cases "Suc a < b")
    case True
    then have "(a - 1) * 4096 + 4096 \<le> (b - 1) * 4096" using a32(2) by (cases a; cases b) simp_all
    with s1(3) s'(3) True show ?thesis by (auto simp: max_def min_def)
  next
    case False
    with a(1) have "b = Suc a" by simp
    with s1(3) s'(3) a32(2) show ?thesis by (cases a) simp_all
  qed
  ultimately show ?case
    using s1(1) s'(1,2) a(1) by auto
qed

lemma write_loop_prefix:
  assumes "write_fits off (of_nat (length data))" and "length data < 4294967296" and "ok s"
  shows "\<exists>s'. write_loop get put off (of_nat (length data)) data
            (take k (block_range (start_block off) (end_block off (of_nat (length data))))) s = Some (Inr (), s')
    \<and> ok s'
    \<and> fsize s' = (if k = 0 then fsize s
                  else max (fsize s) (unat off + length (cut_data (unat off) k data)))
    \<and> (\<forall>p < 4294967296. file_byte (byte s') p =
          overlay (unat off) (cut_data (unat off) k data) (file_byte (byte s) p) p)"
proof -
  let ?S = "first_block (unat off)"
  let ?E = "last_block (unat off) (length data)"
  let ?b = "min (?S + k) (Suc ?E)"
  let ?ub = "(unat off div 4096 + k) * 4096"
  have un: "unat (of_nat (length data) :: u32) = length data"
    using assms(2) by (rule unat_u32_of_nat)
  have fits: "0 < length data" "unat off + length data < 4294967296"
    using assms(1) by (simp_all add: write_fits_def un)
  have SE: "?S \<le> ?b" "?b \<le> Suc ?E"
    using block_bounds(1) [OF fits] by simp_all
  have range: "take k (block_range (start_block off) (end_block off (of_nat (length data)))) =
      map of_nat [?S..<?b]"
    by (simp add: block_range_eq [OF assms(1)] un take_map min_def del: upt_Suc)
  obtain s' where s': "write_loop get put off (of_nat (length data)) data (map of_nat [?S..<?b]) s =
        Some (Inr (), s')" "ok s'"
      "fsize s' = (if ?S < ?b then max (fsize s) (min (unat off + length data) ((?b - 1) * 4096)) else fsize s)"
      "\<And>j. byte s' j = (if ?S \<le> unat j \<and> unat j < ?b
          then byte_at (new_block (unat off) data (byte s j) (unat j)) else byte s j)"
    using write_blocks [OF assms(1,2) order_refl SE assms(3)] by blast
  note cover = last_block_covers [OF fits(1), of "unat off"]
  have "?S < ?b \<longleftrightarrow> k \<noteq> 0"
    using block_bounds(1) [OF fits] by auto
  moreover have "min (unat off + length data) ((?b - 1) * 4096) = unat off + length (cut_data (unat off) k data)"
    if "k \<noteq> 0"
  proof (cases "?S + k \<le> Suc ?E")
    case True
    then have "?b - 1 = unat off div 4096 + k" by (simp add: first_block_def)
    then show ?thesis using that by (simp add: length_cut_data)
  next
    case False
    then have "?E * 4096 \<le> ?ub" by (simp add: first_block_def)
    then show ?thesis using that False cover by (simp add: length_cut_data)
  qed
  ultimately have size: "fsize s' = (if k = 0 then fsize s
      else max (fsize s) (unat off + length (cut_data (unat off) k data)))"
    using s'(3) by simp
  have "file_byte (byte s') p = overlay (unat off) (cut_data (unat off) k data) (file_byte (byte s) p) p"
    if p: "p < 4294967296" for p
  proof -
    let ?j = "of_nat (p div 4096 + 1) :: u32"
    have j: "unat ?j = p div 4096 + 1"
      using p by (intro unat_u32_of_nat) simp
    have at: "p div 4096 < n \<longleftrightarrow> p < n * 4096" for n
      by (simp add: div_less_iff_less_mult)
    consider "p div 4096 < unat off div 4096" | "?S \<le> unat ?j" "unat ?j < ?b" | "?b \<le> unat ?j"
      unfolding j first_block_def by linarith
    then show ?thesis
    proof cases
      case 1
      then have "p < unat off" using div_le_mono [of "unat off" p 4096] by (meson leI leD)
      with 1 j show ?thesis by (simp add: file_byte_def s'(4) first_block_def overlay_def)
    next
      case 2
      then have "p < ?ub" unfolding at [symmetric] j first_block_def by simp
      with 2 j show ?thesis
        by (simp add: file_byte_def s'(4) byte_at_new_block overlay_cut_data(1))
    next
      case 3
      then have "\<not> unat ?j < ?b" by linarith
      then have old: "file_byte (byte s') p = file_byte (byte s) p"
        by (simp only: file_byte_def s'(4) simp_thms if_False)
      show ?thesis
      proof (cases "p < ?ub")
        case True
        with 3 have "?E \<le> p div 4096" unfolding at [symmetric] j first_block_def by linarith
        then have "?E * 4096 \<le> p" using at [of ?E] by simp
        with True cover old show ?thesis by (simp add: overlay_cut_data(1)) (simp add: overlay_def)
      qed (simp add: old overlay_cut_data(2))
    qed
  qed
  with s'(1,2) size show ?thesis
    unfolding range by (intro exI [of _ s']) simp
qed

lemma write_loop_bytes:
  assumes "write_fits off (of_nat (length data))" and "length data < 4294967296" and "ok s"
  shows "\<exists>s'. write_loop get put off (of_nat (length data)) data
            (block_range (start_block off) (end_block off (of_nat (length data)))) s = Some (Inr (), s')
    \<and> ok s' \<and> fsize s' = max (fsize s) (unat off + length data)
    \<and> (\<forall>p < 4294967296. file_byte (byte s') p = overlay (unat off) data (file_byte (byte s) p) p)"
proof -
  let ?is = "block_range (start_block off) (end_block off (of_nat (length data)))"
  let ?k = "last_block (unat off) (length data)"
  have un: "unat (of_nat (length data) :: u32) = length data"
    using assms(2) by (rule unat_u32_of_nat)
  have fits: "0 < length data" using assms(1) by (simp add: write_fits_def un)
  have "length ?is \<le> ?k"
    by (simp add: block_range_eq [OF assms(1)] un first_block_def del: upt_Suc)
  moreover have "cut_data (unat off) ?k data = data"
    using last_block_covers [OF fits, of "unat off"] by (simp add: cut_data_def algebra_simps)
  moreover have "?k \<noteq> 0" by (simp add: last_block_def)
  ultimately show ?thesis
    using write_loop_prefix [OF assms, of ?k] by simp
qed

end

end
