(* ===== verification/Files.thy ===== *)
theory Files
  imports Content
begin

text \<open>
  The block operations of the database keep the contract of a block device, one file at a
  time, and leave every other file, the entries and the extended attributes alone.
\<close>

section \<open>The blocks of one file\<close>

definition stored_block :: "u32 \<Rightarrow> data_row list \<Rightarrow> u32 \<Rightarrow> bytes" where
  "stored_block i t b = (case tab_get data_key (i, b) t of Some r \<Rightarrow> b_data r | None \<Rightarrow> [])"

definition block_bytes :: "u32 \<Rightarrow> data_row list \<Rightarrow> u32 \<Rightarrow> nat \<Rightarrow> u8" where
  "block_bytes i t b = byte_at (stored_block i t b)"

definition db_size :: "u32 \<Rightarrow> db \<Rightarrow> nat" where
  "db_size i d = (case tab_get m_id i (t_meta d) of Some m \<Rightarrow> unat (m_size m) | None \<Rightarrow> 0)"

text \<open>Byte \<open>p\<close> of file \<open>i\<close>, zero where nothing is stored.\<close>

definition content :: "u32 \<Rightarrow> db \<Rightarrow> nat \<Rightarrow> u8" where
  "content i d = file_byte (block_bytes i (t_data d))"

definition only_file :: "u32 \<Rightarrow> db \<Rightarrow> db \<Rightarrow> bool" where
  "only_file i d d' \<longleftrightarrow> t_dentry d' = t_dentry d \<and> t_xattr d' = t_xattr d
     \<and> map m_id (t_meta d') = map m_id (t_meta d)
     \<and> (\<forall>j b. j \<noteq> i \<longrightarrow> tab_get data_key (j, b) (t_data d') = tab_get data_key (j, b) (t_data d))
     \<and> (\<forall>j. j \<noteq> i \<longrightarrow> tab_get m_id j (t_meta d') = tab_get m_id j (t_meta d))"

lemma only_file_refl [simp]: "only_file i d d"
  by (simp add: only_file_def)

lemma only_file_trans: "only_file i d d1 \<Longrightarrow> only_file i d1 d2 \<Longrightarrow> only_file i d d2"
  by (simp add: only_file_def)

lemma only_file_content: "only_file i d d' \<Longrightarrow> j \<noteq> i \<Longrightarrow> content j d' = content j d"
  by (simp add: only_file_def content_def block_bytes_def stored_block_def fun_eq_iff file_byte_def)

lemma only_file_has_inode: "only_file i d d' \<Longrightarrow> has_inode j d' = has_inode j d"
  unfolding only_file_def has_inode_def by (metis list.set_map)

lemma tab_get_meta_update:
  "tab_get m_id j (map (meta_set i f) t) = map_option (meta_set i f) (tab_get m_id j t)"
  by (simp add: table_simps)

lemma tab_get_meta_set_other:
  "j \<noteq> i \<Longrightarrow> tab_get m_id j (map (meta_set i f) t) = tab_get m_id j t"
  by (cases "tab_get m_id j t") (auto simp: tab_get_meta_update meta_set_def dest: tab_get_SomeD)

lemma map_id_meta_set: "map m_id (map (meta_set i f) t) = map m_id t"
  by (simp add: comp_def)

lemma only_file_meta_update:
  "meta_update e i f d = Inr (u, d') \<Longrightarrow> only_file i d d' \<and> t_data d' = t_data d"
  by (auto simp: meta_update_def only_file_def tab_get_meta_set_other comp_def)

lemma db_size_meta_update:
  "meta_update e i f d = Inr (u, d') \<Longrightarrow> (\<And>m. m_size (f m) = m_size m) \<Longrightarrow> db_size j d' = db_size j d"
  by (auto simp: meta_update_def db_size_def tab_get_meta_update meta_set_def split: option.splits)

section \<open>Reading\<close>

text \<open>Reading a block succeeds and changes at most the access time of the file.\<close>

definition read_only_change :: "u32 \<Rightarrow> db \<Rightarrow> db \<Rightarrow> bool" where
  "read_only_change i d d' \<longleftrightarrow> only_file i d d' \<and> t_data d' = t_data d \<and> db_size i d' = db_size i d"

lemma read_only_change_refl [simp]: "read_only_change i d d"
  by (simp add: read_only_change_def)

lemma read_only_change_trans:
  "read_only_change i d d1 \<Longrightarrow> read_only_change i d1 d2 \<Longrightarrow> read_only_change i d d2"
  by (auto simp: read_only_change_def intro: only_file_trans)

lemma update_atime_ok:
  "\<exists>d'. update_atime e i t d = Inr ((), d') \<and> read_only_change i d d'"
proof -
  let ?f = "\<lambda>m. m\<lparr>m_atime := time_param t\<rparr>"
  obtain d' where d': "meta_update e i ?f d = Inr ((), d')"
    by (simp add: meta_update_def)
  then show ?thesis
    using only_file_meta_update [OF d'] db_size_meta_update [OF d', of i]
    by (simp add: update_atime_def read_only_change_def)
qed

lemma get_data_ok:
  "\<exists>s'. get_data e i b n s = (Inr (case tab_get data_key (i, b) (t_data (conn s)) of
       Some r \<Rightarrow> b_data r | None \<Rightarrow> replicate (unat n) 0), s')
     \<and> read_only_change i (conn s) (conn s') \<and> same_handle s s'"
proof -
  obtain d' where "update_atime e i (utc_now e (conn s)) (conn s) = Inr ((), d')"
      "read_only_change i (conn s) d'"
    using update_atime_ok by blast
  then show ?thesis
    by (auto simp: get_data_def transact_def tx_defs same_handle_def split: option.split)
qed

lemma get_data_at_time_ok:
  assumes "sq_temp s = Some tt"
  shows "\<exists>s'. get_data_at_time e i b n s = (Inr (case tab_get data_key (i, b) (tt_data tt) of
       Some r \<Rightarrow> b_data r | None \<Rightarrow> replicate (unat n) 0), s')
     \<and> read_only_change i (conn s) (conn s') \<and> same_handle s s'"
proof -
  obtain d' where "update_atime e i (utc_now e (conn s)) (conn s) = Inr ((), d')"
      "read_only_change i (conn s) d'"
    using update_atime_ok by blast
  with assms show ?thesis
    by (auto simp: get_data_at_time_def transact_def tx_defs same_handle_def split: option.split)
qed

lemma byte_at_stored: "byte_at (case tab_get data_key (i, b) t of
    Some r \<Rightarrow> b_data r | None \<Rightarrow> replicate n 0) k = block_bytes i t b k"
  by (simp add: block_bytes_def stored_block_def split: option.split)

interpretation live: block_device "\<lambda>b. get_data e i b n" "\<lambda>s. block_bytes i (t_data (conn s))"
    "\<lambda>s. read_only_change i (conn s0) (conn s) \<and> same_handle s0 s" for e i n s0
proof
  fix s b
  assume *: "read_only_change i (conn s0) (conn s) \<and> same_handle s0 s"
  obtain s' where "get_data e i b n s = (Inr (case tab_get data_key (i, b) (t_data (conn s)) of
       Some r \<Rightarrow> b_data r | None \<Rightarrow> replicate (unat n) 0), s')"
     "read_only_change i (conn s) (conn s')" "same_handle s s'"
    using get_data_ok by blast
  with * show "\<exists>xs s'. get_data e i b n s = (Inr xs, s')
      \<and> (read_only_change i (conn s0) (conn s') \<and> same_handle s0 s')
      \<and> block_bytes i (t_data (conn s')) = block_bytes i (t_data (conn s))
      \<and> (\<forall>k. byte_at xs k = block_bytes i (t_data (conn s)) b k)"
    by (auto simp: byte_at_stored read_only_change_def intro: only_file_trans same_handle_trans)
qed

interpretation past: block_device "\<lambda>b. get_data_at_time e i b n" "\<lambda>s. block_bytes i (tt_data tt)"
    "\<lambda>s. sq_temp s = Some tt \<and> read_only_change i (conn s0) (conn s) \<and> same_handle s0 s"
    for e i n tt s0
proof
  fix s b
  assume *: "sq_temp s = Some tt \<and> read_only_change i (conn s0) (conn s) \<and> same_handle s0 s"
  then obtain s' where "get_data_at_time e i b n s = (Inr (case tab_get data_key (i, b) (tt_data tt) of
       Some r \<Rightarrow> b_data r | None \<Rightarrow> replicate (unat n) 0), s')"
     "read_only_change i (conn s) (conn s')" "same_handle s s'"
    using get_data_at_time_ok by blast
  with * show "\<exists>xs s'. get_data_at_time e i b n s = (Inr xs, s')
      \<and> (sq_temp s' = Some tt \<and> read_only_change i (conn s0) (conn s') \<and> same_handle s0 s')
      \<and> block_bytes i (tt_data tt) = block_bytes i (tt_data tt)
      \<and> (\<forall>k. byte_at xs k = block_bytes i (tt_data tt) b k)"
    by (auto simp: byte_at_stored same_handle_def intro: read_only_change_trans)
qed

section \<open>Writing\<close>

text \<open>A codec whose \<open>delta_create\<close> never raises an error.\<close>

definition codec_total :: "codec \<Rightarrow> bool" where
  "codec_total c \<longleftrightarrow> (\<forall>a b. x_delta_create c a b \<noteq> None)"

lemma data_upsert_ok:
  assumes "codec_total c" and "has_inode (b_file r) d"
  shows "\<exists>d'. data_upsert e (Some c) r d = Inr ((), d') \<and> t_meta d' = t_meta d
    \<and> t_dentry d' = t_dentry d \<and> t_xattr d' = t_xattr d
    \<and> (\<forall>k. tab_get data_key k (t_data d') =
          (if k = data_key r then Some r else tab_get data_key k (t_data d)))"
proof (cases "tab_get data_key (data_key r) (t_data d)")
  case None
  with assms(2) show ?thesis
    by (auto simp: data_upsert_def table_simps split: option.splits)
next
  case (Some old)
  obtain delta where "x_delta_create c (b_data old) (b_data r) = Some delta"
    using assms(1) by (auto simp: codec_total_def)
  with Some show ?thesis
    by (auto simp: data_upsert_def tab_get_overwrite split: option.splits)
qed

definition written :: "u32 \<Rightarrow> u32 \<Rightarrow> bytes \<Rightarrow> db \<Rightarrow> db \<Rightarrow> bool" where
  "written i b xs d d' \<longleftrightarrow> only_file i d d' \<and>
     block_bytes i (t_data d') = (block_bytes i (t_data d))(b := byte_at xs)"

lemma data_upsert_written:
  assumes "codec_total c" and "has_inode i d"
  shows "\<exists>d'. data_upsert e (Some c) \<lparr>b_file = i, b_num = b, b_data = xs\<rparr> d = Inr ((), d')
    \<and> written i b xs d d' \<and> t_meta d' = t_meta d"
proof -
  let ?r = "\<lparr>b_file = i, b_num = b, b_data = xs\<rparr>"
  obtain d' where d': "data_upsert e (Some c) ?r d = Inr ((), d')" "t_meta d' = t_meta d"
      "t_dentry d' = t_dentry d" "t_xattr d' = t_xattr d"
    and get: "\<And>k. tab_get data_key k (t_data d') =
          (if k = (i, b) then Some ?r else tab_get data_key k (t_data d))"
    using data_upsert_ok [OF assms(1), of ?r d e] assms(2) by (auto simp: data_key_def)
  then show ?thesis
    by (auto simp: written_def only_file_def block_bytes_def stored_block_def get fun_eq_iff)
qed

lemma written_meta_update:
  "written i b xs d d1 \<Longrightarrow> meta_update e i f d1 = Inr (u, d2) \<Longrightarrow> written i b xs d d2"
  using only_file_meta_update [of e i f d1 u d2] by (auto simp: written_def intro: only_file_trans)

text \<open>A piece of a transaction that only touches the row of one inode and keeps its size.\<close>

lemma times_ok:
  "\<exists>d'. twhen rec (tseq (update_mtime e i t) (update_ctime e i t)) d = Inr ((), d')
     \<and> (\<forall>d0. written i b xs d0 d \<longrightarrow> written i b xs d0 d') \<and> db_size i d' = db_size i d"
proof (cases rec)
  case True
  let ?f = "\<lambda>m. m\<lparr>m_mtime := time_param t\<rparr>" and ?g = "\<lambda>m. m\<lparr>m_ctime := time_param t\<rparr>"
  obtain d1 where d1: "meta_update e i ?f d = Inr ((), d1)" by (simp add: meta_update_def)
  obtain d2 where d2: "meta_update e i ?g d1 = Inr ((), d2)" by (simp add: meta_update_def)
  show ?thesis
    using True d1 d2 db_size_meta_update [OF d1, of i] db_size_meta_update [OF d2, of i]
    by (auto simp: tx_defs update_time_defs dest: written_meta_update)
qed (simp add: tx_defs)

lemma grow_ok:
  assumes "tab_get m_id i (t_meta d) = Some m"
  shows "\<exists>d'. twhen (m_size m < n) (meta_update e i (\<lambda>m. m\<lparr>m_size := n\<rparr>)) d = Inr ((), d')
     \<and> (\<forall>d0. written i b xs d0 d \<longrightarrow> written i b xs d0 d') \<and> db_size i d' = max (db_size i d) (unat n)"
proof (cases "m_size m < n")
  case True
  let ?f = "\<lambda>m. m\<lparr>m_size := n\<rparr>"
  obtain d1 where d1: "meta_update e i ?f d = Inr ((), d1)" by (simp add: meta_update_def)
  from assms True have "db_size i d1 = max (db_size i d) (unat n)"
    using d1 tab_get_SomeD [OF assms]
    by (auto simp: meta_update_def db_size_def tab_get_meta_update meta_set_def word_less_nat_alt)
  with True d1 show ?thesis
    by (auto simp: tx_defs dest: written_meta_update)
next
  case False
  with assms show ?thesis
    by (auto simp: tx_defs db_size_def word_less_nat_alt max_def)
qed

lemma write_data_ok:
  assumes "sq_ext s = Some c" and "codec_total c" and "has_inode i (conn s)"
  shows "\<exists>s'. write_data e i b xs n s = (Inr (), s') \<and> written i b xs (conn s) (conn s')
    \<and> same_handle s s' \<and> db_size i (conn s') = max (db_size i (conn s)) (unat n)"
proof -
  let ?d = "conn s"
  obtain m where m: "tab_get m_id i (t_meta ?d) = Some m"
    using assms(3) by (cases "tab_get m_id i (t_meta ?d)") (auto simp: has_inode_def tab_get_None_iff)
  obtain d1 where d1: "data_upsert e (Some c) \<lparr>b_file = i, b_num = b, b_data = xs\<rparr> ?d = Inr ((), d1)"
      "written i b xs ?d d1" "t_meta d1 = t_meta ?d"
    using data_upsert_written [OF assms(2,3)] by blast
  obtain d2 where d2: "twhen (m_size m < n) (meta_update e i (\<lambda>m. m\<lparr>m_size := n\<rparr>)) d1 = Inr ((), d2)"
      "written i b xs ?d d2" "db_size i d2 = max (db_size i d1) (unat n)"
    using grow_ok [of i d1 m n e b xs] m d1 by auto
  obtain d3 where d3: "twhen (sq_time_recording s) (tseq (update_mtime e i (utc_now e d2))
        (update_ctime e i (utc_now e d2))) d2 = Inr ((), d3)"
      "written i b xs ?d d3" "db_size i d3 = db_size i d2"
    using times_ok [of "sq_time_recording s" e i "utc_now e d2" d2 b xs] d2(2) by blast
  have "write_data e i b xs n s = (Inr (), s\<lparr>conn := d3\<rparr>)"
    using m d1(1) d2(1) d3(1) assms(1)
    by (simp add: write_data_def transact_def tbind_def tseq_def tquery_def)
  then show ?thesis
    using d3 d2(3) d1(3) by (auto simp: same_handle_def db_size_def)
qed

text \<open>What a writable connection to file \<open>i\<close> has, seen from the connection \<open>s0\<close> it came from.\<close>

definition writable :: "codec \<Rightarrow> u32 \<Rightarrow> sqlite \<Rightarrow> sqlite \<Rightarrow> bool" where
  "writable c i s0 s \<longleftrightarrow> sq_ext s = Some c \<and> codec_total c \<and> has_inode i (conn s)
     \<and> only_file i (conn s0) (conn s) \<and> same_handle s0 s"

interpretation disk: writable_device "\<lambda>b. get_data e i b n" "\<lambda>s. block_bytes i (t_data (conn s))"
    "writable c i s0" "write_data e i" "\<lambda>s. db_size i (conn s)" for e i n c s0
proof
  fix s b
  assume *: "writable c i s0 s"
  obtain s' where "get_data e i b n s = (Inr (case tab_get data_key (i, b) (t_data (conn s)) of
       Some r \<Rightarrow> b_data r | None \<Rightarrow> replicate (unat n) 0), s')"
     "read_only_change i (conn s) (conn s')" "same_handle s s'"
    using get_data_ok by blast
  with * show "\<exists>xs s'. get_data e i b n s = (Inr xs, s') \<and> writable c i s0 s'
      \<and> block_bytes i (t_data (conn s')) = block_bytes i (t_data (conn s))
      \<and> (\<forall>k. byte_at xs k = block_bytes i (t_data (conn s)) b k)"
    by (auto simp: byte_at_stored read_only_change_def writable_def only_file_has_inode
        same_handle_def intro: only_file_trans)
next
  fix s b r s'
  assume "get_data e i b n s = (r, s')"
  with get_data_ok [of e i b n s] show "db_size i (conn s') = db_size i (conn s)"
    by (auto simp: read_only_change_def)
next
  fix s b xs n'
  assume *: "writable c i s0 s"
  then obtain s' where "write_data e i b xs n' s = (Inr (), s')" "written i b xs (conn s) (conn s')"
      "same_handle s s'" "db_size i (conn s') = max (db_size i (conn s)) (unat n')"
    using write_data_ok [of s c i e b xs n'] by (auto simp: writable_def)
  with * show "\<exists>s'. write_data e i b xs n' s = (Inr (), s') \<and> writable c i s0 s'
      \<and> block_bytes i (t_data (conn s')) = (block_bytes i (t_data (conn s)))(b := byte_at xs)
      \<and> db_size i (conn s') = max (db_size i (conn s)) (unat n')"
    by (auto simp: written_def writable_def only_file_has_inode same_handle_def intro: only_file_trans)
qed

section \<open>Truncating\<close>

lemma data_delete_keys:
  assumes "data_delete e P d = Inr (u, d')" and "\<And>r. P r \<longleftrightarrow> Q (data_key r)"
  shows "t_meta d' = t_meta d \<and> t_dentry d' = t_dentry d \<and> t_xattr d' = t_xattr d
    \<and> (\<forall>k. tab_get data_key k (t_data d') = (if Q k then None else tab_get data_key k (t_data d)))"
proof -
  have "P = (\<lambda>r. Q (data_key r))" using assms(2) by blast
  with assms(1) tab_get_filter_key [of data_key _ "\<lambda>k. \<not> Q k" "t_data d"] show ?thesis
    by (auto simp: data_delete_def)
qed

lemma data_replace_ok:
  assumes "has_inode (b_file r) d"
  shows "\<exists>d'. data_replace e r d = Inr ((), d') \<and> t_meta d' = t_meta d
    \<and> t_dentry d' = t_dentry d \<and> t_xattr d' = t_xattr d
    \<and> (\<forall>k. tab_get data_key k (t_data d') =
          (if k = data_key r then Some r else tab_get data_key k (t_data d)))"
  using assms by (auto simp: data_replace_def table_simps split: option.split)

text \<open>Block \<open>b\<close> of the file after the truncation to \<open>off\<close> bytes.\<close>

definition cut_block :: "nat \<Rightarrow> (u32 \<Rightarrow> bytes) \<Rightarrow> u32 \<Rightarrow> nat \<Rightarrow> u8" where
  "cut_block off g b k = (if (unat b - 1) * 4096 + k < off then byte_at (g b) k else 0)"

lemma delete_above:
  assumes "data_delete e (\<lambda>r. b_file r = i \<and> block < b_num r) d = Inr ((), d')"
  shows "t_meta d' = t_meta d \<and> only_file i d d'
    \<and> stored_block i (t_data d') = (\<lambda>b. if block < b then [] else stored_block i (t_data d) b)"
  using data_delete_keys [OF assms, of "\<lambda>k. fst k = i \<and> block < snd k"]
  by (auto simp: only_file_def stored_block_def data_key_def fun_eq_iff)

lemma content_cut:
  assumes "\<And>b k. 1 \<le> unat b \<Longrightarrow> k < 4096 \<Longrightarrow>
      byte_at (stored_block i (t_data d') b) k = cut_block off (stored_block i (t_data d)) b k"
    and "p < 4294967296"
  shows "content i d' p = (if p < off then content i d p else 0)"
proof -
  let ?b = "of_nat (p div 4096 + 1) :: u32"
  have "unat ?b = p div 4096 + 1"
    using assms(2) by (intro unat_u32_of_nat) simp
  then show ?thesis
    using assms(1) [of ?b "p mod 4096"]
    by (simp add: content_def file_byte_def block_bytes_def cut_block_def)
qed

lemma release_data_zero:
  "\<exists>d'. release_data e i 0 d = Inr ((), d') \<and> t_meta d' = t_meta d \<and> only_file i d d'
     \<and> stored_block i (t_data d') = (\<lambda>b. [])"
proof -
  obtain d' where d': "data_delete e (\<lambda>r. b_file r = i) d = Inr ((), d')"
    by (simp add: data_delete_def)
  from data_delete_keys [OF d', of "\<lambda>k. fst k = i"] d' show ?thesis
    by (auto simp: release_data_def only_file_def stored_block_def data_key_def fun_eq_iff)
qed

lemma release_data_aligned:
  assumes "off \<noteq> 0" and "off mod BLOCK_SIZE = 0"
  shows "\<exists>d'. release_data e i off d = Inr ((), d') \<and> t_meta d' = t_meta d \<and> only_file i d d'
     \<and> stored_block i (t_data d') =
       (\<lambda>b. if off div BLOCK_SIZE < b then [] else stored_block i (t_data d) b)"
proof -
  obtain d' where d': "data_delete e (\<lambda>r. b_file r = i \<and> off div BLOCK_SIZE < b_num r) d = Inr ((), d')"
    by (simp add: data_delete_def)
  with delete_above [OF d'] assms show ?thesis
    by (simp add: release_data_def tx_defs)
qed

lemma release_data_unaligned:
  assumes "off mod BLOCK_SIZE \<noteq> 0" and "has_inode i d"
  shows "\<exists>d' xs. release_data e i off d = Inr ((), d') \<and> t_meta d' = t_meta d \<and> only_file i d d'
     \<and> byte_at xs = byte_at (stored_block i (t_data d) (off div BLOCK_SIZE + 1))
     \<and> stored_block i (t_data d') =
       (\<lambda>b. if off div BLOCK_SIZE + 1 < b then []
            else if b = off div BLOCK_SIZE + 1 then resize (unat (off mod BLOCK_SIZE)) xs
            else stored_block i (t_data d) b)"
proof -
  let ?B = "off div BLOCK_SIZE + 1"
  define xs where "xs = (case tab_get data_key (i, ?B) (t_data d) of
      Some r \<Rightarrow> b_data r | None \<Rightarrow> replicate (unat BLOCK_SIZE) 0)"
  let ?r = "\<lparr>b_file = i, b_num = ?B, b_data = resize (unat (off mod BLOCK_SIZE)) xs\<rparr>"
  have off: "off \<noteq> 0" using assms(1) by auto
  have xs: "byte_at xs = byte_at (stored_block i (t_data d) ?B)"
    by (auto simp: xs_def stored_block_def fun_eq_iff split: option.split)
  obtain d1 where d1: "data_replace e ?r d = Inr ((), d1)" "t_meta d1 = t_meta d"
      "t_dentry d1 = t_dentry d" "t_xattr d1 = t_xattr d"
      "\<And>k. tab_get data_key k (t_data d1) = (if k = (i, ?B) then Some ?r else tab_get data_key k (t_data d))"
    using data_replace_ok [of ?r d e] assms(2) by (auto simp: data_key_def)
  have st: "stored_block i (t_data d1) = (stored_block i (t_data d))(?B := b_data ?r)"
    by (auto simp: stored_block_def d1(5) fun_eq_iff)
  have of1: "only_file i d d1"
    using d1 by (simp add: only_file_def)
  obtain d2 where d2: "data_delete e (\<lambda>r. b_file r = i \<and> ?B < b_num r) d1 = Inr ((), d2)"
    by (simp add: data_delete_def)
  have "release_data e i off d = Inr ((), d2)"
    using off assms(1) d1(1) d2 by (simp add: release_data_def tx_defs Let_def xs_def)
  then show ?thesis
    using delete_above [OF d2] of1 d1(2) st xs
    by (intro exI [of _ d2] exI [of _ xs]) (auto intro: only_file_trans simp: fun_eq_iff)
qed

lemma release_data_ok:
  assumes "has_inode i d"
  shows "\<exists>d'. release_data e i off d = Inr ((), d') \<and> t_meta d' = t_meta d \<and> only_file i d d'
    \<and> (\<forall>p < 4294967296. content i d' p = (if p < unat off then content i d p else 0))"
proof -
  have ob: "unat off div 4096 * 4096 + unat off mod 4096 = unat off" by simp
  consider "off = 0" | "off \<noteq> 0" "off mod BLOCK_SIZE = 0" | "off mod BLOCK_SIZE \<noteq> 0" by blast
  then show ?thesis
  proof cases
    case 1
    then show ?thesis
      using release_data_zero [of e i d]
      by (auto intro!: content_cut [where off = 0, simplified] simp: cut_block_def)
  next
    case 2
    obtain d' where d': "release_data e i off d = Inr ((), d')" "t_meta d' = t_meta d" "only_file i d d'"
        "stored_block i (t_data d') = (\<lambda>b. if off div BLOCK_SIZE < b then [] else stored_block i (t_data d) b)"
      using release_data_aligned [OF 2] by blast
    have m: "unat off mod 4096 = 0" using 2(2) by (metis unat_0 unat_block_off)
    have "byte_at (stored_block i (t_data d') b) k = cut_block (unat off) (stored_block i (t_data d)) b k"
      if "1 \<le> unat b" "k < 4096" for b k
    proof -
      have "off div BLOCK_SIZE < b \<longleftrightarrow> unat off \<le> (unat b - 1) * 4096 + k"
        using ob m that by (simp add: word_less_nat_alt unat_block_num) linarith
      then show ?thesis by (auto simp: d'(4) cut_block_def)
    qed
    from content_cut [OF this] d' show ?thesis by blast
  next
    case 3
    obtain d' xs where d': "release_data e i off d = Inr ((), d')" "t_meta d' = t_meta d" "only_file i d d'"
        "byte_at xs = byte_at (stored_block i (t_data d) (off div BLOCK_SIZE + 1))"
        "stored_block i (t_data d') = (\<lambda>b. if off div BLOCK_SIZE + 1 < b then []
            else if b = off div BLOCK_SIZE + 1 then resize (unat (off mod BLOCK_SIZE)) xs
            else stored_block i (t_data d) b)"
      using release_data_unaligned [OF 3 assms] by blast
    have B: "unat (off div BLOCK_SIZE + 1) = unat off div 4096 + 1"
      using unat_start_block [of off] by (simp add: start_block_def first_block_def)
    have "byte_at (stored_block i (t_data d') b) k = cut_block (unat off) (stored_block i (t_data d)) b k"
      if "1 \<le> unat b" "k < 4096" for b k
    proof (cases "b = off div BLOCK_SIZE + 1")
      case True
      have "k < unat off mod 4096 \<longleftrightarrow> unat off div 4096 * 4096 + k < unat off"
        using ob by linarith
      with True show ?thesis
        using B d'(4) by (auto simp: d'(5) cut_block_def byte_at_resize unat_block_off)
    next
      case False
      then have "off div BLOCK_SIZE + 1 < b \<longleftrightarrow> unat off \<le> (unat b - 1) * 4096 + k"
        using B ob that unfolding word_less_nat_alt word_unat_eq_iff by linarith
      with False show ?thesis by (auto simp: d'(5) cut_block_def)
    qed
    from content_cut [OF this] d' show ?thesis by blast
  qed
qed

lemma update_inode_ok:
  assumes "get_inode_local (a_ino attr) (conn s) = Inr (Some old)"
  shows "\<exists>s'. update_inode e attr trunc s = (Inr (), s') \<and> same_handle s s'
    \<and> only_file (a_ino attr) (conn s) (conn s')
    \<and> db_size (a_ino attr) (conn s') = unat (a_size attr)
    \<and> (\<forall>p < 4294967296. content (a_ino attr) (conn s') p =
         (if trunc \<and> unat (a_size attr) \<le> p then 0 else content (a_ino attr) (conn s) p))
    \<and> (\<exists>m. tab_get m_id (a_ino attr) (t_meta (conn s')) = Some m
         \<and> m_atime m = time_param (a_atime attr))"
proof -
  let ?i = "a_ino attr" and ?d = "conn s" and ?now = "utc_now e (conn s)"
  let ?f = "\<lambda>m. m\<lparr>m_size := a_size attr, m_atime := time_param (a_atime attr),
      m_mtime := time_param (if a_size old \<noteq> a_size attr then ?now else a_mtime attr),
      m_ctime := time_param ?now, m_crtime := time_param (a_crtime attr), m_mode := a_perm attr,
      m_uid := a_uid attr, m_gid := a_gid attr, m_rdev := a_rdev attr, m_flags := a_flags attr\<rparr>"
  obtain d1 where d1: "meta_update e ?i ?f ?d = Inr ((), d1)" by (simp add: meta_update_def)
  note of1 = only_file_meta_update [OF d1]
  obtain m where m: "tab_get m_id ?i (t_meta ?d) = Some m"
    using get_inode_local_SomeD [OF assms] by blast
  have s1: "db_size ?i d1 = unat (a_size attr)"
    using d1 m tab_get_SomeD [OF m]
    by (auto simp: meta_update_def db_size_def tab_get_meta_update meta_set_def)
  have t1: "\<exists>m. tab_get m_id ?i (t_meta d1) = Some m \<and> m_atime m = time_param (a_atime attr)"
    using d1 m tab_get_SomeD [OF m]
    by (auto simp: meta_update_def tab_get_meta_update meta_set_def)
  have c1: "content ?i d1 = content ?i ?d"
    using of1 by (simp add: content_def)
  have "has_inode ?i d1"
    using get_inode_local_has [OF assms] of1 only_file_has_inode by blast
  then obtain d2 where d2: "release_data e ?i (a_size attr) d1 = Inr ((), d2)" "t_meta d2 = t_meta d1"
      "only_file ?i d1 d2"
      "\<forall>p < 4294967296. content ?i d2 p = (if p < unat (a_size attr) then content ?i d1 p else 0)"
    using release_data_ok by blast
  have "update_inode e attr trunc s = (Inr (), s\<lparr>conn := if trunc then d2 else d1\<rparr>)"
    using assms d1 d2(1) by (simp add: update_inode_def transact_def tx_defs)
  then show ?thesis
    using of1 s1 c1 t1 d2
    by (auto simp: same_handle_def db_size_def intro: only_file_trans)
qed

section \<open>The handlers\<close>

lemma fs_read_live:
  assumes "\<not> fs_rewind f" and "unat (ucast offset :: u32) + unat sz < 4294967296"
  shows "\<exists>f'. fs_read e i offset sz f = Some (Reply_data (map (content (ucast i) (conn (fs_db f)))
        [unat (ucast offset :: u32)..<unat (ucast offset :: u32) + unat sz]), f')
    \<and> read_only_change (ucast i) (conn (fs_db f)) (conn (fs_db f'))
    \<and> same_handle (fs_db f) (fs_db f') \<and> f' = f\<lparr>fs_db := fs_db f'\<rparr>"
  using live.read_loop_bytes [of "ucast i" "fs_db f" "fs_db f" "ucast offset" sz e
      "get_db_block_size (fs_db f)" "[]"] assms
  by (auto simp: fs_read_def content_def)

lemma fs_read_past:
  assumes "fs_rewind f" and "sq_temp (fs_db f) = Some tt"
    and "unat (ucast offset :: u32) + unat sz < 4294967296"
  shows "\<exists>f'. fs_read e i offset sz f = Some (Reply_data
        (map (file_byte (block_bytes (ucast i) (tt_data tt)))
        [unat (ucast offset :: u32)..<unat (ucast offset :: u32) + unat sz]), f')
    \<and> read_only_change (ucast i) (conn (fs_db f)) (conn (fs_db f'))
    \<and> same_handle (fs_db f) (fs_db f') \<and> f' = f\<lparr>fs_db := fs_db f'\<rparr>"
  using past.read_loop_bytes [of "fs_db f" tt "ucast i" "fs_db f" "ucast offset" sz e
      "get_db_block_size (fs_db f)" "[]"] assms
  by (auto simp: fs_read_def)

text \<open>A mount that can write file \<open>i\<close>: extensions loaded, \<open>delta_create\<close> total, the inode there.\<close>

definition can_write :: "codec \<Rightarrow> u32 \<Rightarrow> fs \<Rightarrow> bool" where
  "can_write c i f \<longleftrightarrow> \<not> fs_read_only f \<and> sq_ext (fs_db f) = Some c \<and> codec_total c
     \<and> has_inode i (conn (fs_db f))"

lemma fs_write_live:
  assumes "can_write c (ucast i) f" and "data \<noteq> []"
    and "unat (ucast offset :: u32) + length data < 4294967296"
  shows "\<exists>f'. fs_write e i offset data f = Some (Reply_written (of_nat (length data)), f')
    \<and> (\<forall>p < 4294967296. content (ucast i) (conn (fs_db f')) p =
          overlay (unat (ucast offset :: u32)) data (content (ucast i) (conn (fs_db f)) p) p)
    \<and> db_size (ucast i) (conn (fs_db f')) =
          max (db_size (ucast i) (conn (fs_db f))) (unat (ucast offset :: u32) + length data)
    \<and> only_file (ucast i) (conn (fs_db f)) (conn (fs_db f'))
    \<and> same_handle (fs_db f) (fs_db f') \<and> f' = f\<lparr>fs_db := fs_db f'\<rparr>"
proof -
  have un: "unat (of_nat (length data) :: u32) = length data"
    using assms(3) by (intro unat_u32_of_nat) simp
  have w: "write_fits (ucast offset) (of_nat (length data))" "length data < 4294967296"
    using assms(2,3) by (simp_all add: write_fits_def un)
  have ok: "writable c (ucast i) (fs_db f) (fs_db f)"
    using assms(1) by (simp add: writable_def can_write_def)
  show ?thesis
    using disk.write_loop_bytes [OF w ok, of e "get_db_block_size (fs_db f)"] assms(1)
    by (auto simp: fs_write_def Let_def can_write_def writable_def content_def)
qed

lemma setattr_fields_size:
  assumes "setattr_fields e mode uid gid sz at mt crt fl old = Some attr"
  shows "a_ino attr = a_ino old"
    and "a_size attr = (case sz of Some n \<Rightarrow> ucast n | None \<Rightarrow> a_size old)"
  using assms by (auto simp: setattr_fields_def split: option.splits)

text \<open>setattr sets the size and, when the file gets shorter, clears what lies beyond it.\<close>

lemma fs_setattr_live:
  assumes "\<not> fs_read_only f"
    and "get_inode (ucast i) (fs_db f) = Inr (Some old)"
    and "setattr_fields e mode uid gid sz at mt crt fl old = Some attr"
  shows "\<exists>f'. fs_setattr e i mode uid gid sz at mt crt fl f =
      Some (Reply_attr ONE_SEC (get_file_attr attr), f')
    \<and> db_size (ucast i) (conn (fs_db f')) = unat (a_size attr)
    \<and> (\<forall>p < 4294967296. content (ucast i) (conn (fs_db f')) p =
         (if a_size attr < a_size old \<and> unat (a_size attr) \<le> p then 0
          else content (ucast i) (conn (fs_db f)) p))
    \<and> only_file (ucast i) (conn (fs_db f)) (conn (fs_db f')) \<and> same_handle (fs_db f) (fs_db f')
    \<and> f' = f\<lparr>fs_db := fs_db f'\<rparr> \<and> (\<exists>m. tab_get m_id (ucast i) (t_meta (conn (fs_db f'))) = Some m
         \<and> m_atime m = time_param (a_atime attr))"
proof -
  have i: "a_ino attr = ucast i"
    using get_inode_local_SomeD [of "ucast i" "conn (fs_db f)" old] assms(2)
      setattr_fields_size(1) [OF assms(3)] by (auto simp: get_inode_def)
  have g: "get_inode_local (a_ino attr) (conn (fs_db f)) = Inr (Some old)"
    using assms(2) i by (simp add: get_inode_def)
  obtain s' where s': "update_inode e attr (a_size attr < a_size old) (fs_db f) = (Inr (), s')"
      "same_handle (fs_db f) s'" "only_file (ucast i) (conn (fs_db f)) (conn s')"
      "db_size (ucast i) (conn s') = unat (a_size attr)"
      "\<forall>p < 4294967296. content (ucast i) (conn s') p =
         (if a_size attr < a_size old \<and> unat (a_size attr) \<le> p then 0
          else content (ucast i) (conn (fs_db f)) p)"
      "\<exists>m. tab_get m_id (ucast i) (t_meta (conn s')) = Some m \<and> m_atime m = time_param (a_atime attr)"
    using update_inode_ok [OF g, of e "a_size attr < a_size old"] unfolding i by blast
  then have "fs_setattr e i mode uid gid sz at mt crt fl f =
      Some (Reply_attr ONE_SEC (get_file_attr attr), f\<lparr>fs_db := s'\<rparr>)"
    using assms by (simp add: fs_setattr_def)
  with s' show ?thesis by auto
qed

end
