(* ===== verification/Samples.thy ===== *)
theory Samples
  imports Requests Files
begin

text \<open>
  Concrete values on which the witnesses evaluate the definitions: an environment whose
  clock and stamps advance with the number of audit rows, a codec that stores the new
  content as its own delta, a small database with a root directory, one file with
  two names and two subdirectories, and mounts of it.
\<close>

definition sample_codec :: codec where
  "sample_codec = \<lparr>x_compress = (\<lambda>b. b), x_uncompress = Some, x_delta_create = (\<lambda>a b. Some b),
     x_delta_apply = (\<lambda>a d. Some d)\<rparr>"

definition sample_stamp :: "nat \<Rightarrow> string" where
  "sample_stamp n = replicate n CHR ''t''"

definition sample_env :: env where
  "sample_env = \<lparr>wall = (\<lambda>n. \<lparr>st_sec = 1000 + int (min n 60), st_nsec = 0\<rparr>), stamp = sample_stamp,
     bare_col = (\<lambda>rows. case rows of [] \<Rightarrow> 0 | r # _ \<Rightarrow> b_file r), chrono_range = (\<lambda>s. True)\<rparr>"

definition sample_meta :: "u32 \<Rightarrow> file_type \<Rightarrow> u16 \<Rightarrow> meta_row" where
  "sample_meta i k p =
     \<lparr>m_id = i, m_size = 0, m_atime = (Some 0, 0), m_mtime = (Some 0, 0), m_ctime = (Some 0, 0),
      m_crtime = (Some 0, 0), m_kind = file_type_to_const k, m_mode = p, m_nlink = 0, m_uid = 0,
      m_gid = 0, m_rdev = 0, m_flags = 0\<rparr>"

definition sample_entry :: "u32 \<Rightarrow> string \<Rightarrow> u32 \<Rightarrow> file_type \<Rightarrow> dentry_row" where
  "sample_entry p n i k = \<lparr>d_parent = p, d_child = i, d_type = file_type_to_const k, d_name = n\<rparr>"

definition sample_db :: db where
  "sample_db = empty_db\<lparr>
     t_meta := [sample_meta 1 Directory 0x1FF, sample_meta 2 RegularFile 0x1A4,
                sample_meta 3 Directory 0x1ED, sample_meta 4 Directory 0x1ED],
     t_dentry := [sample_entry 1 ''.'' 1 Directory, sample_entry 1 ''..'' 1 Directory,
                  sample_entry 1 ''a'' 2 RegularFile, sample_entry 1 ''d'' 3 Directory,
                  sample_entry 3 ''..'' 1 Directory, sample_entry 3 ''.'' 3 Directory,
                  sample_entry 3 ''x'' 2 RegularFile, sample_entry 1 ''e'' 4 Directory,
                  sample_entry 4 ''..'' 1 Directory, sample_entry 4 ''.'' 4 Directory],
     autoinc := 4\<rparr>"

definition sample_fs :: fs where
  "sample_fs = fs_with (sqlite_new sample_codec sample_db) False False ''''"

lemmas sample_defs =
  sample_fs_def fs_with_def sqlite_new_def sample_db_def sample_meta_def sample_entry_def
  empty_db_def sample_codec_def sample_env_def sample_stamp_def

lemma sample_fs_simps [simp]:
  "conn (fs_db sample_fs) = sample_db" "fs_read_only sample_fs = False" "fs_rewind sample_fs = False"
  "sq_ext (fs_db sample_fs) = Some sample_codec" "lookups sample_fs i = None"
  "sq_time_recording (fs_db sample_fs) = True" "sq_temp (fs_db sample_fs) = None"
  by (simp_all add: sample_fs_def fs_with_def sqlite_new_def lookups_def)

lemma sample_codec_ok: "codec_ok sample_codec" "codec_total sample_codec"
  by (simp_all add: codec_ok_def codec_total_def sample_codec_def patch_def)

lemma sample_has: "has_inode i sample_db \<longleftrightarrow> i = 1 \<or> i = 2 \<or> i = 3 \<or> i = 4"
  by (auto simp: sample_defs has_inode_def)

lemma sample_wf: "db_wf sample_db"
  by (simp add: db_wf_def sample_defs key_defs numbered_logs_def numbered_def has_inode_def
      file_type_to_const.simps db_if_defs)

lemma sample_can_write: "can_write sample_codec 2 sample_fs"
  by (simp add: can_write_def sample_codec_ok sample_has)

lemma sample_attr:
  "get_inode_local 2 sample_db = Inr (Some \<lparr>a_ino = 2, a_size = 0, a_blocks = 0,
     a_atime = \<lparr>st_sec = 0, st_nsec = 0\<rparr>, a_mtime = \<lparr>st_sec = 0, st_nsec = 0\<rparr>,
     a_ctime = \<lparr>st_sec = 0, st_nsec = 0\<rparr>, a_crtime = \<lparr>st_sec = 0, st_nsec = 0\<rparr>,
     a_kind = RegularFile, a_perm = 0x1A4, a_nlink = 2, a_uid = 0, a_gid = 0, a_rdev = 0,
     a_flags = 0\<rparr>)"
  by (simp add: get_inode_local_def parse_attr_def sample_defs attr_of_cols.simps nlink_col_def
      block_count_def string_to_systemtime_def u32_col_def const_to_file_type_def)

end
