(* ===== verification/File_Properties.thy ===== *)
theory File_Properties
  imports Samples
begin

text \<open>
  The properties of reading, writing and truncating files, with their witnesses.
\<close>

text \<open>C1: A write that is acknowledged can be read back.  On a writable mount, for a file
  that exists and a range below 4 GiB, write answers with the number of bytes, and a read of
  the same range afterwards answers with exactly the bytes written.\<close>

theorem write_then_read:
  assumes "can_write c (ucast i) f" and "\<not> fs_rewind f" and "data \<noteq> []"
    and "unat (ucast offset :: u32) + length data < 4294967296"
  shows "\<exists>f' f''. fs_write e i offset data f = Some (Reply_written (of_nat (length data)), f')
    \<and> fs_read e i offset (of_nat (length data)) f' = Some (Reply_data data, f'')"
proof -
  let ?o = "unat (ucast offset :: u32)"
  obtain f' where f': "fs_write e i offset data f = Some (Reply_written (of_nat (length data)), f')"
      "\<forall>p < 4294967296. content (ucast i) (conn (fs_db f')) p =
          overlay ?o data (content (ucast i) (conn (fs_db f)) p) p"
      "f' = f\<lparr>fs_db := fs_db f'\<rparr>"
    using fs_write_live [OF assms(1,3,4)] by blast
  have rw: "\<not> fs_rewind f'" using assms(2) by (subst f'(3)) simp
  have un: "unat (of_nat (length data) :: u32) = length data"
    using assms(4) by (intro unat_u32_of_nat) simp
  have "map (content (ucast i) (conn (fs_db f'))) [?o..<?o + length data] = data"
    using f'(2) assms(4) by (intro nth_equalityI) (auto simp: overlay_def)
  then show ?thesis
    using f'(1) fs_read_live [OF rw, of offset "of_nat (length data)" e i] assms(4) un by auto
qed

theorem write_then_read_witness:
  "\<exists>f' f''. fs_write sample_env 2 4094 [1, 2, 3, 4] sample_fs = Some (Reply_written 4, f')
    \<and> fs_read sample_env 2 4094 4 f' = Some (Reply_data [1, 2, 3, 4], f'')"
  using write_then_read [of sample_codec 2 sample_fs "[1, 2, 3, 4]" 4094 sample_env]
  by (simp add: sample_can_write)



text \<open>C2: A write changes exactly its range.  On a writable mount, for a file that exists and
  a range below 4 GiB, write answers with the number of bytes; afterwards every byte of the
  file is the one written inside the range and the old one outside it, the size is the larger
  of the old size and the end of the range, and no other file, entry or extended attribute
  changed.\<close>

theorem write_overlays_range:
  assumes "can_write c (ucast i) f" and "data \<noteq> []"
    and "unat (ucast offset :: u32) + length data < 4294967296"
  shows "\<exists>f'. fs_write e i offset data f = Some (Reply_written (of_nat (length data)), f')
    \<and> (\<forall>p < 4294967296. content (ucast i) (conn (fs_db f')) p =
          overlay (unat (ucast offset :: u32)) data (content (ucast i) (conn (fs_db f)) p) p)
    \<and> db_size (ucast i) (conn (fs_db f')) =
          max (db_size (ucast i) (conn (fs_db f))) (unat (ucast offset :: u32) + length data)
    \<and> only_file (ucast i) (conn (fs_db f)) (conn (fs_db f'))"
  using fs_write_live [OF assms, of e] by blast

theorem write_overlays_range_witness:
  "\<exists>f'. fs_write sample_env 2 5000 [7, 8] sample_fs = Some (Reply_written 2, f')
    \<and> content 2 (conn (fs_db f')) 5001 = 8 \<and> db_size 2 (conn (fs_db f')) = 5002"
proof -
  obtain f' where f': "fs_write sample_env 2 5000 [7, 8] sample_fs = Some (Reply_written 2, f')"
      "\<forall>p < 4294967296. content 2 (conn (fs_db f')) p = overlay 5000 [7, 8] (content 2 sample_db p) p"
      "db_size 2 (conn (fs_db f')) = max (db_size 2 sample_db) 5002"
    using write_overlays_range [of sample_codec 2 sample_fs "[7, 8]" 5000 sample_env]
    by (auto simp: sample_can_write)
  moreover have "db_size 2 sample_db = 0" by (simp add: db_size_def sample_defs)
  ultimately show ?thesis by (auto simp: overlay_def)
qed

text \<open>C18: Setting a smaller size clears what is beyond it.  On a writable mount setattr with a
  size answers with that size (its low 32 bits) and stores it; if it is smaller than the old
  one every byte beyond it reads as zero afterwards, every other byte of the file keeps its
  value, and no other file, entry or extended attribute changes.\<close>

theorem setattr_truncates:
  assumes "\<not> fs_read_only f" and "get_inode (ucast i) (fs_db f) = Inr (Some old)"
  shows "\<exists>f' a. fs_setattr e i mode uid gid (Some n) None None None fl f =
      Some (Reply_attr ONE_SEC a, f') \<and> fa_size a = ucast (ucast n :: u32)
    \<and> db_size (ucast i) (conn (fs_db f')) = unat (ucast n :: u32)
    \<and> (\<forall>p < 4294967296. content (ucast i) (conn (fs_db f')) p =
         (if (ucast n :: u32) < a_size old \<and> unat (ucast n :: u32) \<le> p then 0
          else content (ucast i) (conn (fs_db f)) p))
    \<and> only_file (ucast i) (conn (fs_db f)) (conn (fs_db f'))"
proof -
  obtain attr where attr: "setattr_fields e mode uid gid (Some n) None None None fl old = Some attr"
    by (simp add: setattr_fields_def opt_time_def)
  have "a_size attr = ucast n"
    using setattr_fields_size(2) [OF attr] by simp
  with fs_setattr_live [OF assms attr] show ?thesis
    by (auto simp: get_file_attr_def)
qed

theorem setattr_truncates_witness:
  "\<exists>f' a. fs_setattr sample_env 2 None None None (Some 10) None None None None sample_fs =
      Some (Reply_attr ONE_SEC a, f') \<and> fa_size a = 10 \<and> db_size 2 (conn (fs_db f')) = 10"
  using setattr_truncates [of sample_fs 2 _ sample_env None None None 10 None] sample_attr
  by (fastforce simp: get_inode_def)

text \<open>Offsets are taken modulo 4 GiB: a write 4 GiB further on is the same write, so that it
  overwrites the beginning of the file.\<close>

lemma write_offset_wraps: "fs_write e i (offset + 0x100000000) data f = fs_write e i offset data f"
proof -
  have "(ucast (offset + 0x100000000) :: u32) = ucast offset"
    by transfer (simp add: take_bit_eq_mod mod_mod_cancel)
  then show ?thesis by (simp add: fs_write_def)
qed

text \<open>A write of at most 1 MiB that crosses 4 GiB is acknowledged with its full length
  although nothing of it is stored.\<close>

lemma write_across_4GiB_is_lost:
  assumes "\<not> fs_read_only f" and "4294967296 < unat (ucast offset :: u32) + length data"
    and "length data \<le> 1048576"
  shows "fs_write e i offset data f = Some (Reply_written (of_nat (length data)), f)"
proof -
  let ?o = "ucast offset :: u32" and ?n = "of_nat (length data) :: u32"
  have un: "unat ?n = length data" using assms(3) by (intro unat_u32_of_nat) simp
  have "unat (?o + ?n) = unat ?o + length data - 4294967296"
    using assms(2) by (simp add: unat_u32_add un)
  then have "unat (?o + ?n - 1) = unat ?o + length data - 4294967297"
    using assms(2) by (subst unat_u32_sub) simp_all
  then have "unat (?o + ?n - 1) \<le> 1048575"
    using assms(3) unat_u32_lt [of ?o] by simp
  then have "unat (end_block ?o ?n) \<le> 256"
    unfolding end_block_def
    by (subst unat_u32_add_le) (auto simp: unat_block_num intro: order_trans [OF div_le_mono])
  moreover have "256 < unat (start_block ?o)"
  proof -
    have "4293918720 div 4096 \<le> unat ?o div 4096"
      using assms(2,3) by (intro div_le_mono) simp
    then show ?thesis by (simp add: unat_start_block first_block_def)
  qed
  ultimately have "block_range (start_block ?o) (end_block ?o ?n) = []"
    by (simp add: block_range_def)
  with assms(1) show ?thesis by (simp add: fs_write_def Let_def)
qed

lemma write_across_4GiB_is_lost_example:
  "fs_write sample_env 2 0xFFFFFFFF [1, 2, 3] sample_fs = Some (Reply_written 3, sample_fs)"
  using write_across_4GiB_is_lost [of sample_fs "0xFFFFFFFF" "[1, 2, 3]" sample_env 2] by simp

text \<open>A write of no bytes at offset 0 wraps below the first block, so that the loop runs over every
  block number there is and panics on the first.\<close>
lemma empty_write_panics:
  assumes "\<not> fs_read_only f" and "(ucast offset :: u32) = 0"
  shows "fs_write e i offset [] f = None"
proof -
  have st: "start_block 0 = 1" and "end_block 0 0 = 1048576"
    by (simp_all add: end_block_def start_block_def BLOCK_SIZE_def)
  then have "unat (start_block 0) \<le> unat (end_block 0 0)" by simp
  then obtain bs where "block_range (start_block 0) (end_block 0 0) = 1 # bs"
    unfolding block_range_def st by (simp add: upt_conv_Cons del: upt_Suc)
  moreover have "b_start_index 0 1 = 0" "b_end_index 0 0 1 = BLOCK_SIZE" "data_offset 0 1 = 0"
    by (simp_all add: b_start_index_def b_end_index_def data_offset_def end_block_def start_block_def
        BLOCK_SIZE_def)
  moreover have "slice ([] :: bytes) 0 (unat BLOCK_SIZE) = None"
    by (simp add: slice_def BLOCK_SIZE_def)
  ultimately show ?thesis using assms by (simp add: fs_write_def)
qed

section \<open>Times SQLite cannot store\<close>

text \<open>
  A time after the year 9999 is within chrono's range, so setattr accepts and acknowledges it;
  the statement stores NULL, and no attributes of the inode can be read any more.
\<close>

lemma far_atime_hides_inode:
  assumes "\<not> fs_read_only f" and "\<not> fs_rewind f"
    and "get_inode (ucast i) (fs_db f) = Inr (Some old)"
    and "datetime_from (chrono_range e) t = Some at" and "253402300799 < st_sec at"
  shows "\<exists>a f'. fs_setattr e i None None None None (Some t) None None None f =
      Some (Reply_attr ONE_SEC a, f') \<and> fs_getattr i f' = (Reply_error ENOENT, f')"
proof -
  define attr where "attr = old\<lparr>a_atime := at\<rparr>"
  have attr: "setattr_fields e None None None None (Some t) None None None old = Some attr"
    using assms(4) by (simp add: setattr_fields_def opt_time_def attr_def)
  obtain f' m where f': "fs_setattr e i None None None None (Some t) None None None f =
      Some (Reply_attr ONE_SEC (get_file_attr attr), f')" "f' = f\<lparr>fs_db := fs_db f'\<rparr>"
      "tab_get m_id (ucast i) (t_meta (conn (fs_db f'))) = Some m" "m_atime m = time_param (a_atime attr)"
    using fs_setattr_live [OF assms(1,3) attr] by blast
  have "\<not> fs_rewind f'" using assms(2) by (subst f'(2)) simp
  moreover have "fst (m_atime m) = None"
    using assms(5) f'(4) by (simp add: attr_def time_param_def sql_datetime_def)
  ultimately show ?thesis
    using f'(1) get_inode_local_NULL_atime [OF f'(3)] by (auto simp: fs_getattr_def get_inode_def)
qed

section \<open>Reads end\<close>

text \<open>C30: read always returns: for any size the kernel can ask for, whatever the offset, the
  blocks and the mode of the mount, the loop ends without a panic, and the answer is either
  ENOENT or exactly as many bytes as were asked for.\<close>

theorem read_always_returns:
  assumes "unat sz + 4096 \<le> 4294967296"
  shows "\<exists>r f'. fs_read e i off sz f = Some (r, f')
    \<and> (r = Reply_error ENOENT \<or> (\<exists>d. r = Reply_data d \<and> length d = unat sz))"
proof -
  obtain r s where "read_loop
      (\<lambda>b. if \<not> fs_rewind f then get_data e (ucast i) b (get_db_block_size (fs_db f))
           else get_data_at_time e (ucast i) b (get_db_block_size (fs_db f)))
      (ucast off) sz [] (fs_db f) = Some (r, s)" "\<forall>d. r = Inr d \<longrightarrow> length d = unat sz"
    using read_loop_total [OF assms] by (metis (no_types, lifting) add_0 list.size(3))
  then show ?thesis by (cases r) (auto simp: fs_read_def)
qed

theorem read_always_returns_witness:
  "\<exists>r f'. fs_read sample_env 2 0 0x4000 sample_fs = Some (r, f')
    \<and> (r = Reply_error ENOENT \<or> (\<exists>d. r = Reply_data d \<and> length d = 0x4000))"
  using read_always_returns [of "0x4000" sample_env 2 0 sample_fs] by simp

section \<open>Extended attributes\<close>

text \<open>C29: An extended attribute that was set is read back, by value and by size, and no other
  attribute of any inode changes; removing it answers ok and leaves ENODATA.\<close>

theorem xattr_round_trip:
  assumes "fs_setxattr e i n v fl f = (Reply_ok, f1)" and "\<not> fs_rewind f"
    and "length v < 2 ^ 32" and "length v \<le> unat sz" and "sz \<noteq> 0"
    and "fs_removexattr e i n f1 = (r, f2)"
  shows "fst (fs_getxattr i n sz f1) = Reply_data v
    \<and> fst (fs_getxattr i n 0 f1) = Reply_size (of_nat (length v))
    \<and> ((ucast j :: u32, m) \<noteq> (ucast i, n) \<longrightarrow> fst (fs_getxattr j m k f1) = fst (fs_getxattr j m k f))
    \<and> r = Reply_ok \<and> fst (fs_getxattr i n k f2) = Reply_error ENODATA"
proof -
  let ?r = "\<lparr>x_file = ucast i, x_name = n, x_value = v\<rparr>"
  have key: "xattr_key ?r = (ucast i, n)" by (simp add: xattr_key_def)
  obtain u s where s: "set_xattr e (ucast i) n v (fs_db f) = (Inr u, s)" "f1 = f\<lparr>fs_db := s\<rparr>"
     "\<not> fs_read_only f"
    using assms(1) by (auto simp: fs_setxattr_def Let_def split: if_splits sum.splits prod.splits)
  then have t: "t_xattr (conn s) = filter (\<lambda>q. xattr_key q \<noteq> (ucast i, n)) (t_xattr (conn (fs_db f))) @ [?r]"
    using key by (auto simp: set_xattr_def transact_def tx_defs stmt_defs update_time_defs
       split: sum.splits if_splits prod.splits)
  have g: "get_xattr a b s = (if (a, b) = (ucast i, n) then Inr v else get_xattr a b (fs_db f))" for a b
    by (simp add: get_xattr_def t table_simps key split: option.split)
  have "\<exists>s2. delete_xattr e (ucast i) n s = (Inr (), s2) \<and>
    t_xattr (conn s2) = filter (\<lambda>r. \<not> (x_file r = ucast i \<and> x_name r = n)) (t_xattr (conn s))"
    by (simp add: delete_xattr_def transact_def tx_defs stmt_defs update_time_defs)
  then obtain s2 where s2: "delete_xattr e (ucast i) n s = (Inr (), s2)"
    "t_xattr (conn s2) = filter (\<lambda>r. \<not> (x_file r = ucast i \<and> x_name r = n)) (t_xattr (conn s))"
    by blast
  have "get_xattr (ucast i) n s2 = Inl FsNoEnt"
  proof -
    have "tab_get xattr_key (ucast i, n) (t_xattr (conn s2)) = None"
      unfolding s2(2) tab_get_None_iff by (auto simp: xattr_key_def)
    then show ?thesis by (simp add: get_xattr_def)
  qed
  moreover have "\<not> sz < of_nat (length v)"
    using assms(3,4) by (simp add: word_less_nat_alt unat_of_nat take_bit_nat_eq_self)
  moreover have "r = Reply_ok" "f2 = f\<lparr>fs_db := s2\<rparr>"
    using assms(6) s s2(1) by (simp_all add: fs_removexattr_def)
  ultimately show ?thesis
    using assms(2,5) s(2) g by (auto simp: fs_getxattr_def sized_reply_def split: sum.split)
qed

theorem xattr_round_trip_witness:
  "fst (fs_getxattr 1 ''u'' 4 (snd (fs_setxattr sample_env 1 ''u'' [7] 0 sample_fs))) = Reply_data [7]"
proof -
  let ?f = "snd (fs_setxattr sample_env 1 ''u'' [7] 0 sample_fs)"
  have "fst (fs_setxattr sample_env 1 ''u'' [7] 0 sample_fs) = Reply_ok" by code_simp
  then have "fs_setxattr sample_env 1 ''u'' [7] 0 sample_fs = (Reply_ok, ?f)" by (simp add: prod_eq_iff)
  from xattr_round_trip [where sz = 4, OF this _ _ _ _ prod.collapse [symmetric]] show ?thesis
    by simp
qed

end
