(* ===== verification/Namespace.thy ===== *)
theory Namespace
  imports FsNames Files
begin

text \<open>
  The directory tree as a map from parent and name to inode and type, which the operations
  on directory entries refine: each of them is an update of the map, or leaves it alone and
  says why.
\<close>

section \<open>The abstract name space\<close>

type_synonym name_space = "u32 \<times> string \<rightharpoonup> u32 \<times> file_type"

definition entry_of :: "dentry_row \<Rightarrow> u32 \<times> file_type" where
  "entry_of r = (d_child r, const_to_file_type (d_type r))"

definition names :: "db \<Rightarrow> name_space" where
  "names d k = map_option entry_of (tab_get dentry_key k (t_dentry d))"

lemma names_None_iff: "names d k = None \<longleftrightarrow> tab_get dentry_key k (t_dentry d) = None"
  by (simp add: names_def)

lemma names_SomeD:
  "names d (p, n) = Some (i, ty) \<Longrightarrow>
   \<exists>r \<in> set (t_dentry d). d_parent r = p \<and> d_name r = n \<and> d_child r = i"
  by (auto simp: names_def entry_of_def dentry_key_def dest!: tab_get_SomeD)

lemma names_cong: "t_dentry d' = t_dentry d \<Longrightarrow> names d' = names d"
  by (simp add: names_def fun_eq_iff)

text \<open>What no operation on entries touches.\<close>

definition same_files :: "db \<Rightarrow> db \<Rightarrow> bool" where
  "same_files d d' \<longleftrightarrow> t_data d' = t_data d \<and> t_xattr d' = t_xattr d
     \<and> map m_id (t_meta d') = map m_id (t_meta d) \<and> (\<forall>j. db_size j d' = db_size j d)
     \<and> map m_kind (t_meta d') = map m_kind (t_meta d) \<and> autoinc d' = autoinc d"

lemma same_files_refl [simp]: "same_files d d"
  by (simp add: same_files_def)

lemma same_files_trans: "same_files d d1 \<Longrightarrow> same_files d1 d2 \<Longrightarrow> same_files d d2"
  by (simp add: same_files_def)

lemma same_files_has_inode: "same_files d d' \<Longrightarrow> has_inode i d' = has_inode i d"
  unfolding same_files_def has_inode_def by (metis list.set_map)

section \<open>Statements on the map\<close>

lemma dentry_insert_names:
  assumes "dentry_insert e r d = Inr (u, d')"
  shows "names d' = (names d)(dentry_key r \<mapsto> entry_of r)" and "names d (dentry_key r) = None"
    and "t_meta d' = t_meta d \<and> t_data d' = t_data d \<and> t_xattr d' = t_xattr d \<and> autoinc d' = autoinc d"
  using assms
  by (auto simp: dentry_insert_def names_def fun_eq_iff table_simps split: if_splits option.splits)

lemma dentry_delete_names:
  assumes "\<And>r. P r \<longleftrightarrow> Q (dentry_key r)"
  shows "\<exists>d'. dentry_delete e P d = Inr ((), d')
    \<and> names d' = (\<lambda>k. if Q k then None else names d k) \<and> same_files d d'"
proof -
  have "P = (\<lambda>r. Q (dentry_key r))" using assms by blast
  with tab_get_filter_key [of dentry_key _ "\<lambda>k. \<not> Q k" "t_dentry d"] show ?thesis
    by (auto simp: dentry_delete_def names_def fun_eq_iff same_files_def db_size_def)
qed

lemma tab_get_rename:
  assumes "keyed key t" and "tab_get key k t = Some old"
    and "key r = k \<or> tab_get key (key r) t = None"
  shows "tab_get key j (map (\<lambda>q. if key q = k then r else q) t) =
    (if j = key r then Some r else if j = k then None else tab_get key j t)"
proof -
  have "tab_get key j (map (\<lambda>q. if key q = k then r else q) t) =
      (if j = key r then (if k \<in> key ` set t then Some r else if j = k then None else tab_get key j t)
       else if j = k then None else tab_get key j t)"
    using assms(1,3)
  proof (induction t)
    case (Cons q t)
    then show ?case
      by (cases "key q = k") (auto simp: tab_get_None_iff split: if_splits)
  qed auto
  with assms(2) show ?thesis by (auto dest!: tab_get_SomeD)
qed

lemma dentry_update_names:
  assumes "keyed dentry_key (t_dentry d)" and "tab_get dentry_key k (t_dentry d) = Some old"
    and "dentry_update e k g d = Inr (u, d')"
  shows "names d' = (names d)(k := None, dentry_key (g old) \<mapsto> entry_of (g old))"
    and "same_files d d'"
proof -
  from assms(2,3) have free: "dentry_key (g old) = k \<or> tab_get dentry_key (dentry_key (g old)) (t_dentry d) = None"
    and d': "t_dentry d' = map (\<lambda>q. if dentry_key q = k then g old else q) (t_dentry d)"
      "t_data d' = t_data d" "t_xattr d' = t_xattr d" "t_meta d' = t_meta d" "autoinc d' = autoinc d"
    by (auto simp: dentry_update_def Let_def split: if_splits)
  from tab_get_rename [OF assms(1,2) free] d'(1) show "names d' = (names d)(k := None, dentry_key (g old) \<mapsto> entry_of (g old))"
    by (auto simp: names_def fun_eq_iff)
  from d' show "same_files d d'"
    by (simp add: same_files_def db_size_def)
qed

lemma update_times_names:
  "\<exists>d'. update_mtime e i t d = Inr ((), d') \<and> t_dentry d' = t_dentry d \<and> same_files d d'"
  "\<exists>d'. update_ctime e i t d = Inr ((), d') \<and> t_dentry d' = t_dentry d \<and> same_files d d'"
  "\<exists>d'. update_atime e i t d = Inr ((), d') \<and> t_dentry d' = t_dentry d \<and> same_files d d'"
  by (auto simp: update_time_defs meta_update_def same_files_def db_size_def tab_get_meta_update
      meta_set_def comp_def split: option.split)

text \<open>
  A piece of a transaction that only sets times succeeds and changes neither entries nor
  files.
\<close>

definition only_times :: "(db, unit) tx \<Rightarrow> bool" where
  "only_times m \<longleftrightarrow> (\<forall>d. \<exists>d'. m d = Inr ((), d') \<and> t_dentry d' = t_dentry d \<and> same_files d d')"

lemma only_timesD: "only_times m \<Longrightarrow> \<exists>d'. m d = Inr ((), d') \<and> t_dentry d' = t_dentry d \<and> same_files d d'"
  by (simp add: only_times_def)

lemma only_times_update:
  "only_times (update_mtime e i t)" "only_times (update_ctime e i t)" "only_times (update_atime e i t)"
  unfolding only_times_def using update_times_names by auto

lemma only_times_tseq: "only_times m \<Longrightarrow> only_times n \<Longrightarrow> only_times (tseq m n)"
  unfolding only_times_def tseq_def tbind_def
  by (metis (no_types, lifting) old.prod.case old.sum.simps(6) same_files_trans)

lemma only_times_twhen: "only_times m \<Longrightarrow> only_times (twhen b m)"
  by (simp add: only_times_def twhen_def tret_def)

lemmas only_times_intros = only_times_update only_times_tseq only_times_twhen

section \<open>Removing an entry\<close>

definition dot_name :: "string \<Rightarrow> bool" where
  "dot_name n \<longleftrightarrow> n = ''.'' \<or> n = ''..''"

definition without_entry :: "u32 \<Rightarrow> string \<Rightarrow> name_space \<Rightarrow> name_space" where
  "without_entry p n N = (if dot_name n then N else N((p, n) := None))"

definition without_children :: "u32 \<Rightarrow> name_space \<Rightarrow> name_space" where
  "without_children i N = (\<lambda>k. if fst k = i then None else N k)"

lemma delete_dentry_local_names:
  "\<exists>d'. delete_dentry_local e p n d = Inr ((), d') \<and> names d' = without_entry p n (names d)
     \<and> same_files d d'"
proof (cases "dot_name n")
  case False
  obtain d' where "dentry_delete e (\<lambda>r. d_parent r = p \<and> d_name r = n) d = Inr ((), d')"
      "names d' = (\<lambda>k. if k = (p, n) then None else names d k)" "same_files d d'"
    using dentry_delete_names [of "\<lambda>r. d_parent r = p \<and> d_name r = n" "\<lambda>k. k = (p, n)"]
    by (auto simp: dentry_key_def)
  with False show ?thesis
    by (auto simp: delete_dentry_local_def twhen_def without_entry_def dot_name_def fun_eq_iff)
qed (auto simp: delete_dentry_local_def tx_defs without_entry_def dot_name_def)

lemma delete_sub_dentry_names:
  "\<exists>d'. delete_sub_dentry e i d = Inr ((), d') \<and> names d' = without_children i (names d)
     \<and> same_files d d'"
  using dentry_delete_names [of "\<lambda>r. d_parent r = i" "\<lambda>k. fst k = i"]
  by (simp add: delete_sub_dentry_def without_children_def dentry_key_def)

lemma delete_dentry_missing:
  "names (conn s) (p, n) = None \<Longrightarrow> delete_dentry e p n s = (Inl (SqliteError QueryReturnedNoRows), s)"
  by (simp add: delete_dentry_def transact_def tbind_def tquery_def names_None_iff)

lemma delete_dentry_names:
  assumes "names (conn s) (p, n) = Some (i, ty)"
  shows "\<exists>s'. delete_dentry e p n s = (Inr i, s') \<and> same_handle s s'
    \<and> names (conn s') = without_children i (without_entry p n (names (conn s)))
    \<and> same_files (conn s) (conn s')"
proof -
  let ?d = "conn s" and ?now = "utc_now e (conn s)"
  let ?t = "twhen (sq_time_recording s) (tseq (update_ctime e i ?now)
      (tseq (update_mtime e p ?now) (update_ctime e p ?now)))"
  obtain r where r: "tab_get dentry_key (p, n) (t_dentry ?d) = Some r" "d_child r = i"
    using assms by (auto simp: names_def entry_of_def)
  obtain d1 where d1: "delete_dentry_local e p n ?d = Inr ((), d1)"
      "names d1 = without_entry p n (names ?d)" "same_files ?d d1"
    using delete_dentry_local_names by blast
  obtain d2 where d2: "delete_sub_dentry e i d1 = Inr ((), d2)"
      "names d2 = without_children i (names d1)" "same_files d1 d2"
    using delete_sub_dentry_names by blast
  have "only_times ?t" by (intro only_times_intros)
  then obtain d3 where d3: "?t d2 = Inr ((), d3)" "t_dentry d3 = t_dentry d2" "same_files d2 d3"
    using only_timesD by blast
  have "delete_dentry e p n s = (Inr i, s\<lparr>conn := d3\<rparr>)"
    using r d1(1) d2(1) d3(1)
    by (simp add: delete_dentry_def transact_def tbind_def tseq_def tquery_def tret_def Let_def)
  then show ?thesis
    using d1(2) d2(2) names_cong [OF d3(2)]
      same_files_trans [OF same_files_trans [OF d1(3) d2(3)] d3(3)]
    by (simp add: same_handle_def)
qed

section \<open>Moving an entry\<close>

lemma get_dentry_single_names:
  "get_dentry_single p n d = Inr (map_option (\<lambda>v. \<lparr>parent_ino = p, child_ino = fst v,
     filename = n, file_type = snd v\<rparr>) (names d (p, n)))"
  by (simp add: get_dentry_single_def names_def entry_of_def option.map_comp comp_def)

lemma check_empty_names:
  "db_wf d \<Longrightarrow> check_directory_is_empty_local i d = Inr (\<forall>n. names d (i, n) \<noteq> None \<longrightarrow> dot_name n)"
proof -
  assume wf: "db_wf d"
  have "n \<in> d_name ` {r \<in> set (t_dentry d). d_parent r = i} \<longleftrightarrow> names d (i, n) \<noteq> None" for n
    by (force simp: names_None_iff tab_get_None_iff dentry_key_def image_iff)
  then have "(\<forall>n \<in> d_name ` {r \<in> set (t_dentry d). d_parent r = i}. dot_name n) \<longleftrightarrow>
      (\<forall>n. names d (i, n) \<noteq> None \<longrightarrow> dot_name n)"
    by blast
  then show ?thesis
    by (simp add: check_directory_is_empty_local_def only_dots_iff dot_name_def)
qed

text \<open>
  The specification of the checks of a move: the error, or the inode whose entry the move
  replaces.
\<close>

definition move_check ::
  "name_space \<Rightarrow> file_type \<Rightarrow> u32 \<times> string \<Rightarrow> error_kind + u32 option" where
  "move_check N ty target =
     (case N target of
        None \<Rightarrow> Inr None
      | Some (j, ty') \<Rightarrow>
          if ty \<noteq> ty'
          then Inl (case ty' of Directory \<Rightarrow> FsIsDir | RegularFile \<Rightarrow> FsIsNotDir | _ \<Rightarrow> Undefined)
          else if ty' = Directory \<and> (\<exists>n. N (j, n) \<noteq> None \<and> \<not> dot_name n) then Inl FsNotEmpty
          else Inr (Some j))"

definition replaced :: "u32 option \<Rightarrow> u32 \<times> string \<Rightarrow> name_space \<Rightarrow> name_space" where
  "replaced res target N =
     (if res = None then N else without_entry (fst target) (snd target) N)"

lemma replace_existing_names:
  assumes "db_wf d" and "file_type de = ty"
  shows "case move_check (names d) ty (np, nn) of
      Inl x \<Rightarrow> replace_existing e de np nn (map_option (\<lambda>v. \<lparr>parent_ino = np, child_ino = fst v,
        filename = nn, file_type = snd v\<rparr>) (names d (np, nn))) d = Inl x
    | Inr res \<Rightarrow> \<exists>d'. replace_existing e de np nn (map_option (\<lambda>v. \<lparr>parent_ino = np,
        child_ino = fst v, filename = nn, file_type = snd v\<rparr>) (names d (np, nn))) d = Inr (res, d')
          \<and> names d' = replaced res (np, nn) (names d) \<and> same_files d d'"
proof (cases "names d (np, nn)")
  case None
  then show ?thesis
    by (simp add: move_check_def replaced_def replace_existing_def tret_def)
next
  case (Some v)
  obtain j ty' where v: "v = (j, ty')" by (cases v)
  obtain d1 where d1: "delete_dentry_local e np nn d = Inr ((), d1)"
      "names d1 = without_entry np nn (names d)" "same_files d d1"
    using delete_dentry_local_names by blast
  show ?thesis
    using Some v d1 assms(2) check_empty_names [OF assms(1), of j]
    by (auto simp: move_check_def replaced_def replace_existing_def tx_defs
        split: file_type.splits)
qed

lemma keeps_wfD: "keeps keeps_wf m \<Longrightarrow> m d = Inr (a, d') \<Longrightarrow> db_wf d \<Longrightarrow> db_wf d'"
  by (auto simp: keeps_def keeps_wf_def)

lemma dentry_update_ok:
  assumes "db_wf d" and "tab_get dentry_key k (t_dentry d) = Some old"
    and "dentry_key (g old) = k \<or> names d (dentry_key (g old)) = None"
    and "has_inode (d_parent (g old)) d" and "has_inode (d_child (g old)) d"
  shows "\<exists>d'. dentry_update e k g d = Inr ((), d') \<and> db_wf d' \<and> same_files d d'
    \<and> names d' = (names d)(k := None, dentry_key (g old) \<mapsto> entry_of (g old))"
proof -
  obtain d' where d': "dentry_update e k g d = Inr ((), d')"
    using assms(2-) by (auto simp: dentry_update_def Let_def names_None_iff)
  from dentry_update_names [OF keyed_dentry [OF assms(1)] assms(2) d'] d'
    keeps_wfD [OF wf_dentry_update d' assms(1)] show ?thesis by blast
qed

lemma dentry_row:
  assumes "db_wf d" and "names d (p, n) = Some (i, ty)"
  shows "\<exists>r. tab_get dentry_key (p, n) (t_dentry d) = Some r \<and> d_parent r = p \<and> d_name r = n
    \<and> d_child r = i \<and> const_to_file_type (d_type r) = ty \<and> has_inode p d \<and> has_inode i d"
proof -
  obtain r where r: "tab_get dentry_key (p, n) (t_dentry d) = Some r" "entry_of r = (i, ty)"
    using assms(2) by (auto simp: names_def)
  with tab_get_SomeD [OF r(1)] assms(1) show ?thesis
    by (auto simp: entry_of_def dentry_key_def db_wf_def)
qed

text \<open>The map after a move, with the .. entry of a directory that changed its parent.\<close>

definition redirected :: "bool \<Rightarrow> u32 \<Rightarrow> u32 \<Rightarrow> name_space \<Rightarrow> name_space" where
  "redirected b i np N =
     (if b then N((i, ''..'') := map_option (\<lambda>w. (np, snd w)) (N (i, ''..''))) else N)"

definition moved :: "u32 \<Rightarrow> string \<Rightarrow> u32 \<Rightarrow> string \<Rightarrow> u32 \<times> file_type \<Rightarrow> name_space \<Rightarrow> name_space" where
  "moved p n np nn v N =
     redirected (p \<noteq> np \<and> snd v = Directory) (fst v) np (N((p, n) := None, (np, nn) \<mapsto> v))"

lemma redirect_ok:
  assumes "db_wf d" and "has_inode np d"
  shows "\<exists>d'. twhen b (dentry_update e (i, ''..'') (\<lambda>r. r\<lparr>d_child := np\<rparr>)) d = Inr ((), d')
    \<and> names d' = redirected b i np (names d) \<and> same_files d d'"
proof (cases "b \<and> names d (i, ''..'') \<noteq> None")
  case True
  then obtain j ty where N: "names d (i, ''..'') = Some (j, ty)" by auto
  obtain r where r: "tab_get dentry_key (i, ''..'') (t_dentry d) = Some r" "d_parent r = i"
      "d_name r = ''..''" "const_to_file_type (d_type r) = ty" "has_inode i d"
    using dentry_row [OF assms(1) N] by blast
  let ?g = "\<lambda>r. r\<lparr>d_child := np\<rparr>"
  have "dentry_key (?g r) = (i, ''..'')" "entry_of (?g r) = (np, ty)"
    using r by (simp_all add: dentry_key_def entry_of_def)
  moreover obtain d' where "dentry_update e (i, ''..'') ?g d = Inr ((), d')" "same_files d d'"
      "names d' = (names d)((i, ''..'') := None, dentry_key (?g r) \<mapsto> entry_of (?g r))"
    using dentry_update_ok [OF assms(1) r(1), of ?g e] r assms(2) by (auto simp: dentry_key_def)
  ultimately show ?thesis
    using True N by (auto simp: twhen_def redirected_def)
next
  case False
  then show ?thesis
    by (auto simp: tx_defs redirected_def dentry_update_def names_None_iff fun_eq_iff
        names_def)
qed

lemma move_dentry_missing:
  "names (conn s) (p, n) = None \<Longrightarrow> move_dentry e p n np nn s = (Inl FsNoEnt, s)"
  by (simp add: move_dentry_def transact_def tbind_def tquery_def get_dentry_single_names tfail_def Let_def)

lemma move_dentry_refused:
  assumes "db_wf (conn s)" and "names (conn s) (p, n) = Some (i, ty)"
    and "move_check (names (conn s)) ty (np, nn) = Inl x"
  shows "move_dentry e p n np nn s = (Inl x, s)"
  using replace_existing_names [OF assms(1), of "\<lparr>parent_ino = p, child_ino = i, filename = n,
      file_type = ty\<rparr>" ty e np nn] assms(2,3)
  by (simp add: move_dentry_def transact_def tbind_def tquery_def get_dentry_single_names Let_def)

lemma move_dentry_moves:
  assumes wf: "db_wf (conn s)" and src: "names (conn s) (p, n) = Some (i, ty)"
    and chk: "move_check (names (conn s)) ty (np, nn) = Inr res"
    and ne: "(p, n) \<noteq> (np, nn)" and dots: "\<not> dot_name nn" and np: "has_inode np (conn s)"
  shows "\<exists>s'. move_dentry e p n np nn s = (Inr res, s') \<and> same_handle s s'
    \<and> names (conn s') = moved p n np nn (i, ty) (names (conn s)) \<and> same_files (conn s) (conn s')"
proof -
  let ?d = "conn s" and ?now = "utc_now e (conn s)"
  let ?de = "\<lparr>parent_ino = p, child_ino = i, filename = n, file_type = ty\<rparr>"
  let ?ex = "map_option (\<lambda>v. \<lparr>parent_ino = np, child_ino = fst v, filename = nn,
      file_type = snd v\<rparr>) (names ?d (np, nn))"
  let ?g = "\<lambda>r. r\<lparr>d_parent := np, d_name := nn\<rparr>"
  let ?t = "twhen (sq_time_recording s) (tseq (update_ctime e i ?now) (tseq (update_mtime e p ?now)
      (tseq (update_ctime e p ?now) (twhen (p \<noteq> np)
        (tseq (update_mtime e np ?now) (update_ctime e np ?now))))))"
  obtain d1 where d1: "replace_existing e ?de np nn ?ex ?d = Inr (res, d1)"
      "names d1 = replaced res (np, nn) (names ?d)" "same_files ?d d1"
    using replace_existing_names [OF wf, of ?de ty e np nn] chk by auto
  have wf1: "db_wf d1"
    by (rule keeps_wfD [OF wf.keeps_replace_existing d1(1) wf])
  have res: "res = None \<longleftrightarrow> names ?d (np, nn) = None"
    using chk by (auto simp: move_check_def split: option.splits prod.splits if_splits)
  have N1: "names d1 (p, n) = Some (i, ty)" "names d1 (np, nn) = None"
    using src ne dots res by (auto simp: d1(2) replaced_def without_entry_def)
  obtain r where r: "tab_get dentry_key (p, n) (t_dentry d1) = Some r" "d_child r = i"
      "const_to_file_type (d_type r) = ty" "has_inode i d1"
    using dentry_row [OF wf1 N1(1)] by blast
  have g: "dentry_key (?g r) = (np, nn)" "entry_of (?g r) = (i, ty)"
    using r by (simp_all add: dentry_key_def entry_of_def)
  have np1: "has_inode np d1" using np d1(3) same_files_has_inode by blast
  obtain d2 where d2: "dentry_update e (p, n) ?g d1 = Inr ((), d2)" "db_wf d2" "same_files d1 d2"
      "names d2 = (names d1)((p, n) := None, (np, nn) \<mapsto> (i, ty))"
    using dentry_update_ok [OF wf1 r(1), of ?g e] N1(2) g r np1 by auto
  have np2: "has_inode np d2" using np1 d2(3) same_files_has_inode by blast
  obtain d3 where d3: "twhen (p \<noteq> np \<and> ty = Directory)
        (dentry_update e (i, ''..'') (\<lambda>r. r\<lparr>d_child := np\<rparr>)) d2 = Inr ((), d3)"
      "names d3 = redirected (p \<noteq> np \<and> ty = Directory) i np (names d2)" "same_files d2 d3"
    using redirect_ok [OF d2(2) np2] by blast
  have "only_times ?t" by (intro only_times_intros)
  then obtain d4 where d4: "?t d3 = Inr ((), d4)" "t_dentry d4 = t_dentry d3" "same_files d3 d4"
    using only_timesD by blast
  have "move_dentry e p n np nn s = (Inr res, s\<lparr>conn := d4\<rparr>)"
    using src d1(1) d2(1) d3(1) d4(1)
    by (simp add: move_dentry_def transact_def tbind_def tseq_def tquery_def tret_def Let_def
        get_dentry_single_names)
  moreover have "(names d1)((p, n) := None, (np, nn) \<mapsto> (i, ty)) =
      (names ?d)((p, n) := None, (np, nn) \<mapsto> (i, ty))"
    using dots by (auto simp: d1(2) replaced_def without_entry_def fun_eq_iff)
  then have "names d4 = moved p n np nn (i, ty) (names ?d)"
    using names_cong [OF d4(2)] by (simp add: d3(2) d2(4) moved_def)
  moreover note same_files_trans [OF same_files_trans [OF d1(3) d2(3)] same_files_trans [OF d3(3) d4(3)]]
  ultimately show ?thesis by (simp add: same_handle_def)
qed

text \<open>Moving an entry onto itself: the existing entry is the entry itself.\<close>

lemma move_dentry_onto_itself:
  assumes wf: "db_wf (conn s)" and src: "names (conn s) (p, n) = Some (i, ty)"
    and ty: "ty \<noteq> Directory" and dots: "\<not> dot_name n"
  shows "\<exists>s'. move_dentry e p n p n s = (Inr (Some i), s') \<and> same_handle s s'
    \<and> names (conn s') = (names (conn s))((p, n) := None) \<and> same_files (conn s) (conn s')"
proof -
  let ?d = "conn s" and ?now = "utc_now e (conn s)"
  let ?de = "\<lparr>parent_ino = p, child_ino = i, filename = n, file_type = ty\<rparr>"
  let ?t = "twhen (sq_time_recording s) (tseq (update_ctime e i ?now) (tseq (update_mtime e p ?now)
      (tseq (update_ctime e p ?now) (twhen (p \<noteq> p)
        (tseq (update_mtime e p ?now) (update_ctime e p ?now))))))"
  have chk: "move_check (names ?d) ty (p, n) = Inr (Some i)"
    using src ty by (simp add: move_check_def)
  obtain d1 where d1: "replace_existing e ?de p n (map_option (\<lambda>v. \<lparr>parent_ino = p,
        child_ino = fst v, filename = n, file_type = snd v\<rparr>) (names ?d (p, n))) ?d = Inr (Some i, d1)"
      "names d1 = replaced (Some i) (p, n) (names ?d)" "same_files ?d d1"
    using replace_existing_names [OF wf, of ?de ty e p n] chk by auto
  have N1: "names d1 = (names ?d)((p, n) := None)"
    using dots by (simp add: d1(2) replaced_def without_entry_def)
  then have d2: "dentry_update e (p, n) (\<lambda>r. r\<lparr>d_parent := p, d_name := n\<rparr>) d1 = Inr ((), d1)"
    using names_None_iff [of d1 "(p, n)"] by (simp add: dentry_update_def)
  have "only_times ?t" by (intro only_times_intros)
  then obtain d4 where d4: "?t d1 = Inr ((), d4)" "t_dentry d4 = t_dentry d1" "same_files d1 d4"
    using only_timesD by blast
  have "move_dentry e p n p n s = (Inr (Some i), s\<lparr>conn := d4\<rparr>)"
    using src d1(1) d2 d4(1)
    by (simp add: move_dentry_def transact_def tbind_def tseq_def tquery_def tret_def
        twhen_False Let_def get_dentry_single_names)
  then show ?thesis
    using N1 names_cong [OF d4(2)] same_files_trans [OF d1(3) d4(3)] by (simp add: same_handle_def)
qed

section \<open>Adding an inode with its entry\<close>

lemma add_dentry_ok:
  assumes "names d (parent_ino en, filename en) = None"
    and "has_inode (parent_ino en) d" and "has_inode (child_ino en) d"
  shows "\<exists>d'. add_dentry e en d = Inr ((), d') \<and> t_meta d' = t_meta d \<and> t_data d' = t_data d
    \<and> t_xattr d' = t_xattr d \<and> autoinc d' = autoinc d
    \<and> names d' = (names d)((parent_ino en, filename en) \<mapsto> (child_ino en, file_type en))"
proof -
  let ?r = "\<lparr>d_parent = parent_ino en, d_child = child_ino en,
       d_type = file_type_to_const (file_type en), d_name = filename en\<rparr>"
  obtain d' where d': "dentry_insert e ?r d = Inr ((), d')"
    using assms by (auto simp: dentry_insert_def dentry_key_def names_None_iff)
  from dentry_insert_names [OF d'] d' show ?thesis
    by (auto simp: add_dentry_def dentry_key_def entry_of_def)
qed

definition new_names :: "u32 \<Rightarrow> string \<Rightarrow> u32 \<times> file_type \<Rightarrow> name_space \<Rightarrow> name_space" where
  "new_names p n v N =
     (let N1 = N((p, n) \<mapsto> v) in
      if snd v = Directory
      then N1((fst v, ''..'') \<mapsto> (p, Directory), (fst v, ''.'') \<mapsto> (fst v, Directory)) else N1)"

text \<open>The new inode is on no list yet.\<close>

definition unused :: "u32 \<Rightarrow> db \<Rightarrow> bool" where
  "unused i d \<longleftrightarrow> \<not> has_inode i d \<and> (\<forall>n. names d (i, n) = None) \<and> (\<forall>k ty. names d k \<noteq> Some (i, ty))
     \<and> stored_block i (t_data d) = (\<lambda>b. [])"

lemma next_id_unused:
  assumes "db_wf d" and "autoinc d \<noteq> - 1"
  shows "unused (autoinc d + 1) d"
proof -
  let ?i = "autoinc d + 1"
  have no: "\<not> has_inode ?i d"
    using fresh_id [OF assms] by (simp add: has_inode_def tab_get_None_iff)
  moreover have "names d (?i, n) = None" for n
    using no dentry_row [OF assms(1), of ?i n] by (cases "names d (?i, n)") auto
  moreover have "names d k \<noteq> Some (?i, ty)" for k ty
    using no dentry_row [OF assms(1), of "fst k" "snd k" ?i ty] by auto
  moreover have "stored_block ?i (t_data d) b = []" for b
    using no assms(1)
    by (auto simp: stored_block_def db_wf_def data_key_def dest!: tab_get_SomeD split: option.split)
  ultimately show ?thesis by (auto simp: unused_def)
qed

text \<open>The databases before and after a new inode \<open>i\<close> with the attributes \<open>attr\<close> was added.\<close>

definition inode_added :: "u32 \<Rightarrow> db_file_attr \<Rightarrow> db \<Rightarrow> db \<Rightarrow> bool" where
  "inode_added i attr d d' \<longleftrightarrow> t_data d' = t_data d \<and> t_xattr d' = t_xattr d
     \<and> map m_id (t_meta d') = map m_id (t_meta d) @ [i] \<and> autoinc d' = i
     \<and> map m_kind (t_meta d') = map m_kind (t_meta d) @ [file_type_to_const (a_kind attr)]
     \<and> (\<forall>j. db_size j d' = (if j = i then unat (a_size attr) else db_size j d))"

lemma inode_added_same: "inode_added i attr d d1 \<Longrightarrow> same_files d1 d2 \<Longrightarrow> inode_added i attr d d2"
  by (simp add: inode_added_def same_files_def)

lemma add_inode_local_ok:
  assumes "db_wf d" and "autoinc d \<noteq> - 1"
  shows "\<exists>d'. add_inode_local e attr d = Inr (autoinc d + 1, d') \<and> db_wf d' \<and> names d' = names d
    \<and> inode_added (autoinc d + 1) attr d d'"
proof -
  obtain d' where d': "add_inode_local e attr d = Inr (autoinc d + 1, d')"
    using assms(2) by (auto simp: add_inode_local_def meta_insert_def Let_def)
  have "db_wf d'"
    by (rule keeps_wfD [OF wf.keeps_add_inode_local [OF attr_times_True] d' assms(1)])
  moreover have "names d' = names d"
    using d' by (intro names_cong) (auto simp: add_inode_local_def meta_insert_def Let_def split: if_splits)
  moreover have "inode_added (autoinc d + 1) attr d d'"
    using d' fresh_id [OF assms]
    by (auto simp: add_inode_local_def meta_insert_def Let_def inode_added_def db_size_def table_simps
        split: if_splits option.splits)
  ultimately show ?thesis using d' by blast
qed

lemma add_dir_entries_ok:
  assumes "\<forall>n. names d (i, n) = None" and "has_inode i d" and "has_inode p d"
  shows "\<exists>d'. twhen b (tseq
        (add_dentry e \<lparr>parent_ino = i, child_ino = p, filename = ''..'', file_type = k\<rparr>)
        (add_dentry e \<lparr>parent_ino = i, child_ino = i, filename = ''.'', file_type = k\<rparr>)) d = Inr ((), d')
    \<and> t_meta d' = t_meta d \<and> t_data d' = t_data d \<and> t_xattr d' = t_xattr d \<and> autoinc d' = autoinc d
    \<and> names d' = (if b then (names d)((i, ''..'') \<mapsto> (p, k), (i, ''.'') \<mapsto> (i, k)) else names d)"
proof (cases b)
  case True
  let ?e1 = "\<lparr>parent_ino = i, child_ino = p, filename = ''..'', file_type = k\<rparr>"
  let ?e2 = "\<lparr>parent_ino = i, child_ino = i, filename = ''.'', file_type = k\<rparr>"
  obtain d1 where d1: "add_dentry e ?e1 d = Inr ((), d1)" "t_meta d1 = t_meta d" "t_data d1 = t_data d"
      "t_xattr d1 = t_xattr d" "autoinc d1 = autoinc d" "names d1 = (names d)((i, ''..'') \<mapsto> (p, k))"
    using add_dentry_ok [of d ?e1 e] assms by auto
  obtain d2 where "add_dentry e ?e2 d1 = Inr ((), d2)" "t_meta d2 = t_meta d1" "t_data d2 = t_data d1"
      "t_xattr d2 = t_xattr d1" "autoinc d2 = autoinc d1" "names d2 = (names d1)((i, ''.'') \<mapsto> (i, k))"
    using add_dentry_ok [of d1 ?e2 e] assms d1(2,6) by (auto simp: has_inode_def)
  with d1 True show ?thesis
    by (auto simp: twhen_def tseq_def tbind_def)
qed (simp add: twhen_False tret_def)

lemma add_inode_and_dentry_ok:
  assumes wf: "db_wf (conn s)" and room: "autoinc (conn s) \<noteq> - 1"
    and free: "names (conn s) (p, n) = None" and parent: "has_inode p (conn s)"
  defines "i \<equiv> autoinc (conn s) + 1"
  shows "\<exists>s'. add_inode_and_dentry e p n attr s = (Inr i, s') \<and> same_handle s s'
    \<and> unused i (conn s) \<and> names (conn s') = new_names p n (i, a_kind attr) (names (conn s))
    \<and> inode_added i attr (conn s) (conn s')"
proof -
  let ?d = "conn s"
  let ?k = "a_kind attr"
  have un: "unused i ?d" unfolding i_def by (rule next_id_unused [OF wf room])
  obtain d1 where d1: "add_inode_local e attr ?d = Inr (i, d1)" "db_wf d1" "names d1 = names ?d"
      "inode_added i attr ?d d1"
    using add_inode_local_ok [OF wf room] unfolding i_def by blast
  have ids: "m_id ` set (t_meta d1) = insert i (m_id ` set (t_meta ?d))"
    using d1(4) unfolding inode_added_def by (metis Un_commute insert_is_Un list.set_map list.simps(15) set_append list.set(1))
  have has: "has_inode p d1" "has_inode i d1"
    using parent ids by (simp_all add: has_inode_def)
  have pi: "p \<noteq> i" using parent un by (auto simp: unused_def)
  let ?en = "\<lparr>parent_ino = p, child_ino = i, filename = n, file_type = ?k\<rparr>"
  obtain d2 where d2: "add_dentry e ?en d1 = Inr ((), d2)" "t_meta d2 = t_meta d1"
      "t_data d2 = t_data d1" "t_xattr d2 = t_xattr d1" "autoinc d2 = autoinc d1"
      "names d2 = (names d1)((p, n) \<mapsto> (i, ?k))"
    using add_dentry_ok [of d1 ?en e] free d1(3) has by auto
  have sub: "\<forall>m. names d2 (i, m) = None" "has_inode i d2" "has_inode p d2"
    using un pi has d2(2,6) d1(3) by (auto simp: unused_def has_inode_def)
  obtain d3 where d3: "twhen (?k = Directory) (tseq
        (add_dentry e \<lparr>parent_ino = i, child_ino = p, filename = ''..'', file_type = ?k\<rparr>)
        (add_dentry e \<lparr>parent_ino = i, child_ino = i, filename = ''.'', file_type = ?k\<rparr>)) d2 = Inr ((), d3)"
      "t_meta d3 = t_meta d2" "t_data d3 = t_data d2" "t_xattr d3 = t_xattr d2" "autoinc d3 = autoinc d2"
      "names d3 = (if ?k = Directory then (names d2)((i, ''..'') \<mapsto> (p, ?k), (i, ''.'') \<mapsto> (i, ?k)) else names d2)"
    using add_dir_entries_ok [OF sub] by blast
  let ?now = "utc_now e d3"
  let ?t = "twhen (sq_time_recording s) (tseq (update_mtime e p ?now) (update_ctime e p ?now))"
  have "only_times ?t" by (intro only_times_intros)
  then obtain d4 where d4: "?t d3 = Inr ((), d4)" "t_dentry d4 = t_dentry d3" "same_files d3 d4"
    using only_timesD by blast
  have "inode_added i attr ?d d3"
    using d1(4) d2 d3 by (simp add: inode_added_def db_size_def)
  then have "inode_added i attr ?d d4"
    using d4(3) by (rule inode_added_same)
  moreover have "add_inode_and_dentry e p n attr s = (Inr i, s\<lparr>conn := d4\<rparr>)"
    using d1(1) d2(1) d3(1) d4(1)
    by (simp add: add_inode_and_dentry_def transact_def tbind_def tseq_def tquery_def tret_def)
  moreover have "names d4 = new_names p n (i, ?k) (names ?d)"
    using names_cong [OF d4(2)] by (auto simp: d3(6) d2(6) d1(3) new_names_def)
  ultimately show ?thesis
    using un by (simp add: same_handle_def)
qed

lemma add_inode_and_dentry_taken:
  assumes wf: "db_wf (conn s)" and room: "autoinc (conn s) \<noteq> - 1"
    and taken: "names (conn s) (p, n) \<noteq> None"
  shows "add_inode_and_dentry e p n attr s = (Inl (SqliteError ConstraintFailed), s)"
proof -
  obtain d1 where d1: "add_inode_local e attr (conn s) = Inr (autoinc (conn s) + 1, d1)"
      "names d1 = names (conn s)"
    using add_inode_local_ok [OF wf room] by blast
  with taken have "tab_get dentry_key (p, n) (t_dentry d1) \<noteq> None"
    by (metis names_None_iff)
  with d1(1) show ?thesis
    by (simp add: add_inode_and_dentry_def transact_def tbind_def tseq_def add_dentry_def
        dentry_insert_def dentry_key_def)
qed

end
