(* ===== verification/Directory_Spec.thy ===== *)
theory Directory_Spec
  imports Namespace
begin

text \<open>
  Links, lookups and the removal of inodes on the abstract name space, and the name
  handlers of \<open>src/filesystem.rs\<close> in its terms.
\<close>

section \<open>Hard links\<close>

lemma link_dentry_refused:
  "get_inode_local i (conn s) = Inr None \<Longrightarrow> link_dentry e i p n s = (Inl FsNoEnt, s)"
  "get_inode_local i (conn s) = Inl x \<Longrightarrow> link_dentry e i p n s = (Inl x, s)"
  "get_inode_local i (conn s) = Inr (Some a) \<Longrightarrow> a_kind a \<noteq> RegularFile \<Longrightarrow>
     link_dentry e i p n s = (Inl FsParm, s)"
  "get_inode_local i (conn s) = Inr (Some a) \<Longrightarrow> a_kind a = RegularFile \<Longrightarrow>
     names (conn s) (p, n) \<noteq> None \<Longrightarrow> link_dentry e i p n s = (Inl FsFileExist, s)"
  by (auto simp: link_dentry_def transact_def tbind_def tquery_def tfail_def Let_def
      get_dentry_single_names)

lemma link_dentry_ok:
  assumes a: "get_inode_local i (conn s) = Inr (Some a)" "a_kind a = RegularFile"
    and free: "names (conn s) (p, n) = None" and parent: "has_inode p (conn s)"
  shows "\<exists>s'. link_dentry e i p n s = (Inr a, s') \<and> same_handle s s'
    \<and> names (conn s') = (names (conn s))((p, n) \<mapsto> (i, RegularFile)) \<and> same_files (conn s) (conn s')"
proof -
  let ?d = "conn s" and ?now = "utc_now e (conn s)"
  let ?en = "\<lparr>parent_ino = p, child_ino = i, filename = n, file_type = RegularFile\<rparr>"
  let ?t = "twhen (sq_time_recording s) (tseq (update_mtime e i ?now)
      (tseq (update_mtime e p ?now) (update_ctime e p ?now)))"
  obtain d1 where d1: "add_dentry e ?en ?d = Inr ((), d1)" "t_meta d1 = t_meta ?d"
      "t_data d1 = t_data ?d" "t_xattr d1 = t_xattr ?d" "autoinc d1 = autoinc ?d"
      "names d1 = (names ?d)((p, n) \<mapsto> (i, RegularFile))"
    using add_dentry_ok [of ?d ?en e] free parent get_inode_local_has [OF a(1)] by auto
  have "only_times ?t" by (intro only_times_intros)
  then obtain d2 where d2: "?t d1 = Inr ((), d2)" "t_dentry d2 = t_dentry d1" "same_files d1 d2"
    using only_timesD by blast
  have "link_dentry e i p n s = (Inr a, s\<lparr>conn := d2\<rparr>)"
    using a free d1(1) d2(1)
    by (simp add: link_dentry_def transact_def tbind_def tseq_def tquery_def tret_def Let_def
        get_dentry_single_names)
  moreover have "same_files ?d d2"
    using d1 d2(3) by (simp add: same_files_def db_size_def)
  ultimately show ?thesis
    using names_cong [OF d2(2)] d1(6) by (simp add: same_handle_def)
qed

section \<open>Removing an inode nothing refers to\<close>

definition referenced :: "u32 \<Rightarrow> db \<Rightarrow> bool" where
  "referenced i d \<longleftrightarrow> (\<exists>k ty. names d k = Some (i, ty))"

lemma referenced_iff:
  assumes "db_wf d"
  shows "referenced i d \<longleftrightarrow> (\<exists>r \<in> set (t_dentry d). d_child r = i)"
proof
  assume "referenced i d"
  then obtain p n ty where "names d (p, n) = Some (i, ty)" by (auto simp: referenced_def)
  then show "\<exists>r \<in> set (t_dentry d). d_child r = i" by (blast dest: names_SomeD)
next
  assume "\<exists>r \<in> set (t_dentry d). d_child r = i"
  then obtain r where "r \<in> set (t_dentry d)" "d_child r = i" by blast
  with tab_get_mem [OF keyed_dentry [OF assms], of r]
  have "names d (dentry_key r) = Some (i, const_to_file_type (d_type r))"
    by (simp add: names_def entry_of_def)
  then show "referenced i d" unfolding referenced_def by blast
qed

text \<open>The database without inode \<open>i\<close> and everything that hangs on it.\<close>

definition inode_removed :: "u32 \<Rightarrow> db \<Rightarrow> db \<Rightarrow> bool" where
  "inode_removed i d d' \<longleftrightarrow>
     map m_id (t_meta d') = filter (\<lambda>j. j \<noteq> i) (map m_id (t_meta d))
     \<and> (\<forall>j. db_size j d' = (if j = i then 0 else db_size j d))
     \<and> names d' = without_children i (names d)
     \<and> (\<forall>j. stored_block j (t_data d') = (if j = i then (\<lambda>b. []) else stored_block j (t_data d)))
     \<and> (\<forall>k. tab_get xattr_key k (t_xattr d') = (if fst k = i then None else tab_get xattr_key k (t_xattr d)))"

lemma filter_m_id: "filter (\<lambda>j. j \<noteq> i) (map m_id t) = map m_id (filter (\<lambda>r. m_id r \<noteq> i) t)"
  by (simp add: filter_map comp_def)

lemma meta_delete_one:
  assumes "has_inode i d" and "\<not> (\<exists>r \<in> set (t_dentry d). d_child r = i)"
  shows "\<exists>d'. meta_delete e (\<lambda>m. m_id m = i) d = Inr ((), d') \<and> inode_removed i d d'"
proof -
  have dead: "j \<in> m_id ` set (filter (\<lambda>m. m_id m = i) (t_meta d)) \<longleftrightarrow> j = i" for j
    using assms(1) by (auto simp: has_inode_def)
  obtain d' where d': "meta_delete e (\<lambda>m. m_id m = i) d = Inr ((), d')"
    by (simp add: meta_delete_def Let_def)
  have t: "t_meta d' = filter (\<lambda>r. m_id r \<noteq> i) (t_meta d)"
      "t_data d' = filter (\<lambda>r. fst (data_key r) \<noteq> i) (t_data d)"
      "t_dentry d' = filter (\<lambda>r. \<not> (d_parent r = i \<or> d_child r = i)) (t_dentry d)"
      "t_xattr d' = filter (\<lambda>r. fst (xattr_key r) \<noteq> i) (t_xattr d)"
    using d' unfolding meta_delete_def Let_def dead
    by (auto simp: data_key_def xattr_key_def)
  have "t_dentry d' = filter (\<lambda>r. fst (dentry_key r) \<noteq> i) (t_dentry d)"
    using assms(2) unfolding t(3) by (intro filter_cong) (auto simp: dentry_key_def)
  then have "names d' k = without_children i (names d) k" for k
    using tab_get_filter_key [of dentry_key k "\<lambda>k. fst k \<noteq> i" "t_dentry d"]
    by (simp add: names_def without_children_def)
  moreover have "stored_block j (t_data d') = (if j = i then (\<lambda>b. []) else stored_block j (t_data d))" for j
    using tab_get_filter_key [of data_key _ "\<lambda>k. fst k \<noteq> i" "t_data d"]
    by (auto simp: stored_block_def t(2) fun_eq_iff)
  moreover have "db_size j d' = (if j = i then 0 else db_size j d)" for j
    using tab_get_filter_key [of m_id j "\<lambda>k. k \<noteq> i" "t_meta d"] by (simp add: db_size_def t(1))
  moreover have "tab_get xattr_key k (t_xattr d') = (if fst k = i then None else tab_get xattr_key k (t_xattr d))" for k
    using tab_get_filter_key [of xattr_key k "\<lambda>k. fst k \<noteq> i" "t_xattr d"] by (simp add: t(4))
  moreover have "map m_id (t_meta d') = filter (\<lambda>j. j \<noteq> i) (map m_id (t_meta d))"
    by (simp add: t(1) filter_m_id)
  ultimately show ?thesis
    using d' by (auto simp: inode_removed_def)
qed

lemma delete_inode_if_noref_kept:
  "db_wf (conn s) \<Longrightarrow> referenced i (conn s) \<Longrightarrow> delete_inode_if_noref e i s = (Inr (), s)"
  by (auto simp: delete_inode_if_noref_def transact_def tx_defs referenced_iff filter_empty_conv)

lemma delete_inode_if_noref_removed:
  assumes "db_wf (conn s)" and "\<not> referenced i (conn s)" and "has_inode i (conn s)"
  shows "\<exists>s'. delete_inode_if_noref e i s = (Inr (), s') \<and> same_handle s s'
    \<and> inode_removed i (conn s) (conn s')"
proof -
  have no: "\<not> (\<exists>r \<in> set (t_dentry (conn s)). d_child r = i)"
    using assms(1,2) by (simp add: referenced_iff)
  obtain d' where "meta_delete e (\<lambda>m. m_id m = i) (conn s) = Inr ((), d')"
      "inode_removed i (conn s) d'"
    using meta_delete_one [OF assms(3) no] by blast
  with no show ?thesis
    by (auto simp: delete_inode_if_noref_def transact_def tx_defs same_handle_def filter_empty_conv)
qed

lemma inode_sweep:
  assumes "db_wf (conn s)"
  shows "\<exists>s'. delete_all_noref_inode e s = (Inr (), s')
    \<and> (\<forall>i. has_inode i (conn s') \<longleftrightarrow> referenced i (conn s))
    \<and> (\<forall>i. referenced i (conn s) \<longrightarrow> content i (conn s') = content i (conn s)
           \<and> db_size i (conn s') = db_size i (conn s))
    \<and> (\<forall>p n. names (conn s') (p, n) = (if referenced p (conn s) then names (conn s) (p, n) else None))"
proof -
  let ?d = "conn s"
  let ?P = "\<lambda>m. m_id m \<notin> set (map d_child (t_dentry ?d))"
  have ref: "referenced i ?d \<longleftrightarrow> i \<in> set (map d_child (t_dentry ?d))" for i
    using referenced_iff [OF assms] by (auto simp: image_iff)
  have has: "has_inode i ?d" if "referenced i ?d" for i
    using that dentry_row [OF assms] by (fastforce simp: referenced_def)
  let ?Q = "\<lambda>i. \<not> (i \<in> m_id ` set (t_meta ?d) \<and> \<not> referenced i ?d)"
  have dead: "i \<in> m_id ` set (filter ?P (t_meta ?d)) \<longleftrightarrow> \<not> ?Q i" for i
    by (auto simp: ref)
  obtain d' where d': "meta_delete e ?P ?d = Inr ((), d')"
    by (simp add: meta_delete_def Let_def)
  have t: "t_meta d' = filter (\<lambda>m. referenced (m_id m) ?d) (t_meta ?d)"
      "t_data d' = filter (\<lambda>r. ?Q (fst (data_key r))) (t_data ?d)"
    using d' unfolding meta_delete_def Let_def dead
    by (auto simp: data_key_def ref)
  have "has_inode i d' \<longleftrightarrow> referenced i ?d" for i
    using has by (auto simp: has_inode_def t(1))
  moreover have "content i d' = content i ?d" "db_size i d' = db_size i ?d" if "referenced i ?d" for i
    using that tab_get_filter_key [of data_key _ "\<lambda>k. ?Q (fst k)" "t_data ?d"]
      tab_get_filter_key [of m_id i "\<lambda>k. referenced k ?d" "t_meta ?d"]
    by (auto simp: content_def file_byte_def block_bytes_def stored_block_def t db_size_def fun_eq_iff)
  moreover have "names d' (p, n) = (if referenced p ?d then names ?d (p, n) else None)" for p n
  proof -
    have row: "has_inode (d_parent r) ?d \<and> referenced (d_child r) ?d" if "r \<in> set (t_dentry ?d)" for r
      using that assms by (auto simp: db_wf_def ref)
    have "t_dentry d' = filter (\<lambda>r. ?Q (d_parent r) \<and> ?Q (d_child r)) (t_dentry ?d)"
      using d' unfolding meta_delete_def Let_def dead by auto
    also have "\<dots> = filter (\<lambda>r. referenced (fst (dentry_key r)) ?d) (t_dentry ?d)"
      by (rule filter_cong [OF refl], drule row) (auto simp: dentry_key_def has_inode_def)
    finally have "t_dentry d' = filter (\<lambda>r. referenced (fst (dentry_key r)) ?d) (t_dentry ?d)" .
    then show ?thesis
      using tab_get_filter_key [of dentry_key "(p, n)" "\<lambda>k. referenced (fst k) ?d" "t_dentry ?d"]
      by (simp add: names_def)
  qed
  moreover have "delete_all_noref_inode e s = (Inr (), s\<lparr>conn := d'\<rparr>)"
    using d' by (simp add: delete_all_noref_inode_def transact_def tx_defs)
  ultimately show ?thesis by auto
qed

section \<open>Lookup\<close>

lemma lookup_rows_wf:
  assumes "db_wf d"
  shows "lookup_rows e p n (t_meta d) (t_dentry d) (t_data d) =
    (case names d (p, n) of None \<Rightarrow> []
     | Some (i, ty) \<Rightarrow>
        (case tab_get m_id i (t_meta d) of None \<Rightarrow> []
         | Some m \<Rightarrow> [(m, nlink_col i (t_dentry d),
             if t_data d \<noteq> [] \<and> bare_col e (t_data d) = i then Some (length (t_data d)) else None)]))"
proof -
  have "(\<lambda>r. d_parent r = p \<and> d_name r = n) = (\<lambda>r. dentry_key r = (p, n))"
    by (auto simp: dentry_key_def)
  then have "filter (\<lambda>r. d_parent r = p \<and> d_name r = n) (t_dentry d) =
      (case tab_get dentry_key (p, n) (t_dentry d) of None \<Rightarrow> [] | Some r \<Rightarrow> [r])"
    by (simp add: filter_key_tab_get [OF keyed_dentry [OF assms]])
  then show ?thesis
    by (auto simp: lookup_rows_def names_def entry_of_def filter_key_tab_get [OF keyed_meta [OF assms]]
        split: option.split)
qed

lemma lookup_ok:
  assumes "db_wf (conn s)"
  shows "\<exists>s'. lookup e p n s =
      (parse_attr (lookup_rows e p n (t_meta (conn s)) (t_dentry (conn s)) (t_data (conn s))), s')
    \<and> same_handle s s' \<and> names (conn s') = names (conn s) \<and> same_files (conn s) (conn s') \<and> db_wf (conn s')"
proof -
  let ?t = "twhen (sq_time_recording s) (update_atime e p (utc_now e (conn s)))"
  have "only_times ?t" by (intro only_times_intros)
  then obtain d1 where d1: "?t (conn s) = Inr ((), d1)" "t_dentry d1 = t_dentry (conn s)"
      "same_files (conn s) d1"
    using only_timesD by blast
  have l: "lookup e p n s =
      (parse_attr (lookup_rows e p n (t_meta (conn s)) (t_dentry (conn s)) (t_data (conn s))), s\<lparr>conn := d1\<rparr>)"
    using d1(1) by (simp add: lookup_def flatten_def transact_def tbind_def tseq_def tquery_def tret_def
        split: sum.split)
  have "db_wf d1"
    using wf.lookup_R [OF l] assms by (simp add: keeps_wf_def)
  with l d1 names_cong [OF d1(2)] show ?thesis by (simp add: same_handle_def)
qed

lemma lookup_result:
  fixes e p n
  assumes "db_wf d"
  defines "rows \<equiv> lookup_rows e p n (t_meta d) (t_dentry d) (t_data d)"
  shows "names d (p, n) = None \<Longrightarrow> parse_attr rows = Inr None"
    and "names d (p, n) = Some (i, ty) \<Longrightarrow> parse_attr rows \<noteq> Inr None"
    and "parse_attr rows = Inr (Some a) \<Longrightarrow> \<exists>ty. names d (p, n) = Some (a_ino a, ty)"
proof -
  note rows = lookup_rows_wf [OF assms(1), of e p n, folded rows_def]
  show "names d (p, n) = None \<Longrightarrow> parse_attr rows = Inr None"
    by (simp add: rows parse_attr_None_iff)
  have m: "tab_get m_id i (t_meta d) \<noteq> None" if "names d (p, n) = Some (i, ty)" for i ty
    using dentry_row [OF assms(1) that] by (auto simp: has_inode_def tab_get_None_iff)
  show "names d (p, n) = Some (i, ty) \<Longrightarrow> parse_attr rows \<noteq> Inr None"
    using m [of i ty] by (auto simp: rows parse_attr_None_iff)
  assume *: "parse_attr rows = Inr (Some a)"
  obtain r rs where r: "rows = r # rs" "attr_of_cols r = Inr a"
    using parse_attr_SomeD [OF *] by (elim exE conjE) (rule that)
  then obtain i ty mr where "names d (p, n) = Some (i, ty)" "tab_get m_id i (t_meta d) = Some mr"
      "fst r = mr"
    unfolding rows by (auto split: option.splits)
  moreover have "a_ino a = m_id mr"
    using r(2) \<open>fst r = mr\<close> attr_of_colsD(1) by (metis prod.collapse)
  ultimately show "\<exists>ty. names d (p, n) = Some (a_ino a, ty)"
    by (auto dest: tab_get_SomeD)
qed

section \<open>The name handlers\<close>

lemma drop_inode_ok:
  assumes "db_wf (conn (fs_db f))" and "has_inode i (conn (fs_db f))"
  shows "\<exists>f'. drop_inode e i f = (Inr (), f') \<and> lookup_count f' = lookup_count f
    \<and> (lookups f i = None \<and> \<not> referenced i (conn (fs_db f)) \<longrightarrow>
         inode_removed i (conn (fs_db f)) (conn (fs_db f')))
    \<and> (\<not> (lookups f i = None \<and> \<not> referenced i (conn (fs_db f))) \<longrightarrow> f' = f)"
proof (cases "lookups f i = None")
  case True
  then have known: "i \<notin> set (map fst (lookup_count f))"
    by (simp add: lookups_def map_of_eq_None_iff)
  show ?thesis
  proof (cases "referenced i (conn (fs_db f))")
    case True
    from delete_inode_if_noref_kept [OF assms(1) True] True known show ?thesis
      by (simp add: drop_inode_def)
  next
    case False
    from delete_inode_if_noref_removed [OF assms(1) False assms(2), of e]
    obtain s' where "delete_inode_if_noref e i (fs_db f) = (Inr (), s')"
        "inode_removed i (conn (fs_db f)) (conn s')" by blast
    with False known True show ?thesis by (simp add: drop_inode_def)
  qed
next
  case False
  then have "i \<in> set (map fst (lookup_count f))"
    by (metis lookups_def map_of_eq_None_iff set_map)
  with False show ?thesis by (auto simp: drop_inode_def)
qed

text \<open>
  The outcome of removing an entry of inode \<open>i\<close> from the name space: \<open>N\<close> is what the names
  became, and the inode goes with its last name unless the kernel still knows it.
\<close>

definition entry_dropped :: "u32 \<Rightarrow> name_space \<Rightarrow> fs \<Rightarrow> fs \<Rightarrow> bool" where
  "entry_dropped i N f f' \<longleftrightarrow>
     (if lookups f i = None \<and> \<not> (\<exists>k ty. N k = Some (i, ty))
      then names (conn (fs_db f')) = without_children i N \<and> \<not> has_inode i (conn (fs_db f'))
        \<and> content i (conn (fs_db f')) = (\<lambda>_. 0)
      else names (conn (fs_db f')) = N \<and> same_files (conn (fs_db f)) (conn (fs_db f')))
     \<and> (\<forall>j. j \<noteq> i \<longrightarrow> content j (conn (fs_db f')) = content j (conn (fs_db f)))
     \<and> (\<forall>j. j \<noteq> i \<longrightarrow> has_inode j (conn (fs_db f')) = has_inode j (conn (fs_db f)))"

lemma inode_removed_content:
  assumes "inode_removed i d d'"
  shows "content j d' = (if j = i then (\<lambda>_. 0) else content j d)"
    and "has_inode j d' \<longleftrightarrow> j \<noteq> i \<and> has_inode j d"
proof -
  show "content j d' = (if j = i then (\<lambda>_. 0) else content j d)"
    using assms by (simp add: inode_removed_def content_def file_byte_def block_bytes_def fun_eq_iff)
  have "set (map m_id (t_meta d')) = set (filter (\<lambda>j. j \<noteq> i) (map m_id (t_meta d)))"
    using assms by (simp add: inode_removed_def)
  then show "has_inode j d' \<longleftrightarrow> j \<noteq> i \<and> has_inode j d"
    by (auto simp: has_inode_def)
qed

lemma same_files_content: "same_files d d' \<Longrightarrow> content j d' = content j d"
  by (simp add: same_files_def content_def)

lemma drop_after:
  assumes wf: "db_wf (conn s)" and s: "same_files (conn (fs_db f)) (conn s)"
    and i: "has_inode i (conn (fs_db f))"
  shows "\<exists>f'. drop_inode e i (f\<lparr>fs_db := s\<rparr>) = (Inr (), f') \<and> lookup_count f' = lookup_count f
    \<and> entry_dropped i (names (conn s)) f f'"
proof -
  let ?f = "f\<lparr>fs_db := s\<rparr>"
  have hi: "has_inode i (conn s)" using i s same_files_has_inode by blast
  have "lookups ?f i = lookups f i" by (simp add: lookups_def)
  with drop_inode_ok [of ?f i e] wf hi obtain f' where f': "drop_inode e i ?f = (Inr (), f')"
      "lookup_count f' = lookup_count f"
      "lookups f i = None \<and> \<not> referenced i (conn s) \<longrightarrow> inode_removed i (conn s) (conn (fs_db f'))"
      "\<not> (lookups f i = None \<and> \<not> referenced i (conn s)) \<longrightarrow> f' = ?f"
    by auto
  have "entry_dropped i (names (conn s)) f f'"
  proof (cases "lookups f i = None \<and> \<not> referenced i (conn s)")
    case True
    with f'(3) have rm: "inode_removed i (conn s) (conn (fs_db f'))" by simp
    with True show ?thesis
      using inode_removed_content [OF rm] same_files_content [OF s] same_files_has_inode [OF s]
      by (auto simp: entry_dropped_def referenced_def inode_removed_def)
  next
    case False
    with f'(4) have "f' = ?f" by blast
    with False s show ?thesis
      using same_files_content [OF s] same_files_has_inode [OF s]
      by (auto simp: entry_dropped_def referenced_def)
  qed
  with f' show ?thesis by blast
qed

lemma wf_op: "keeps_wf (conn s) (conn s') \<Longrightarrow> db_wf (conn s) \<Longrightarrow> db_wf (conn s')"
  by (simp add: keeps_wf_def)

lemma fs_unlink_ok:
  assumes wf: "db_wf (conn (fs_db f))" and rw: "\<not> fs_read_only f"
    and src: "names (conn (fs_db f)) (ucast p, n) = Some (i, ty)"
  shows "\<exists>f'. fs_unlink e p n f = (Reply_ok, f') \<and> lookup_count f' = lookup_count f
    \<and> entry_dropped i (without_children i (without_entry (ucast p) n (names (conn (fs_db f))))) f f'"
proof -
  obtain s' where s': "delete_dentry e (ucast p) n (fs_db f) = (Inr i, s')"
      "names (conn s') = without_children i (without_entry (ucast p) n (names (conn (fs_db f))))"
      "same_files (conn (fs_db f)) (conn s')"
    using delete_dentry_names [OF src] by blast
  have "db_wf (conn s')" by (rule wf_op [OF wf.delete_dentry_R [OF s'(1)] wf])
  moreover have "has_inode i (conn (fs_db f))" using dentry_row [OF wf src] by blast
  ultimately obtain f' where "drop_inode e i (f\<lparr>fs_db := s'\<rparr>) = (Inr (), f')"
      "lookup_count f' = lookup_count f" "entry_dropped i (names (conn s')) f f'"
    using drop_after [OF _ s'(3)] by blast
  with rw s' show ?thesis by (simp add: fs_unlink_def)
qed

lemma fs_rename_ok:
  assumes wf: "db_wf (conn (fs_db f))" and rw: "\<not> fs_read_only f"
    and src: "names (conn (fs_db f)) (ucast p, n) = Some (i, ty)"
    and chk: "move_check (names (conn (fs_db f))) ty (ucast np, nn) = Inr res"
    and ne: "(ucast p :: u32, n) \<noteq> (ucast np, nn)" and dots: "\<not> dot_name nn"
    and np: "has_inode (ucast np) (conn (fs_db f))"
  shows "\<exists>f'. fs_rename e p n np nn f = (Reply_ok, f') \<and> lookup_count f' = lookup_count f
    \<and> (case res of None \<Rightarrow> same_files (conn (fs_db f)) (conn (fs_db f'))
           \<and> names (conn (fs_db f')) = moved (ucast p) n (ucast np) nn (i, ty) (names (conn (fs_db f)))
       | Some j \<Rightarrow> entry_dropped j (moved (ucast p) n (ucast np) nn (i, ty) (names (conn (fs_db f)))) f f')"
proof -
  obtain s' where s': "move_dentry e (ucast p) n (ucast np) nn (fs_db f) = (Inr res, s')"
      "names (conn s') = moved (ucast p) n (ucast np) nn (i, ty) (names (conn (fs_db f)))"
      "same_files (conn (fs_db f)) (conn s')"
    using move_dentry_moves [OF wf src chk ne dots np] by blast
  have wf': "db_wf (conn s')" by (rule wf_op [OF wf.move_dentry_R [OF s'(1)] wf])
  show ?thesis
  proof (cases res)
    case None
    with s' rw show ?thesis by (simp add: fs_rename_def)
  next
    case (Some j)
    then obtain ty' where "names (conn (fs_db f)) (ucast np, nn) = Some (j, ty')"
      using chk by (auto simp: move_check_def split: option.splits prod.splits if_splits)
    then have "has_inode j (conn (fs_db f))" using dentry_row [OF wf] by blast
    then obtain f' where "drop_inode e j (f\<lparr>fs_db := s'\<rparr>) = (Inr (), f')"
        "lookup_count f' = lookup_count f" "entry_dropped j (names (conn s')) f f'"
      using drop_after [OF wf' s'(3)] by blast
    with s' rw Some show ?thesis by (simp add: fs_rename_def)
  qed
qed

end
