(* ===== verification/Name_Properties.thy ===== *)
theory Name_Properties
  imports Directory_Spec Samples
begin

text \<open>
  The properties of the handlers that change names: each is an update of the abstract name
  space, or leaves it alone and answers with an error.
\<close>

section \<open>Making directories, files and links\<close>

lemma a_kind_mkdir [simp]: "a_kind (mkdir_attr now mode ruid rgid pa) = Directory"
  "a_size (mkdir_attr now mode ruid rgid pa) = 0"
  by (simp_all add: mkdir_attr_def new_attr_def Let_def)

lemma lookups_count_lookup:
  "lookups (count_lookup i f) j =
     (if j = i then Some ((case lookups f i of None \<Rightarrow> 0 | Some n \<Rightarrow> n) + 1) else lookups f j)"
  by (simp add: lookups_def count_lookup_def AList.update_conv')

lemma lookups_fs_db [simp]: "lookups (f\<lparr>fs_db := s\<rparr>) i = lookups f i"
  by (simp add: lookups_def)

lemma names_sample_db:
  "names sample_db (p, n) =
     (if p = 1 \<and> n = ''.'' then Some (1, Directory) else if p = 1 \<and> n = ''..'' then Some (1, Directory)
      else if p = 1 \<and> n = ''a'' then Some (2, RegularFile) else if p = 1 \<and> n = ''d'' then Some (3, Directory)
      else if p = 3 \<and> n = ''..'' then Some (1, Directory) else if p = 3 \<and> n = ''.'' then Some (3, Directory)
      else if p = 3 \<and> n = ''x'' then Some (2, RegularFile)
      else if p = 1 \<and> n = ''e'' then Some (4, Directory) else if p = 4 \<and> n = ''..'' then Some (1, Directory)
      else if p = 4 \<and> n = ''.'' then Some (4, Directory) else None)"
  by (auto simp: names_def sample_defs key_defs entry_of_def const_to_file_type_def db_if_defs)

lemma sample_dir_attr:
  "\<exists>a. get_inode_local 1 sample_db = Inr (Some a)" "\<exists>a. get_inode_local 3 sample_db = Inr (Some a)"
  by (simp_all add: get_inode_local_def parse_attr_def sample_defs attr_of_cols.simps nlink_col_def
      block_count_def string_to_systemtime_def u32_col_def)

text \<open>C0: mkdir adds a directory.  On a writable mount, for a parent whose attributes can be
  read, a free name and a free inode number, mkdir answers with an entry for an inode that was
  in no table before, with the attributes \<open>mkdir_attr\<close> derives from the request and the parent,
  counts one lookup of it, and the name space gains exactly the name and the entries . and ..
  of the new directory; no block, extended attribute or other inode's size changes.\<close>

theorem mkdir_adds_directory:
  assumes wf: "db_wf (conn (fs_db f))" and rw: "\<not> fs_read_only f"
    and parent: "get_inode (ucast p) (fs_db f) = Inr (Some pa)"
    and room: "autoinc (conn (fs_db f)) \<noteq> - 1" and free: "names (conn (fs_db f)) (ucast p, n) = None"
  shows "\<exists>i f'. fs_mkdir e ruid rgid p n mode f = (Reply_entry ONE_SEC (get_file_attr
        ((mkdir_attr (utc_now e (conn (fs_db f))) mode ruid rgid pa)\<lparr>a_ino := i\<rparr>)) 0, f')
    \<and> unused i (conn (fs_db f))
    \<and> names (conn (fs_db f')) = new_names (ucast p) n (i, Directory) (names (conn (fs_db f)))
    \<and> (\<exists>attr. a_size attr = 0 \<and> inode_added i attr (conn (fs_db f)) (conn (fs_db f')))
    \<and> lookups f' i = Some ((case lookups f i of None \<Rightarrow> 0 | Some k \<Rightarrow> k) + 1)"
proof -
  let ?attr = "mkdir_attr (utc_now e (conn (fs_db f))) mode ruid rgid pa"
  have hp: "has_inode (ucast p) (conn (fs_db f))"
    using parent get_inode_local_has by (simp add: get_inode_def)
  obtain s' where s': "add_inode_and_dentry e (ucast p) n ?attr (fs_db f) =
        (Inr (autoinc (conn (fs_db f)) + 1), s')" "unused (autoinc (conn (fs_db f)) + 1) (conn (fs_db f))"
      "names (conn s') = new_names (ucast p) n (autoinc (conn (fs_db f)) + 1, a_kind ?attr) (names (conn (fs_db f)))"
      "inode_added (autoinc (conn (fs_db f)) + 1) ?attr (conn (fs_db f)) (conn s')"
    using add_inode_and_dentry_ok [OF wf room free hp, of e ?attr] by blast
  then show ?thesis
    using rw parent
    by (intro exI [of _ "autoinc (conn (fs_db f)) + 1"]
        exI [of _ "count_lookup (autoinc (conn (fs_db f)) + 1) (f\<lparr>fs_db := s'\<rparr>)"])
      (auto simp: fs_mkdir_def Let_def lookups_count_lookup intro!: exI [of _ ?attr])
qed

theorem mkdir_adds_directory_witness:
  "\<exists>i f'. names (conn (fs_db f')) = new_names 1 ''n'' (i, Directory) (names sample_db)
    \<and> snd (fs_mkdir sample_env 0 0 1 ''n'' 0x1ED sample_fs) = f'"
proof -
  obtain a where "get_inode_local 1 sample_db = Inr (Some a)" using sample_dir_attr(1) by blast
  then show ?thesis
    using mkdir_adds_directory [of sample_fs 1 a "''n''" sample_env 0 0 "0x1ED"]
    by (auto simp: sample_wf get_inode_def names_sample_db) (auto simp: sample_defs)
qed

text \<open>C20: create adds an empty regular file.  On a writable mount, for a free name and inode
  number and a parent whose attributes can be read after the lookup create begins with, the
  answer names an inode that was in no table before; the name space gains exactly that name,
  the file has size 0 and all its bytes read as zero, and no block or extended attribute
  changes.\<close>

theorem create_adds_empty_file:
  assumes wf: "db_wf (conn (fs_db f))" and rw: "\<not> fs_read_only f"
    and parent: "get_inode (ucast p) (snd (lookup e (ucast p) n (fs_db f))) = Inr (Some pa)"
    and room: "autoinc (conn (fs_db f)) \<noteq> - 1" and free: "names (conn (fs_db f)) (ucast p, n) = None"
  shows "\<exists>i a f'. fs_create e ruid rgid p n mode f = (Reply_created ONE_SEC a 0 0 0, f')
    \<and> fa_ino a = ucast i \<and> unused i (conn (fs_db f))
    \<and> names (conn (fs_db f')) = (names (conn (fs_db f)))((ucast p, n) \<mapsto> (i, RegularFile))
    \<and> db_size i (conn (fs_db f')) = 0 \<and> content i (conn (fs_db f')) = (\<lambda>_. 0)
    \<and> t_data (conn (fs_db f')) = t_data (conn (fs_db f))
    \<and> t_xattr (conn (fs_db f')) = t_xattr (conn (fs_db f))"
proof -
  let ?d = "conn (fs_db f)"
  obtain s where s: "lookup e (ucast p) n (fs_db f) = (Inr None, s)" "names (conn s) = names ?d"
      "same_files ?d (conn s)" "db_wf (conn s)"
    using lookup_ok [OF wf, of e "ucast p" n] lookup_result(1) [OF wf free, of e] by auto
  let ?attr = "new_attr (utc_now e (conn s)) RegularFile (ucast mode) ruid
      (if 0 < a_perm pa AND S_ISGID then a_gid pa else rgid)"
  have par: "get_inode (ucast p) s = Inr (Some pa)" using parent s(1) by simp
  have hp: "has_inode (ucast p) (conn s)"
    using par get_inode_local_has by (simp add: get_inode_def)
  have room': "autoinc (conn s) \<noteq> - 1" using room s(3) by (simp add: same_files_def)
  have free': "names (conn s) (ucast p, n) = None" using free s(2) by simp
  obtain i s' where s': "add_inode_and_dentry e (ucast p) n ?attr s = (Inr i, s')"
      "unused i (conn s)" "inode_added i ?attr (conn s) (conn s')"
      "names (conn s') = new_names (ucast p) n (i, a_kind ?attr) (names (conn s))"
    using add_inode_and_dentry_ok [OF s(4) room' free' hp, of e ?attr] by blast
  have data: "t_data (conn s') = t_data ?d" "t_xattr (conn s') = t_xattr ?d"
    using s'(3) s(3) by (simp_all add: inode_added_def same_files_def)
  have un: "unused i ?d"
    using s'(2) s(2,3) same_files_has_inode [OF s(3), of i] by (simp add: unused_def same_files_def)
  then have "content i (conn s') = (\<lambda>_. 0)"
    using data by (simp add: unused_def content_def file_byte_def block_bytes_def fun_eq_iff)
  moreover have "db_size i (conn s') = 0"
    using s'(3) by (simp add: inode_added_def new_attr_def)
  moreover have "names (conn s') = (names ?d)((ucast p, n) \<mapsto> (i, RegularFile))"
    using s'(4) s(2) by (simp add: new_names_def new_attr_def)
  moreover have "fs_create e ruid rgid p n mode f =
      (Reply_created ONE_SEC (get_file_attr (?attr\<lparr>a_ino := i\<rparr>)) 0 0 0, count_lookup i (f\<lparr>fs_db := s'\<rparr>))"
    using rw s(1) par s'(1) by (simp add: fs_create_def Let_def)
  ultimately show ?thesis
    using un data
    by (intro exI [of _ i] exI [of _ "get_file_attr (?attr\<lparr>a_ino := i\<rparr>)"]
        exI [of _ "count_lookup i (f\<lparr>fs_db := s'\<rparr>)"]) (simp add: get_file_attr_def)
qed

lemma sample_lookup_missing:
  "lookup_rows sample_env 1 ''n'' (t_meta sample_db) (t_dentry sample_db) (t_data sample_db) = []"
  by (simp add: lookup_rows_wf [OF sample_wf] names_sample_db)

lemma sample_create_parent:
  "\<exists>pa. get_inode 1 (snd (lookup sample_env 1 ''n'' (fs_db sample_fs))) = Inr (Some pa)"
  by (simp add: lookup_def flatten_def transact_def tx_defs update_atime_def meta_update_def
      sample_lookup_missing parse_attr_None_iff [THEN iffD2])
    (simp add: get_inode_def get_inode_local_def parse_attr_def attr_of_cols.simps
      sample_defs nlink_col_def block_count_def string_to_systemtime_def u32_col_def meta_set_def
      time_param_def sql_datetime_def utc_now_def audit_count_def)

theorem create_adds_empty_file_witness:
  "\<exists>i a f'. fs_create sample_env 7 7 1 ''n'' 0x1A4 sample_fs = (Reply_created ONE_SEC a 0 0 0, f')
    \<and> names (conn (fs_db f')) = (names sample_db)((1, ''n'') \<mapsto> (i, RegularFile))"
proof -
  obtain pa where "get_inode 1 (snd (lookup sample_env 1 ''n'' (fs_db sample_fs))) = Inr (Some pa)"
    using sample_create_parent by blast
  moreover have "autoinc sample_db \<noteq> - 1" by (simp add: sample_defs)
  ultimately show ?thesis
    using create_adds_empty_file [of sample_fs 1 sample_env "''n''" pa 7 7 "0x1A4"]
    by (fastforce simp: sample_wf names_sample_db)
qed

text \<open>A hard link adds exactly one name.  On a writable mount, for a regular file whose
  attributes can be read, a free name and an existing parent, link answers with the attributes
  the file had before, and the name space gains exactly the new name for the same inode; no
  block, extended attribute or size changes.\<close>

lemma link_adds_name:
  assumes rw: "\<not> fs_read_only f" and a: "get_inode (ucast i) (fs_db f) = Inr (Some a)"
    and reg: "a_kind a = RegularFile" and free: "names (conn (fs_db f)) (ucast p, n) = None"
    and parent: "has_inode (ucast p) (conn (fs_db f))"
  shows "\<exists>f'. fs_link e i p n f = (Reply_entry ONE_SEC (get_file_attr a) 0, f')
    \<and> names (conn (fs_db f')) = (names (conn (fs_db f)))((ucast p, n) \<mapsto> (ucast i, RegularFile))
    \<and> same_files (conn (fs_db f)) (conn (fs_db f'))"
  using link_dentry_ok [OF a [unfolded get_inode_def] reg free parent, of e] rw
  by (auto simp: fs_link_def)

lemma link_adds_name_example:
  "\<exists>a f'. fs_link sample_env 2 1 ''b'' sample_fs = (Reply_entry ONE_SEC a 0, f')
    \<and> names (conn (fs_db f')) (1, ''b'') = Some (2, RegularFile)"
  using link_adds_name [of sample_fs 2 _ 1 "''b''" sample_env] sample_attr
  by (fastforce simp: get_inode_def names_sample_db sample_has)

text \<open>A refused link changes nothing and says why: no such inode, not a regular file
  (EPERM), or the name is taken (EEXIST).\<close>

lemma link_refusals:
  assumes "\<not> fs_read_only f"
  shows "case get_inode (ucast i) (fs_db f) of
      Inl x \<Rightarrow> fs_link e i p n f = (Reply_error (link_errno x), f)
    | Inr None \<Rightarrow> fs_link e i p n f = (Reply_error ENOENT, f)
    | Inr (Some a) \<Rightarrow>
        if a_kind a \<noteq> RegularFile then fs_link e i p n f = (Reply_error EPERM, f)
        else names (conn (fs_db f)) (ucast p, n) \<noteq> None \<longrightarrow> fs_link e i p n f = (Reply_error EEXIST, f)"
  using assms
  by (auto simp: fs_link_def get_inode_def link_dentry_refused link_errno_def
      split: sum.split option.split)

section \<open>Removing names\<close>

text \<open>C21: unlink removes the name and, with the last name, the inode.  On a writable mount, for
  an entry of inode i, unlink answers ok; the name is gone (unless it is . or ..), and so are
  the entries inside i; the inode with its blocks goes exactly when no name is left and the
  kernel holds no lookup of it, otherwise all its bytes stay.\<close>

theorem unlink_drops_entry:
  assumes "db_wf (conn (fs_db f))" and "\<not> fs_read_only f"
    and "names (conn (fs_db f)) (ucast p, n) = Some (i, ty)"
  shows "\<exists>f'. fs_unlink e p n f = (Reply_ok, f') \<and> lookup_count f' = lookup_count f
    \<and> entry_dropped i (without_children i (without_entry (ucast p) n (names (conn (fs_db f))))) f f'"
  by (rule fs_unlink_ok [OF assms])

theorem unlink_drops_entry_witness:
  "\<exists>f'. fs_unlink sample_env 1 ''a'' sample_fs = (Reply_ok, f') \<and> names (conn (fs_db f')) (1, ''a'') = None"
proof -
  obtain f' where "fs_unlink sample_env 1 ''a'' sample_fs = (Reply_ok, f')"
      "entry_dropped 2 (without_children 2 (without_entry 1 ''a'' (names sample_db))) sample_fs f'"
    using unlink_drops_entry [of sample_fs 1 "''a''" 2 RegularFile sample_env]
    by (auto simp: sample_wf names_sample_db)
  then show ?thesis
    by (auto simp: entry_dropped_def without_children_def without_entry_def dot_name_def split: if_splits)
qed

text \<open>C24: rmdir refuses a directory that is not empty.  On a writable mount, for a name that can
  be looked up and whose inode has an entry other than . and .., the answer is ENOTEMPTY and
  neither names nor files change.\<close>

theorem rmdir_refuses_non_empty:
  assumes wf: "db_wf (conn (fs_db f))" and rw: "\<not> fs_read_only f"
    and look: "fst (lookup e (ucast p) n (fs_db f)) = Inr (Some a)"
    and sub: "names (conn (fs_db f)) (a_ino a, m) \<noteq> None" and dot: "\<not> dot_name m"
  shows "\<exists>f'. fs_rmdir e p n f = (Reply_error ENOTEMPTY, f')
    \<and> names (conn (fs_db f')) = names (conn (fs_db f)) \<and> same_files (conn (fs_db f)) (conn (fs_db f'))"
proof -
  obtain s where s: "lookup e (ucast p) n (fs_db f) = (Inr (Some a), s)" "db_wf (conn s)"
      "names (conn s) = names (conn (fs_db f))" "same_files (conn (fs_db f)) (conn s)"
    using lookup_ok [OF wf, of e "ucast p" n] look by auto
  have "\<not> (\<forall>m. names (conn s) (a_ino a, m) \<noteq> None \<longrightarrow> dot_name m)"
    using sub dot s(3) by auto
  then have "check_directory_is_empty (a_ino a) s = Inr False"
    unfolding check_directory_is_empty_def check_empty_names [OF s(2)] by simp
  then show ?thesis
    using rw s by (simp add: fs_rmdir_def Let_def)
qed

text \<open>C25: rmdir removes an empty directory: the answer is ok, the name and the entries . and ..
  inside it are gone, and the inode goes unless it has another name or the kernel knows it.\<close>

theorem rmdir_removes_empty:
  assumes wf: "db_wf (conn (fs_db f))" and rw: "\<not> fs_read_only f"
    and look: "fst (lookup e (ucast p) n (fs_db f)) = Inr (Some a)"
    and emp: "\<And>m. names (conn (fs_db f)) (a_ino a, m) \<noteq> None \<Longrightarrow> dot_name m"
  shows "\<exists>f'. fs_rmdir e p n f = (Reply_ok, f') \<and> lookup_count f' = lookup_count f
    \<and> entry_dropped (a_ino a)
         (without_children (a_ino a) (without_entry (ucast p) n (names (conn (fs_db f))))) f f'"
proof -
  obtain s where s: "lookup e (ucast p) n (fs_db f) = (Inr (Some a), s)" "db_wf (conn s)"
      "names (conn s) = names (conn (fs_db f))" "same_files (conn (fs_db f)) (conn s)"
    using lookup_ok [OF wf, of e "ucast p" n] look by auto
  have par: "parse_attr (lookup_rows e (ucast p) n (t_meta (conn (fs_db f)))
      (t_dentry (conn (fs_db f))) (t_data (conn (fs_db f)))) = Inr (Some a)"
    using lookup_ok [OF wf, of e "ucast p" n] s(1) by auto
  obtain ty where N: "names (conn s) (ucast p, n) = Some (a_ino a, ty)"
    using lookup_result(3) [OF wf par] s(3) by auto
  have "check_directory_is_empty (a_ino a) s = Inr True"
    using emp s(3) unfolding check_directory_is_empty_def check_empty_names [OF s(2)] by simp
  moreover obtain s' where s': "delete_dentry e (ucast p) n s = (Inr (a_ino a), s')"
      "names (conn s') = without_children (a_ino a) (without_entry (ucast p) n (names (conn s)))"
      "same_files (conn s) (conn s')"
    using delete_dentry_names [OF N] by blast
  moreover have "db_wf (conn s')" by (rule wf_op [OF wf.delete_dentry_R [OF s'(1)] s(2)])
  moreover have "has_inode (a_ino a) (conn (fs_db f))"
    using dentry_row [OF s(2) N] same_files_has_inode [OF s(4)] by blast
  moreover note same_files_trans [OF s(4) s'(3)]
  ultimately obtain f' where "drop_inode e (a_ino a) (f\<lparr>fs_db := s'\<rparr>) = (Inr (), f')"
      "lookup_count f' = lookup_count f" "entry_dropped (a_ino a) (names (conn s')) f f'"
    using drop_after by blast
  with \<open>check_directory_is_empty (a_ino a) s = Inr True\<close> show ?thesis
    using rw s s' by (simp add: fs_rmdir_def Let_def)
qed

lemma sample_lookup_d:
  "\<exists>a. fst (lookup sample_env 1 ''d'' (fs_db sample_fs)) = Inr (Some a) \<and> a_ino a = 3"
proof -
  obtain s' where "lookup sample_env 1 ''d'' (fs_db sample_fs) = (parse_attr (lookup_rows sample_env 1
      ''d'' (t_meta sample_db) (t_dentry sample_db) (t_data sample_db)), s')"
    using lookup_ok [of "fs_db sample_fs" sample_env 1 "''d''"] sample_wf by auto
  then show ?thesis
    by (simp add: lookup_rows_wf [OF sample_wf] names_sample_db)
      (simp add: parse_attr_def sample_defs attr_of_cols.simps nlink_col_def
        string_to_systemtime_def u32_col_def)
qed

theorem rmdir_refuses_non_empty_witness:
  "\<exists>f'. fs_rmdir sample_env 1 ''d'' sample_fs = (Reply_error ENOTEMPTY, f')"
  using rmdir_refuses_non_empty [of sample_fs sample_env 1 "''d''" _ "''x''"] sample_lookup_d
  by (fastforce simp: sample_wf names_sample_db dot_name_def)

lemma sample_lookup_e:
  "\<exists>a. fst (lookup sample_env 1 ''e'' (fs_db sample_fs)) = Inr (Some a) \<and> a_ino a = 4"
proof -
  obtain s' where "lookup sample_env 1 ''e'' (fs_db sample_fs) = (parse_attr (lookup_rows sample_env 1
      ''e'' (t_meta sample_db) (t_dentry sample_db) (t_data sample_db)), s')"
    using lookup_ok [of "fs_db sample_fs" sample_env 1 "''e''"] sample_wf by auto
  then show ?thesis
    by (simp add: lookup_rows_wf [OF sample_wf] names_sample_db)
      (simp add: parse_attr_def sample_defs attr_of_cols.simps nlink_col_def
        string_to_systemtime_def u32_col_def)
qed

theorem rmdir_removes_empty_witness: "\<exists>f'. fs_rmdir sample_env 1 ''e'' sample_fs = (Reply_ok, f')"
proof -
  obtain a where a: "fst (lookup sample_env 1 ''e'' (fs_db sample_fs)) = Inr (Some a)" "a_ino a = 4"
    using sample_lookup_e by blast
  have "dot_name m" if "names sample_db (4, m) \<noteq> None" for m
    using that by (auto simp: names_sample_db dot_name_def split: if_splits)
  with a show ?thesis
    using rmdir_removes_empty [of sample_fs sample_env 1 "''e''" a] by (auto simp: sample_wf)
qed

section \<open>Moving names\<close>

text \<open>C0: rename moves the entry.  On a writable mount, for a source entry, a target that passes
  the checks of \<open>move_check\<close>, is another name, not a dot name, and lies in an existing
  directory, the answer is ok and the name space is the old one with the source gone, the
  target naming the moved inode, and the .. entry of a directory that changed its parent
  pointing to the new one; the inode the target named before is dropped as by unlink.\<close>

theorem rename_moves_entry:
  assumes "db_wf (conn (fs_db f))" and "\<not> fs_read_only f"
    and "names (conn (fs_db f)) (ucast p, n) = Some (i, ty)"
    and "move_check (names (conn (fs_db f))) ty (ucast np, nn) = Inr res"
    and "(ucast p :: u32, n) \<noteq> (ucast np, nn)" and "\<not> dot_name nn"
    and "has_inode (ucast np) (conn (fs_db f))"
  shows "\<exists>f'. fs_rename e p n np nn f = (Reply_ok, f') \<and> lookup_count f' = lookup_count f
    \<and> (case res of None \<Rightarrow> same_files (conn (fs_db f)) (conn (fs_db f'))
           \<and> names (conn (fs_db f')) = moved (ucast p) n (ucast np) nn (i, ty) (names (conn (fs_db f)))
       | Some j \<Rightarrow> entry_dropped j (moved (ucast p) n (ucast np) nn (i, ty) (names (conn (fs_db f)))) f f')"
  by (rule fs_rename_ok [OF assms])

theorem rename_moves_entry_witness:
  "\<exists>f'. fs_rename sample_env 1 ''d'' 4 ''s'' sample_fs = (Reply_ok, f')
    \<and> names (conn (fs_db f')) (1, ''d'') = None \<and> names (conn (fs_db f')) (4, ''s'') = Some (3, Directory)
    \<and> names (conn (fs_db f')) (3, ''..'') = Some (4, Directory)"
  using rename_moves_entry [of sample_fs 1 "''d''" 3 Directory 4 "''s''" None sample_env]
  by (auto simp: sample_wf names_sample_db move_check_def dot_name_def sample_has moved_def redirected_def)

text \<open>C23: A refused rename changes nothing: a missing source answers ENOENT; a target of another
  type EISDIR or ENOTDIR; a target directory with entries ENOTEMPTY.\<close>

theorem rename_refusals:
  assumes "db_wf (conn (fs_db f))" and "\<not> fs_read_only f"
  shows "case names (conn (fs_db f)) (ucast p, n) of
      None \<Rightarrow> fs_rename e p n np nn f = (Reply_error ENOENT, f)
    | Some (i, ty) \<Rightarrow>
        (\<forall>x. move_check (names (conn (fs_db f))) ty (ucast np, nn) = Inl x \<longrightarrow>
          fs_rename e p n np nn f = (Reply_error (rename_errno x), f))"
  using assms move_dentry_refused [OF assms(1)]
  by (simp add: fs_rename_def move_dentry_missing rename_errno_def split: option.split)

theorem rename_refusals_witness:
  "fs_rename sample_env 1 ''q'' 1 ''r'' sample_fs = (Reply_error ENOENT, sample_fs)
   \<and> fs_rename sample_env 1 ''a'' 1 ''d'' sample_fs = (Reply_error EISDIR, sample_fs)
   \<and> fs_rename sample_env 1 ''e'' 1 ''d'' sample_fs = (Reply_error ENOTEMPTY, sample_fs)"
proof -
  have "\<exists>n. names sample_db (3, n) \<noteq> None \<and> \<not> dot_name n"
    by (rule exI [of _ "''x''"]) (simp add: names_sample_db dot_name_def)
  then show ?thesis
    using rename_refusals [of sample_fs sample_env 1 "''q''" 1 "''r''"]
      rename_refusals [of sample_fs sample_env 1 "''a''" 1 "''d''"]
      rename_refusals [of sample_fs sample_env 1 "''e''" 1 "''d''"]
    by (simp add: sample_wf names_sample_db [of 1] move_check_def rename_errno_def)
qed



text \<open>Renaming an entry that is no directory onto itself removes it: the target that exists
  is the source, whose row the statement after it no longer finds.\<close>

lemma rename_onto_itself_removes_entry:
  assumes wf: "db_wf (conn (fs_db f))" and rw: "\<not> fs_read_only f"
    and src: "names (conn (fs_db f)) (ucast p, n) = Some (i, ty)"
    and ty: "ty \<noteq> Directory" and dots: "\<not> dot_name n"
  shows "\<exists>f'. fs_rename e p n p n f = (Reply_ok, f')
    \<and> entry_dropped i ((names (conn (fs_db f)))((ucast p, n) := None)) f f'"
proof -
  obtain s' where s': "move_dentry e (ucast p) n (ucast p) n (fs_db f) = (Inr (Some i), s')"
      "names (conn s') = (names (conn (fs_db f)))((ucast p, n) := None)"
      "same_files (conn (fs_db f)) (conn s')"
    using move_dentry_onto_itself [OF wf src ty dots, of e] by blast
  have "db_wf (conn s')" by (rule wf_op [OF wf.move_dentry_R [OF s'(1)] wf])
  moreover have "has_inode i (conn (fs_db f))" using dentry_row [OF wf src] by blast
  ultimately obtain f' where "drop_inode e i (f\<lparr>fs_db := s'\<rparr>) = (Inr (), f')"
      "entry_dropped i (names (conn s')) f f'"
    using drop_after [OF _ s'(3)] by blast
  with rw s' show ?thesis by (simp add: fs_rename_def)
qed

lemma rename_onto_itself_removes_entry_example:
  "\<exists>f'. fs_rename sample_env 1 ''a'' 1 ''a'' sample_fs = (Reply_ok, f')"
  using rename_onto_itself_removes_entry [of sample_fs 1 "''a''" 2 RegularFile sample_env]
  by (auto simp: sample_wf names_sample_db dot_name_def)

end
