(* ===== verification/Crashes.thy ===== *)
theory Crashes
  imports Requests Mount
begin

text \<open>
  What a crash can leave.  A handler runs one transaction of SQL statements after the other,
  and SQLite makes each of them durable or leaves nothing of it, so a program that dies during
  a request leaves the database as one of its transactions committed it.  The functions follow
  the handlers and list these connections; the loops of read and write commit one or two
  transactions per block.
\<close>

section \<open>The transactions of the loops\<close>

text \<open>The fuel of the read is its size, as every round takes at least one byte.\<close>

fun read_commits :: "nat \<Rightarrow> 's get_block \<Rightarrow> u32 \<Rightarrow> u32 \<Rightarrow> 's \<Rightarrow> 's list" where
  "read_commits 0 get offset sz s = []"
| "read_commits (Suc n) get offset sz s =
     (if sz = 0 then []
      else
        let b_offset = offset mod BLOCK_SIZE; len = read_end b_offset sz - b_offset in
        case get (offset div BLOCK_SIZE + 1) s of
          (Inl x, s') \<Rightarrow> [s']
        | (Inr block_data, s') \<Rightarrow> s' # read_commits n get (offset + len) (sz - len) s')"

fun write_commits ::
  "'s get_block \<Rightarrow> 's put_block \<Rightarrow> u32 \<Rightarrow> u32 \<Rightarrow> bytes \<Rightarrow> u32 list \<Rightarrow> 's \<Rightarrow> 's list" where
  "write_commits get put offset sz data [] s = []"
| "write_commits get put offset sz data (i # is) s =
     (let bs = b_start_index offset i; be = b_end_index offset sz i; doff = data_offset offset i;
          step = (\<lambda>block s'. case block of None \<Rightarrow> []
            | Some block_data \<Rightarrow>
                (case put i block_data ((i - 1) * BLOCK_SIZE + be) s' of
                   (Inl x, s2) \<Rightarrow> [s2]
                 | (Inr u, s2) \<Rightarrow> s2 # write_commits get put offset sz data is s2)) in
      if bs \<noteq> 0 \<or> be \<noteq> BLOCK_SIZE
      then (case get i s of
              (Inl x, s') \<Rightarrow> [s']
            | (Inr pre0, s') \<Rightarrow> s' # step (partial_block data pre0 doff bs be) s')
      else step (slice data (unat doff) (unat (doff + BLOCK_SIZE))) s)"

text \<open>Every such state comes after some whole rounds, and the reading half of another.\<close>

lemma write_commits_rounds:
  "s' \<in> set (write_commits get put off sz data bs s) \<Longrightarrow>
   \<exists>k s1. write_loop get put off sz data (take k bs) s = Some (Inr (), s1)
     \<and> (s' = s1 \<or> (\<exists>b r. get b s1 = (r, s')))
   \<or> (\<exists>x. write_loop get put off sz data (take k bs) s = Some (Inl x, s'))"
proof (induction bs arbitrary: s)
  case (Cons b bs)
  let ?bs = "b_start_index off b" and ?be = "b_end_index off sz b" and ?doff = "data_offset off b"
  let ?len = "(b - 1) * BLOCK_SIZE + ?be"
  let ?put = "\<lambda>x t. case put b x ?len t of (Inl err, s2) \<Rightarrow> [s2]
      | (Inr u, s2) \<Rightarrow> s2 # write_commits get put off sz data bs s2"
  have put: "\<exists>k s1. write_loop get put off sz data (take k (b # bs)) s = Some (Inr (), s1)
        \<and> (s' = s1 \<or> (\<exists>b r. get b s1 = (r, s')))
      \<or> (\<exists>x. write_loop get put off sz data (take k (b # bs)) s = Some (Inl x, s'))"
    if "s' \<in> set (?put x t)"
      and rest: "\<And>cs. write_loop get put off sz data (b # cs) s =
        (case put b x ?len t of (Inl err, s2) \<Rightarrow> Some (Inl err, s2)
          | (Inr u, s2) \<Rightarrow> write_loop get put off sz data cs s2)" for x t
  proof -
    obtain q t' where t': "put b x ?len t = (q, t')" by fastforce
    show ?thesis
    proof (cases q)
      case (Inl err)
      with that(1) t' rest [of "[]"] have "s' = t'" "write_loop get put off sz data (take 1 (b # bs)) s = Some (Inl err, t')"
        by simp_all
      then show ?thesis by blast
    next
      case (Inr u)
      with that(1) t' consider "s' = t'" | "s' \<in> set (write_commits get put off sz data bs t')" by auto
      then show ?thesis
      proof cases
        case 1
        with t' Inr rest [of "[]"] have "write_loop get put off sz data (take 1 (b # bs)) s = Some (Inr (), s')"
          by simp
        then show ?thesis by blast
      next
        case 2
        from Cons.IH [OF this] obtain k s1 where
          "write_loop get put off sz data (take k bs) t' = Some (Inr (), s1) \<and> (s' = s1 \<or> (\<exists>b r. get b s1 = (r, s')))
           \<or> (\<exists>x. write_loop get put off sz data (take k bs) t' = Some (Inl x, s'))" by blast
        with t' Inr rest [of "take k bs"] show ?thesis
          by (intro exI [of _ "Suc k"] exI [of _ s1]) simp
      qed
    qed
  qed
  show ?case
  proof (cases "?bs \<noteq> 0 \<or> ?be \<noteq> BLOCK_SIZE")
    case part: True
    obtain q t where t: "get b s = (q, t)" by fastforce
    have start: "write_loop get put off sz data (take 0 (b # bs)) s = Some (Inr (), s)" by simp
    show ?thesis
    proof (cases "s' = t")
      case True
      with start t show ?thesis by blast
    next
      case False
      with Cons.prems part t obtain pre0 where q: "q = Inr pre0"
        by (cases q) (auto simp: Let_def)
      with Cons.prems part t False obtain x where x: "partial_block data pre0 ?doff ?bs ?be = Some x"
        by (cases "partial_block data pre0 ?doff ?bs ?be") (auto simp: Let_def)
      have "s' \<in> set (?put x t)"
        using Cons.prems part t q x False by (simp add: Let_def)
      then show ?thesis
        by (rule put) (use part t q x in \<open>simp add: Let_def\<close>)
    qed
  next
    case False
    with Cons.prems obtain x where x: "slice data (unat ?doff) (unat (?doff + BLOCK_SIZE)) = Some x"
      by (cases "slice data (unat ?doff) (unat (?doff + BLOCK_SIZE))") (auto simp: Let_def)
    have "s' \<in> set (?put x s)"
      using Cons.prems False x by (simp add: Let_def)
    then show ?thesis
      by (rule put) (use False x in \<open>simp add: Let_def\<close>)
  qed
qed simp

section \<open>The transactions of a request\<close>

text \<open>The handlers of the other requests run at most one transaction.\<close>

fun request_commits :: "env \<Rightarrow> u32 \<Rightarrow> u32 \<Rightarrow> request \<Rightarrow> fs \<Rightarrow> sqlite list" where
  "request_commits e ruid rgid Destroy f =
     (if \<not> fs_read_only f
      then map (\<lambda>k. foldl (\<lambda>s key. snd (delete_inode_if_noref e key s)) (fs_db f)
             (take k (map fst (lookup_count f)))) [0..<length (lookup_count f)]
      else [])"
| "request_commits e ruid rgid (Unlink p n) f =
     (if \<not> fs_read_only f then [snd (delete_dentry e (ucast p) n (fs_db f))] else [])"
| "request_commits e ruid rgid (Rmdir p n) f =
     (if \<not> fs_read_only f then
        (case lookup e (ucast p) n (fs_db f) of
           (Inr (Some attr), s) \<Rightarrow>
             if check_directory_is_empty (a_ino attr) s = Inr True
             then [s, snd (delete_dentry e (ucast p) n s)] else [s]
         | (r, s) \<Rightarrow> [s])
      else [])"
| "request_commits e ruid rgid (MkSymlink p n data) f =
     (if \<not> fs_read_only f
      then [snd (add_inode_and_dentry e (ucast p) n
             (new_attr (utc_now e (conn (fs_db f))) Symlink 0x1FF ruid rgid) (fs_db f))]
      else [])"
| "request_commits e ruid rgid (Rename p n np nn) f =
     (if \<not> fs_read_only f
      then [snd (move_dentry e (ucast p) n (ucast np) nn (fs_db f))] else [])"
| "request_commits e ruid rgid (Create p n mode) f =
     (if \<not> fs_read_only f then [snd (lookup e (ucast p) n (fs_db f))] else [])"
| "request_commits e ruid rgid (Read i off sz) f =
     read_commits (unat sz)
       (\<lambda>b. if \<not> fs_rewind f then get_data e (ucast i) b (get_db_block_size (fs_db f))
            else get_data_at_time e (ucast i) b (get_db_block_size (fs_db f)))
       (ucast off) sz (fs_db f)"
| "request_commits e ruid rgid (Write i off data) f =
     (if \<not> fs_read_only f then
        (let i' = (ucast i :: u32); sz = (of_nat (length data) :: u32); off' = (ucast off :: u32) in
         write_commits (\<lambda>b. get_data e i' b (get_db_block_size (fs_db f))) (write_data e i')
           off' sz data (block_range (start_block off') (end_block off' sz)) (fs_db f))
      else [])"
| "request_commits e ruid rgid q f = []"

text \<open>What the program leaves when it dies during a request, before its last commit.\<close>

definition crash_states :: "env \<Rightarrow> u32 \<Rightarrow> u32 \<Rightarrow> request \<Rightarrow> fs \<Rightarrow> sqlite list" where
  "crash_states e ruid rgid q f = fs_db f # request_commits e ruid rgid q f"

section \<open>The transactions of a mount\<close>

text \<open>
  \<open>apply_diffs\<close> works outside a transaction, so that every row of bdata is a commit of its own;
  between DROP and CREATE there is no table, which is the same as an empty one.
\<close>

definition diff_commits :: "codec option \<Rightarrow> db \<Rightarrow> db list" where
  "diff_commits ext d =
     (case bdata_create d of
        Inl x \<Rightarrow> []
      | Inr (u, d0) \<Rightarrow> d0 #
          (case get_max_creation_seq d0 of
             Inl x \<Rightarrow> []
           | Inr brfs \<Rightarrow> map (\<lambda>k. snd (apply_brfs ext (take k brfs) d0)) [0..<length brfs]))"

definition init_commits :: "env \<Rightarrow> sqlite \<Rightarrow> sqlite list" where
  "init_commits e s =
     (case transact (init_inode e) s of
        (Inl x, s1) \<Rightarrow> [s1]
      | (Inr _, s1) \<Rightarrow> s1 #
          (case transact (init_entry e ''.'') s1 of
             (Inl x, s2) \<Rightarrow> [s2]
           | (Inr _, s2) \<Rightarrow> s2 #
               (case transact (init_entry e ''..'') s2 of
                  (Inl x, s3) \<Rightarrow> [s3]
                | (Inr _, s3) \<Rightarrow> s3 # map (\<lambda>d. s3\<lparr>conn := d\<rparr>) (diff_commits (sq_ext s3) (conn s3)))))"

section \<open>Every relation of the store survives a crash\<close>

lemma read_commits_keeps:
  assumes "\<And>t. Q t t" and "\<And>t u v. Q t u \<Longrightarrow> Q u v \<Longrightarrow> Q t v"
    and "\<And>b t r t'. get b t = (r, t') \<Longrightarrow> Q t t'"
  shows "s' \<in> set (read_commits n get off sz s) \<Longrightarrow> Q s s'"
proof (induction n arbitrary: off sz s)
  case (Suc n)
  obtain r t where t: "get (off div BLOCK_SIZE + 1) s = (r, t)" by fastforce
  note st = assms(3) [OF t]
  show ?case
  proof (cases "s' = t")
    case False
    with Suc.prems t obtain d off' sz' where "r = Inr d" "s' \<in> set (read_commits n get off' sz' t)"
      by (auto simp: Let_def split: if_splits sum.splits)
    with Suc.IH st show ?thesis by (blast intro: assms(2))
  qed (use st in simp)
qed simp

context any_write_relation
begin

lemma hr_write_commits:
  assumes "s' \<in> set (write_commits (\<lambda>b. get_data e i b n) (write_data e i) off sz data bs s)"
  shows "conn_rel R ext s s'"
proof -
  note get = hr_ops(10)
  have loop: "conn_rel R ext s t"
    if "write_loop (\<lambda>b. get_data e i b n) (write_data e i) off sz data cs s = Some (r, t)" for cs r t
    using that by (rule hr_write_loop [rotated 2]) (auto intro: hr_ops)
  from write_commits_rounds [OF assms] show ?thesis
    by (auto dest: loop get intro: hr_trans)
qed

lemma hr_commits: "s \<in> set (request_commits e ruid rgid q f) \<Longrightarrow> conn_rel R ext (fs_db f) s"
proof (cases q)
  case (Rmdir p n)
  assume s: "s \<in> set (request_commits e ruid rgid q f)"
  obtain r t where t: "lookup e (ucast p) n (fs_db f) = (r, t)" by fastforce
  with s Rmdir have "s = t \<or> s = snd (delete_dentry e (ucast p) n t)"
  proof (cases r)
    case (Inr v)
    with s Rmdir t show ?thesis
      by (cases v; cases "fs_read_only f"; cases "check_directory_is_empty (a_ino (the v)) t = Inr True")
        auto
  qed (use s Rmdir t in \<open>cases "fs_read_only f"; simp\<close>)
  moreover have "conn_rel R ext t (snd (delete_dentry e (ucast p) n t))"
    by (rule hr_ops(6)) (rule prod.collapse [symmetric])
  ultimately show ?thesis
    using hr_ops(8) [OF t] by (auto intro: hr_trans)
next
  case (Read i off sz)
  moreover assume "s \<in> set (request_commits e ruid rgid q f)"
  ultimately have s: "s \<in> set (read_commits (unat sz)
       (\<lambda>b. if \<not> fs_rewind f then get_data e (ucast i) b (get_db_block_size (fs_db f))
            else get_data_at_time e (ucast i) b (get_db_block_size (fs_db f)))
       (ucast off) sz (fs_db f))" by simp
  show ?thesis
    by (rule read_commits_keeps [where Q = "conn_rel R ext", OF _ _ _ s])
      (auto intro: hr_refl hr_trans hr_ops split: if_splits)
next
  case (Write i off data)
  moreover assume "s \<in> set (request_commits e ruid rgid q f)"
  ultimately show ?thesis
    by (auto simp: Let_def split: if_splits intro: hr_write_commits)
qed (auto split: if_splits intro: hr_destroy hr_ops [OF prod.collapse [symmetric]])

lemma diff_commits_R: "d' \<in> set (diff_commits ext' d) \<Longrightarrow> R d d'"
  by (auto simp: diff_commits_def split: sum.splits dest!: sym [of "Inr _" "bdata_create d"]
      dest!: keepsD [OF bdata_create] intro: trans apply_brfs_R [OF prod.collapse [symmetric]])

lemma init_commits_R:
  assumes "s' \<in> set (init_commits e s)"
  shows "R (conn s) (conn s')"
proof -
  obtain r1 s1 where 1: "transact (init_inode e) s = (r1, s1)" by fastforce
  obtain r2 s2 where 2: "transact (init_entry e ''.'') s1 = (r2, s2)" by fastforce
  obtain r3 s3 where 3: "transact (init_entry e ''..'') s2 = (r3, s3)" by fastforce
  note R1 = transact_R [OF keeps_init(1) 1]
  note R2 = trans [OF R1 transact_R [OF keeps_init(2) 2]]
  note R3 = trans [OF R2 transact_R [OF keeps_init(2) 3]]
  from assms consider "s' = s1" | "s' = s2" | "s' = s3"
    | d where "d \<in> set (diff_commits (sq_ext s3) (conn s3))" "s' = s3\<lparr>conn := d\<rparr>"
    by (cases r1; cases r2; cases r3) (auto simp: init_commits_def 1 2 3)
  then show ?thesis
    by cases (auto intro: R1 R2 R3 trans [OF R3 diff_commits_R])
qed

lemma crash_conn_rel: "s \<in> set (crash_states e ruid rgid q f) \<Longrightarrow> conn_rel R ext (fs_db f) s"
  by (auto simp: crash_states_def hr_refl intro: hr_commits)

end

end
