(* ===== verification/Rewind.thy ===== *)
theory Rewind
  imports Mount "HOL-Library.Multiset"
begin

text \<open>
  Rewinding to a past time (\<open>new_at_time\<close> of \<open>src/db_module/sqlite.rs\<close>): when the time stamps
  of the rows of one key increase strictly, the temporary tables hold the last row of every
  key before the time, so that they are the tables of that time where the audit table is
  complete.
\<close>

section \<open>The last row of a group\<close>

definition stamped :: "('r \<Rightarrow> 'k) \<Rightarrow> 'r audit list \<Rightarrow> bool" where
  "stamped key log \<longleftrightarrow>
     sorted_wrt (\<lambda>a b. key (au_row a) = key (au_row b) \<longrightarrow> au_time a < au_time b) log"

lemma stamped_filter: "stamped key log \<Longrightarrow> stamped key (filter P log)"
  unfolding stamped_def by (rule sorted_wrt_filter)

lemma find_rev: "find P (rev xs) = (if filter P xs = [] then None else Some (last (filter P xs)))"
  by (induction xs rule: rev_induct) auto

lemma sorted_wrt_last:
  "sorted_wrt R (xs @ [x]) \<longleftrightarrow> sorted_wrt R xs \<and> (\<forall>y \<in> set xs. R y x)"
  by (simp add: sorted_wrt_append)

lemma group_latest_eq:
  assumes "stamped key es"
  shows "group_latest key k es =
    (case journal_state key k es of None \<Rightarrow> [] | Some r \<Rightarrow> [r])"
proof (cases "filter (\<lambda>a. key (au_row a) = k) es" rule: rev_cases)
  case Nil
  then show ?thesis
    by (simp add: group_latest_def journal_state_def latest_def find_rev)
next
  case (snoc gs a)
  have "stamped key (gs @ [a])"
    unfolding snoc [symmetric] by (rule stamped_filter [OF assms])
  moreover have k: "\<forall>b \<in> set (gs @ [a]). key (au_row b) = k"
    unfolding snoc [symmetric] by simp
  ultimately have lt: "\<forall>b \<in> set gs. au_time b < au_time a"
    by (auto simp: stamped_def sorted_wrt_last)
  then have "Max (au_time ` set (gs @ [a])) = au_time a"
    by (intro Max_eqI) (auto intro: less_imp_le)
  moreover have "filter (\<lambda>b. au_time b = au_time a \<and> au_op b \<noteq> TG_DELETE) gs = []"
    using lt by (auto simp: filter_empty_conv)
  moreover have "journal_state key k es = (if au_op a = TG_DELETE then None else Some (au_row a))"
    by (simp add: journal_state_def latest_def find_rev snoc)
  ultimately show ?thesis
    by (simp add: group_latest_def Let_def snoc)
qed

lemma journal_state_key: "journal_state key k es = Some r \<Longrightarrow> key r = k"
  by (auto simp: journal_state_def latest_def find_Some_iff split: option.splits if_splits)

lemma journal_state_outside: "k \<notin> key ` au_row ` set es \<Longrightarrow> journal_state key k es = None"
  by (auto simp: journal_state_def latest_def find_rev filter_empty_conv)

lemma tab_get_concat_options:
  assumes "\<And>k r. f k = Some r \<Longrightarrow> key r = k" and "distinct ks"
  shows "tab_get key k (concat (map (\<lambda>k. case f k of None \<Rightarrow> [] | Some r \<Rightarrow> [r]) ks)) =
    (if k \<in> set ks then f k else None)"
  using assms(2)
proof (induction ks)
  case (Cons k' ks)
  then show ?case
    using assms(1) [of k'] by (auto simp: tab_get_append split: option.splits)
qed simp

lemma filter_concat_groups:
  assumes "\<And>k. filter (\<lambda>r. key r = i) (g k) = (if k = i then g i else [])" and "distinct ks"
  shows "filter (\<lambda>r. key r = i) (concat (map g ks)) = (if i \<in> set ks then g i else [])"
  using assms(2) by (induction ks) (auto simp: assms(1))

lemma filter_rewound:
  "filter (\<lambda>r. key r = i) (rewound_rows key T log) = group_latest key i (before T log)"
proof -
  have "filter (\<lambda>r. key r = i) (group_latest key k es) = (if k = i then group_latest key i es else [])"
    for k es
    by (auto simp: group_latest_def Let_def filter_map comp_def
        intro!: arg_cong [where f = "map au_row"] filter_cong)
  moreover have "i \<notin> set (map (key \<circ> au_row) es) \<Longrightarrow> group_latest key i es = []" for es
    by (auto simp: group_latest_def filter_empty_conv)
  ultimately show ?thesis
    by (simp add: rewound_rows_def Let_def filter_concat_groups)
qed

text \<open>A rewound table, as a map from keys, is the state of the journal at that time.\<close>

lemma tab_get_rewound:
  assumes "stamped key (before T log)"
  shows "tab_get key k (rewound_rows key T log) = journal_state key k (before T log)"
proof -
  let ?es = "before T log"
  have "rewound_rows key T log = concat (map (\<lambda>k. case journal_state key k ?es of
      None \<Rightarrow> [] | Some r \<Rightarrow> [r]) (remdups (map (key \<circ> au_row) ?es)))"
    by (simp add: rewound_rows_def Let_def group_latest_eq [OF assms])
  then have "tab_get key k (rewound_rows key T log) =
      (if k \<in> set (remdups (map (key \<circ> au_row) ?es)) then journal_state key k ?es else None)"
    by (simp only: tab_get_concat_options [OF journal_state_key distinct_remdups])
  then show ?thesis
    using journal_state_outside [of k key ?es] by (auto simp: image_comp)
qed

section \<open>Two tables with the same rows\<close>

lemma same_rows:
  assumes "keyed key t" and "keyed key u" and "\<And>k. tab_get key k t = tab_get key k u"
  shows "mset t = mset u"
proof -
  have "set t = set u"
    using assms by (auto dest: tab_get_mem) (metis tab_get_SomeD tab_get_mem)+
  moreover have "distinct t" "distinct u"
    using assms(1,2) by (auto simp: keyed_def distinct_map)
  ultimately show ?thesis by (simp add: set_eq_iff_mset_eq_distinct)
qed

lemma same_keys:
  assumes "keyed key t" and "keyed key u"
    and "\<And>k. map_option key (tab_get key k t) = map_option key (tab_get key k u)"
  shows "mset (map key t) = mset (map key u)"
proof -
  have "k \<in> key ` set t \<longleftrightarrow> k \<in> key ` set u" for k
    using assms(3) [of k] tab_get_None_iff [of key k t] tab_get_None_iff [of key k u]
    by (cases "tab_get key k t"; cases "tab_get key k u") simp_all
  then have "set (map key t) = set (map key u)" by (simp add: set_eq_iff del: image_iff)
  then show ?thesis
    using assms(1,2) set_eq_iff_mset_eq_distinct [of "map key t" "map key u"]
    by (simp add: keyed_def)
qed

lemma same_rows_length: "mset t = mset u \<Longrightarrow> length (filter P t) = length (filter P u)"
  by (metis mset_filter size_mset)

lemma nlink_col_same_rows: "mset t = mset u \<Longrightarrow> nlink_col i t = nlink_col i u"
  by (simp add: nlink_col_def same_rows_length [of t u])

lemma block_count_same_keys:
  assumes "mset (map data_key t) = mset (map data_key u)"
  shows "block_count i t = block_count i u"
proof -
  have "block_count i t = length (filter (\<lambda>k. fst k = i) (map data_key t))" for t
    by (simp add: block_count_def filter_map comp_def data_key_def)
  then show ?thesis using same_rows_length [OF assms] by metis
qed

lemma dentries_of_same_rows:
  assumes "mset t = mset u" and "keyed dentry_key u"
  shows "dentries_of i t = dentries_of i u"
proof -
  let ?F = "filter (\<lambda>r. d_parent r = i)"
  have "inj_on d_name (set (?F u))"
    using keyed_unique [OF assms(2)] by (auto intro!: inj_onI simp: dentry_key_def)
  moreover have "set (?F u) = set (?F t)"
    using mset_eq_setD [OF assms(1)] by auto
  ultimately have "sort_key d_name (?F t) = sort_key d_name (?F u)"
    by (intro sort_key_inj_key_eq) (simp_all add: assms(1))
  then show ?thesis by (simp add: dentries_of_def)
qed

lemma names_of_same_rows: "mset t = mset u \<Longrightarrow> names_of i t = names_of i u"
  unfolding names_of_def by (intro properties_for_sort) simp_all

lemma keyed_rewound:
  assumes "stamped key (before T log)"
  shows "keyed key (rewound_rows key T log)"
proof -
  let ?rows = "\<lambda>ks. concat (map (\<lambda>k. case journal_state key k (before T log) of
      None \<Rightarrow> [] | Some r \<Rightarrow> [r]) ks)"
  have "keyed key (?rows ks) \<and> key ` set (?rows ks) \<subseteq> set ks" if "distinct ks" for ks
    using that by (induction ks) (auto dest: journal_state_key split: option.splits)
  then show ?thesis
    by (simp add: rewound_rows_def Let_def group_latest_eq [OF assms])
qed

section \<open>A time between two states\<close>

text \<open>
  \<open>T\<close> separates an audit table from the rows appended to it later: all of its rows are
  before \<open>T\<close>, none of the later ones is.
\<close>

definition separates :: "string \<Rightarrow> 'r audit list \<Rightarrow> 'r audit list \<Rightarrow> bool" where
  "separates T log log' \<longleftrightarrow> (\<forall>a \<in> set log. au_time a < T)
     \<and> (\<forall>a \<in> set (drop (length log) log'). \<not> au_time a < T)"

lemma before_separated:
  assumes "extends log log'" and "separates T log log'"
  shows "before T log' = log"
proof -
  obtain zs where zs: "log' = log @ zs" using assms(1) by (auto simp: extends_def)
  with assms(2) have "filter (\<lambda>a. au_time a < T) zs = []"
    by (auto simp: separates_def filter_empty_conv)
  moreover have "filter (\<lambda>a. au_time a < T) log = log"
    using assms(2) by (auto simp: separates_def filter_id_conv)
  ultimately show ?thesis by (simp add: before_def zs)
qed

lemma rewound_separated:
  assumes "journaled key t log" and "stamped key log" and "extends log log'" and "separates T log log'"
  shows "tab_get key k (rewound_rows key T log') = tab_get key k t"
  using assms(1) tab_get_rewound [of key T log' k]
  by (simp add: before_separated [OF assms(3,4)] assms(2) journaled_def)

lemma rewound_now:
  assumes "stamped key log" and "\<forall>a \<in> set log. au_time a < T"
  shows "tab_get key k (rewound_rows key T log) = journal_state key k log"
  using tab_get_rewound [of key T log k] before_separated [of log log T] assms
  by (simp add: separates_def)

lemma rewound_tables_simps [simp]:
  "tt_meta (rewound_tables T d) = rewound_rows m_id T (l_meta d)"
  "tt_dentry (rewound_tables T d) = rewound_rows dentry_full T (l_dentry d)"
  "tt_data (rewound_tables T d) = rewound_rows data_key T (l_data d)"
  "tt_xattr (rewound_tables T d) = rewound_rows xattr_key T (l_xattr d)"
  by (simp_all add: rewound_tables_def)

end
