(* ===== verification/Histories.thy ===== *)
theory Histories
  imports Crashes Rewind
begin

text \<open>
  The life of a database file: it is mounted in one of the modes the program offers, serves
  requests, and is mounted again, after an orderly end or after a crash.  The invariants of the store hold in every state of such a
  history, and a later mount rewound to the time of an earlier state sees that state.
\<close>

section \<open>Mounting\<close>

datatype mode = Live | Live_without_times | Read_only | Past string

text \<open>
  The choice \<open>main\<close> makes from its arguments for a database file; a time wins over
  read-only, which wins over the mode without times.
\<close>

definition mount_mode :: "string option \<Rightarrow> bool \<Rightarrow> bool \<Rightarrow> mode" where
  "mount_mode db_time db_read_only db_no_time =
     (case db_time of
        Some time \<Rightarrow> Past time
      | None \<Rightarrow> if db_read_only then Read_only
                else if db_no_time then Live_without_times else Live)"

definition mount_file :: "env \<Rightarrow> codec \<Rightarrow> mode \<Rightarrow> db \<Rightarrow> error_kind + fs" where
  "mount_file e c mode d =
     (case mode of
        Live \<Rightarrow> fs_new e c d
      | Live_without_times \<Rightarrow> fs_new_no_time_recording e c d
      | Read_only \<Rightarrow> fs_new_read_only e d
      | Past t \<Rightarrow> fs_new_at_time e d t)"

text \<open>Without a path the database is in memory.\<close>

definition main_mount ::
  "env \<Rightarrow> codec \<Rightarrow> db option \<Rightarrow> string option \<Rightarrow> bool \<Rightarrow> bool \<Rightarrow> error_kind + fs" where
  "main_mount e c path db_time db_read_only db_no_time =
     (case path of
        Some d \<Rightarrow> mount_file e c (mount_mode db_time db_read_only db_no_time) d
      | None \<Rightarrow>
          (case init e sqlite_new_in_memory of
             (Inl x, s) \<Rightarrow> Inl x
           | (Inr _, s) \<Rightarrow> Inr (fs_new_with_db s)))"

lemmas mount_defs =
  fs_new_def fs_new_no_time_recording_def fs_new_read_only_def fs_new_at_time_def fs_with_def
  sqlite_new_def sqlite_new_no_time_recording_def sqlite_new_read_only_def sqlite_new_at_time_def

lemma init_same_handle: "init e s = (r, s') \<Longrightarrow> same_handle s s'"
  unfolding init_def
  by (auto simp: same_handle_def split: prod.splits sum.splits dest!: transact_same_handle)

text \<open>The connection of a mount before init.\<close>

definition opened :: "codec \<Rightarrow> mode \<Rightarrow> db \<Rightarrow> sqlite" where
  "opened c mode d =
     (case mode of
        Live \<Rightarrow> sqlite_new c d
      | Live_without_times \<Rightarrow> sqlite_new_no_time_recording c d
      | Read_only \<Rightarrow> sqlite_new_read_only d
      | Past t \<Rightarrow> sqlite_new_at_time t d)"

lemma conn_opened [simp]: "conn (opened c mode d) = d"
  by (simp add: opened_def mount_defs split: mode.split)

text \<open>A mount, whatever its mode, comes from init on the database.\<close>

lemma mount_fileD:
  assumes "mount_file e c mode d = Inr f"
  shows "\<exists>s. conn s = d \<and> (sq_ext s = Some c \<or> sq_ext s = None) \<and> sq_ext (fs_db f) = sq_ext s
    \<and> init e s = (Inr (), fs_db f)"
proof -
  let ?s = "opened c mode d"
  have "init e ?s = (Inr (), fs_db f)"
    using assms
    by (cases mode) (auto simp: opened_def mount_file_def fs_new_def fs_new_no_time_recording_def
        fs_new_read_only_def fs_new_at_time_def fs_with_def split: prod.splits sum.splits)
  moreover have "sq_ext ?s = Some c \<or> sq_ext ?s = None"
    by (cases mode) (simp_all add: opened_def mount_defs)
  ultimately have "\<exists>s. conn s = d \<and> (sq_ext s = Some c \<or> sq_ext s = None) \<and> init e s = (Inr (), fs_db f)"
    using conn_opened by blast
  then show ?thesis
    using init_same_handle by (auto simp: same_handle_def)
qed

section \<open>Histories\<close>

inductive evolves :: "env \<Rightarrow> codec \<Rightarrow> db \<Rightarrow> db \<Rightarrow> bool" for e :: env and c :: codec and d0 :: db where
  unchanged: "evolves e c d0 d0"
| mounted: "evolves e c d0 d \<Longrightarrow> mount_file e c mode d = Inr f \<Longrightarrow> reachable e f f' \<Longrightarrow>
    evolves e c d0 (conn (fs_db f'))"
| cut_mount: "evolves e c d0 d \<Longrightarrow> s \<in> set (init_commits e (opened c mode d)) \<Longrightarrow> evolves e c d0 (conn s)"
| crashed: "evolves e c d0 d \<Longrightarrow> mount_file e c mode d = Inr f \<Longrightarrow> reachable e f f' \<Longrightarrow>
    s \<in> set (crash_states e ruid rgid q f') \<Longrightarrow> evolves e c d0 (conn s)"

inductive_cases evolvesE: "evolves e c d0 d"

text \<open>A relation the store keeps with and without the extensions is kept by histories.\<close>

locale history_relation =
  with_ext: any_write_relation R e "Some c" + without_ext: any_write_relation R e None
  for R :: "db \<Rightarrow> db \<Rightarrow> bool" and e :: env and c :: codec
begin

lemma mount_R: "mount_file e c mode d = Inr f \<Longrightarrow> reachable e f f' \<Longrightarrow> R d (conn (fs_db f'))"
proof -
  assume f: "mount_file e c mode d = Inr f" and r: "reachable e f f'"
  from mount_fileD [OF f] obtain s where s: "conn s = d" "sq_ext s = Some c \<or> sq_ext s = None"
      "sq_ext (fs_db f) = sq_ext s" "init e s = (Inr (), fs_db f)" by blast
  have "R d (conn (fs_db f))"
    using with_ext.init_R [OF s(4)] s(1) by simp
  moreover have "R (conn (fs_db f)) (conn (fs_db f'))"
    using s(2,3) with_ext.reachable_R [OF r] without_ext.reachable_R [OF r] by auto
  ultimately show ?thesis by (rule with_ext.trans)
qed

lemma crash_R:
  assumes f: "mount_file e c mode d = Inr f" and r: "reachable e f f'"
    and s: "s \<in> set (crash_states e ruid rgid q f')"
  shows "R d (conn s)"
proof -
  have "sq_ext (fs_db f) = Some c \<or> sq_ext (fs_db f) = None"
    using mount_fileD [OF f] by metis
  moreover have "sq_ext (fs_db f') = sq_ext (fs_db f)"
    using with_ext.reachable_conn_rel [OF r] by (simp add: conn_rel_def same_handle_def)
  ultimately have "R (conn (fs_db f')) (conn s)"
    using with_ext.crash_conn_rel [OF s] without_ext.crash_conn_rel [OF s] by (auto simp: conn_rel_def)
  with mount_R [OF f r] show ?thesis by (rule with_ext.trans)
qed

lemma evolves_R: "evolves e c d0 d \<Longrightarrow> R d0 d"
proof (induction rule: evolves.induct)
  case (cut_mount d s mode)
  with with_ext.init_commits_R show ?case by (fastforce intro: with_ext.trans)
qed (auto intro: with_ext.refl with_ext.trans mount_R crash_R)

end

interpretation growth_h: history_relation logs_extend e c for e c ..
interpretation wf_h: history_relation keeps_wf e c for e c ..
interpretation meta_h: history_relation "keeps_both meta_journaled" e c for e c ..
interpretation xattr_h: history_relation "keeps_both xattr_journaled" e c for e c ..
interpretation dentry_h: history_relation "keeps_both dentry_journaled" e c for e c ..
interpretation data_h: history_relation "keeps_both (data_journaled c)" e c for e c ..
interpretation blocks_h: history_relation "keeps_both blocks_journaled" e c for e c ..

lemma empty_journaled:
  "meta_journaled empty_db" "xattr_journaled empty_db" "dentry_journaled empty_db"
  "data_journaled c empty_db" "blocks_journaled empty_db"
  by (simp_all add: blocks_journaled_def meta_journaled_def xattr_journaled_def dentry_journaled_def data_journaled_def
      empty_db_def data_replay_def)

lemma history_wf: "evolves e c empty_db d \<Longrightarrow> db_wf d"
  using wf_h.evolves_R [of e c empty_db d] db_wf_empty by (simp add: keeps_wf_def)

lemma history_journaled:
  assumes "evolves e c empty_db d"
  shows "meta_journaled d" "xattr_journaled d" "dentry_journaled d" "data_journaled c d"
    "blocks_journaled d"
  using meta_h.evolves_R [OF assms] xattr_h.evolves_R [OF assms] dentry_h.evolves_R [OF assms]
    data_h.evolves_R [OF assms] blocks_h.evolves_R [OF assms] db_wf_empty empty_journaled
  by (auto simp: keeps_both_def)

lemma history_logs: "evolves e c d0 d \<Longrightarrow> logs_extend d0 d"
  by (rule growth_h.evolves_R)

end
