(* ===== verification/Schema.thy ===== *)
theory Schema
  imports Histories
begin

text \<open>
  The tables and triggers of the database file.  \<open>init\<close> (\<open>src/db_module/sqlite.rs\<close>) creates
  what is missing before it adds the root directory, one statement after the other and each
  committed by itself, so that a crash leaves the objects created so far.  The statements of
  the store describe a file in which every trigger exists; here it is shown when that is so.
\<close>

section \<open>Creating tables and triggers\<close>

text \<open>The rows of \<open>sqlite_master\<close>: a table, or a trigger and the table it watches.\<close>

datatype sql_object = Table string | Trigger string string

type_synonym schema = "sql_object list"

fun create_object :: "sql_object \<Rightarrow> schema \<Rightarrow> error_kind + schema" where
  "create_object (Table n) S =
     (if Table n \<in> set S then Inl (SqliteError ObjectExists) else Inr (S @ [Table n]))"
| "create_object (Trigger n t) S =
     (if Table t \<notin> set S then Inl (SqliteError NoSuchTable)
      else if Trigger n t \<in> set S then Inl (SqliteError ObjectExists)
      else Inr (S @ [Trigger n t]))"

text \<open>
  A run of \<open>init\<close> that may be cut short: \<open>n\<close> statements change the file before the process
  dies.  \<open>Done\<close> keeps the number that is left.
\<close>

datatype run = Done nat schema | Crashed schema | Failed error_kind schema

fun run_schema :: "run \<Rightarrow> schema" where
  "run_schema (Done n S) = S"
| "run_schema (Crashed S) = S"
| "run_schema (Failed x S) = S"

fun creates :: "nat \<Rightarrow> sql_object list \<Rightarrow> schema \<Rightarrow> run" where
  "creates n [] S = Done n S"
| "creates 0 (x # xs) S = Crashed S"
| "creates (Suc n) (x # xs) S =
     (case create_object x S of Inl err \<Rightarrow> Failed err S | Inr S' \<Rightarrow> creates n xs S')"

text \<open>
  One block of \<open>init\<close> per table: when the table is not found, the table, its audit table and
  its three triggers are created.
\<close>

definition table_objects :: "string \<Rightarrow> sql_object list" where
  "table_objects t =
     [Table t, Table (t @ ''_audit''), Trigger (''audit_delete_'' @ t) t,
      Trigger (''audit_update_'' @ t) t, Trigger (''audit_insert_'' @ t) t]"

fun init_tables :: "nat \<Rightarrow> string list \<Rightarrow> schema \<Rightarrow> run" where
  "init_tables n [] S = Done n S"
| "init_tables n (t # ts) S =
     (if Table t \<in> set S then init_tables n ts S
      else
        case creates n (table_objects t) S of
          Done n' S' \<Rightarrow> init_tables n' ts S'
        | Crashed S' \<Rightarrow> Crashed S'
        | Failed err S' \<Rightarrow> Failed err S')"

definition table_names :: "string list" where
  "table_names = [''metadata'', ''dentry'', ''data'', ''xattr'']"

definition init_schema :: "nat \<Rightarrow> schema \<Rightarrow> run" where
  "init_schema n S = init_tables n table_names S"

definition full_schema :: schema where
  "full_schema = concat (map table_objects table_names)"

lemmas schema_defs = table_objects_def table_names_def full_schema_def init_schema_def

section \<open>Runs that are not cut short\<close>

lemma creates_append:
  assumes "distinct (S @ xs)" and "\<forall>n t. Trigger n t \<in> set xs \<longrightarrow> Table t \<in> set S"
  shows "creates (length xs + n) xs S = Done n (S @ xs)"
  using assms
proof (induction xs arbitrary: S)
  case (Cons x xs)
  have "create_object x S = Inr (S @ [x])"
    using Cons.prems by (cases x) auto
  then show ?case using Cons.IH [of "S @ [x]"] Cons.prems by auto
qed simp

lemma full_schema_code: "full_schema =
  [Table ''metadata'', Table ''metadata_audit'', Trigger ''audit_delete_metadata'' ''metadata'',
   Trigger ''audit_update_metadata'' ''metadata'', Trigger ''audit_insert_metadata'' ''metadata'',
   Table ''dentry'', Table ''dentry_audit'', Trigger ''audit_delete_dentry'' ''dentry'',
   Trigger ''audit_update_dentry'' ''dentry'', Trigger ''audit_insert_dentry'' ''dentry'',
   Table ''data'', Table ''data_audit'', Trigger ''audit_delete_data'' ''data'',
   Trigger ''audit_update_data'' ''data'', Trigger ''audit_insert_data'' ''data'',
   Table ''xattr'', Table ''xattr_audit'', Trigger ''audit_delete_xattr'' ''xattr'',
   Trigger ''audit_update_xattr'' ''xattr'', Trigger ''audit_insert_xattr'' ''xattr'']"
  by (simp add: schema_defs)

lemma init_complete: "set table_names \<subseteq> {t. Table t \<in> set S} \<Longrightarrow> init_schema n S = Done n S"
proof -
  have "set ts \<subseteq> {t. Table t \<in> set S} \<Longrightarrow> init_tables n ts S = Done n S" for ts
    by (induction ts) auto
  then show "set table_names \<subseteq> {t. Table t \<in> set S} \<Longrightarrow> init_schema n S = Done n S"
    by (simp add: init_schema_def)
qed


lemma cut_runs: "\<forall>n \<in> set [0..<21]. init_schema n [] =
    (if n < 20 then Crashed (take n full_schema) else Done (n - 20) full_schema)"
  by code_simp

lemma creates_more: "creates n xs S = Done k S' \<Longrightarrow> creates (n + m) xs S = Done (k + m) S'"
  by (induction n xs S rule: creates.induct) (auto split: sum.splits)

lemma init_tables_more: "init_tables n ts S = Done k S' \<Longrightarrow> init_tables (n + m) ts S = Done (k + m) S'"
  by (induction n ts S rule: init_tables.induct)
    (auto split: run.splits if_splits dest: creates_more [where m = m])

lemma init_empty:
  "init_schema n [] =
     (if n < 20 then Crashed (take n full_schema) else Done (n - 20) full_schema)"
proof (cases "n < 20")
  case True
  with cut_runs show ?thesis by simp
next
  case False
  have "init_schema 20 [] = Done 0 full_schema" using cut_runs by simp
  then have "init_schema (20 + (n - 20)) [] = Done (0 + (n - 20)) full_schema"
    unfolding init_schema_def by (rule init_tables_more)
  with False show ?thesis by simp
qed

section \<open>Runs that are cut short\<close>

text \<open>What a run adds belongs to the tables it did not find.\<close>

lemma create_object_adds: "create_object x S = Inr S' \<Longrightarrow> set S' = insert x (set S)"
  by (cases x) (auto split: if_splits)

lemma creates_adds:
  "set S \<subseteq> set (run_schema (creates n xs S)) \<and> set (run_schema (creates n xs S)) \<subseteq> set S \<union> set xs"
proof (induction n xs S rule: creates.induct)
  case (3 n x xs S)
  show ?case
  proof (cases "create_object x S")
    case (Inr S')
    then have "creates (Suc n) (x # xs) S = creates n xs S'" by simp
    with 3 [OF Inr] create_object_adds [OF Inr] show ?thesis 
      by (simp only: list.set) blast
  qed auto
qed auto

text \<open>The objects of the tables that a schema does not have.\<close>

definition missing_objects :: "string list \<Rightarrow> schema \<Rightarrow> sql_object set" where
  "missing_objects ts S = {x. \<exists>t \<in> set ts. Table t \<notin> set S \<and> x \<in> set (table_objects t)}"

lemma missing_objects_Cons:
  "set S \<subseteq> set S' \<Longrightarrow> missing_objects ts S' \<subseteq> missing_objects (t # ts) S"
  "Table t \<notin> set S \<Longrightarrow> set (table_objects t) \<subseteq> missing_objects (t # ts) S"
  by (auto simp: missing_objects_def)

lemma init_tables_adds:
  "set S \<subseteq> set (run_schema (init_tables n ts S))
   \<and> set (run_schema (init_tables n ts S)) \<subseteq> set S \<union> missing_objects ts S"
proof (induction n ts S rule: init_tables.induct)
  case (2 n t ts S)
  show ?case
  proof (cases "Table t \<in> set S")
    case True
    with 2(1) missing_objects_Cons(1) [of S S ts t] show ?thesis by simp blast
  next
    case False
    have a: "set S \<subseteq> set (run_schema (creates n (table_objects t) S))"
        "set (run_schema (creates n (table_objects t) S)) \<subseteq> set S \<union> missing_objects (t # ts) S"
      using creates_adds [of S n "table_objects t"] missing_objects_Cons(2) [OF False, of ts] by blast+
    show ?thesis
    proof (cases "creates n (table_objects t) S")
      case (Done n' S')
      then have eq: "init_tables n (t # ts) S = init_tables n' ts S'" using False by simp
      from a Done have "set S \<subseteq> set S'" "set S' \<subseteq> set S \<union> missing_objects (t # ts) S" by simp_all
      with 2(2) [OF False Done] missing_objects_Cons(1) [of S S' ts t] show ?thesis
        unfolding eq by blast
    qed (use a False in simp_all)
  qed
qed simp

lemma table_objects_disjoint:
  assumes "t \<in> set table_names" "t' \<in> set table_names" "x \<in> set (table_objects t)"
    "x \<in> set (table_objects t')"
  shows "t' = t"
proof -
  have "\<forall>t \<in> set table_names. \<forall>t' \<in> set table_names.
      \<forall>x \<in> set (table_objects t). x \<in> set (table_objects t') \<longrightarrow> t' = t"
    by code_simp
  with assms show ?thesis by blast
qed

definition later_inits :: "nat list \<Rightarrow> schema \<Rightarrow> schema" where
  "later_inits ms S = foldl (\<lambda>S m. run_schema (init_schema m S)) S ms"

lemma later_inits_missing:
  assumes "t \<in> set table_names" and "x \<in> set (table_objects t)"
  shows "Table t \<in> set S \<Longrightarrow> x \<notin> set S \<Longrightarrow> x \<notin> set (later_inits ms S)"
proof (induction ms arbitrary: S)
  case (Cons m ms)
  let ?S = "run_schema (init_schema m S)"
  have b: "set S \<subseteq> set ?S"
      "set ?S \<subseteq> set S \<union> missing_objects table_names S"
    using init_tables_adds [of S m table_names] by (simp_all add: init_schema_def)
  then have "x \<notin> set ?S" and "Table t \<in> set ?S"
    using Cons.prems assms table_objects_disjoint [OF assms(1) _ assms(2)]
    unfolding missing_objects_def by blast+
  from Cons.IH [OF this(2,1)] show ?case by (simp add: later_inits_def)
qed (simp add: later_inits_def)

lemma cut_points: "\<forall>n \<in> set [0..<21].
    if n mod 5 = 0 then init_schema 20 (take n full_schema) = Done n full_schema
    else Table (table_names ! (n div 5)) \<in> set (take n full_schema)
      \<and> table_names ! (n div 5) \<in> set table_names
      \<and> full_schema ! n \<in> set (table_objects (table_names ! (n div 5)))
      \<and> full_schema ! n \<notin> set (take n full_schema) \<and> full_schema ! n \<in> set full_schema"
  by code_simp

lemma repaired_iff:
  assumes "n \<le> 20"
  shows "(\<exists>ms. set full_schema \<subseteq> set (later_inits ms (take n full_schema))) \<longleftrightarrow> n mod 5 = 0"
proof (cases "n mod 5 = 0")
  case True
  with cut_points assms have "later_inits [20] (take n full_schema) = full_schema"
    by (simp add: later_inits_def)
  with True show ?thesis by (metis order.refl)
next
  case False
  let ?t = "table_names ! (n div 5)"
  from assms have "n \<in> set [0..<21]" by simp
  with cut_points False have c: "Table ?t \<in> set (take n full_schema)" "?t \<in> set table_names"
      "full_schema ! n \<in> set (table_objects ?t)" "full_schema ! n \<notin> set (take n full_schema)"
      "full_schema ! n \<in> set full_schema"
    by (meson)+
  from later_inits_missing [OF c(2,3,1,4)] c(5) False show ?thesis by blast
qed

section \<open>Mounting a file\<close>

text \<open>
  A file is its schema and its rows.  A mount at a past time copies the audit tables before
  \<open>init\<close> runs, which fails when the file does not have them; every other mount creates what
  is missing.  Twenty statements are all \<open>init\<close> ever needs.
\<close>

definition audit_tables :: "string list" where
  "audit_tables = [''dentry_audit'', ''metadata_audit'', ''data_audit'', ''xattr_audit'']"

definition mount_path :: "env \<Rightarrow> codec \<Rightarrow> mode \<Rightarrow> schema \<times> db \<Rightarrow> error_kind + schema \<times> fs" where
  "mount_path e c mode fl =
     (case fl of (S, d) \<Rightarrow>
        if (case mode of Past T \<Rightarrow> \<not> list_all (\<lambda>t. Table t \<in> set S) audit_tables | _ \<Rightarrow> False)
        then Inl (SqliteError NoSuchTable)
        else
          (case init_schema 20 S of
             Failed err S' \<Rightarrow> Inl err
           | r \<Rightarrow> map_result (\<lambda>f. (run_schema r, f)) (mount_file e c mode d)))"

lemma init_full: "init_schema n full_schema = Done n full_schema"
  by (rule init_complete) (simp add: schema_defs)

lemma full_has_audit: "list_all (\<lambda>t. Table t \<in> set full_schema) audit_tables"
  by (simp add: audit_tables_def full_schema_code)

lemma mount_path_full:
  "mount_path e c mode (full_schema, d) = map_result (Pair full_schema) (mount_file e c mode d)"
  by (cases mode; cases "mount_file e c mode d") (simp_all add: mount_path_def init_full full_has_audit)

lemma mount_path_fresh:
  "mount_path e c mode ([], d) =
     (case mode of
        Past T \<Rightarrow> Inl (SqliteError NoSuchTable)
      | _ \<Rightarrow> map_result (Pair full_schema) (mount_file e c mode d))"
  by (cases mode; cases "mount_file e c mode d")
    (simp_all add: mount_path_def init_empty audit_tables_def)

text \<open>
  The life of a file, mount after mount, each ended in order or by a crash, none of them cut
  short while it sets up.
\<close>

inductive file_history :: "env \<Rightarrow> codec \<Rightarrow> schema \<times> db \<Rightarrow> bool" for e :: env and c :: codec where
  fresh: "file_history e c ([], empty_db)"
| used: "file_history e c fl \<Longrightarrow> mount_path e c mode fl = Inr (S, f) \<Longrightarrow> reachable e f f' \<Longrightarrow>
    file_history e c (S, conn (fs_db f'))"
| crashed: "file_history e c fl \<Longrightarrow> mount_path e c mode fl = Inr (S, f) \<Longrightarrow> reachable e f f' \<Longrightarrow>
    s \<in> set (crash_states e ruid rgid q f') \<Longrightarrow> file_history e c (S, conn s)"

inductive_cases file_historyE: "file_history e c fl"

lemma map_result_Inr: "map_result g r = Inr b \<longleftrightarrow> (\<exists>a. r = Inr a \<and> b = g a)"
  by (cases r) auto

lemma mount_path_evolves:
  assumes "fl = ([], empty_db) \<or> fst fl = full_schema" and "mount_path e c mode fl = Inr (S, f)"
  shows "S = full_schema \<and> mount_file e c mode (snd fl) = Inr f"
proof (cases "fst fl = full_schema")
  case True
  with assms(2) show ?thesis
    by (cases fl) (auto simp: mount_path_full map_result_Inr)
next
  case False
  with assms(1) have "fl = ([], empty_db)" by simp
  with assms(2) show ?thesis
    by (cases mode) (auto simp: mount_path_fresh map_result_Inr)
qed

lemma file_history_evolves:
  "file_history e c fl \<Longrightarrow>
     (fl = ([], empty_db) \<or> fst fl = full_schema) \<and> evolves e c empty_db (snd fl)"
proof (induction rule: file_history.induct)
  case fresh
  show ?case by (simp add: evolves.unchanged)
next
  case (used fl mode S f f')
  with mount_path_evolves [OF conjunct1 [OF used.IH]] evolves.mounted show ?case by fastforce
next
  case (crashed fl mode S f f' s ruid rgid q)
  with mount_path_evolves [OF conjunct1 [OF crashed.IH]] evolves.crashed show ?case by fastforce
qed

end
