(* ===== verification/Block_Bounds.thy ===== *)
theory Block_Bounds
  imports Schema
begin

text \<open>
  The size of what is stored: no request makes a block longer than one block size or gives it
  a number beyond those of a file of 4 GiB.  The statements keep this for the blocks they are
  given, which is why the writes have to be small enough to fit into a message.
\<close>

definition small_block :: "data_row \<Rightarrow> bool" where
  "small_block r \<longleftrightarrow> length (b_data r) \<le> 4096 \<and> b_num r \<noteq> 0 \<and> unat (b_num r) \<le> 1048576"

definition blocks_bounded :: "db \<Rightarrow> bool" where
  "blocks_bounded d \<longleftrightarrow> list_all small_block (t_data d)"

lemma bounded_empty: "blocks_bounded empty_db"
  by (simp add: blocks_bounded_def empty_db_def)

lemma bounded_upsert: "small_block br \<Longrightarrow> keeps (\<lambda>d d'. blocks_bounded d \<longrightarrow> blocks_bounded d') (data_upsert e ext br)"
  by (auto simp: blocks_bounded_def list_all_iff keeps_def stmt_defs Let_def small_block_def
      split: stmt_splits)

lemma bounded_replace: "small_block br \<Longrightarrow> keeps (\<lambda>d d'. blocks_bounded d \<longrightarrow> blocks_bounded d') (data_replace e br)"
  by (auto simp: blocks_bounded_def list_all_iff keeps_def stmt_defs Let_def small_block_def
      split: stmt_splits)

interpretation bounded: guarded_store_relation "\<lambda>d d'. blocks_bounded d \<longrightarrow> blocks_bounded d'"
    e ext small_block "\<lambda>_. True" for e ext
  by unfold_locales
    (auto simp: small_block_def [symmetric] bounded_upsert bounded_replace, auto simp: small_block_def
      blocks_bounded_def list_all_iff keeps_def stmt_defs Let_def split: stmt_splits)

section \<open>Requests one after the other\<close>

fun serve :: "env \<Rightarrow> (u32 \<times> u32 \<times> request) list \<Rightarrow> fs \<Rightarrow> fs option" where
  "serve e [] f = Some f"
| "serve e ((ruid, rgid, q) # qs) f =
     (case handle e ruid rgid q f of None \<Rightarrow> None | Some (r, f') \<Rightarrow> serve e qs f')"

lemma serve_reachable: "serve e qs f = Some f' \<Longrightarrow> reachable e f0 f \<Longrightarrow> reachable e f0 f'"
proof (induction e qs f rule: serve.induct)
  case (2 e ruid rgid q qs f)
  obtain r f1 where h: "handle e ruid rgid q f = Some (r, f1)"
    using 2(2) by (auto split: option.splits)
  with 2 reachable.step [OF 2(3) fs_step.request [OF h]] show ?case by simp
qed simp

fun small_request :: "request \<Rightarrow> bool" where
  "small_request (Write i off data) = (length data < 2147483648)"
| "small_request q = True"

lemma serve_bounded:
  "serve e qs f = Some f' \<Longrightarrow> list_all (\<lambda>(u, g, q). small_request q) qs \<Longrightarrow>
   blocks_bounded (conn (fs_db f)) \<Longrightarrow> blocks_bounded (conn (fs_db f'))"
proof (induction e qs f rule: serve.induct)
  case (2 e ruid rgid q qs f)
  obtain r f1 where h: "handle e ruid rgid q f = Some (r, f1)"
    using 2(2) by (auto split: option.splits)
  have "conn_rel (\<lambda>d d'. blocks_bounded d \<longrightarrow> blocks_bounded d') (sq_ext (fs_db f)) (fs_db f) (fs_db f1)"
    using 2(3) by (intro bounded.handle_conn_rel [OF h]) auto
  then have "blocks_bounded (conn (fs_db f1))"
    using 2(4) by (simp add: conn_rel_def)
  with 2 h show ?case by auto
qed simp

lemma mount_bounded:
  "mount_file e c mode d = Inr f \<Longrightarrow> blocks_bounded d \<Longrightarrow> blocks_bounded (conn (fs_db f))"
  using mount_fileD bounded.init_R by blast

end
