(* ===== verification/Readable.thy ===== *)
theory Readable
  imports Block_Bounds Namespace Samples
begin

text \<open>
  Which inodes can be read back.  SQLite stores only times of the years 0000 to 9999; a row
  with another time makes its inode unreadable.  As long as the clock and the times that
  setattr is given stay in these years, so do all rows, and every inode that has a name has
  attributes.
\<close>

section \<open>Times that can be stored\<close>

definition storable :: "systime \<Rightarrow> bool" where
  "storable t \<longleftrightarrow> sql_datetime (st_sec t) \<noteq> None"

definition readable_col :: "time_cols \<Rightarrow> bool" where
  "readable_col c \<longleftrightarrow> (case fst c of None \<Rightarrow> False | Some s \<Rightarrow> sql_datetime s \<noteq> None)"

definition readable_row :: "meta_row \<Rightarrow> bool" where
  "readable_row m \<longleftrightarrow> readable_col (m_atime m) \<and> readable_col (m_mtime m)
     \<and> readable_col (m_ctime m) \<and> readable_col (m_crtime m)"

definition times_readable :: "db \<Rightarrow> bool" where
  "times_readable d \<longleftrightarrow> list_all readable_row (t_meta d)"

definition clock_ok :: "env \<Rightarrow> bool" where
  "clock_ok e \<longleftrightarrow> (\<forall>n. storable (wall e n))"

text \<open>A request whose times, once converted, can be stored.\<close>

definition storable_opt :: "env \<Rightarrow> timespec option \<Rightarrow> bool" where
  "storable_opt e t =
     (case t of None \<Rightarrow> True
      | Some n \<Rightarrow> (case datetime_from (chrono_range e) n of None \<Rightarrow> True | Some t' \<Rightarrow> storable t'))"

fun timely_request :: "env \<Rightarrow> request \<Rightarrow> bool" where
  "timely_request e (Setattr i mode uid gid sz at mt crt fl) =
     (storable_opt e at \<and> storable_opt e mt \<and> storable_opt e crt)"
| "timely_request e q = True"

lemma clock_ok_sample: "clock_ok sample_env"
  by (auto simp: clock_ok_def sample_env_def storable_def sql_datetime_def min_def)

section \<open>Every request keeps the rows readable\<close>

definition keeps_readable :: "env \<Rightarrow> db \<Rightarrow> db \<Rightarrow> bool" where
  "keeps_readable e d d' \<longleftrightarrow> (clock_ok e \<longrightarrow> times_readable d \<longrightarrow> times_readable d')"

definition storable_if :: "env \<Rightarrow> systime \<Rightarrow> bool" where
  "storable_if e t \<longleftrightarrow> (clock_ok e \<longrightarrow> storable t)"

lemma readable_col_times: "clock_ok e \<Longrightarrow> col_times (storable_if e) c \<longleftrightarrow> readable_col c"
proof
  assume "clock_ok e" "col_times (storable_if e) c"
  then show "readable_col c"
    by (auto simp: col_times_def storable_if_def storable_def readable_col_def time_param_def
        time_param_raw_def sql_datetime_def split: if_splits)
next
  assume "clock_ok e" "readable_col c"
  then obtain s where "fst c = Some s" "sql_datetime s \<noteq> None"
    by (auto simp: readable_col_def split: option.splits)
  then show "col_times (storable_if e) c"
    by (intro col_times_def [THEN iffD2] exI [of _ "\<lparr>st_sec = s, st_nsec = snd c\<rparr>"])
      (simp add: storable_if_def storable_def time_param_raw_def prod_eq_iff)
qed

lemma readable_row_times: "clock_ok e \<Longrightarrow> row_times (storable_if e) m \<longleftrightarrow> readable_row m"
  by (simp add: row_times_def readable_row_def readable_col_times)

lemma readable_id [simp]: "readable_row (m\<lparr>m_id := i\<rparr>) = readable_row m"
  by (simp add: readable_row_def)

lemma readable_insert: "row_times (storable_if e) m \<Longrightarrow> keeps (keeps_readable e) (meta_insert e m)"
  by (auto simp: keeps_def keeps_readable_def times_readable_def readable_row_times stmt_defs Let_def
      split: stmt_splits)

lemma readable_update: "tame (storable_if e) f \<Longrightarrow> keeps (keeps_readable e) (meta_update e i f)"
  by (auto simp: tame_def keeps_def keeps_readable_def times_readable_def readable_row_times stmt_defs
      list_all_iff meta_set_def split: stmt_splits)

interpretation readable: guarded_store_relation "keeps_readable e" e ext "\<lambda>_. True" "storable_if e"
  for e ext
  by unfold_locales
    (auto intro: readable_insert readable_update,
     auto simp: storable_if_def clock_ok_def utc_now_def keeps_readable_def keeps_def stmt_defs
      times_readable_def list_all_iff Let_def split: stmt_splits)

text \<open>The attributes an inode is read with can be stored again.\<close>

lemma get_inode_storable:
  assumes "times_readable (conn s)" and "get_inode i s = Inr (Some a)"
  shows "attr_times storable a"
proof -
  obtain m where m: "tab_get m_id i (t_meta (conn s)) = Some m"
      "attr_of_cols (m, nlink_col i (t_dentry (conn s)), Some (block_count i (t_data (conn s)))) = Inr a"
    using get_inode_local_SomeD assms(2) unfolding get_inode_def by blast
  then have "readable_row m"
    using assms(1) tab_get_SomeD by (fastforce simp: times_readable_def list_all_iff)
  with m(2) show ?thesis
    by (auto simp: attr_of_cols.simps rbind_Inr string_to_systemtime_def readable_row_def
        readable_col_def attr_times_def storable_def split: option.splits)
qed

lemma opt_time_storable:
  "opt_time e t old = Some t' \<Longrightarrow> storable_opt e t \<Longrightarrow> storable old \<Longrightarrow> storable t'"
  by (auto simp: opt_time_def storable_opt_def split: option.splits)

lemma timely_good_times:
  assumes "times_readable (conn (fs_db f))" and "timely_request e q"
  shows "good_times (storable_if e) e q f"
proof (cases q)
  case (Setattr i mode uid gid sz at mt crt fl)
  have "attr_times (storable_if e) a"
    if "get_inode (ucast i) (fs_db f) = Inr (Some old)"
      "setattr_fields e mode uid gid sz at mt crt fl old = Some a" for old a
    using get_inode_storable [OF assms(1) that(1)] that(2) assms(2) Setattr
    by (auto simp: setattr_fields_def attr_times_def storable_if_def split: option.splits
        intro: opt_time_storable)
  then show ?thesis
    by (auto simp: Setattr good_times_def split: sum.split option.split)
qed (simp_all add: good_times_def)

lemma serve_readable:
  "serve e qs f = Some f' \<Longrightarrow> clock_ok e \<Longrightarrow> list_all (\<lambda>(u, g, q). timely_request e q) qs \<Longrightarrow>
   times_readable (conn (fs_db f)) \<Longrightarrow> times_readable (conn (fs_db f'))"
proof (induction e qs f rule: serve.induct)
  case (2 e ruid rgid q qs f)
  obtain r f1 where h: "handle e ruid rgid q f = Some (r, f1)"
    using 2(2) by (auto split: option.splits)
  have "conn_rel (keeps_readable e) (sq_ext (fs_db f)) (fs_db f) (fs_db f1)"
    using 2(4,5) by (intro readable.handle_conn_rel [OF h] timely_good_times) auto
  then have "times_readable (conn (fs_db f1))"
    using 2(3,5) by (simp add: conn_rel_def keeps_readable_def)
  with 2 h show ?case by auto
qed simp

lemma mount_readable:
  "mount_file e c md d = Inr f \<Longrightarrow> clock_ok e \<Longrightarrow> times_readable d \<Longrightarrow> times_readable (conn (fs_db f))"
  using mount_fileD readable.init_R unfolding keeps_readable_def by blast

section \<open>Readable rows are read\<close>

lemma keyed_filter_single:
  "keyed key t \<Longrightarrow> tab_get key k t = Some r \<Longrightarrow> filter (\<lambda>q. key q = k) t = [r]"
proof (induction t)
  case (Cons q t)
  then show ?case
    by (cases "key q = k") (auto simp: filter_empty_conv image_iff)
qed simp

lemma readable_named_inode:
  assumes "db_wf d" and "times_readable d" and "length (filter (\<lambda>r. d_child r = i) (t_dentry d)) < 4294967296"
    and "names d (p, n) = Some (i, k)"
  shows "\<exists>a. get_inode_local i d = Inr (Some a) \<and> a_ino a = i"
proof -
  obtain r where r: "r \<in> set (t_dentry d)" "d_child r = i"
    using names_SomeD [OF assms(4)] by blast
  with assms(1) have "has_inode i d" by (auto simp: db_wf_def)
  then obtain m where m: "tab_get m_id i (t_meta d) = Some m" "m \<in> set (t_meta d)"
    using tab_get_None_iff [of m_id i "t_meta d"] tab_get_SomeD [of m_id i "t_meta d"]
    by (cases "tab_get m_id i (t_meta d)") (auto simp: has_inode_def)
  have one: "filter (\<lambda>q. m_id q = i) (t_meta d) = [m]"
    using assms(1) m(1) by (intro keyed_filter_single) (simp add: db_wf_def)
  have "readable_row m"
    using assms(2) m(2) by (simp add: times_readable_def list_all_iff)
  moreover have "\<exists>nl. u32_col (nlink_col i (t_dentry d)) = Inr nl"
  proof -
    have "filter (\<lambda>r. d_child r = i) (t_dentry d) \<noteq> []"
      using r by (auto simp: filter_empty_conv)
    with assms(3) show ?thesis by (simp add: nlink_col_def u32_col_def Let_def)
  qed
  ultimately have "\<exists>a. attr_of_cols (m, nlink_col i (t_dentry d), Some (block_count i (t_data d))) = Inr a"
    by (auto simp: attr_of_cols.simps string_to_systemtime_def readable_row_def readable_col_def
        split: option.splits)
  then obtain a where
    "attr_of_cols (m, nlink_col i (t_dentry d), Some (block_count i (t_data d))) = Inr a" ..
  moreover from this have "a_ino a = i"
    using attr_of_colsD(1) tab_get_SomeD [OF m(1)] by fastforce
  ultimately show ?thesis
    by (simp add: get_inode_local_def one parse_attr_def)
qed

text \<open>An inode with a single name has one row in dentry.\<close>

lemma keyed_filter_le_1:
  assumes "keyed key t" and "\<And>r. r \<in> set t \<Longrightarrow> P r \<Longrightarrow> key r = k"
  shows "length (filter P t) \<le> 1"
proof -
  have "length (filter P t) = card (key ` set (filter P t))"
    using assms(1) distinct_card [of "map key (filter P t)"] by (simp add: keyed_def distinct_map_filter)
  also have "\<dots> \<le> card {k}"
    using assms(2) by (intro card_mono) auto
  finally show ?thesis by simp
qed

lemma single_name_row:
  assumes "db_wf d" and "\<And>q x. names d q = Some (i, x) \<Longrightarrow> q = k"
  shows "length (filter (\<lambda>r. d_child r = i) (t_dentry d)) \<le> 1"
proof (rule keyed_filter_le_1 [where key = dentry_key and k = k])
  show keyed: "keyed dentry_key (t_dentry d)" using assms(1) by (simp add: db_wf_def)
  fix r assume "r \<in> set (t_dentry d)" "d_child r = i"
  then have "names d (dentry_key r) = Some (i, snd (entry_of r))"
    by (simp add: names_def tab_get_mem [OF keyed] entry_of_def)
  then show "dentry_key r = k" by (rule assms(2))
qed

end
