(* ===== verification/Inode_Types.thy ===== *)
theory Inode_Types
  imports Histories
begin

text \<open>
  An inode number stands for one file and one type: ids come from AUTOINCREMENT, so a number
  that was handed out is never handed out again, and no statement of the code changes the
  type.  The replies rely on it, as they give every inode the generation 0.
\<close>

definition same_types :: "db \<Rightarrow> db \<Rightarrow> bool" where
  "same_types d d' \<longleftrightarrow> autoinc d \<le> autoinc d' \<and> (\<forall>m' \<in> set (t_meta d'). m_id m' \<le> autoinc d \<longrightarrow>
     (\<exists>m \<in> set (t_meta d). m_id m = m_id m' \<and> m_kind m = m_kind m'))"

lemma same_typesD:
  "same_types d d' \<Longrightarrow> m' \<in> set (t_meta d') \<Longrightarrow> m_id m' \<le> autoinc d \<Longrightarrow>
   \<exists>m \<in> set (t_meta d). m_id m = m_id m' \<and> m_kind m = m_kind m'"
  by (simp add: same_types_def)

lemma same_types_trans:
  assumes 1: "same_types d d1" and 2: "same_types d1 d2"
  shows "same_types d d2"
  unfolding same_types_def
proof (intro conjI ballI impI)
  show "autoinc d \<le> autoinc d2" using 1 2 by (auto simp: same_types_def)
next
  fix m assume m: "m \<in> set (t_meta d2)" "m_id m \<le> autoinc d"
  then have "m_id m \<le> autoinc d1" using 1 by (auto simp: same_types_def)
  with same_typesD [OF 2 m(1)] obtain m1 where m1: "m1 \<in> set (t_meta d1)" "m_id m1 = m_id m"
      "m_kind m1 = m_kind m" by blast
  with same_typesD [OF 1 m1(1)] m(2) show "\<exists>m' \<in> set (t_meta d). m_id m' = m_id m \<and> m_kind m' = m_kind m"
    by auto
qed

lemma same_types_refl: "same_types d d"
  by (auto simp: same_types_def)

lemma types_insert: "keeps same_types (meta_insert e m)"
  using word_Suc_gt
  by (fastforce simp: keeps_def same_types_def stmt_defs Let_def less_imp_le split: if_splits)

lemma types_update: "tame (\<lambda>_. True) f \<Longrightarrow> keeps same_types (meta_update e i f)"
  by (force simp: keeps_def same_types_def stmt_defs tame_def meta_set_def)

interpretation types: any_write_relation same_types e ext for e ext
  by unfold_locales
    (auto intro: types_insert types_update same_types_refl same_types_trans,
     auto simp: same_types_def keeps_def stmt_defs Let_def split: stmt_splits)

interpretation types_h: history_relation same_types e c for e c ..

text \<open>What a read of the attributes says of an earlier state.\<close>

lemma type_before:
  assumes "same_types d d'" and "get_inode_local i d' = Inr (Some a)" and "i \<le> autoinc d"
  shows "\<exists>m \<in> set (t_meta d). m_id m = i \<and> const_to_file_type (m_kind m) = a_kind a"
proof -
  obtain m where m: "m \<in> set (t_meta d')" "m_id m = i" "const_to_file_type (m_kind m) = a_kind a"
    using get_inode_local_SomeD [OF assms(2)] attr_of_colsD(4) tab_get_SomeD by fastforce
  with same_typesD [OF assms(1) m(1)] assms(3) show ?thesis by auto
qed

end
