(* ===== verification/Life_Properties.thy ===== *)
theory Life_Properties
  imports Name_Properties Readable Inode_Types
begin

text \<open>
  The properties of lookups and of the life of an inode: counting, sweeping and forgetting,
  and symbolic links.
\<close>

section \<open>Lookup\<close>



section \<open>Deleting inodes\<close>

text \<open>C27: The lookup that ends the kernel's interest deletes an unlinked inode: on a writable
  mount, forget with the whole count of an inode without names answers nothing, deletes the
  inode with all that hangs on it, and drops its count.\<close>

theorem forget_deletes_unlinked:
  assumes wf: "db_wf (conn (fs_db f))" and rw: "\<not> fs_read_only f"
    and known: "lookups f (ucast i) = Some (ucast k)"
    and un: "\<not> referenced (ucast i) (conn (fs_db f))" and has: "has_inode (ucast i) (conn (fs_db f))"
  shows "\<exists>f'. fs_forget e i k f = (Reply_none, f') \<and> lookups f' (ucast i) = None
    \<and> inode_removed (ucast i) (conn (fs_db f)) (conn (fs_db f'))"
proof -
  obtain s' where "delete_inode_if_noref e (ucast i) (fs_db f) = (Inr (), s')"
      "inode_removed (ucast i) (conn (fs_db f)) (conn s')"
    using delete_inode_if_noref_removed [OF wf un has, of e] by blast
  with rw known show ?thesis
    by (simp add: fs_forget_def Let_def lookups_def AList.delete_conv')
qed

definition sample_orphan :: fs where
  "sample_orphan = count_lookup 2 (sample_fs\<lparr>fs_db := (fs_db sample_fs)\<lparr>conn := sample_db\<lparr>t_dentry :=
     filter (\<lambda>r. d_child r \<noteq> 2) (t_dentry sample_db)\<rparr>\<rparr>\<rparr>)"

lemma sample_orphan_facts:
  "fs_read_only sample_orphan = False" "lookups sample_orphan 2 = Some 1"
  "db_wf (conn (fs_db sample_orphan))" "has_inode 2 (conn (fs_db sample_orphan))"
  "\<not> referenced 2 (conn (fs_db sample_orphan))"
proof -
  have t: "t_dentry (conn (fs_db sample_orphan)) = filter (\<lambda>r. d_child r \<noteq> 2) (t_dentry sample_db)"
      "conn (fs_db sample_orphan) = sample_db\<lparr>t_dentry := filter (\<lambda>r. d_child r \<noteq> 2) (t_dentry sample_db)\<rparr>"
    by (simp_all add: sample_orphan_def)
  show 1: "db_wf (conn (fs_db sample_orphan))"
    using sample_wf by (auto simp: t db_wf_def numbered_logs_def)
  show "fs_read_only sample_orphan = False" by (simp add: sample_orphan_def count_lookup_def)
  show "lookups sample_orphan 2 = Some 1"
    by (simp add: sample_orphan_def lookups_count_lookup)
  show "has_inode 2 (conn (fs_db sample_orphan))" by (simp add: t sample_has)
  show "\<not> referenced 2 (conn (fs_db sample_orphan))"
    by (simp add: referenced_iff [OF 1] t(1))
qed

theorem forget_deletes_unlinked_witness:
  "\<exists>f'. fs_forget sample_env 2 1 sample_orphan = (Reply_none, f') \<and> lookups f' 2 = None"
  using forget_deletes_unlinked [of sample_orphan 2 1 sample_env] by (auto simp: sample_orphan_facts)

text \<open>Mounting sweeps the inodes nothing refers to: after init of a mount that is not
  rewound, read-only or not, exactly the inodes some entry refers to are left, with their
  contents and sizes.\<close>

lemma init_sweeps_orphans:
  assumes "db_wf (conn (fs_db f))" and "\<not> fs_rewind f"
  shows "\<exists>f'. fs_init e f = (Reply_none, f')
    \<and> (\<forall>i. has_inode i (conn (fs_db f')) \<longleftrightarrow> referenced i (conn (fs_db f)))
    \<and> (\<forall>i. referenced i (conn (fs_db f)) \<longrightarrow> content i (conn (fs_db f')) = content i (conn (fs_db f))
           \<and> db_size i (conn (fs_db f')) = db_size i (conn (fs_db f)))"
  using inode_sweep [OF assms(1), of e] assms(2) by (auto simp: fs_init_def)

lemma init_sweeps_orphans_example:
  "\<exists>f'. fs_init sample_env sample_orphan = (Reply_none, f') \<and> \<not> has_inode 2 (conn (fs_db f'))"
proof -
  have "\<not> fs_rewind sample_orphan" by (simp add: sample_orphan_def count_lookup_def)
  then show ?thesis
    using init_sweeps_orphans [of sample_orphan sample_env] sample_orphan_facts by auto
qed

section \<open>Symbolic links\<close>

text \<open>readlink cuts the first block to the size of the inode.\<close>

lemma readlink_stored:
  assumes "get_inode i (fs_db f) = Inr (Some attr)" "a_kind attr = Symlink" and "\<not> fs_rewind f"
    and size: "db_size i (conn (fs_db f)) = length data"
    and block: "byte_at (stored_block i (t_data (conn (fs_db f))) 1) = byte_at data"
  shows "fst (fs_readlink e (ucast i) f) = Reply_data data"
proof -
  let ?blk = "case tab_get data_key (i, 1) (t_data (conn (fs_db f))) of
      Some r \<Rightarrow> b_data r | None \<Rightarrow> replicate (unat (a_size attr)) 0"
  obtain m where "tab_get m_id i (t_meta (conn (fs_db f))) = Some m" "a_size attr = m_size m"
    using get_inode_local_SomeD [OF assms(1) [unfolded get_inode_def]] attr_of_colsD(2) by blast
  then have "unat (a_size attr) = length data"
    using size by (simp add: db_size_def)
  moreover obtain s where "get_data e i 1 (a_size attr) (fs_db f) = (Inr ?blk, s)"
    using get_data_ok by blast
  moreover have "resize (length data) ?blk = data"
  proof (rule nth_equalityI)
    fix k assume "k < length (resize (length data) ?blk)"
    then have k: "k < length data" by simp
    then show "resize (length data) ?blk ! k = data ! k"
      unfolding nth_resize [OF k] byte_at_stored block_bytes_def block by (simp add: byte_at_def)
  qed simp
  ultimately show ?thesis
    using assms(1-3) by (simp add: fs_readlink_def Let_def)
qed

text \<open>The new inode of a symbolic link reads back as one.\<close>

lemma new_inode_type:
  assumes "inode_added i attr d d1" and "unused i d" and "same_types d1 d2"
    and "get_inode_local i d2 = Inr (Some a)"
  shows "a_kind a = a_kind attr"
proof -
  obtain m where m: "m \<in> set (t_meta d1)" "m_id m = i" "const_to_file_type (m_kind m) = a_kind a"
    using type_before [OF assms(3,4)] assms(1) by (auto simp: inode_added_def)
  obtain t r where t: "t_meta d1 = t @ [r]" "map m_id t = map m_id (t_meta d)" "m_id r = i"
      "m_kind r = file_type_to_const (a_kind attr)"
  proof (cases "t_meta d1" rule: rev_cases)
    case (snoc t r)
    then show ?thesis using assms(1) by (intro that [of t r]) (simp_all add: inode_added_def)
  qed (use assms(1) in \<open>simp add: inode_added_def\<close>)
  have "i \<notin> set (map m_id t)"
    using assms(2) unfolding t(2) by (simp add: unused_def has_inode_def)
  with m(1,2) t(1) have "m = r" by auto
  with m(3) t(4) show ?thesis by simp
qed

text \<open>A new inode under its first name reads back, with its type.\<close>

lemma new_entry_reads:
  assumes "db_wf d2" "times_readable d2" and N: "names d2 = (names d)(q \<mapsto> (i, ty))"
    and "unused i d" "inode_added i attr d d1" "same_types d1 d2"
  shows "\<exists>a. get_inode_local i d2 = Inr (Some a) \<and> a_kind a = a_kind attr"
proof -
  have "q' = q" if "names d2 q' = Some (i, x)" for q' x
    using that assms(4) unfolding N by (cases q') (auto simp: unused_def split: if_splits)
  with single_name_row [OF assms(1), of i q]
  have "length (filter (\<lambda>r. d_child r = i) (t_dentry d2)) < 4294967296" by fastforce
  moreover have "names d2 (fst q, snd q) = Some (i, ty)" by (simp add: N)
  ultimately obtain a where "get_inode_local i d2 = Inr (Some a)"
    using readable_named_inode assms(1,2) by blast
  then show ?thesis using new_inode_type [OF assms(5,4,6)] by blast
qed

text \<open>C28: readlink gives back what symlink stored.  On a live mount whose clock and stored
  times stay in the years 0000 to 9999, symlink of at most a block of data under a free name
  adds the name for a new inode, and readlink of that inode answers with exactly the data.\<close>

theorem symlink_then_readlink:
  assumes wf: "db_wf (conn (fs_db f))" and w: "\<not> fs_read_only f" "\<not> fs_rewind f"
      "sq_ext (fs_db f) = Some c" "codec_total c"
    and room: "autoinc (conn (fs_db f)) \<noteq> - 1" and free: "names (conn (fs_db f)) (ucast p, n) = None"
    and parent: "has_inode (ucast p) (conn (fs_db f))" and len: "length data \<le> 4096"
    and times: "clock_ok e" "times_readable (conn (fs_db f))"
  shows "\<exists>i a f'. fs_symlink e ruid rgid p n data f = (Reply_entry ONE_SEC a 0, f')
    \<and> fa_ino a = ucast i \<and> names (conn (fs_db f')) = (names (conn (fs_db f)))((ucast p, n) \<mapsto> (i, Symlink))
    \<and> (\<forall>e'. fst (fs_readlink e' (ucast i) f') = Reply_data data)"
proof -
  let ?attr = "new_attr (utc_now e (conn (fs_db f))) Symlink 0x1FF ruid rgid"
  obtain i s where s: "add_inode_and_dentry e (ucast p) n ?attr (fs_db f) = (Inr i, s)"
      "same_handle (fs_db f) s" "unused i (conn (fs_db f))" "inode_added i ?attr (conn (fs_db f)) (conn s)"
      "names (conn s) = new_names (ucast p) n (i, a_kind ?attr) (names (conn (fs_db f)))"
    using add_inode_and_dentry_ok [OF wf room free parent, of e ?attr] by blast
  have "i \<in> set (map m_id (t_meta (conn s)))"
    using s(4) by (simp add: inode_added_def)
  then have has: "has_inode i (conn s)" by (simp add: has_inode_def)
  have ext: "sq_ext s = Some c" using s(2) w(3) by (simp add: same_handle_def)
  have un: "unat (of_nat (length data) :: u32) = length data"
    using len by (intro unat_u32_of_nat) simp
  obtain s' where s': "write_data e i 1 data (of_nat (length data)) s = (Inr (), s')"
      "written i 1 data (conn s) (conn s')"
      "db_size i (conn s') = max (db_size i (conn s)) (length data)"
    using write_data_ok [OF ext w(4) has, of e 1 data "of_nat (length data)"] un by auto
  let ?f' = "count_lookup i (f\<lparr>fs_db := s'\<rparr>)"
  have size: "db_size i (conn s') = length data"
    using s'(3) s(4) by (simp add: inode_added_def new_attr_def)
  have block: "byte_at (stored_block i (t_data (conn s')) 1) = byte_at data"
    using s'(2) by (simp add: written_def block_bytes_def fun_eq_iff)
  have "names (conn s') = names (conn s)"
    using s'(2) by (intro names_cong) (simp add: written_def only_file_def)
  then have N: "names (conn s') = (names (conn (fs_db f)))((ucast p, n) \<mapsto> (i, Symlink))"
    by (simp add: s(5) new_names_def new_attr_def)
  have sym: "fs_symlink e ruid rgid p n data f = (Reply_entry ONE_SEC (get_file_attr (?attr\<lparr>a_ino := i\<rparr>)) 0, ?f')"
    using w(1) s(1) s'(1) len by (simp add: fs_symlink_def Let_def get_db_block_size_def)
  have "db_wf (conn s')"
    using wf.hr_symlink [OF sym] wf by (simp add: conn_rel_def keeps_wf_def)
  moreover have "times_readable (conn s')"
    using readable.hr_symlink [OF sym] times by (simp add: conn_rel_def keeps_readable_def)
  ultimately obtain attr where attr: "get_inode_local i (conn s') = Inr (Some attr)" "a_kind attr = Symlink"
    using new_entry_reads [OF _ _ N s(3,4) types.write_data_R [OF s'(1) ext, simplified]]
    by (auto simp: new_attr_def)
  then have read: "fst (fs_readlink e' (ucast i) ?f') = Reply_data data" for e'
    using attr w(2) size block
    by (intro readlink_stored [of _ _ attr]) (simp_all add: get_inode_def)
  from sym N read show ?thesis
    by (intro exI [of _ i] exI [of _ "get_file_attr (?attr\<lparr>a_ino := i\<rparr>)"] exI [of _ ?f'])
      (simp add: get_file_attr_def)
qed

theorem symlink_then_readlink_witness:
  "\<exists>i a f'. fs_symlink sample_env 0 0 1 ''l'' [1, 2, 3] sample_fs = (Reply_entry ONE_SEC a 0, f')
    \<and> names (conn (fs_db f')) (1, ''l'') = Some (i, Symlink)
    \<and> fst (fs_readlink sample_env (ucast i) f') = Reply_data [1, 2, 3]"
proof -
  have room: "autoinc sample_db \<noteq> - 1" by (simp add: sample_defs)
  have rows: "times_readable sample_db" by code_simp
  have "\<exists>i a f'. fs_symlink sample_env 0 0 1 ''l'' [1, 2, 3] sample_fs = (Reply_entry ONE_SEC a 0, f')
      \<and> fa_ino a = ucast i \<and> names (conn (fs_db f')) =
          (names (conn (fs_db sample_fs)))((ucast (1 :: u64), ''l'') \<mapsto> (i, Symlink))
      \<and> (\<forall>e'. fst (fs_readlink e' (ucast i) f') = Reply_data [1, 2, 3])"
    by (rule symlink_then_readlink [where c = sample_codec])
      (simp_all add: sample_wf sample_codec_ok sample_has names_sample_db room rows clock_ok_sample)
  then obtain i a f' where "fs_symlink sample_env 0 0 1 ''l'' [1, 2, 3] sample_fs = (Reply_entry ONE_SEC a 0, f')"
      "names (conn (fs_db f')) = (names (conn (fs_db sample_fs)))((1, ''l'') \<mapsto> (i, Symlink))"
      "fst (fs_readlink sample_env (ucast i) f') = Reply_data [1, 2, 3]" by auto
  then show ?thesis by (intro exI [of _ i] exI [of _ a] exI [of _ f']) simp
qed

text \<open>A symbolic link that is too long leaves its entry behind: the answer is ENAMETOOLONG,
  but the name is in the name space, for an inode without data.\<close>

lemma symlink_too_long_leaves_entry:
  assumes wf: "db_wf (conn (fs_db f))" and w: "\<not> fs_read_only f"
    and room: "autoinc (conn (fs_db f)) \<noteq> - 1" and free: "names (conn (fs_db f)) (ucast p, n) = None"
    and parent: "has_inode (ucast p) (conn (fs_db f))" and len: "4096 < length data"
  shows "\<exists>i f'. fs_symlink e ruid rgid p n data f = (Reply_error ENAMETOOLONG, f')
    \<and> names (conn (fs_db f')) = (names (conn (fs_db f)))((ucast p, n) \<mapsto> (i, Symlink))
    \<and> db_size i (conn (fs_db f')) = 0"
proof -
  let ?attr = "new_attr (utc_now e (conn (fs_db f))) Symlink 0x1FF ruid rgid"
  obtain i s where s: "add_inode_and_dentry e (ucast p) n ?attr (fs_db f) = (Inr i, s)"
      "inode_added i ?attr (conn (fs_db f)) (conn s)"
      "names (conn s) = new_names (ucast p) n (i, a_kind ?attr) (names (conn (fs_db f)))"
    using add_inode_and_dentry_ok [OF wf room free parent, of e ?attr] by blast
  with w len show ?thesis
    by (auto simp: fs_symlink_def Let_def get_db_block_size_def new_names_def new_attr_def inode_added_def)
qed

end
