(* ===== verification/Past.thy ===== *)
theory Past
  imports Histories
begin

text \<open>
  What a mount rewound to a past time shows: the metadata, the names and the extended
  attributes of the state the database had at that time, for as long as the mount lives.
\<close>

section \<open>The mode of a mount does not change\<close>

definition same_mode :: "fs \<Rightarrow> fs \<Rightarrow> bool" where
  "same_mode f f' \<longleftrightarrow> fs_rewind f' = fs_rewind f \<and> fs_read_only f' = fs_read_only f"

lemma same_mode_drop_inode: "drop_inode e i f = (r, f') \<Longrightarrow> same_mode f f'"
  by (auto simp: drop_inode_def same_mode_def split: if_splits prod.splits)

lemma same_mode_then_drop: "drop_inode e i (f\<lparr>fs_db := s\<rparr>) = (r, f') \<Longrightarrow> same_mode f f'"
  using same_mode_drop_inode by (fastforce simp: same_mode_def)

lemma same_mode_handlers:
  "fs_init e f = (r, f') \<Longrightarrow> same_mode f f'"
  "fs_destroy e f = (r, f') \<Longrightarrow> same_mode f f'"
  "fs_lookup e p n f = (r, f') \<Longrightarrow> same_mode f f'"
  "fs_forget e i k f = (r, f') \<Longrightarrow> same_mode f f'"
  "fs_getattr i f = (r, f') \<Longrightarrow> same_mode f f'"
  "fs_setattr e i mode uid gid sz at mt crt fl f = Some (r, f') \<Longrightarrow> same_mode f f'"
  "fs_readlink e i f = (r, f') \<Longrightarrow> same_mode f f'"
  "fs_mkdir e ruid rgid p n md f = (r, f') \<Longrightarrow> same_mode f f'"
  "fs_link e i p n f = (r, f') \<Longrightarrow> same_mode f f'"
  "fs_open i flg f = (r, f') \<Longrightarrow> same_mode f f'"
  "fs_release i fh f = (r, f') \<Longrightarrow> same_mode f f'"
  "fs_opendir i f = (r, f') \<Longrightarrow> same_mode f f'"
  "fs_readdir cap i fh off f = (r, f') \<Longrightarrow> same_mode f f'"
  "fs_releasedir i fh f = (r, f') \<Longrightarrow> same_mode f f'"
  "fs_setxattr e i n v flg f = (r, f') \<Longrightarrow> same_mode f f'"
  "fs_getxattr i n sz32 f = (r, f') \<Longrightarrow> same_mode f f'"
  "fs_listxattr i sz32 f = (r, f') \<Longrightarrow> same_mode f f'"
  "fs_removexattr e i n f = (r, f') \<Longrightarrow> same_mode f f'"
  by (auto simp: fs_init_def fs_destroy_def fs_lookup_def fs_forget_def fs_getattr_def
      fs_setattr_def fs_readlink_def fs_mkdir_def fs_link_def fs_open_def fs_release_def
      fs_opendir_def fs_readdir_def fs_releasedir_def fs_setxattr_def fs_getxattr_def
      fs_listxattr_def fs_removexattr_def Let_def same_mode_def
      split: if_splits option.splits sum.splits prod.splits)

lemma same_mode_entry_handlers:
  "fs_unlink e p n f = (r, f') \<Longrightarrow> same_mode f f'"
  "fs_rename e p n np nn f = (r, f') \<Longrightarrow> same_mode f f'"
  "fs_rmdir e p n f = (r, f') \<Longrightarrow> same_mode f f'"
  "fs_symlink e ruid rgid p n data f = (r, f') \<Longrightarrow> same_mode f f'"
  "fs_create e ruid rgid p n md f = (r, f') \<Longrightarrow> same_mode f f'"
  by (auto simp: fs_unlink_def fs_rename_def fs_rmdir_def fs_symlink_def fs_create_def fs_open_def
       Let_def
      split: if_splits option.splits sum.splits prod.splits dest: same_mode_then_drop)
   (auto simp: same_mode_def)

lemma same_mode_data_handlers:
  "fs_read e i off sz f = Some (r, f') \<Longrightarrow> same_mode f f'"
  "fs_write e i off data f = Some (r, f') \<Longrightarrow> same_mode f f'"
  "fs_statfs host i f = Some (r, f') \<Longrightarrow> same_mode f f'"
  by (auto simp: fs_read_def fs_write_def fs_statfs_def same_mode_def Let_def
      split: if_splits option.splits sum.splits prod.splits)

lemma handle_same_mode: "handle e ruid rgid q f = Some (r, f') \<Longrightarrow> same_mode f f'"
  by (cases q) (auto intro: same_mode_handlers same_mode_entry_handlers same_mode_data_handlers)

lemma reachable_same_mode: "reachable e f0 f \<Longrightarrow> same_mode f0 f"
proof (induction rule: reachable.induct)
  case (step f f')
  then have "same_mode f f'" by (auto elim!: fs_stepE dest: handle_same_mode)
  with step.IH show ?case by (simp add: same_mode_def)
qed (simp add: same_mode_def)

section \<open>The rewound tables recover a state\<close>

text \<open>
  \<open>T\<close> lies between the audit rows of \<open>d\<close> and those a later \<open>d'\<close> added, and the rows of
  one key have increasing stamps in \<open>d\<close>.
\<close>

definition separable :: "string \<Rightarrow> db \<Rightarrow> db \<Rightarrow> bool" where
  "separable T d d' \<longleftrightarrow>
     stamped m_id (l_meta d) \<and> separates T (l_meta d) (l_meta d') \<and>
     stamped dentry_full (l_dentry d) \<and> separates T (l_dentry d) (l_dentry d') \<and>
     stamped data_key (l_data d) \<and> separates T (l_data d) (l_data d') \<and>
     stamped xattr_key (l_xattr d) \<and> separates T (l_xattr d) (l_xattr d')"

text \<open>
  The temporary tables hold the rows of \<open>d\<close>; of the blocks they hold the keys (the contents
  are deltas where a block was overwritten).
\<close>

definition recovers :: "temp_tables \<Rightarrow> db \<Rightarrow> bool" where
  "recovers tt d \<longleftrightarrow>
     keyed m_id (tt_meta tt) \<and> keyed m_id (t_meta d) \<and>
     (\<forall>i. tab_get m_id i (tt_meta tt) = tab_get m_id i (t_meta d)) \<and>
     mset (tt_dentry tt) = mset (t_dentry d) \<and> keyed dentry_key (t_dentry d) \<and>
     mset (map data_key (tt_data tt)) = mset (map data_key (t_data d)) \<and>
     (\<forall>k. tab_get xattr_key k (tt_xattr tt) = tab_get xattr_key k (t_xattr d)) \<and>
     mset (tt_xattr tt) = mset (t_xattr d)"

lemma keyed_rewound_separated:
  assumes "stamped key log" and "extends log log'" and "separates T log log'"
  shows "keyed key (rewound_rows key T log')"
  by (rule keyed_rewound) (simp add: before_separated [OF assms(2,3)] assms(1))

lemma rewound_recovers:
  assumes h: "evolves e c empty_db d" and l: "logs_extend d d'"
    and sep: "separable T d d'" and nr: "never_renamed d"
  shows "recovers (rewound_tables T d') d"
proof -
  note j = history_journaled [OF h] and wf = history_wf [OF h]
  note x = l [unfolded logs_extend_def] and s = sep [unfolded separable_def]
  from j(1) s x have m: "\<And>i. tab_get m_id i (rewound_rows m_id T (l_meta d')) = tab_get m_id i (t_meta d)"
    by (intro rewound_separated) (auto simp: meta_journaled_def)
  from j(2) s x have a: "\<And>k. tab_get xattr_key k (rewound_rows xattr_key T (l_xattr d')) =
      tab_get xattr_key k (t_xattr d)"
    by (intro rewound_separated) (auto simp: xattr_journaled_def)
  from j(3) nr s x have n: "\<And>k. tab_get dentry_full k (rewound_rows dentry_full T (l_dentry d')) =
      tab_get dentry_full k (t_dentry d)"
    by (intro rewound_separated) (auto simp: dentry_journaled_def)
  have "stamped data_key (before T (l_data d'))" "before T (l_data d') = l_data d"
    using s x before_separated by force+
  then have b: "\<And>k. map_option data_key (tab_get data_key k (rewound_rows data_key T (l_data d'))) =
      map_option data_key (tab_get data_key k (t_data d))"
    using j(5) by (simp add: tab_get_rewound blocks_journaled_def del: split_paired_All)
  have k: "keyed m_id (rewound_rows m_id T (l_meta d'))"
    "keyed dentry_full (rewound_rows dentry_full T (l_dentry d'))"
    "keyed data_key (rewound_rows data_key T (l_data d'))"
    "keyed xattr_key (rewound_rows xattr_key T (l_xattr d'))"
    using s x keyed_rewound_separated by blast+
  have "mset (rewound_rows dentry_full T (l_dentry d')) = mset (t_dentry d)"
    by (rule same_rows [OF k(2) keyed_full n]) (rule keyed_dentry [OF wf])
  moreover have "mset (rewound_rows xattr_key T (l_xattr d')) = mset (t_xattr d)"
    by (rule same_rows [OF k(4) keyed_xattr [OF wf] a])
  moreover have "mset (map data_key (rewound_rows data_key T (l_data d'))) = mset (map data_key (t_data d))"
    by (rule same_keys [OF k(3) keyed_data [OF wf] b])
  ultimately show ?thesis
    using m a k(1) keyed_wf [OF wf] by (simp add: recovers_def del: split_paired_All)
qed

lemma recovered_getattr:
  assumes "recovers tt (conn s)" and "sq_temp s' = Some tt"
  shows "(case get_inode_at_time i s' of Inr (Some v) \<Rightarrow> Some v | _ \<Rightarrow> None) =
         (case get_inode i s of Inr (Some v) \<Rightarrow> Some v | _ \<Rightarrow> None)"
proof -
  let ?d = "conn s"
  from assms(1) have n: "nlink_col i (tt_dentry tt) = nlink_col i (t_dentry ?d)"
    and b: "block_count i (tt_data tt) = block_count i (t_data ?d)"
    and m: "filter (\<lambda>m. m_id m = i) (tt_meta tt) = filter (\<lambda>m. m_id m = i) (t_meta ?d)"
    by (auto simp: recovers_def filter_key_tab_get
        intro: nlink_col_same_rows block_count_same_keys)
  show ?thesis
  proof (cases "nlink_col i (t_dentry ?d)")
    case None
    have "get_inode i s \<noteq> Inr (Some v)" for v
      by (auto simp: get_inode_def get_inode_local_def None u32_col_def
          dest!: parse_attr_SomeD attr_of_colsD(5))
    with None show ?thesis
      by (auto simp: get_inode_at_time_def get_inode_local_at_time_def assms(2) n parse_attr_def
         split: sum.split option.split)
  next
    case (Some k)
    then show ?thesis
      by (simp add: get_inode_def get_inode_local_def get_inode_at_time_def
          get_inode_local_at_time_def assms(2) n b m)
  qed
qed

lemma recovered_dentries:
  assumes "recovers tt (conn s)" and "sq_temp s' = Some tt"
  shows "get_dentry_at_time i s' = get_dentry i s"
proof -
  have "dentries_of i (tt_dentry tt) = dentries_of i (t_dentry (conn s))"
    using assms(1) by (intro dentries_of_same_rows) (auto simp: recovers_def)
  with assms(2) show ?thesis by (simp add: get_dentry_at_time_def get_dentry_def)
qed

lemma recovered_xattrs:
  assumes "recovers tt (conn s)" and "sq_temp s' = Some tt"
  shows "get_xattr_at_time i n s' = get_xattr i n s" "list_xattr_at_time i s' = list_xattr i s"
proof -
  have "names_of i (tt_xattr tt) = names_of i (t_xattr (conn s))"
    using assms(1) by (intro names_of_same_rows) (simp add: recovers_def)
  moreover have "tab_get xattr_key (i, n) (tt_xattr tt) = tab_get xattr_key (i, n) (t_xattr (conn s))"
    using assms(1) unfolding recovers_def by blast
  ultimately show "get_xattr_at_time i n s' = get_xattr i n s" "list_xattr_at_time i s' = list_xattr i s"
    using assms(2)
    by (simp_all add: get_xattr_at_time_def get_xattr_def list_xattr_at_time_def list_xattr_def)
qed

section \<open>A rewound mount\<close>

text \<open>Reading the directory: opendir, then readdir with the handle it gave.\<close>

definition list_dir :: "nat \<Rightarrow> u64 \<Rightarrow> u64 \<Rightarrow> fs \<Rightarrow> reply" where
  "list_dir cap i offset f =
     (case fs_opendir i f of
        (Reply_opened fh fl, f1) \<Rightarrow> fst (fs_readdir cap i fh offset f1)
      | (r, f1) \<Rightarrow> r)"

lemma list_dir_eq:
  "list_dir cap i offset f =
     (case (if \<not> fs_rewind f then get_dentry (ucast i) (fs_db f)
            else get_dentry_at_time (ucast i) (fs_db f)) of
        Inl x \<Rightarrow> Reply_error ENOENT
      | Inr ds \<Rightarrow> Reply_directory (add_entries cap 0 (drop (unat offset) (enumerate 0 ds))))"
  by (simp add: list_dir_def fs_opendir_def fs_readdir_def Let_def split: sum.split)

lemma at_time_mount:
  assumes "fs_new_at_time e d' T = Inr f0" and "reachable e f0 f"
  shows "fs_rewind f" "sq_temp (fs_db f) = Some (rewound_tables T d')"
proof -
  from assms(1) obtain s where "init e (sqlite_new_at_time T d') = (Inr (), s)"
      "f0 = fs_with s True True T"
    by (auto simp: fs_new_at_time_def split: prod.splits sum.splits)
  then have "fs_rewind f0" "sq_temp (fs_db f0) = Some (rewound_tables T d')"
    using init_same_handle by (auto simp: fs_with_def same_handle_def sqlite_new_at_time_def)
  then show "fs_rewind f" "sq_temp (fs_db f) = Some (rewound_tables T d')"
    using reachable_same_mode [OF assms(2)] growth.reachable_conn_rel [OF assms(2), of None]
    by (auto simp: same_mode_def conn_rel_def same_handle_def)
qed

lemma at_time_recovers:
  assumes "evolves e c empty_db d" and "evolves e c d d'" and "separable T d d'"
    and "never_renamed d" and "fs_new_at_time e d' T = Inr f0" and "reachable e f0 f'"
    and "conn s = d"
  shows "(case get_inode_at_time i (fs_db f') of Inr (Some v) \<Rightarrow> Some v | _ \<Rightarrow> None) =
      (case get_inode i s of Inr (Some v) \<Rightarrow> Some v | _ \<Rightarrow> None)"
    and "get_dentry_at_time i (fs_db f') = get_dentry i s"
    and "get_xattr_at_time i n (fs_db f') = get_xattr i n s"
    and "list_xattr_at_time i (fs_db f') = list_xattr i s"
proof -
  have tt: "sq_temp (fs_db f') = Some (rewound_tables T d')"
    by (rule at_time_mount(2) [OF assms(5,6)])
  have r: "recovers (rewound_tables T d') (conn s)"
    unfolding assms(7) by (rule rewound_recovers [OF assms(1) history_logs [OF assms(2)] assms(3,4)])
  show "(case get_inode_at_time i (fs_db f') of Inr (Some v) \<Rightarrow> Some v | _ \<Rightarrow> None) =
      (case get_inode i s of Inr (Some v) \<Rightarrow> Some v | _ \<Rightarrow> None)"
    by (rule recovered_getattr [OF r tt])
  show "get_dentry_at_time i (fs_db f') = get_dentry i s"
    by (rule recovered_dentries [OF r tt])
  show "get_xattr_at_time i n (fs_db f') = get_xattr i n s"
    "list_xattr_at_time i (fs_db f') = list_xattr i s"
    by (rule recovered_xattrs [OF r tt])+
qed

lemma getattr_reply:
  "fst (fs_getattr i f) =
     (case (case (if \<not> fs_rewind f then get_inode (ucast i) (fs_db f)
                  else get_inode_at_time (ucast i) (fs_db f)) of Inr (Some v) \<Rightarrow> Some v | _ \<Rightarrow> None) of
        Some v \<Rightarrow> Reply_attr ONE_SEC (get_file_attr v)
      | None \<Rightarrow> Reply_error ENOENT)"
  by (simp add: fs_getattr_def split: sum.split option.split)

end
