(* ===== verification/Sample_History.thy ===== *)
theory Sample_History
  imports Histories Samples
begin

text \<open>
  A concrete history for the witnesses: the empty database is mounted, which creates the
  root directory, and in a second mount an extended attribute is set.
\<close>

definition root_row :: meta_row where
  "root_row = \<lparr>m_id = 1, m_size = 0, m_atime = (Some 1000, 0), m_mtime = (Some 1000, 0),
     m_ctime = (Some 1000, 0), m_crtime = (Some 1000, 0), m_kind = 0x4000, m_mode = 0x41FF,
     m_nlink = 0, m_uid = 0, m_gid = 0, m_rdev = 0, m_flags = 0\<rparr>"

definition root_dots :: "dentry_row list" where
  "root_dots = [sample_entry 1 ''.'' 1 Directory, sample_entry 1 ''..'' 1 Directory]"

definition root_db :: db where
  "root_db = empty_db\<lparr>t_meta := [root_row], t_dentry := root_dots, autoinc := 1,
      l_meta := [\<lparr>au_seq = 1, au_time = sample_stamp 0, au_op = TG_INSERT, au_row = root_row\<rparr>],
      l_dentry := map (\<lambda>n. \<lparr>au_seq = n, au_time = sample_stamp n, au_op = TG_INSERT,
                                au_row = root_dots ! (n - 1)\<rparr>) [1, 2]\<rparr>"

definition root_fs :: fs where
  "root_fs = fs_with (sqlite_new sample_codec root_db) False False ''''"

definition late_db :: db where
  "late_db = root_db\<lparr>t_meta := [root_row\<lparr>m_ctime := (Some 1004, 0)\<rparr>],
      l_meta := l_meta root_db @ [\<lparr>au_seq = 2, au_time = sample_stamp 4, au_op = TG_UPDATE,
        au_row = root_row\<lparr>m_ctime := (Some 1004, 0)\<rparr>\<rparr>],
      t_xattr := [\<lparr>x_file = 1, x_name = ''u'', x_value = [7]\<rparr>],
      l_xattr := [\<lparr>au_seq = 1, au_time = sample_stamp 3, au_op = TG_INSERT,
        au_row = \<lparr>x_file = 1, x_name = ''u'', x_value = [7]\<rparr>\<rparr>]\<rparr>"

lemma init_result:
  assumes "fst (init e s) = Inr ()" and "conn (snd (init e s)) = d"
  shows "init e s = (Inr (), s\<lparr>conn := d\<rparr>)"
proof -
  have "same_handle s (snd (init e s))"
    by (rule init_same_handle) (rule prod.collapse [symmetric])
  with assms show ?thesis
    by (cases "init e s") (auto simp: same_handle_def)
qed

lemma sqlite_new_conn: "(sqlite_new c d)\<lparr>conn := d'\<rparr> = sqlite_new c d'"
  by (simp add: sqlite_new_def)

lemma root_mount: "fs_new sample_env sample_codec empty_db = Inr root_fs"
proof -
  let ?s = "sqlite_new sample_codec empty_db"
  have "fst (init sample_env ?s) = Inr ()" "conn (snd (init sample_env ?s)) = root_db"
    by code_simp+
  from init_result [OF this] show ?thesis
    by (simp add: fs_new_def sqlite_new_conn root_fs_def)
qed

lemma root_mount_again: "fs_new sample_env sample_codec root_db = Inr root_fs"
proof -
  let ?s = "sqlite_new sample_codec root_db"
  have "fst (init sample_env ?s) = Inr ()" "conn (snd (init sample_env ?s)) = root_db"
    by code_simp+
  from init_result [OF this] show ?thesis
    by (simp add: fs_new_def sqlite_new_conn root_fs_def)
qed

lemma root_fs_simps [simp]: "conn (fs_db root_fs) = root_db" "fs_rewind root_fs = False"
  "fs_read_only root_fs = False" "sq_temp (fs_db root_fs) = None"
  by (simp_all add: root_fs_def fs_with_def sqlite_new_def)

lemma root_evolves: "evolves sample_env sample_codec empty_db root_db"
  using evolves.mounted [OF evolves.unchanged _ reachable.start, of sample_env sample_codec Live
      empty_db root_fs]
  by (simp add: mount_file_def root_mount)

lemma late_evolves: "evolves sample_env sample_codec root_db late_db"
proof -
  let ?f = "snd (fs_setxattr sample_env 1 ''u'' [7] 0 root_fs)"
  have "fs_step sample_env root_fs ?f"
    by (rule fs_step.request [where q = "Setxattr 1 ''u'' [7] 0"
          and r = "fst (fs_setxattr sample_env 1 ''u'' [7] 0 root_fs)"]) simp
  then have "reachable sample_env root_fs ?f"
    by (rule reachable.step [OF reachable.start])
  then have "evolves sample_env sample_codec root_db (conn (fs_db ?f))"
    by (intro evolves.mounted [OF evolves.unchanged, where mode = Live])
      (simp_all add: mount_file_def root_mount_again)
  moreover have "conn (fs_db ?f) = late_db" by code_simp
  ultimately show ?thesis by simp
qed

text \<open>The late database, mounted at the time before its last change.\<close>

definition past_fs :: fs where
  "past_fs = fs_with (sqlite_new_at_time ''ttt'' late_db) True True ''ttt''"

lemma past_mount: "fs_new_at_time sample_env late_db ''ttt'' = Inr past_fs"
proof -
  let ?s = "sqlite_new_at_time ''ttt'' late_db"
  have "fst (init sample_env ?s) = Inr ()" "conn (snd (init sample_env ?s)) = late_db"
    by code_simp+
  from init_result [OF this] show ?thesis
    by (simp add: fs_new_at_time_def past_fs_def sqlite_new_at_time_def)
qed

text \<open>The root directory with a file, in a mount of its own.\<close>

definition file_fs :: fs where
  "file_fs = snd (fs_create sample_env 0 0 1 ''a'' 0x1A4 root_fs)"

lemma file_evolves: "evolves sample_env sample_codec empty_db (conn (fs_db file_fs))"
proof -
  have "fs_step sample_env root_fs file_fs"
    unfolding file_fs_def
    by (rule fs_step.request [where q = "Create 1 ''a'' 0x1A4"]) (simp, rule prod.collapse [symmetric])
  from evolves.mounted [OF evolves.unchanged _ reachable.step [OF reachable.start this], where mode = Live]
  show ?thesis by (simp add: mount_file_def root_mount)
qed

end
