(* ===== verification/Past_Properties.thy ===== *)
theory Past_Properties
  imports Past Sample_History
begin

text \<open>
  The properties of histories: what the audit tables are for.
\<close>

section \<open>Every history\<close>

text \<open>C6: In every history of a database file, from the empty file through any mounts in
  any mode, any requests and any crashes during them, the tables are well-formed: primary keys are unique, every
  foreign key names an inode, and the audit tables are numbered without gaps.\<close>
theorem history_keeps_tables_well_formed:
  assumes "evolves e c empty_db d"
  shows "db_wf d"
  using assms by (rule history_wf)

theorem history_keeps_tables_well_formed_witness: "db_wf root_db"
  by (rule history_keeps_tables_well_formed [OF root_evolves])

text \<open>C8: No request and no mount changes or removes an audit row: later states only append
  to the four audit tables.\<close>
theorem audit_tables_only_grow:
  assumes "evolves e c d d'"
  shows "\<exists>ms ns bs xs. l_meta d' = l_meta d @ ms \<and> l_dentry d' = l_dentry d @ ns
    \<and> l_data d' = l_data d @ bs \<and> l_xattr d' = l_xattr d @ xs"
  using history_logs [OF assms] by (auto simp: logs_extend_def extends_def)

theorem audit_tables_only_grow_witness:
  "\<exists>ms ns bs xs. l_meta late_db = l_meta root_db @ ms \<and> l_dentry late_db = l_dentry root_db @ ns
    \<and> l_data late_db = l_data root_db @ bs \<and> l_xattr late_db = l_xattr root_db @ xs"
  by (rule audit_tables_only_grow [OF late_evolves])

text \<open>C9: In every history the audit tables determine the tables: the last audit row of an
  inode and of an extended attribute is its current row, or a deletion when it is gone, and
  replaying the audit rows of a block gives its bytes (for extensions whose deltas apply).\<close>
theorem audit_tables_determine_tables:
  assumes "evolves e c empty_db d" and "codec_ok c"
  shows "tab_get m_id i (t_meta d) = journal_state m_id i (l_meta d)
    \<and> tab_get xattr_key k (t_xattr d) = journal_state xattr_key k (l_xattr d)
    \<and> map_option b_data (tab_get data_key b (t_data d)) = data_replay c b (l_data d)"
  using history_journaled [OF assms(1)] assms(2)
  by (simp add: meta_journaled_def xattr_journaled_def data_journaled_def journaled_def
      del: split_paired_All)

theorem audit_tables_determine_tables_witness:
  "tab_get m_id 1 (t_meta root_db) = journal_state m_id 1 (l_meta root_db)
    \<and> tab_get xattr_key (1, ''u'') (t_xattr root_db) = journal_state xattr_key (1, ''u'') (l_xattr root_db)
    \<and> map_option b_data (tab_get data_key (2, 1) (t_data root_db)) = data_replay sample_codec (2, 1) (l_data root_db)"
  by (rule audit_tables_determine_tables [OF root_evolves sample_codec_ok(1)])

section \<open>Rewound mounts\<close>









end
