(* ===== verification/Rewind_Limits.thy ===== *)
theory Rewind_Limits
  imports Past Namespace Sample_History
begin

text \<open>
  What rewinding does not recover: the bytes of a block that was overwritten, the absence of
  a name that was renamed away, and one row per inode where audit rows share a stamp.
\<close>

section \<open>Overwritten blocks\<close>

text \<open>C38: After a write to a block that already existed, the live mount reads the bytes that
  were written, but a mount rewound to any later time reads the compressed delta that the update
  trigger stored in the audit table instead.\<close>
theorem rewound_block_is_delta:
  assumes "write_data e i b bytes len s = (Inr (), s')" and "sq_ext s = Some c"
    and "tab_get data_key (i, b) (t_data (conn s)) = Some old"
    and "x_delta_create c (b_data old) bytes = Some delta"
    and "stamped data_key (l_data (conn s'))" and "\<forall>a \<in> set (l_data (conn s')). au_time a < T"
  shows "fst (get_data e i b k s') = Inr bytes
    \<and> fst (get_data_at_time e i b k (sqlite_new_at_time T (conn s'))) = Inr (x_compress c delta)"
proof -
  let ?r = "\<lparr>b_file = i, b_num = b, b_data = bytes\<rparr>"
  let ?q = "\<lparr>b_file = i, b_num = b, b_data = x_compress c delta\<rparr>"
  have k: "data_key ?r = (i, b)" "data_key ?q = (i, b)" by (simp_all add: data_key_def)
  obtain d m where d: "conn s' = d"
      "t_data d = map (\<lambda>q. if data_key q = data_key ?r then ?r else q) (t_data (conn s))"
      "l_data d = log_rows m TG_UPDATE [?q] (l_data (conn s))"
    using assms(1-4) k
    by (auto simp: write_data_def transact_def tx_defs stmt_defs update_time_defs 
       split: option.splits sum.splits if_splits)
  have "tab_get data_key (i, b) (t_data d) = Some ?r"
    unfolding d(2) tab_get_overwrite using assms(3) k by simp
  moreover have "tab_get data_key (i, b) (tt_data (rewound_tables T d)) = Some ?q"
    using rewound_now [OF assms(5,6), of "(i, b)"] k by (simp add: d journal_state_one)
  ultimately show ?thesis
    by (simp add: get_data_def get_data_at_time_def sqlite_new_at_time_def transact_def tx_defs d(1)
       update_time_defs stmt_defs)
qed

text \<open>A codec whose compression is visible, and a block written twice.\<close>

definition marked_codec :: codec where
  "marked_codec = \<lparr>x_compress = (\<lambda>b. 0x78 # b), x_uncompress = (\<lambda>b. Some (tl b)),
     x_delta_create = (\<lambda>a b. Some b), x_delta_apply = (\<lambda>a d. Some d)\<rparr>"

definition once_written :: sqlite where
  "once_written = snd (write_data sample_env 1 1 [5] 1 (sqlite_new marked_codec root_db))"

definition twice_written :: sqlite where
  "twice_written = snd (write_data sample_env 1 1 [6] 1 once_written)"

theorem rewound_block_is_delta_witness:
  "fst (get_data sample_env 1 1 4096 twice_written) = Inr [6]
    \<and> fst (get_data_at_time sample_env 1 1 4096 (sqlite_new_at_time ''z'' (conn twice_written)))
      = Inr [0x78, 6]"
proof -
  have "fst (write_data sample_env 1 1 [6] 1 once_written) = Inr ()" by code_simp
  then have w: "write_data sample_env 1 1 [6] 1 once_written = (Inr (), twice_written)"
    by (simp add: twice_written_def prod_eq_iff)
  have "write_data sample_env 1 1 [5] 1 (sqlite_new marked_codec root_db) =
      (fst (write_data sample_env 1 1 [5] 1 (sqlite_new marked_codec root_db)), once_written)"
    by (simp add: once_written_def)
  then have e: "sq_ext once_written = Some marked_codec"
    by (drule_tac ops_same_handle(12)) (simp add: same_handle_def sqlite_new_def)
  have "tab_get data_key (1, 1) (t_data (conn once_written)) = Some \<lparr>b_file = 1, b_num = 1, b_data = [5]\<rparr>"
    "stamped data_key (l_data (conn twice_written))"
    "\<forall>a \<in> set (l_data (conn twice_written)). au_time a < ''z''"
    by code_simp+
  from rewound_block_is_delta [OF w e this(1) _ this(2,3), of "[6]" 4096]
  show ?thesis by (simp add: marked_codec_def)
qed

section \<open>Renamed entries\<close>

text \<open>The audited state of one directory entry stays.\<close>

definition same_past :: "u32 \<times> u32 \<times> string \<Rightarrow> db \<Rightarrow> db \<Rightarrow> bool" where
  "same_past k d d' \<longleftrightarrow>
     journal_state dentry_full k (l_dentry d') = journal_state dentry_full k (l_dentry d)"

interpretation same_past: step_relation "same_past k" for k
  by unfold_locales (simp_all add: same_past_def)

lemma same_past_meta_update: "keeps (same_past k) (meta_update e i f)"
  by (simp add: keeps_def meta_update_def same_past_def)

lemma same_past_dentry_delete:
  "(\<And>r. P r \<Longrightarrow> dentry_full r \<noteq> k) \<Longrightarrow> keeps (same_past k) (dentry_delete e P)"
  by (auto simp: keeps_def dentry_delete_def same_past_def journal_state_other)

lemma same_past_dentry_update:
  "(\<And>r. dentry_key r = q \<Longrightarrow> dentry_full (f r) \<noteq> k) \<Longrightarrow> keeps (same_past k) (dentry_update e q f)"
  by (auto simp: keeps_def dentry_update_def same_past_def journal_state_one Let_def 
     dest!: tab_get_SomeD split: option.splits if_splits)

lemma move_dentry_same_past:
  assumes "move_dentry e p n np nn s = (Inr res, s')" and "(np, nn) \<noteq> (p, n)" and "n \<noteq> ''..''"
  shows "same_past (p, i, n) (conn s) (conn s')"
proof -
  have "keeps (same_past (p, i, n)) (dentry_update e (p, n) (\<lambda>r. r\<lparr>d_parent := np, d_name := nn\<rparr>))"
    using assms(2) by (intro same_past_dentry_update) (auto simp: dentry_full_def)
  moreover have "keeps (same_past (p, i, n)) (dentry_update e (j, ''..'') (\<lambda>r. r\<lparr>d_child := np\<rparr>))" for j
    using assms(3) by (intro same_past_dentry_update) (auto simp: dentry_full_def dentry_key_def)
  moreover have "keeps (same_past (p, i, n)) (delete_dentry_local e np nn)"
    using assms(2) unfolding delete_dentry_local_def
    by (intro same_past.keeps_twhen same_past_dentry_delete) (auto simp: dentry_full_def)
  ultimately show ?thesis
    using assms(1) unfolding move_dentry_def replace_existing_def update_time_defs Let_def
    by (elim keeps_transact_conn [rotated 2])
      (auto intro!: same_past.keeps_intros same_past_meta_update same_past.refl split: option.split file_type.split)
qed

text \<open>After a successful rename the old name is gone from the live directory, but a mount
  rewound to any later time still has the old name for the inode: the update trigger logs the new
  row only, so the audit table has no record that the old name ended.\<close>
lemma rename_stays_in_the_past:
  assumes "db_wf (conn s)" and "dentry_journaled (conn s)" and "never_renamed (conn s)"
    and "names (conn s) (p, n) = Some (i, ty)"
    and "move_check (names (conn s)) ty (np, nn) = Inr res" and "has_inode np (conn s)"
    and "(p, n) \<noteq> (np, nn)" and "n \<noteq> ''..''" and "\<not> dot_name nn"
    and "move_dentry e p n np nn s = (Inr res, s')"
    and "stamped dentry_full (l_dentry (conn s'))" and "\<forall>a \<in> set (l_dentry (conn s')). au_time a < T"
  shows "names (conn s') (p, n) = None
    \<and> (\<exists>r \<in> set (tt_dentry (rewound_tables T (conn s'))). d_parent r = p \<and> d_name r = n \<and> d_child r = i)"
proof -
  obtain s1 where s1: "move_dentry e p n np nn s = (Inr res, s1)" 
     "names (conn s1) = moved p n np nn (i, ty) (names (conn s))"
    using move_dentry_moves [OF assms(1,4,5,7,9,6)] by blast
  have "names (conn s') (p, n) = None"
    using s1 assms(7,8,10) by (auto simp: moved_def redirected_def)
  moreover obtain r where r: "r \<in> set (t_dentry (conn s))" "d_parent r = p" "d_name r = n" "d_child r = i"
    using names_SomeD [OF assms(4)] by blast
  have f: "dentry_full r = (p, i, n)" using r by (simp add: dentry_full_def)
  have "journal_state dentry_full (p, i, n) (l_dentry (conn s)) = Some r"
    using tab_get_mem [OF keyed_full [OF keyed_dentry [OF assms(1)]] r(1)] assms(2,3)
    by (simp add: dentry_journaled_def journaled_def f del: split_paired_All)
  then have "journal_state dentry_full (p, i, n) (l_dentry (conn s')) = Some r"
    using move_dentry_same_past [OF assms(10) _ assms(8), of i] assms(7)
    by (auto simp: same_past_def)
  then have "tab_get dentry_full (p, i, n) (tt_dentry (rewound_tables T (conn s'))) = Some r"
    using rewound_now [OF assms(11,12)] by simp
  ultimately show ?thesis using r tab_get_SomeD by fast
qed

lemma rename_stays_in_the_past_example:
  "\<exists>s'. move_dentry sample_env 1 ''a'' 1 ''b'' (fs_db file_fs) = (Inr None, s')
    \<and> names (conn s') (1, ''a'') = None
    \<and> (\<exists>r \<in> set (tt_dentry (rewound_tables ''z'' (conn s'))). d_parent r = 1 \<and> d_name r = ''a'' \<and> d_child r = 2)"
proof -
  let ?s = "fs_db file_fs"
  let ?m = "move_dentry sample_env 1 ''a'' 1 ''b'' ?s"
  have n: "names (conn ?s) (1, ''a'') = Some (2, RegularFile)" by code_simp
  have c: "move_check (names (conn ?s)) RegularFile (1, ''b'') = Inr None"
  proof -
    have "names (conn ?s) (1, ''b'') = None" by code_simp
    then show ?thesis by (simp add: move_check_def)
  qed
  have i: "has_inode 1 (conn ?s)" "never_renamed (conn ?s)" by code_simp+
  have "fst ?m = Inr None" "stamped dentry_full (l_dentry (conn (snd ?m)))"
    "\<forall>a \<in> set (l_dentry (conn (snd ?m))). au_time a < ''z''"
    by code_simp+
  moreover from this(1) have "?m = (Inr None, snd ?m)" by (simp add: prod_eq_iff)
  ultimately show ?thesis
    using rename_stays_in_the_past [where e = sample_env and s' = "snd ?m" and T = "''z''", OF history_wf [OF file_evolves] history_journaled(3) [OF file_evolves]
        i(2) n c i(1)]
    by (auto simp: dot_name_def)
qed

section \<open>Equal stamps\<close>

text \<open>When the two latest audit rows of an inode carry the same stamp, as the updates of
  one write do within a millisecond, the rewound metadata has two rows for the inode, the
  outdated one among them.\<close>
lemma equal_stamps_leave_duplicates:
  assumes "filter (\<lambda>a. m_id (au_row a) = i) (l_meta d) = xs @ [a, b]"
    and "au_time a = t" and "au_time b = t" and "t < T" and "\<forall>x \<in> set xs. au_time x < t"
    and "au_op a \<noteq> TG_DELETE" and "au_op b \<noteq> TG_DELETE"
  shows "filter (\<lambda>m. m_id m = i) (tt_meta (rewound_tables T d)) = [au_row a, au_row b]"
proof -
  have "filter (\<lambda>a. m_id (au_row a) = i) (before T (l_meta d)) = filter (\<lambda>a. au_time a < T) (xs @ [a, b])"
    unfolding assms(1) [symmetric] before_def by (simp add: conj_commute)
  also have "\<dots> = xs @ [a, b]"
    using assms(2-5) by (auto simp: filter_id_conv)
  finally have g: "filter (\<lambda>a. m_id (au_row a) = i) (before T (l_meta d)) = xs @ [a, b]" .
  have "Max (au_time ` set (xs @ [a, b])) = t"
    using assms(2,3,5) by (intro Max_eqI) (auto intro: less_imp_le)
  moreover have "filter (\<lambda>x. au_time x = t \<and> au_op x \<noteq> TG_DELETE) xs = []"
    using assms(5) by (auto simp: filter_empty_conv)
  ultimately show ?thesis
    using assms(2,3,6,7) by (simp add: filter_rewound group_latest_def Let_def g)
qed

lemma equal_stamps_leave_duplicates_example:
  "filter (\<lambda>m. m_id m = 1) (tt_meta (rewound_tables ''u'' (empty_db\<lparr>l_meta :=
      [\<lparr>au_seq = 1, au_time = ''t'', au_op = TG_UPDATE, au_row = root_row\<lparr>m_size := 1\<rparr>\<rparr>,
       \<lparr>au_seq = 2, au_time = ''t'', au_op = TG_UPDATE, au_row = root_row\<lparr>m_size := 1, m_mtime := (Some 9, 0)\<rparr>\<rparr>]\<rparr>))) =
    [root_row\<lparr>m_size := 1\<rparr>, root_row\<lparr>m_size := 1, m_mtime := (Some 9, 0)\<rparr>]"
  by (subst equal_stamps_leave_duplicates [where xs = "[]" and t = "''t''"])
    (auto simp: root_row_def)

end
