(* ===== verification/Mounts.thy ===== *)
theory Mounts
  imports Past Files
begin

text \<open>
  What the modes of a mount guarantee: a live mount rebuilds the blocks, a read-only mount
  changes nothing after its first request, a rewound mount changes access times only, and
  a database in memory takes no data.
\<close>

section \<open>A live mount rebuilds the blocks\<close>

lemma mount_rebuilds:
  assumes "fs_new e c d = Inr f" and "length (l_data (conn (fs_db f))) < 2 ^ 32" and "db_wf (conn (fs_db f))"
  shows "map_option b_data (tab_get data_key k (t_bdata (conn (fs_db f)))) =
    data_replay c k (l_data (conn (fs_db f)))"
proof -
  obtain s1 where s1: "init e (sqlite_new c d) = (Inr (), fs_db f)"
    using assms(1) by (auto simp: fs_new_def fs_with_def split: prod.splits sum.splits)
  then obtain s3 where s3: "fs_db f = s3\<lparr>conn := snd (apply_diffs (sq_ext s3) (conn s3))\<rparr>"
    by (auto simp: init_def split: prod.splits sum.splits dest: sym)
  have "sq_ext (fs_db f) = Some c"
    using init_same_handle [OF s1] by (simp add: same_handle_def sqlite_new_def)
  then have c: "conn (fs_db f) = snd (apply_diffs (Some c) (conn s3))"
    by (simp add: s3)
  then have l: "l_data (conn (fs_db f)) = l_data (conn s3)"
    by (simp add: apply_diffs_keeps)
  have "numbered (l_data (conn s3))"
    using assms(3) by (simp add: db_wf_def numbered_logs_def l)
  from apply_diffs_eq [OF this, of c] assms(2) l
  obtain b where "apply_diffs (Some c) (conn s3) = (Inr (), (conn s3)\<lparr>t_bdata := b\<rparr>)"
    "\<forall>k. map_option b_data (tab_get data_key k b) = data_replay c k (l_data (conn s3))" by auto
  then show ?thesis by (simp add: c del: split_paired_All)
qed

section \<open>A read-only mount\<close>

text \<open>The state of a mount that \<open>new_read_only\<close> made.\<close>

definition read_only_mount :: "fs \<Rightarrow> bool" where
  "read_only_mount f \<longleftrightarrow> fs_read_only f \<and> \<not> fs_rewind f \<and> sq_read_only (fs_db f)
     \<and> \<not> sq_time_recording (fs_db f)"

lemma read_only_lookup: "\<not> sq_time_recording s \<Longrightarrow> lookup e p n s = (r, s') \<Longrightarrow> s' = s"
  by (auto simp: lookup_def flatten_def transact_def tx_defs split: sum.splits)

lemma read_only_get_data: "sq_read_only s \<Longrightarrow> get_data e i b k s = (r, s') \<Longrightarrow> s' = s"
  by (auto simp: get_data_def transact_def tx_defs)

lemma read_only_read:
  assumes "read_only_mount f" and "fs_read e i off sz f = Some (r, f')"
  shows "fs_db f' = fs_db f"
proof -
  from assms obtain x s where *: "read_loop (\<lambda>b. get_data e (ucast i) b (get_db_block_size (fs_db f)))
      (ucast off) sz [] (fs_db f) = Some (x, s)" "fs_db f' = s"
    by (auto simp: fs_read_def read_only_mount_def split: option.splits sum.splits)
  have "sq_read_only (fs_db f) \<longrightarrow> s = fs_db f"
    by (rule read_loop_keeps [where Q = "\<lambda>t u. sq_read_only t \<longrightarrow> u = t", OF _ _ _ *(1)])
      (auto dest: read_only_get_data)
  with assms(1) *(2) show ?thesis by (simp add: read_only_mount_def)
qed

lemma read_only_readlink:
  "read_only_mount f \<Longrightarrow> fs_readlink e i f = (r, f') \<Longrightarrow> fs_db f' = fs_db f"
  by (auto simp: fs_readlink_def read_only_mount_def Let_def
    split: sum.splits option.splits if_splits prod.splits dest: read_only_get_data)

lemma read_only_handle:
  assumes "read_only_mount f" and "handle e ruid rgid q f = Some (r, f')" and "q \<noteq> Init"
  shows "fs_db f' = fs_db f"
proof -
  have "fs_read_only f" "\<not> fs_rewind f" "\<not> sq_time_recording (fs_db f)"
    using assms(1) by (auto simp: read_only_mount_def)
  then show ?thesis
    using assms(2,3) read_only_read [OF assms(1)] read_only_readlink [OF assms(1)]
    by (cases q)
      (auto simp: fs_destroy_def fs_lookup_def fs_forget_def fs_getattr_def fs_setattr_def
        fs_mkdir_def fs_unlink_def fs_rmdir_def fs_symlink_def fs_rename_def fs_link_def
        fs_open_def fs_write_def fs_release_def fs_opendir_def fs_readdir_def fs_releasedir_def
        fs_setxattr_def fs_getxattr_def fs_listxattr_def fs_removexattr_def fs_create_def fs_statfs_def Let_def
        dest: read_only_lookup split: sum.splits option.splits if_splits prod.splits)
qed

lemma read_only_mounted:
  assumes "fs_new_read_only e d = Inr f0" and "reachable e f0 f"
  shows "read_only_mount f"
proof -
  obtain s where s: "init e (sqlite_new_read_only d) = (Inr (), s)" "f0 = fs_with s True False ''''"
    using assms(1) by (auto simp: fs_new_read_only_def split: prod.splits sum.splits)
  then have "read_only_mount f0"
    using init_same_handle [OF s(1)]
    by (simp add: read_only_mount_def fs_with_def same_handle_def sqlite_new_read_only_def)
  then show ?thesis
    using reachable_same_mode [OF assms(2)] growth.reachable_conn_rel [OF assms(2), of None]
    by (simp add: read_only_mount_def same_mode_def conn_rel_def same_handle_def)
qed

section \<open>A rewound mount\<close>

text \<open>Two databases with the same tables but for access times.\<close>

definition same_but_atimes :: "db \<Rightarrow> db \<Rightarrow> bool" where
  "same_but_atimes d d' \<longleftrightarrow> t_dentry d' = t_dentry d \<and> t_data d' = t_data d \<and> t_xattr d' = t_xattr d
     \<and> map (m_atime_update (\<lambda>_. (None, 0))) (t_meta d') =
       map (m_atime_update (\<lambda>_. (None, 0))) (t_meta d)"

lemma same_but_atimes_refl: "same_but_atimes d d"
  by (simp add: same_but_atimes_def)

lemma same_but_atimes_trans:
  "same_but_atimes d d' \<Longrightarrow> same_but_atimes d' d'' \<Longrightarrow> same_but_atimes d d''"
  by (simp add: same_but_atimes_def)

lemma update_atime_only: "update_atime e i t d = Inr (u, d') \<Longrightarrow> same_but_atimes d d'"
  by (auto simp: update_atime_def meta_update_def same_but_atimes_def meta_set_def)

lemma past_get_data:
  "get_data_at_time e i b k s = (r, s') \<Longrightarrow> same_but_atimes (conn s) (conn s')"
  by (auto simp: get_data_at_time_def transact_def tx_defs same_but_atimes_refl
      dest!: update_atime_only split: option.splits sum.splits if_splits prod.splits)

definition rewound_mount :: "fs \<Rightarrow> bool" where
  "rewound_mount f \<longleftrightarrow> fs_read_only f \<and> fs_rewind f"

lemma rewound_read:
  assumes "rewound_mount f" and "fs_read e i off sz f = Some (r, f')"
  shows "same_but_atimes (conn (fs_db f)) (conn (fs_db f'))"
proof -
  from assms obtain x s where *: "read_loop
      (\<lambda>b. get_data_at_time e (ucast i) b (get_db_block_size (fs_db f)))
      (ucast off) sz [] (fs_db f) = Some (x, s)" "fs_db f' = s"
    by (auto simp: fs_read_def rewound_mount_def split: option.splits sum.splits)
  show ?thesis
    unfolding *(2)
    by (rule read_loop_keeps [where Q = "\<lambda>t u. same_but_atimes (conn t) (conn u)", OF _ _ _ *(1)])
      (auto intro: same_but_atimes_refl same_but_atimes_trans past_get_data)
qed

lemma rewound_readlink:
  "rewound_mount f \<Longrightarrow> fs_readlink e i f = (r, f') \<Longrightarrow>
   same_but_atimes (conn (fs_db f)) (conn (fs_db f'))"
  by (auto simp: fs_readlink_def rewound_mount_def Let_def same_but_atimes_refl
    split: sum.splits option.splits if_splits prod.splits dest: past_get_data)

lemma rewound_handle:
  assumes "rewound_mount f" and "handle e ruid rgid q f = Some (r, f')"
  shows "same_but_atimes (conn (fs_db f)) (conn (fs_db f'))"
proof -
  have "fs_read_only f" "fs_rewind f"
    using assms(1) by (auto simp: rewound_mount_def)
  then show ?thesis
    using assms(2) rewound_read [OF assms(1)] rewound_readlink [OF assms(1)]
    by (cases q)
      (auto simp: fs_init_def fs_destroy_def fs_lookup_def lookup_at_time_def fs_forget_def
        fs_getattr_def fs_setattr_def
        fs_mkdir_def fs_unlink_def fs_rmdir_def fs_symlink_def fs_rename_def fs_link_def
        fs_open_def fs_write_def fs_release_def fs_opendir_def fs_readdir_def fs_releasedir_def
        fs_setxattr_def fs_getxattr_def fs_listxattr_def fs_removexattr_def fs_create_def fs_statfs_def Let_def
        same_but_atimes_refl split: sum.splits option.splits if_splits prod.splits)
qed

lemma rewound_mounted: "fs_new_at_time e d T = Inr f0 \<Longrightarrow> rewound_mount f0"
  by (auto simp: fs_new_at_time_def rewound_mount_def fs_with_def split: prod.splits sum.splits)

lemma rewound_reachable:
  assumes "rewound_mount f0" and "reachable e f0 f"
  shows "same_but_atimes (conn (fs_db f0)) (conn (fs_db f)) \<and> rewound_mount f"
  using assms(2)
proof (induction rule: reachable.induct)
  case (step f f')
  then obtain ruid rgid q r where q: "handle e ruid rgid q f = Some (r, f')"
    by (auto elim: fs_stepE)
  from step.IH q rewound_handle [of f, OF _ q] handle_same_mode [OF q] show ?case
    by (auto simp: same_mode_def rewound_mount_def intro: same_but_atimes_trans)
qed (use assms(1) in \<open>simp add: same_but_atimes_refl\<close>)

end
