(* ===== verification/Mount_Properties.thy ===== *)
theory Mount_Properties
  imports Mounts Sample_History
begin

text \<open>
  The properties of the modes of a mount, and of the choice \<open>main\<close> makes among them.
\<close>

section \<open>A live mount\<close>

text \<open>C0: Mounting a database live rebuilds the table \<open>bdata\<close> from the audit rows of the
  blocks, and what it rebuilds is the table \<open>data\<close>: every block that exists, with its bytes,
  and no other (for extensions whose deltas apply, and fewer than 2^32 audited writes).\<close>
theorem mount_rebuilds_blocks:
  assumes "evolves e c empty_db d" and "codec_ok c" and "fs_new e c d = Inr f"
    and "length (l_data (conn (fs_db f))) < 2 ^ 32"
  shows "map_option b_data (tab_get data_key k (t_bdata (conn (fs_db f)))) =
    map_option b_data (tab_get data_key k (t_data (conn (fs_db f))))"
proof -
  have h: "evolves e c empty_db (conn (fs_db f))"
    using assms(1,3) evolves.mounted [OF _ _ reachable.start, where mode = Live]
    by (simp add: mount_file_def)
  then have "data_replay c k (l_data (conn (fs_db f))) =
      map_option b_data (tab_get data_key k (t_data (conn (fs_db f))))"
    using history_journaled(4) assms(2) unfolding data_journaled_def by blast
  then show ?thesis
    using mount_rebuilds [OF assms(3,4) history_wf [OF h]] by simp
qed

theorem mount_rebuilds_blocks_witness:
  "map_option b_data (tab_get data_key (2, 1) (t_bdata (conn (fs_db root_fs)))) =
    map_option b_data (tab_get data_key (2, 1) (t_data (conn (fs_db root_fs))))"
  by (rule mount_rebuilds_blocks [OF evolves.unchanged sample_codec_ok(1) root_mount])
    (simp add: root_db_def empty_db_def)

section \<open>A read-only mount\<close>

definition read_only_fs :: fs where
  "read_only_fs = fs_with (sqlite_new_read_only root_db) True False ''''"

lemma read_only_sample: "fs_new_read_only sample_env root_db = Inr read_only_fs"
proof -
  let ?s = "sqlite_new_read_only root_db"
  have "fst (init sample_env ?s) = Inr ()" "conn (snd (init sample_env ?s)) = root_db"
    by code_simp+
  from init_result [OF this] show ?thesis
    by (simp add: fs_new_read_only_def read_only_fs_def sqlite_new_read_only_def)
qed

text \<open>C36: On a read-only mount no request but the first one, INIT, changes the database: not
  the files, not the names, not an access time, and not an audit table.\<close>
theorem read_only_mount_changes_nothing:
  assumes "main_mount e c (Some d) None True no_time = Inr f0" and "reachable e f0 f"
    and "handle e ruid rgid q f = Some (r, f')" and "q \<noteq> Init"
  shows "conn (fs_db f') = conn (fs_db f)"
proof -
  have "fs_new_read_only e d = Inr f0"
    using assms(1) by (simp add: main_mount_def mount_mode_def mount_file_def)
  from read_only_handle [OF read_only_mounted [OF this assms(2)] assms(3,4)] show ?thesis by simp
qed

theorem read_only_mount_changes_nothing_witness:
  "conn (fs_db (snd (fs_lookup sample_env 1 ''a'' read_only_fs))) = conn (fs_db read_only_fs)"
proof (rule read_only_mount_changes_nothing [OF _ reachable.start])
  show "main_mount sample_env sample_codec (Some root_db) None True False = Inr read_only_fs"
    by (simp add: main_mount_def mount_mode_def mount_file_def read_only_sample)
  show "handle sample_env 0 0 (Lookup 1 ''a'') read_only_fs =
      Some (fst (fs_lookup sample_env 1 ''a'' read_only_fs), snd (fs_lookup sample_env 1 ''a'' read_only_fs))"
    by simp
qed simp

section \<open>A rewound mount\<close>

text \<open>C37: A mount started with a time never changes the names, the blocks or the extended
  attributes of the live database, and of the metadata only access times; it does change those,
  since reading a block on the rewound mount records an access in the live table.\<close>
theorem rewound_mount_touches_atimes_only:
  assumes "main_mount e c (Some d) (Some T) ro no_time = Inr f0" and "reachable e f0 f"
  shows "same_but_atimes (conn (fs_db f0)) (conn (fs_db f))"
proof -
  have "fs_new_at_time e d T = Inr f0"
    using assms(1) by (simp add: main_mount_def mount_mode_def mount_file_def)
  from rewound_reachable [OF rewound_mounted [OF this] assms(2)] show ?thesis by simp
qed

theorem rewound_mount_touches_atimes_only_witness:
  "\<exists>r f. fs_read sample_env 1 0 1 past_fs = Some (r, f)
     \<and> same_but_atimes (conn (fs_db past_fs)) (conn (fs_db f))"
proof -
  have m: "main_mount sample_env sample_codec (Some late_db) (Some ''ttt'') False False = Inr past_fs"
    by (simp add: main_mount_def mount_mode_def mount_file_def past_mount)
  have "\<not> Option.is_none (fs_read sample_env 1 0 1 past_fs)" by code_simp
  then obtain r f where f: "fs_read sample_env 1 0 1 past_fs = Some (r, f)"
    by (auto simp: Option.is_none_def)
  then have "fs_step sample_env past_fs f"
    by (intro fs_step.request [where q = "Read 1 0 1"]) simp
  then have "reachable sample_env past_fs f"
    by (rule reachable.step [OF reachable.start])
  with f rewound_mount_touches_atimes_only [OF m] show ?thesis by blast
qed

section \<open>A database in memory\<close>

lemma in_memory_mounted:
  assumes "main_mount e c None t ro nt = Inr f0" and "reachable e f0 f"
  shows "sq_ext (fs_db f) = None"
proof -
  obtain s where s: "init e sqlite_new_in_memory = (Inr (), s)" "f0 = fs_new_with_db s"
    using assms(1) by (auto simp: main_mount_def split: prod.splits sum.splits)
  then have "sq_ext (fs_db f0) = None"
    using init_same_handle [OF s(1)]
    by (simp add: fs_new_with_db_def fs_with_def same_handle_def sqlite_new_in_memory_def)
  then show ?thesis
    using growth.reachable_conn_rel [OF assms(2), of None]
    by (simp add: conn_rel_def same_handle_def)
qed

lemma write_data_no_ext: "sq_ext s = None \<Longrightarrow> \<exists>x. write_data e i b data n s = (Inl x, s)"
  by (auto simp: write_data_def transact_def tx_defs data_upsert_def split: option.split sum.splits)

lemma write_loop_refused:
  assumes "\<And>b xs n t. sq_ext t = None \<Longrightarrow> \<exists>x. put b xs n t = (Inl x, t)"
    and "\<And>b t r t'. get b t = (r, t') \<Longrightarrow> sq_ext t' = sq_ext t" and "sq_ext s = None"
  shows "write_loop get put off sz data (b # bs) s \<noteq> Some (Inr u, s')"
proof -
  have "put b xs n t \<noteq> (Inr u, t')" if "sq_ext t = None" for xs n t u t'
    using assms(1) [OF that, of b xs n] by auto
  then show ?thesis
    using assms(2,3) by (force simp: Let_def split: option.splits sum.splits prod.splits if_splits)
qed

text \<open>C0: A filesystem in memory, which \<open>main\<close> mounts without a path, never acknowledges
  a write of data: its connection has no extensions, and the statement that stores a block
  needs them.\<close>
theorem in_memory_refuses_data:
  assumes "main_mount e c None t ro nt = Inr f0" and "reachable e f0 f"
    and "data \<noteq> []" and "unat (ucast off :: u32) + length data < 2 ^ 32"
  shows "fs_write e i off data f \<noteq> Some (Reply_written n, f')"
proof
  assume w: "fs_write e i off data f = Some (Reply_written n, f')"
  let ?off = "ucast off :: u32" and ?sz = "of_nat (length data) :: u32"
  have "unat ?sz = length data" using assms(4) by (simp add: unat_u32_of_nat)
  then have fits: "write_fits ?off ?sz" using assms(3,4) by (simp add: write_fits_def)
  then have "first_block (unat ?off) \<le> last_block (unat ?off) (unat ?sz)"
    by (intro block_bounds) (simp_all add: write_fits_def)
  then obtain b bs where "block_range (start_block ?off) (end_block ?off ?sz) = b # bs"
    using block_range_eq [OF fits] by (simp add: upt_conv_Cons del: upt_Suc)
  with w obtain s where "write_loop (\<lambda>b. get_data e (ucast i) b (get_db_block_size (fs_db f)))
      (write_data e (ucast i)) ?off ?sz data (b # bs) (fs_db f) = Some (Inr (), s)"
    by (auto simp: fs_write_def Let_def simp del: write_loop.simps
        split: if_splits option.splits sum.splits prod.splits)
  moreover have "write_loop (\<lambda>b. get_data e (ucast i) b (get_db_block_size (fs_db f)))
      (write_data e (ucast i)) ?off ?sz data (b # bs) (fs_db f) \<noteq> Some (Inr (), s)"
  proof (rule write_loop_refused [OF write_data_no_ext _ in_memory_mounted [OF assms(1,2)]])
    show "get_data e (ucast i) b k t = (r, t') \<Longrightarrow> sq_ext t' = sq_ext t" for b k t r t'
      using ops_same_handle(10) [of e "ucast i" b k t r t'] by (simp add: same_handle_def)
  qed
  ultimately show False by simp
qed

definition memory_fs :: fs where
  "memory_fs = fs_new_with_db (sqlite_new_in_memory\<lparr>conn := root_db\<rparr>)"

lemma in_memory_refuses_data_example:
  "fs_write sample_env 1 0 [7] memory_fs \<noteq> Some (Reply_written 1, memory_fs)"
proof (rule in_memory_refuses_data [OF _ reachable.start])
  let ?s = "sqlite_new_in_memory"
  have "fst (init sample_env ?s) = Inr ()" "conn (snd (init sample_env ?s)) = root_db"
    by code_simp+
  from init_result [OF this]
  show "main_mount sample_env sample_codec None None False False = Inr memory_fs"
    by (simp add: main_mount_def memory_fs_def)
qed simp_all

end
