(* ===== verification/Kernel.thy ===== *)
theory Kernel
  imports Prelude
begin

unbundle bit_operations_syntax

text \<open>
  The interface to the kernel driver (\<open>fuse/patches/kernel.rs\<close>), as compiled for Linux:
  protocol constants, opcodes, and the structures of requests and replies.  A signed field is
  kept as the word that has its bits.  The structures of replies come with the bytes they
  occupy in memory, in the order of their fields: \<open>repr(C)\<close> puts no padding into any of
  them, and the byte order is that of a little-endian machine.
\<close>

section \<open>Constants\<close>

definition FUSE_KERNEL_VERSION :: u32 where "FUSE_KERNEL_VERSION = 7"
definition FUSE_KERNEL_MINOR_VERSION :: u32 where "FUSE_KERNEL_MINOR_VERSION = 8"
definition FUSE_ROOT_ID :: u64 where "FUSE_ROOT_ID = 1"

definition FATTR_MODE :: u32 where "FATTR_MODE = push_bit 0 1"
definition FATTR_UID :: u32 where "FATTR_UID = push_bit 1 1"
definition FATTR_GID :: u32 where "FATTR_GID = push_bit 2 1"
definition FATTR_SIZE :: u32 where "FATTR_SIZE = push_bit 3 1"
definition FATTR_ATIME :: u32 where "FATTR_ATIME = push_bit 4 1"
definition FATTR_MTIME :: u32 where "FATTR_MTIME = push_bit 5 1"
definition FATTR_FH :: u32 where "FATTR_FH = push_bit 6 1"

lemmas fattr_defs =
  FATTR_MODE_def FATTR_UID_def FATTR_GID_def FATTR_SIZE_def FATTR_ATIME_def FATTR_MTIME_def
  FATTR_FH_def

definition FUSE_ASYNC_READ :: u32 where "FUSE_ASYNC_READ = push_bit 0 1"

section \<open>Opcodes\<close>

datatype fuse_opcode =
    FUSE_LOOKUP | FUSE_FORGET | FUSE_GETATTR | FUSE_SETATTR | FUSE_READLINK | FUSE_SYMLINK
  | FUSE_MKNOD | FUSE_MKDIR | FUSE_UNLINK | FUSE_RMDIR | FUSE_RENAME | FUSE_LINK | FUSE_OPEN
  | FUSE_READ | FUSE_WRITE | FUSE_STATFS | FUSE_RELEASE | FUSE_FSYNC | FUSE_SETXATTR
  | FUSE_GETXATTR | FUSE_LISTXATTR | FUSE_REMOVEXATTR | FUSE_FLUSH | FUSE_INIT | FUSE_OPENDIR
  | FUSE_READDIR | FUSE_RELEASEDIR | FUSE_FSYNCDIR | FUSE_GETLK | FUSE_SETLK | FUSE_SETLKW
  | FUSE_ACCESS | FUSE_CREATE | FUSE_INTERRUPT | FUSE_BMAP | FUSE_DESTROY

text \<open>The discriminants of the enum, in the order of its declaration.\<close>

definition opcode_table :: "(u32 \<times> fuse_opcode) list" where
  "opcode_table =
     [(1, FUSE_LOOKUP), (2, FUSE_FORGET), (3, FUSE_GETATTR), (4, FUSE_SETATTR),
      (5, FUSE_READLINK), (6, FUSE_SYMLINK), (8, FUSE_MKNOD), (9, FUSE_MKDIR),
      (10, FUSE_UNLINK), (11, FUSE_RMDIR), (12, FUSE_RENAME), (13, FUSE_LINK), (14, FUSE_OPEN),
      (15, FUSE_READ), (16, FUSE_WRITE), (17, FUSE_STATFS), (18, FUSE_RELEASE),
      (20, FUSE_FSYNC), (21, FUSE_SETXATTR), (22, FUSE_GETXATTR), (23, FUSE_LISTXATTR),
      (24, FUSE_REMOVEXATTR), (25, FUSE_FLUSH), (26, FUSE_INIT), (27, FUSE_OPENDIR),
      (28, FUSE_READDIR), (29, FUSE_RELEASEDIR), (30, FUSE_FSYNCDIR), (31, FUSE_GETLK),
      (32, FUSE_SETLK), (33, FUSE_SETLKW), (34, FUSE_ACCESS), (35, FUSE_CREATE),
      (36, FUSE_INTERRUPT), (37, FUSE_BMAP), (38, FUSE_DESTROY)]"

definition from_u32 :: "u32 \<Rightarrow> fuse_opcode option" where
  "from_u32 n =
     (if n = 1 then Some FUSE_LOOKUP else if n = 2 then Some FUSE_FORGET
      else if n = 3 then Some FUSE_GETATTR else if n = 4 then Some FUSE_SETATTR
      else if n = 5 then Some FUSE_READLINK else if n = 6 then Some FUSE_SYMLINK
      else if n = 8 then Some FUSE_MKNOD else if n = 9 then Some FUSE_MKDIR
      else if n = 10 then Some FUSE_UNLINK else if n = 11 then Some FUSE_RMDIR
      else if n = 12 then Some FUSE_RENAME else if n = 13 then Some FUSE_LINK
      else if n = 14 then Some FUSE_OPEN else if n = 15 then Some FUSE_READ
      else if n = 16 then Some FUSE_WRITE else if n = 17 then Some FUSE_STATFS
      else if n = 18 then Some FUSE_RELEASE else if n = 20 then Some FUSE_FSYNC
      else if n = 21 then Some FUSE_SETXATTR else if n = 22 then Some FUSE_GETXATTR
      else if n = 23 then Some FUSE_LISTXATTR else if n = 24 then Some FUSE_REMOVEXATTR
      else if n = 25 then Some FUSE_FLUSH else if n = 26 then Some FUSE_INIT
      else if n = 27 then Some FUSE_OPENDIR else if n = 28 then Some FUSE_READDIR
      else if n = 29 then Some FUSE_RELEASEDIR else if n = 30 then Some FUSE_FSYNCDIR
      else if n = 31 then Some FUSE_GETLK else if n = 32 then Some FUSE_SETLK
      else if n = 33 then Some FUSE_SETLKW else if n = 34 then Some FUSE_ACCESS
      else if n = 35 then Some FUSE_CREATE else if n = 36 then Some FUSE_INTERRUPT
      else if n = 37 then Some FUSE_BMAP else if n = 38 then Some FUSE_DESTROY
      else None)"

text \<open>The conversion agrees with the discriminants, and leaves out every other number.\<close>

lemma from_u32_table: "from_u32 n = map_of opcode_table n"
  by (simp only: from_u32_def opcode_table_def map_of.simps fun_upd_apply fst_conv snd_conv)

section \<open>Structures of requests\<close>

record fuse_in_header =
  ih_len :: u32
  ih_opcode :: u32
  ih_unique :: u64
  ih_nodeid :: u64
  ih_uid :: u32
  ih_gid :: u32
  ih_pid :: u32
  ih_padding :: u32

record fuse_init_in =
  ii_major :: u32
  ii_minor :: u32
  ii_max_readahead :: u32
  ii_flags :: u32

record fuse_forget_in =
  fi_nlookup :: u64

record fuse_interrupt_in =
  it_unique :: u64

record fuse_mknod_in =
  mk_mode :: u32
  mk_rdev :: u32
  mk_umask :: u32
  mk_padding :: u32

record fuse_mkdir_in =
  md_mode :: u32
  md_padding :: u32

record fuse_rename_in =
  rn_newdir :: u64

record fuse_link_in =
  ln_oldnodeid :: u64

record fuse_setattr_in =
  sa_valid :: u32
  sa_padding :: u32
  sa_fh :: u64
  sa_size :: u64
  sa_unused1 :: u64
  sa_atime :: u64
  sa_mtime :: u64
  sa_unused2 :: u64
  sa_atimensec :: u32
  sa_mtimensec :: u32
  sa_unused3 :: u32
  sa_mode :: u32
  sa_unused4 :: u32
  sa_uid :: u32
  sa_gid :: u32
  sa_unused5 :: u32

record fuse_open_in =
  op_flags :: u32
  op_mode :: u32

record fuse_release_in =
  rl_fh :: u64
  rl_flags :: u32
  rl_release_flags :: u32
  rl_lock_owner :: u64

record fuse_flush_in =
  fl_fh :: u64
  fl_unused :: u32
  fl_padding :: u32
  fl_lock_owner :: u64

record fuse_read_in =
  rd_fh :: u64
  rd_offset :: u64
  rd_size :: u32
  rd_padding :: u32

record fuse_write_in =
  wr_fh :: u64
  wr_offset :: u64
  wr_size :: u32
  wr_flags :: u32

record fuse_fsync_in =
  fy_fh :: u64
  fy_fsync_flags :: u32
  fy_padding :: u32

record fuse_setxattr_in =
  sx_size :: u32
  sx_flags :: u32

record fuse_getxattr_in =
  gx_size :: u32
  gx_padding :: u32

record fuse_file_lock =
  lk_start :: u64
  lk_end :: u64
  lk_typ :: u32
  lk_pid :: u32

record fuse_lk_in =
  li_fh :: u64
  li_owner :: u64
  li_lk :: fuse_file_lock
  li_lk_flags :: u32
  li_padding :: u32

record fuse_access_in =
  ac_mask :: u32
  ac_padding :: u32

record fuse_bmap_in =
  bm_block :: u64
  bm_blocksize :: u32
  bm_padding :: u32

end
