(* ===== verification/Wire.thy ===== *)
theory Wire
  imports Kernel FsState
begin

unbundle bit_operations_syntax

text \<open>
  Replies on their way to the kernel (\<open>fuse/patches/reply.rs\<close> with the reply structures of
  \<open>fuse/patches/kernel.rs\<close>): the structures, their bytes, the header that is put in
  front, and the buffer of directory entries.
\<close>

section \<open>Bytes of the structures\<close>

text \<open>The \<open>n\<close> low bytes of a word, least significant first.\<close>

fun le :: "nat \<Rightarrow> 'a::len word \<Rightarrow> bytes" where
  "le 0 w = []"
| "le (Suc n) w = ucast w # le n (drop_bit 8 w)"

lemma length_le [simp]: "length (le n w) = n"
  by (induction n arbitrary: w) simp_all

record fuse_attr =
  at_ino :: u64
  at_size :: u64
  at_blocks :: u64
  at_atime :: u64
  at_mtime :: u64
  at_ctime :: u64
  at_atimensec :: u32
  at_mtimensec :: u32
  at_ctimensec :: u32
  at_mode :: u32
  at_nlink :: u32
  at_uid :: u32
  at_gid :: u32
  at_rdev :: u32

definition attr_bytes :: "fuse_attr \<Rightarrow> bytes" where
  "attr_bytes a = le 8 (at_ino a) @ le 8 (at_size a) @ le 8 (at_blocks a) @ le 8 (at_atime a)
     @ le 8 (at_mtime a) @ le 8 (at_ctime a) @ le 4 (at_atimensec a) @ le 4 (at_mtimensec a)
     @ le 4 (at_ctimensec a) @ le 4 (at_mode a) @ le 4 (at_nlink a) @ le 4 (at_uid a)
     @ le 4 (at_gid a) @ le 4 (at_rdev a)"

record fuse_entry_out =
  eo_nodeid :: u64
  eo_generation :: u64
  eo_entry_valid :: u64
  eo_attr_valid :: u64
  eo_entry_valid_nsec :: u32
  eo_attr_valid_nsec :: u32
  eo_attr :: fuse_attr

definition entry_out_bytes :: "fuse_entry_out \<Rightarrow> bytes" where
  "entry_out_bytes x = le 8 (eo_nodeid x) @ le 8 (eo_generation x) @ le 8 (eo_entry_valid x)
     @ le 8 (eo_attr_valid x) @ le 4 (eo_entry_valid_nsec x) @ le 4 (eo_attr_valid_nsec x)
     @ attr_bytes (eo_attr x)"

record fuse_attr_out =
  ao_attr_valid :: u64
  ao_attr_valid_nsec :: u32
  ao_dummy :: u32
  ao_attr :: fuse_attr

definition attr_out_bytes :: "fuse_attr_out \<Rightarrow> bytes" where
  "attr_out_bytes x = le 8 (ao_attr_valid x) @ le 4 (ao_attr_valid_nsec x) @ le 4 (ao_dummy x)
     @ attr_bytes (ao_attr x)"

record fuse_open_out =
  oo_fh :: u64
  oo_open_flags :: u32
  oo_padding :: u32

definition open_out_bytes :: "fuse_open_out \<Rightarrow> bytes" where
  "open_out_bytes x = le 8 (oo_fh x) @ le 4 (oo_open_flags x) @ le 4 (oo_padding x)"

record fuse_write_out =
  wo_size :: u32
  wo_padding :: u32

definition write_out_bytes :: "fuse_write_out \<Rightarrow> bytes" where
  "write_out_bytes x = le 4 (wo_size x) @ le 4 (wo_padding x)"

record fuse_getxattr_out =
  go_size :: u32
  go_padding :: u32

definition getxattr_out_bytes :: "fuse_getxattr_out \<Rightarrow> bytes" where
  "getxattr_out_bytes x = le 4 (go_size x) @ le 4 (go_padding x)"

record fuse_kstatfs =
  ks_blocks :: u64
  ks_bfree :: u64
  ks_bavail :: u64
  ks_files :: u64
  ks_ffree :: u64
  ks_bsize :: u32
  ks_namelen :: u32
  ks_frsize :: u32
  ks_padding :: u32
  ks_spare :: "u32 list"

definition kstatfs_bytes :: "fuse_kstatfs \<Rightarrow> bytes" where
  "kstatfs_bytes x = le 8 (ks_blocks x) @ le 8 (ks_bfree x) @ le 8 (ks_bavail x)
     @ le 8 (ks_files x) @ le 8 (ks_ffree x) @ le 4 (ks_bsize x) @ le 4 (ks_namelen x)
     @ le 4 (ks_frsize x) @ le 4 (ks_padding x) @ concat (map (le 4) (ks_spare x))"

record fuse_init_out =
  io_major :: u32
  io_minor :: u32
  io_max_readahead :: u32
  io_flags :: u32
  io_unused :: u32
  io_max_write :: u32

definition init_out_bytes :: "fuse_init_out \<Rightarrow> bytes" where
  "init_out_bytes x = le 4 (io_major x) @ le 4 (io_minor x) @ le 4 (io_max_readahead x)
     @ le 4 (io_flags x) @ le 4 (io_unused x) @ le 4 (io_max_write x)"

record fuse_out_header =
  oh_len :: u32
  oh_error :: u32
  oh_unique :: u64

definition out_header_bytes :: "fuse_out_header \<Rightarrow> bytes" where
  "out_header_bytes x = le 4 (oh_len x) @ le 4 (oh_error x) @ le 8 (oh_unique x)"

record fuse_dirent =
  di_ino :: u64
  di_off :: u64
  di_namelen :: u32
  di_typ :: u32

definition dirent_bytes :: "fuse_dirent \<Rightarrow> bytes" where
  "dirent_bytes x = le 8 (di_ino x) @ le 8 (di_off x) @ le 4 (di_namelen x) @ le 4 (di_typ x)"

lemmas bytes_defs =
  attr_bytes_def entry_out_bytes_def attr_out_bytes_def open_out_bytes_def write_out_bytes_def
  getxattr_out_bytes_def kstatfs_bytes_def init_out_bytes_def out_header_bytes_def
  dirent_bytes_def

lemma length_structs [simp]:
  "length (attr_bytes a) = 80" "length (entry_out_bytes e) = 120" "length (attr_out_bytes t) = 96"
  "length (open_out_bytes p) = 16" "length (write_out_bytes w) = 8"
  "length (getxattr_out_bytes g) = 8" "length (init_out_bytes i) = 24"
  "length (out_header_bytes h) = 16" "length (dirent_bytes d) = 24"
  by (simp_all add: bytes_defs)

section \<open>Attributes\<close>

definition S_IFIFO :: u32 where "S_IFIFO = 0x1000"
definition S_IFCHR :: u32 where "S_IFCHR = 0x2000"
definition S_IFDIR :: u32 where "S_IFDIR = 0x4000"
definition S_IFBLK :: u32 where "S_IFBLK = 0x6000"
definition S_IFREG :: u32 where "S_IFREG = 0x8000"
definition S_IFLNK :: u32 where "S_IFLNK = 0xA000"
definition S_IFSOCK :: u32 where "S_IFSOCK = 0xC000"

lemmas s_if_defs =
  S_IFIFO_def S_IFCHR_def S_IFDIR_def S_IFBLK_def S_IFREG_def S_IFLNK_def S_IFSOCK_def

definition mode_from_kind_and_perm :: "file_type \<Rightarrow> u16 \<Rightarrow> u32" where
  "mode_from_kind_and_perm kind perm =
     (case kind of
        NamedPipe \<Rightarrow> S_IFIFO
      | CharDevice \<Rightarrow> S_IFCHR
      | BlockDevice \<Rightarrow> S_IFBLK
      | Directory \<Rightarrow> S_IFDIR
      | RegularFile \<Rightarrow> S_IFREG
      | Symlink \<Rightarrow> S_IFLNK
      | Socket \<Rightarrow> S_IFSOCK) OR ucast perm"

definition fuse_attr_from_attr :: "file_attr \<Rightarrow> fuse_attr" where
  "fuse_attr_from_attr a =
     \<lparr>at_ino = fa_ino a, at_size = fa_size a, at_blocks = fa_blocks a,
      at_atime = ts_sec (fa_atime a), at_mtime = ts_sec (fa_mtime a),
      at_ctime = ts_sec (fa_ctime a), at_atimensec = ts_nsec (fa_atime a),
      at_mtimensec = ts_nsec (fa_mtime a), at_ctimensec = ts_nsec (fa_ctime a),
      at_mode = mode_from_kind_and_perm (fa_kind a) (fa_perm a), at_nlink = fa_nlink a,
      at_uid = fa_uid a, at_gid = fa_gid a, at_rdev = fa_rdev a\<rparr>"

section \<open>Sending\<close>

text \<open>The error numbers of Linux.\<close>

definition errno_number :: "errno \<Rightarrow> u32" where
  "errno_number x =
     (case x of
        EPERM \<Rightarrow> 1 | ENOENT \<Rightarrow> 2 | EIO \<Rightarrow> 5 | EEXIST \<Rightarrow> 17 | ENOTDIR \<Rightarrow> 20 | EISDIR \<Rightarrow> 21
      | EINVAL \<Rightarrow> 22 | ERANGE \<Rightarrow> 34 | ENAMETOOLONG \<Rightarrow> 36 | ENOSYS \<Rightarrow> 38 | ENOTEMPTY \<Rightarrow> 39
      | ENODATA \<Rightarrow> 61 | EPROTO \<Rightarrow> 71)"

text \<open>
  \<open>ReplyRaw::send\<close>: one message is the list of slices handed to the sender, the header
  first.  The length wraps to 32 bits as the cast does.
\<close>

definition send :: "u64 \<Rightarrow> u32 \<Rightarrow> bytes list \<Rightarrow> bytes list" where
  "send unique err slices =
     (let len = foldl (\<lambda>l b. l + length b) 0 slices in
      out_header_bytes \<lparr>oh_len = of_nat (16 + len), oh_error = - err, oh_unique = unique\<rparr> # slices)"

definition send_error :: "u64 \<Rightarrow> errno \<Rightarrow> bytes list" where
  "send_error unique x = send unique (errno_number x) []"

text \<open>\<open>ReplyDirectory::add\<close> once the entry fits: its bytes, padded to a multiple of 8.\<close>

definition dirent_entry :: "u64 \<times> u64 \<times> file_type \<times> string \<Rightarrow> bytes" where
  "dirent_entry x =
     (case x of (ino, off, kind, name) \<Rightarrow>
        dirent_bytes \<lparr>di_ino = ino, di_off = off, di_namelen = of_nat (length name),
            di_typ = drop_bit 12 (mode_from_kind_and_perm kind 0)\<rparr>
          @ map of_char name
          @ replicate ((24 + length name + 7) div 8 * 8 - (24 + length name)) 0)"

definition entry_out :: "timespec \<Rightarrow> file_attr \<Rightarrow> u64 \<Rightarrow> fuse_entry_out" where
  "entry_out ttl attr generation =
     \<lparr>eo_nodeid = fa_ino attr, eo_generation = generation, eo_entry_valid = ts_sec ttl,
      eo_attr_valid = ts_sec ttl, eo_entry_valid_nsec = ts_nsec ttl,
      eo_attr_valid_nsec = ts_nsec ttl, eo_attr = fuse_attr_from_attr attr\<rparr>"

definition open_out :: "u64 \<Rightarrow> u32 \<Rightarrow> fuse_open_out" where
  "open_out fh fl = \<lparr>oo_fh = fh, oo_open_flags = fl, oo_padding = 0\<rparr>"

text \<open>The methods of the reply types.\<close>

definition empty_ok :: "u64 \<Rightarrow> bytes list" where
  "empty_ok unique = send unique 0 []"

definition data_reply :: "u64 \<Rightarrow> bytes \<Rightarrow> bytes list" where
  "data_reply unique data = send unique 0 [data]"

definition entry_reply :: "u64 \<Rightarrow> timespec \<Rightarrow> file_attr \<Rightarrow> u64 \<Rightarrow> bytes list" where
  "entry_reply unique ttl attr generation =
     send unique 0 [entry_out_bytes (entry_out ttl attr generation)]"

definition attr_reply :: "u64 \<Rightarrow> timespec \<Rightarrow> file_attr \<Rightarrow> bytes list" where
  "attr_reply unique ttl attr =
     send unique 0 [attr_out_bytes \<lparr>ao_attr_valid = ts_sec ttl, ao_attr_valid_nsec = ts_nsec ttl,
        ao_dummy = 0, ao_attr = fuse_attr_from_attr attr\<rparr>]"

definition opened_reply :: "u64 \<Rightarrow> u64 \<Rightarrow> u32 \<Rightarrow> bytes list" where
  "opened_reply unique fh fl = send unique 0 [open_out_bytes (open_out fh fl)]"

definition written_reply :: "u64 \<Rightarrow> u32 \<Rightarrow> bytes list" where
  "written_reply unique sz = send unique 0 [write_out_bytes \<lparr>wo_size = sz, wo_padding = 0\<rparr>]"

definition statfs_reply :: "u64 \<Rightarrow> statvfs \<Rightarrow> bytes list" where
  "statfs_reply unique st =
     send unique 0 [kstatfs_bytes \<lparr>ks_blocks = sv_blocks st, ks_bfree = sv_blocks_free st,
        ks_bavail = sv_blocks_available st, ks_files = sv_files st, ks_ffree = sv_files_free st,
        ks_bsize = ucast (sv_block_size st), ks_namelen = ucast (sv_name_max st),
        ks_frsize = ucast (sv_fragment_size st), ks_padding = 0, ks_spare = replicate 6 0\<rparr>]"

text \<open>The tuple of two structures is one slice, one after the other.\<close>

definition created_reply ::
  "u64 \<Rightarrow> timespec \<Rightarrow> file_attr \<Rightarrow> u64 \<Rightarrow> u64 \<Rightarrow> u32 \<Rightarrow> bytes list" where
  "created_reply unique ttl attr generation fh fl =
     send unique 0 [entry_out_bytes (entry_out ttl attr generation) @ open_out_bytes (open_out fh fl)]"

definition size_reply :: "u64 \<Rightarrow> u32 \<Rightarrow> bytes list" where
  "size_reply unique sz = send unique 0 [getxattr_out_bytes \<lparr>go_size = sz, go_padding = 0\<rparr>]"

definition directory_reply :: "u64 \<Rightarrow> (u64 \<times> u64 \<times> file_type \<times> string) list \<Rightarrow> bytes list" where
  "directory_reply unique entries = send unique 0 [concat (map dirent_entry entries)]"

lemmas reply_method_defs =
  empty_ok_def data_reply_def entry_reply_def attr_reply_def opened_reply_def written_reply_def
  statfs_reply_def created_reply_def size_reply_def directory_reply_def send_error_def

text \<open>What the reply objects of the handlers send; \<open>forget\<close> has none.\<close>

fun send_reply :: "u64 \<Rightarrow> reply \<Rightarrow> bytes list list" where
  "send_reply unique Reply_none = []"
| "send_reply unique Reply_ok = [empty_ok unique]"
| "send_reply unique (Reply_error x) = [send_error unique x]"
| "send_reply unique (Reply_entry ttl attr generation) = [entry_reply unique ttl attr generation]"
| "send_reply unique (Reply_attr ttl attr) = [attr_reply unique ttl attr]"
| "send_reply unique (Reply_data data) = [data_reply unique data]"
| "send_reply unique (Reply_opened fh fl) = [opened_reply unique fh fl]"
| "send_reply unique (Reply_written sz) = [written_reply unique sz]"
| "send_reply unique (Reply_created ttl attr generation fh fl) =
     [created_reply unique ttl attr generation fh fl]"
| "send_reply unique (Reply_size sz) = [size_reply unique sz]"
| "send_reply unique (Reply_directory entries) = [directory_reply unique entries]"
| "send_reply unique (Reply_statfs st) = [statfs_reply unique st]"

end
