(* ===== verification/Dispatch.thy ===== *)
theory Dispatch
  imports Wire Requests
begin

unbundle bit_operations_syntax

text \<open>
  From the message of the kernel to the method of the filesystem
  (\<open>fuse/patches/request.rs\<close>): reading the header, decoding the arguments of an opcode,
  the guards on the state of the session, and the reply.  The argument iterator, the
  session and the default methods of the trait belong to the fuse crate and are parameters;
  \<open>None\<close> is a panic, of the iterator, of an assertion or of a handler.
\<close>

section \<open>What the fuse crate supplies\<close>

text \<open>
  \<open>ArgumentIterator\<close>: \<open>fetch\<close> at every type it is used at, \<open>fetch_str\<close>, \<open>fetch_path\<close> and
  \<open>fetch_data\<close>.
\<close>

record 'it arguments =
  arg_new :: "bytes \<Rightarrow> 'it"
  arg_in_header :: "'it \<Rightarrow> (fuse_in_header \<times> 'it) option"
  arg_init :: "'it \<Rightarrow> (fuse_init_in \<times> 'it) option"
  arg_interrupt :: "'it \<Rightarrow> (fuse_interrupt_in \<times> 'it) option"
  arg_forget :: "'it \<Rightarrow> (fuse_forget_in \<times> 'it) option"
  arg_setattr :: "'it \<Rightarrow> (fuse_setattr_in \<times> 'it) option"
  arg_mknod :: "'it \<Rightarrow> (fuse_mknod_in \<times> 'it) option"
  arg_mkdir :: "'it \<Rightarrow> (fuse_mkdir_in \<times> 'it) option"
  arg_rename :: "'it \<Rightarrow> (fuse_rename_in \<times> 'it) option"
  arg_link :: "'it \<Rightarrow> (fuse_link_in \<times> 'it) option"
  arg_open :: "'it \<Rightarrow> (fuse_open_in \<times> 'it) option"
  arg_read :: "'it \<Rightarrow> (fuse_read_in \<times> 'it) option"
  arg_write :: "'it \<Rightarrow> (fuse_write_in \<times> 'it) option"
  arg_flush :: "'it \<Rightarrow> (fuse_flush_in \<times> 'it) option"
  arg_release :: "'it \<Rightarrow> (fuse_release_in \<times> 'it) option"
  arg_fsync :: "'it \<Rightarrow> (fuse_fsync_in \<times> 'it) option"
  arg_setxattr :: "'it \<Rightarrow> (fuse_setxattr_in \<times> 'it) option"
  arg_getxattr :: "'it \<Rightarrow> (fuse_getxattr_in \<times> 'it) option"
  arg_access :: "'it \<Rightarrow> (fuse_access_in \<times> 'it) option"
  arg_lk :: "'it \<Rightarrow> (fuse_lk_in \<times> 'it) option"
  arg_bmap :: "'it \<Rightarrow> (fuse_bmap_in \<times> 'it) option"
  arg_str :: "'it \<Rightarrow> (string \<times> 'it) option"
  arg_path :: "'it \<Rightarrow> (bytes \<times> 'it) option"
  arg_data :: "'it \<Rightarrow> (bytes \<times> 'it) option"

text \<open>The methods of the trait \<open>Filesystem\<close> that \<open>SqliteFs\<close> does not define.\<close>

datatype default_call =
    Mknod u64 string u32 u32
  | Flush u64 u64 u64
  | Fsync u64 u64 bool
  | Fsyncdir u64 u64 bool
  | Access u64 u32
  | Getlk u64 u64 u64 u64 u64 u32 u32
  | Setlk u64 u64 u64 u64 u64 u32 u32 bool
  | Bmap u64 u32 u64

text \<open>
  A default method knows nothing of the type it is a method of, so that it can only reply.
\<close>

record outside =
  o_env :: env
  o_max_write :: u32
  o_statvfs :: "statvfs option"
  o_default :: "default_call \<Rightarrow> reply"

record session =
  se_fs :: fs
  proto_major :: u32
  proto_minor :: u32
  initialized :: bool
  destroyed :: bool

section \<open>Reading a request\<close>

record req =
  header :: fuse_in_header
  payload :: bytes

text \<open>
  \<open>Request::new\<close>.  The inner option is its result, \<open>None\<close> for a message that is too short.
\<close>

definition request_new :: "'it arguments \<Rightarrow> bytes \<Rightarrow> req option option" where
  "request_new ai buffer =
     (if length buffer < 40 then Some None
      else
        case arg_in_header ai (arg_new ai buffer) of None \<Rightarrow> None | Some (h, it) \<Rightarrow>
        case arg_data ai it of None \<Rightarrow> None | Some (d, it') \<Rightarrow>
          if length buffer < unat (ih_len h) then Some None
          else Some (Some \<lparr>header = h, payload = d\<rparr>))"

section \<open>Decoding the arguments\<close>

text \<open>A call decoded from a request: a method of \<open>SqliteFs\<close>, a default method, or none.\<close>

datatype call = To_fs request | To_default default_call | Unsupported

text \<open>The optional arguments of setattr: those whose bit of \<open>valid\<close> is set.\<close>

definition when_valid :: "fuse_setattr_in \<Rightarrow> u32 \<Rightarrow> 'a \<Rightarrow> 'a option" where
  "when_valid arg fattr x = (if sa_valid arg AND fattr = 0 then None else Some x)"

definition setattr_call :: "u64 \<Rightarrow> fuse_setattr_in \<Rightarrow> request" where
  "setattr_call nodeid arg =
     Setattr nodeid
       (when_valid arg FATTR_MODE (sa_mode arg))
       (when_valid arg FATTR_UID (sa_uid arg))
       (when_valid arg FATTR_GID (sa_gid arg))
       (when_valid arg FATTR_SIZE (sa_size arg))
       (when_valid arg FATTR_ATIME \<lparr>ts_sec = sa_atime arg, ts_nsec = sa_atimensec arg\<rparr>)
       (when_valid arg FATTR_MTIME \<lparr>ts_sec = sa_mtime arg, ts_nsec = sa_mtimensec arg\<rparr>)
       None None"

fun with_arg :: "('a \<times> 'it) option \<Rightarrow> ('a \<Rightarrow> 'it \<Rightarrow> 'b option) \<Rightarrow> 'b option" where
  "with_arg None k = None"
| "with_arg (Some (a, it)) k = k a it"

lemma with_arg_Some:
  "with_arg m k = Some b \<longleftrightarrow> (\<exists>a it. m = Some (a, it) \<and> k a it = Some b)"
  by (cases "(m, k)" rule: with_arg.cases) auto

text \<open>
  The arms of the match after the guards.  \<open>INIT\<close> and \<open>DESTROY\<close> are answered before.
\<close>

definition decode :: "'it arguments \<Rightarrow> outside \<Rightarrow> fuse_opcode \<Rightarrow> req \<Rightarrow> call option" where
  "decode ai w opcode r =
     (let it = arg_new ai (payload r); node = ih_nodeid (header r);
          name = arg_str ai; to_fs = (\<lambda>q. Some (To_fs q)); to_default = (\<lambda>q. Some (To_default q)) in
      case opcode of
        FUSE_INIT \<Rightarrow> None
      | FUSE_DESTROY \<Rightarrow> None
      | FUSE_INTERRUPT \<Rightarrow> with_arg (arg_interrupt ai it) (\<lambda>arg _. Some Unsupported)
      | FUSE_LOOKUP \<Rightarrow> with_arg (name it) (\<lambda>n _. to_fs (Lookup node n))
      | FUSE_FORGET \<Rightarrow> with_arg (arg_forget ai it) (\<lambda>arg _. to_fs (Forget node (fi_nlookup arg)))
      | FUSE_GETATTR \<Rightarrow> to_fs (Getattr node)
      | FUSE_SETATTR \<Rightarrow> with_arg (arg_setattr ai it) (\<lambda>arg _. to_fs (setattr_call node arg))
      | FUSE_READLINK \<Rightarrow> to_fs (Readlink node)
      | FUSE_MKNOD \<Rightarrow>
          with_arg (arg_mknod ai it) (\<lambda>arg it. with_arg (name it) (\<lambda>n _.
            to_default (Mknod node n (mk_mode arg) (mk_rdev arg))))
      | FUSE_MKDIR \<Rightarrow>
          with_arg (arg_mkdir ai it) (\<lambda>arg it. with_arg (name it) (\<lambda>n _.
            to_fs (Mkdir node n (md_mode arg))))
      | FUSE_UNLINK \<Rightarrow> with_arg (name it) (\<lambda>n _. to_fs (Unlink node n))
      | FUSE_RMDIR \<Rightarrow> with_arg (name it) (\<lambda>n _. to_fs (Rmdir node n))
      | FUSE_SYMLINK \<Rightarrow>
          with_arg (name it) (\<lambda>n it. with_arg (arg_path ai it) (\<lambda>link _.
            to_fs (MkSymlink node n link)))
      | FUSE_RENAME \<Rightarrow>
          with_arg (arg_rename ai it) (\<lambda>arg it. with_arg (name it) (\<lambda>n it.
            with_arg (name it) (\<lambda>newname _. to_fs (Rename node n (rn_newdir arg) newname))))
      | FUSE_LINK \<Rightarrow>
          with_arg (arg_link ai it) (\<lambda>arg it. with_arg (name it) (\<lambda>newname _.
            to_fs (Link (ln_oldnodeid arg) node newname)))
      | FUSE_OPEN \<Rightarrow> with_arg (arg_open ai it) (\<lambda>arg _. to_fs (Open node (op_flags arg)))
      | FUSE_READ \<Rightarrow>
          with_arg (arg_read ai it) (\<lambda>arg _. to_fs (Read node (rd_offset arg) (rd_size arg)))
      | FUSE_WRITE \<Rightarrow>
          with_arg (arg_write ai it) (\<lambda>arg it. with_arg (arg_data ai it) (\<lambda>d _.
            if length d = unat (wr_size arg) then to_fs (Write node (wr_offset arg) d) else None))
      | FUSE_FLUSH \<Rightarrow>
          with_arg (arg_flush ai it) (\<lambda>arg _.
            to_default (Flush node (fl_fh arg) (fl_lock_owner arg)))
      | FUSE_RELEASE \<Rightarrow> with_arg (arg_release ai it) (\<lambda>arg _. to_fs (Release node (rl_fh arg)))
      | FUSE_FSYNC \<Rightarrow>
          with_arg (arg_fsync ai it) (\<lambda>arg _.
            to_default (Fsync node (fy_fh arg) (fy_fsync_flags arg AND 1 \<noteq> 0)))
      | FUSE_OPENDIR \<Rightarrow> with_arg (arg_open ai it) (\<lambda>arg _. to_fs (Opendir node))
      | FUSE_READDIR \<Rightarrow>
          with_arg (arg_read ai it) (\<lambda>arg _.
            to_fs (Readdir (unat (rd_size arg)) node (rd_fh arg) (rd_offset arg)))
      | FUSE_RELEASEDIR \<Rightarrow>
          with_arg (arg_release ai it) (\<lambda>arg _. to_fs (Releasedir node (rl_fh arg)))
      | FUSE_FSYNCDIR \<Rightarrow>
          with_arg (arg_fsync ai it) (\<lambda>arg _.
            to_default (Fsyncdir node (fy_fh arg) (fy_fsync_flags arg AND 1 \<noteq> 0)))
      | FUSE_STATFS \<Rightarrow> to_fs (Statfs node (o_statvfs w))
      | FUSE_SETXATTR \<Rightarrow>
          with_arg (arg_setxattr ai it) (\<lambda>arg it. with_arg (name it) (\<lambda>n it.
            with_arg (arg_data ai it) (\<lambda>value _.
              if length value = unat (sx_size arg)
              then to_fs (Setxattr node n value (sx_flags arg)) else None)))
      | FUSE_GETXATTR \<Rightarrow>
          with_arg (arg_getxattr ai it) (\<lambda>arg it. with_arg (name it) (\<lambda>n _.
            to_fs (Getxattr node n (gx_size arg))))
      | FUSE_LISTXATTR \<Rightarrow>
          with_arg (arg_getxattr ai it) (\<lambda>arg _. to_fs (Listxattr node (gx_size arg)))
      | FUSE_REMOVEXATTR \<Rightarrow> with_arg (name it) (\<lambda>n _. to_fs (Removexattr node n))
      | FUSE_ACCESS \<Rightarrow>
          with_arg (arg_access ai it) (\<lambda>arg _. to_default (Access node (ac_mask arg)))
      | FUSE_CREATE \<Rightarrow>
          with_arg (arg_open ai it) (\<lambda>arg it. with_arg (name it) (\<lambda>n _.
            to_fs (Create node n (op_mode arg))))
      | FUSE_GETLK \<Rightarrow>
          with_arg (arg_lk ai it) (\<lambda>arg _.
            to_default (Getlk node (li_fh arg) (li_owner arg) (lk_start (li_lk arg))
              (lk_end (li_lk arg)) (lk_typ (li_lk arg)) (lk_pid (li_lk arg))))
      | FUSE_SETLK \<Rightarrow>
          with_arg (arg_lk ai it) (\<lambda>arg _.
            to_default (Setlk node (li_fh arg) (li_owner arg) (lk_start (li_lk arg))
              (lk_end (li_lk arg)) (lk_typ (li_lk arg)) (lk_pid (li_lk arg)) False))
      | FUSE_SETLKW \<Rightarrow>
          with_arg (arg_lk ai it) (\<lambda>arg _.
            to_default (Setlk node (li_fh arg) (li_owner arg) (lk_start (li_lk arg))
              (lk_end (li_lk arg)) (lk_typ (li_lk arg)) (lk_pid (li_lk arg)) True))
      | FUSE_BMAP \<Rightarrow>
          with_arg (arg_bmap ai it) (\<lambda>arg _.
            to_default (Bmap node (bm_blocksize arg) (bm_block arg))))"

section \<open>Dispatching\<close>

text \<open>The result of a dispatch: the messages sent and the session after it.\<close>

type_synonym dispatched = "(bytes list list \<times> session) option"

definition INIT_FLAGS :: u32 where "INIT_FLAGS = FUSE_ASYNC_READ"

definition init_out :: "outside \<Rightarrow> fuse_init_in \<Rightarrow> fuse_init_out" where
  "init_out w arg =
     \<lparr>io_major = FUSE_KERNEL_VERSION, io_minor = FUSE_KERNEL_MINOR_VERSION,
      io_max_readahead = ii_max_readahead arg, io_flags = ii_flags arg AND INIT_FLAGS,
      io_unused = 0, io_max_write = o_max_write w\<rparr>"

definition dispatch_init :: "'it arguments \<Rightarrow> outside \<Rightarrow> req \<Rightarrow> session \<Rightarrow> dispatched" where
  "dispatch_init ai w r se =
     (case arg_init ai (arg_new ai (payload r)) of None \<Rightarrow> None | Some (arg, it) \<Rightarrow>
        let u = ih_unique (header r) in
        if ii_major arg < 7 \<or> ii_major arg = 7 \<and> ii_minor arg < 6
        then Some ([send_error u EPROTO], se)
        else
          let f = snd (fs_init (o_env w) (se_fs se)) in
          Some ([send u 0 [init_out_bytes (init_out w arg)]],
            se\<lparr>proto_major := ii_major arg, proto_minor := ii_minor arg, se_fs := f,
               initialized := True\<rparr>))"

definition dispatch_destroy :: "outside \<Rightarrow> req \<Rightarrow> session \<Rightarrow> dispatched" where
  "dispatch_destroy w r se =
     Some ([empty_ok (ih_unique (header r))],
       se\<lparr>se_fs := snd (fs_destroy (o_env w) (se_fs se)), destroyed := True\<rparr>)"

fun perform :: "outside \<Rightarrow> req \<Rightarrow> session \<Rightarrow> call \<Rightarrow> dispatched" where
  "perform w r se (To_fs q) =
     (case handle (o_env w) (ih_uid (header r)) (ih_gid (header r)) q (se_fs se) of
        None \<Rightarrow> None
      | Some (rep, f) \<Rightarrow> Some (send_reply (ih_unique (header r)) rep, se\<lparr>se_fs := f\<rparr>))"
| "perform w r se (To_default q) =
     Some (send_reply (ih_unique (header r)) (o_default w q), se)"
| "perform w r se Unsupported = Some ([send_error (ih_unique (header r)) ENOSYS], se)"

definition dispatch :: "'it arguments \<Rightarrow> outside \<Rightarrow> req \<Rightarrow> session \<Rightarrow> dispatched" where
  "dispatch ai w r se =
     (let u = ih_unique (header r) in
      case from_u32 (ih_opcode (header r)) of
        None \<Rightarrow> Some ([send_error u ENOSYS], se)
      | Some opcode \<Rightarrow>
          if opcode = FUSE_INIT then dispatch_init ai w r se
          else if \<not> initialized se then Some ([send_error u EIO], se)
          else if opcode = FUSE_DESTROY then dispatch_destroy w r se
          else if destroyed se then Some ([send_error u EIO], se)
          else (case decode ai w opcode r of None \<Rightarrow> None | Some c \<Rightarrow> perform w r se c))"

end
