(* ===== verification/Wire_Format.thy ===== *)
theory Wire_Format
  imports Wire FsHandles
begin

unbundle bit_operations_syntax

text \<open>
  What the kernel reads in the bytes of a reply: words, the header of a message and the
  entries of a directory buffer.  These readers are the specification of the encoders.
\<close>

section \<open>Words\<close>

fun of_le :: "bytes \<Rightarrow> 'a::len word" where
  "of_le [] = 0"
| "of_le (b # bs) = ucast b OR push_bit 8 (of_le bs)"

lemma of_le_le: "of_le (le n w) = take_bit (8 * n) (w :: 'a::len word)"
proof (induction n arbitrary: w)
  case (Suc n)
  have "ucast (ucast w :: u8) OR push_bit 8 (take_bit (8 * n) (drop_bit 8 w)) = take_bit (8 * Suc n) w"
    by (rule bit_word_eqI) (auto simp: bit_simps)
  with Suc show ?case by simp
qed simp

lemma of_le_u32 [simp]: "of_le (le 4 (w :: u32)) = w"
  by (simp add: of_le_le take_bit_word_eq_self)

lemma of_le_u64 [simp]: "of_le (le 8 (w :: u64)) = w"
  by (simp add: of_le_le take_bit_word_eq_self)

section \<open>Messages\<close>

definition msg_len :: "bytes \<Rightarrow> u32" where "msg_len m = of_le (take 4 m)"
definition msg_error :: "bytes \<Rightarrow> u32" where "msg_error m = of_le (take 4 (drop 4 m))"
definition msg_unique :: "bytes \<Rightarrow> u64" where "msg_unique m = of_le (take 8 (drop 8 m))"
definition msg_body :: "bytes \<Rightarrow> bytes" where "msg_body m = drop 16 m"

lemmas msg_defs = msg_len_def msg_error_def msg_unique_def msg_body_def

lemma foldl_length: "foldl (\<lambda>l b. l + length b) n slices = n + length (concat slices)"
  by (induction slices arbitrary: n) simp_all

lemma send_message:
  "msg_len (concat (send u err slices)) = of_nat (length (concat (send u err slices)))"
  "msg_error (concat (send u err slices)) = - err"
  "msg_unique (concat (send u err slices)) = u"
  "msg_body (concat (send u err slices)) = concat slices"
  by (simp_all add: send_def Let_def msg_defs out_header_bytes_def foldl_length take_append drop_append)

section \<open>Modes\<close>

definition mode_kind :: "u32 \<Rightarrow> file_type" where
  "mode_kind m = const_to_file_type (m AND 0xF000)"

definition mode_perm :: "u32 \<Rightarrow> u16" where
  "mode_perm m = ucast (m AND 0xFFF)"

lemma high_bits_of_perm:
  assumes "perm AND 0xF000 = 0"
  shows "(ucast (perm :: u16) :: u32) AND 0xF000 = 0"
proof -
  have "(ucast (perm AND 0xF000) :: u32) = ucast perm AND 0xF000"
    by (rule bit_word_eqI) (auto simp: bit_simps dest: bit_imp_le_length)
  with assms show ?thesis by simp
qed

section \<open>Directory entries\<close>

function parse_dirents :: "bytes \<Rightarrow> (u64 \<times> u64 \<times> file_type \<times> string) list" where
  "parse_dirents bs =
     (if length bs < 24 then []
      else let n = unat (of_le (take 4 (drop 16 bs)) :: u32) in
        (of_le (take 8 bs), of_le (take 8 (drop 8 bs)),
         mode_kind (push_bit 12 (of_le (take 4 (drop 20 bs)))), map (\<lambda>b. char_of (unat b)) (take n (drop 24 bs)))
        # parse_dirents (drop ((24 + n + 7) div 8 * 8) bs))"
  by pat_completeness auto
termination
proof (relation "measure length")
  fix bs :: bytes and n :: nat
  assume "\<not> length bs < 24"
  moreover have "24 \<le> (24 + n + 7) div 8 * 8" by presburger
  ultimately show "(drop ((24 + n + 7) div 8 * 8) bs, bs) \<in> measure length" by simp
qed simp

declare parse_dirents.simps [simp del]

lemma char_of_name_byte [simp]: "char_of (unat (of_char c :: u8)) = c"
proof -
  have "(of_char c :: u8) = of_nat (of_char c)" by (cases c) simp
  then have "unat (of_char c :: u8) = of_char c"
    by (simp add: unat_of_nat take_bit_nat_eq_self)
  then show ?thesis by simp
qed

lemma kind_of_typ: "mode_kind (push_bit 12 (drop_bit 12 (mode_from_kind_and_perm kind 0))) = kind"
  by (cases kind) (simp_all add: mode_kind_def mode_from_kind_and_perm_def s_if_defs
      const_to_file_type_def db_if_defs)

lemma length_dirent_entry: "length (dirent_entry (ino, off, kind, name)) = entsize name"
proof -
  have "24 + length name \<le> (24 + length name + 7) div 8 * 8" by presburger
  then show ?thesis by (simp add: dirent_entry_def entsize_def)
qed

lemma parse_dirents_Nil [simp]: "parse_dirents [] = []"
  by (simp add: parse_dirents.simps)

lemma parse_dirents_entry:
  assumes "length name < 2 ^ 32"
  shows "parse_dirents (dirent_entry (ino, off, kind, name) @ rest) =
    (ino, off, kind, name) # parse_dirents rest"
proof -
  let ?e = "dirent_entry (ino, off, kind, name)"
  have n: "unat (of_nat (length name) :: u32) = length name"
    using assms by (simp add: unat_of_nat take_bit_nat_eq_self)
  have le: "24 + length name \<le> entsize name"
    unfolding entsize_def by presburger
  have e: "length ?e = entsize name" by (rule length_dirent_entry)
  have f: "?e = le 8 ino @ le 8 off @ le 4 (of_nat (length name) :: u32)
      @ le 4 (drop_bit 12 (mode_from_kind_and_perm kind 0)) @ map of_char name
      @ replicate (entsize name - (24 + length name)) 0"
    by (simp add: dirent_entry_def dirent_bytes_def entsize_def)
  define b where "b = ?e @ rest"
  have parts: "take 8 b = le 8 ino" "take 8 (drop 8 b) = le 8 off"
    "take 4 (drop 16 b) = le 4 (of_nat (length name) :: u32)"
    "take 4 (drop 20 b) = le 4 (drop_bit 12 (mode_from_kind_and_perm kind 0))"
    "take (length name) (drop 24 b) = map of_char name"
    by (simp_all add: b_def f)
  have "\<not> length b < 24" "drop (entsize name) b = rest"
    using e le by (simp_all add: b_def)
  then have "parse_dirents b = (ino, off, kind, name) # parse_dirents rest"
    by (subst parse_dirents.simps)
      (simp add: Let_def parts n kind_of_typ comp_def entsize_def add.commute)
  then show ?thesis by (simp only: b_def)
qed

lemma parse_dirents_entries:
  "\<forall>x \<in> set xs. length (snd (snd (snd x))) < 2 ^ 32 \<Longrightarrow>
   parse_dirents (concat (map dirent_entry xs)) = xs"
  by (induction xs) (auto simp: parse_dirents_entry)

end
