(* ===== verification/Sessions.thy ===== *)
theory Sessions
  imports Dispatch Wire_Format
begin

text \<open>
  A session as a state machine over the messages of the kernel, and what every message
  gets for an answer.
\<close>

section \<open>The reply object of a request\<close>

text \<open>
  The methods of the reply type each handler is given: \<open>ReplyEmpty\<close>, \<open>ReplyEntry\<close>,
  \<open>ReplyAttr\<close> and so on, all of which also send errors.
\<close>

fun reply_fits :: "request \<Rightarrow> reply \<Rightarrow> bool" where
  "reply_fits q (Reply_error x) = (case q of Init \<Rightarrow> False | Destroy \<Rightarrow> False | Forget _ _ \<Rightarrow> False | _ \<Rightarrow> True)"
| "reply_fits q Reply_none = (case q of Init \<Rightarrow> True | Destroy \<Rightarrow> True | Forget _ _ \<Rightarrow> True | _ \<Rightarrow> False)"
| "reply_fits q Reply_ok =
     (case q of Unlink _ _ \<Rightarrow> True | Rmdir _ _ \<Rightarrow> True | Rename _ _ _ _ \<Rightarrow> True | Release _ _ \<Rightarrow> True
      | Releasedir _ _ \<Rightarrow> True | Setxattr _ _ _ _ \<Rightarrow> True | Removexattr _ _ \<Rightarrow> True | _ \<Rightarrow> False)"
| "reply_fits q (Reply_entry ttl attr generation) =
     (case q of Lookup _ _ \<Rightarrow> True | Mkdir _ _ _ \<Rightarrow> True | MkSymlink _ _ _ \<Rightarrow> True | Link _ _ _ \<Rightarrow> True
      | _ \<Rightarrow> False)"
| "reply_fits q (Reply_attr ttl attr) =
     (case q of Getattr _ \<Rightarrow> True | Setattr _ _ _ _ _ _ _ _ _ \<Rightarrow> True | _ \<Rightarrow> False)"
| "reply_fits q (Reply_data d) =
     (case q of Readlink _ \<Rightarrow> True | Read _ _ _ \<Rightarrow> True | Getxattr _ _ _ \<Rightarrow> True
      | Listxattr _ _ \<Rightarrow> True | _ \<Rightarrow> False)"
| "reply_fits q (Reply_opened fh fl) = (case q of Open _ _ \<Rightarrow> True | Opendir _ \<Rightarrow> True | _ \<Rightarrow> False)"
| "reply_fits q (Reply_written n) = (case q of Write _ _ _ \<Rightarrow> True | _ \<Rightarrow> False)"
| "reply_fits q (Reply_created ttl attr generation fh fl) =
     (case q of Create _ _ _ \<Rightarrow> True | _ \<Rightarrow> False)"
| "reply_fits q (Reply_size n) =
     (case q of Getxattr _ _ _ \<Rightarrow> True | Listxattr _ _ \<Rightarrow> True | _ \<Rightarrow> False)"
| "reply_fits q (Reply_directory es) = (case q of Readdir _ _ _ _ \<Rightarrow> True | _ \<Rightarrow> False)"
| "reply_fits q (Reply_statfs st) = (case q of Statfs _ _ \<Rightarrow> True | _ \<Rightarrow> False)"

lemma handle_reply_fits:
  "handle e ruid rgid q f = Some (r, f') \<Longrightarrow> reply_fits q r"
  by (cases q)
    (auto simp: fs_init_def fs_destroy_def fs_lookup_def fs_forget_def fs_getattr_def
      fs_setattr_def fs_readlink_def fs_mkdir_def fs_unlink_def fs_rmdir_def fs_symlink_def
      fs_rename_def fs_link_def fs_open_def fs_read_def fs_write_def fs_release_def
      fs_opendir_def fs_readdir_def fs_releasedir_def fs_setxattr_def fs_getxattr_def
      fs_listxattr_def fs_removexattr_def fs_create_def fs_statfs_def sized_reply_def Let_def
      split: if_splits option.splits sum.splits prod.splits)

lemma send_reply_single: "r \<noteq> Reply_none \<Longrightarrow> \<exists>err slices. send_reply u r = [send u err slices]"
  by (cases r) (auto simp: reply_method_defs)

section \<open>Runs of a session\<close>

text \<open>The host may answer every message differently; its clock and stamps are those of \<open>e\<close>.\<close>

inductive session_run :: "'it arguments \<Rightarrow> env \<Rightarrow> session \<Rightarrow> session \<Rightarrow> bool"
  for ai :: "'it arguments" and e :: env and se0 :: session where
  idle: "session_run ai e se0 se0"
| message: "session_run ai e se0 se \<Longrightarrow> o_env w = e \<Longrightarrow> dispatch ai w r se = Some (out, se') \<Longrightarrow>
    session_run ai e se0 se'"

inductive_cases session_runE: "session_run ai e se0 se"

lemma decode_not_life:
  "decode ai w opcode r = Some (To_fs q) \<Longrightarrow> q \<noteq> Init \<and> q \<noteq> Destroy"
  by (cases opcode)
    (auto simp: decode_def Let_def setattr_call_def with_arg_Some split: if_splits)

lemma decode_forget:
  "decode ai w opcode r = Some (To_fs (Forget i n)) \<Longrightarrow> opcode = FUSE_FORGET"
  by (cases opcode)
    (auto simp: decode_def Let_def setattr_call_def with_arg_Some split: if_splits)

text \<open>What one message does: one of the two requests of its own, one call, or an error.\<close>

lemma dispatch_cases:
  assumes "dispatch ai w r se = Some (out, se')"
  obtains
    (refused) x where "out = [send_error (ih_unique (header r)) x]" and "se' = se"
  | (init) arg where "from_u32 (ih_opcode (header r)) = Some FUSE_INIT"
      and "out = [send (ih_unique (header r)) 0 [init_out_bytes (init_out w arg)]]"
      and "initialized se'" and "destroyed se' = destroyed se"
      and "se_fs se' = snd (fs_init (o_env w) (se_fs se))"
  | (destroy) "from_u32 (ih_opcode (header r)) = Some FUSE_DESTROY" and "initialized se"
      and "out = [empty_ok (ih_unique (header r))]"
      and "se' = se\<lparr>se_fs := snd (fs_destroy (o_env w) (se_fs se)), destroyed := True\<rparr>"
  | (call) opcode c where "from_u32 (ih_opcode (header r)) = Some opcode" and "opcode \<noteq> FUSE_INIT"
      and "opcode \<noteq> FUSE_DESTROY" and "initialized se" and "\<not> destroyed se"
      and "decode ai w opcode r = Some c" and "perform w r se c = Some (out, se')"
  using assms
  by (auto simp: dispatch_def dispatch_init_def dispatch_destroy_def Let_def
      split: option.splits if_splits prod.splits)

lemma perform_fs:
  assumes "perform w r se c = Some (out, se')"
  shows "se_fs se' = se_fs se \<or> fs_step (o_env w) (se_fs se) (se_fs se')"
    and "initialized se' = initialized se" and "destroyed se' = destroyed se"
  using assms by (cases c; auto intro: fs_step.request split: option.splits prod.splits)+

lemma dispatch_fs_step:
  assumes "dispatch ai w r se = Some (out, se')"
  shows "se_fs se' = se_fs se \<or> fs_step (o_env w) (se_fs se) (se_fs se')"
  using assms
proof (cases rule: dispatch_cases)
  case (init arg)
  have "fs_step (o_env w) (se_fs se) (snd (fs_init (o_env w) (se_fs se)))"
    by (rule fs_step_snd [where q = Init and ruid = 0 and rgid = 0]) simp
  with init show ?thesis by simp
next
  case destroy
  have "fs_step (o_env w) (se_fs se) (snd (fs_destroy (o_env w) (se_fs se)))"
    by (rule fs_step_snd [where q = Destroy and ruid = 0 and rgid = 0]) simp
  with destroy show ?thesis by simp
qed (auto dest: perform_fs(1))

lemma session_run_reachable: "session_run ai e se0 se \<Longrightarrow> reachable e (se_fs se0) (se_fs se)"
proof (induction rule: session_run.induct)
  case (message se w r out se')
  from dispatch_fs_step [OF message.hyps(3)] message.IH show ?case
    unfolding message.hyps(2) by (metis reachable.step)
qed (rule reachable.start)

lemma dispatch_uninitialized:
  assumes "dispatch ai w r se = Some (out, se')" and "\<not> initialized se'"
  shows "se' = se"
  using assms by (cases rule: dispatch_cases) (auto dest: perform_fs(2))

lemma initialized_stays:
  "dispatch ai w r se = Some (out, se') \<Longrightarrow> initialized se \<Longrightarrow> initialized se'"
  by (erule dispatch_cases) (auto dest: perform_fs(2))

lemma session_run_uninitialized:
  "session_run ai e se0 se \<Longrightarrow> \<not> initialized se \<Longrightarrow> se = se0"
  by (induction rule: session_run.induct)
    (auto dest: dispatch_uninitialized initialized_stays)

end
