(* ===== verification/Reply_Objects.thy ===== *)
theory Reply_Objects
  imports Sessions
begin

text \<open>
  The reply object a handler is given (\<open>ReplyRaw\<close> and its wrappers in
  \<open>fuse/patches/reply.rs\<close>): it owns the sender until one method consumes it, and answers
  with an I/O error when it is dropped unused, as it is when a handler panics.  With the
  replies for locks and block maps, which only default methods send.
\<close>

section \<open>The object\<close>

text \<open>\<open>rr_sender\<close> tells whether the sender is still there.\<close>

record reply_raw =
  rr_unique :: u64
  rr_sender :: bool

definition reply_new :: "u64 \<Rightarrow> reply_raw" where
  "reply_new unique = \<lparr>rr_unique = unique, rr_sender = True\<rparr>"

text \<open>\<open>None\<close> is the assertion that the sender is there.\<close>

definition raw_send :: "u32 \<Rightarrow> bytes list \<Rightarrow> reply_raw \<Rightarrow> (bytes list \<times> reply_raw) option" where
  "raw_send err slices r =
     (if rr_sender r then Some (send (rr_unique r) err slices, r\<lparr>rr_sender := False\<rparr>) else None)"

text \<open>\<open>as_bytes\<close>: a structure of size 0 has no slice.\<close>

definition as_bytes :: "bytes \<Rightarrow> bytes list" where
  "as_bytes data = (if length data = 0 then [] else [data])"

definition raw_ok :: "bytes \<Rightarrow> reply_raw \<Rightarrow> (bytes list \<times> reply_raw) option" where
  "raw_ok data r = raw_send 0 (as_bytes data) r"

definition raw_error :: "errno \<Rightarrow> reply_raw \<Rightarrow> (bytes list \<times> reply_raw) option" where
  "raw_error x r = raw_send (errno_number x) [] r"

definition raw_drop :: "reply_raw \<Rightarrow> bytes list list" where
  "raw_drop r =
     (if rr_sender r then (case raw_error EIO r of None \<Rightarrow> [] | Some (m, r') \<Rightarrow> [m]) else [])"

text \<open>
  A method consumes the object, so that a caller uses it once or not at all, and it is dropped
  in both cases.  The result lists the messages sent.
\<close>

definition object_life ::
  "u64 \<Rightarrow> (reply_raw \<Rightarrow> (bytes list \<times> reply_raw) option) option \<Rightarrow> bytes list list option" where
  "object_life unique use =
     (let r = reply_new unique in
      case use of
        None \<Rightarrow> Some (raw_drop r)
      | Some meth \<Rightarrow>
          (case meth r of None \<Rightarrow> None | Some (m, r') \<Rightarrow> Some (m # raw_drop r')))"

lemmas raw_defs =
  reply_new_def raw_send_def raw_ok_def raw_error_def raw_drop_def object_life_def

lemma object_life_send: "object_life u (Some (raw_send err slices)) = Some [send u err slices]"
  by (simp add: raw_defs)

lemma object_life_dropped: "object_life u None = Some [send_error u EIO]"
  by (simp add: raw_defs send_error_def)

section \<open>Locks and block maps\<close>

record fuse_lk_out =
  lo_lk :: fuse_file_lock

definition file_lock_bytes :: "fuse_file_lock \<Rightarrow> bytes" where
  "file_lock_bytes x = le 8 (lk_start x) @ le 8 (lk_end x) @ le 4 (lk_typ x) @ le 4 (lk_pid x)"

definition lk_out_bytes :: "fuse_lk_out \<Rightarrow> bytes" where
  "lk_out_bytes x = file_lock_bytes (lo_lk x)"

record fuse_bmap_out =
  bo_block :: u64

definition bmap_out_bytes :: "fuse_bmap_out \<Rightarrow> bytes" where
  "bmap_out_bytes x = le 8 (bo_block x)"

definition locked_reply :: "u64 \<Rightarrow> u64 \<Rightarrow> u64 \<Rightarrow> u32 \<Rightarrow> u32 \<Rightarrow> bytes list" where
  "locked_reply unique lo hi typ pid =
     send unique 0 [lk_out_bytes \<lparr>lo_lk =
       \<lparr>lk_start = lo, lk_end = hi, lk_typ = typ, lk_pid = pid\<rparr>\<rparr>]"

definition bmap_reply :: "u64 \<Rightarrow> u64 \<Rightarrow> bytes list" where
  "bmap_reply unique block = send unique 0 [bmap_out_bytes \<lparr>bo_block = block\<rparr>]"

section \<open>Dispatching with panics\<close>

text \<open>
  What reaches the kernel when \<open>dispatch\<close> panics.  The reply object of INIT is made before
  its argument is fetched; every other one when the arguments are complete, right before the
  call of the method, and \<open>forget\<close> gets none.  Unwinding drops the object.
\<close>

definition unwound :: "'it arguments \<Rightarrow> outside \<Rightarrow> req \<Rightarrow> bytes list list" where
  "unwound ai w r =
     (let dropped = raw_drop (reply_new (ih_unique (header r))) in
      case from_u32 (ih_opcode (header r)) of
        None \<Rightarrow> []
      | Some opcode \<Rightarrow>
          if opcode = FUSE_INIT then dropped
          else
            (case decode ai w opcode r of
               Some (To_fs (Forget i n)) \<Rightarrow> []
             | Some c \<Rightarrow> dropped
             | None \<Rightarrow> []))"

definition messages :: "'it arguments \<Rightarrow> outside \<Rightarrow> req \<Rightarrow> session \<Rightarrow> bytes list list" where
  "messages ai w r se =
     (case dispatch ai w r se of Some (out, se') \<Rightarrow> out | None \<Rightarrow> unwound ai w r)"

lemma unwound_cases:
  "unwound ai w r = [] \<or> unwound ai w r = [send_error (ih_unique (header r)) EIO]"
  by (auto simp: unwound_def raw_defs send_error_def Let_def
      split: option.splits call.splits request.splits)

lemma unwound_decoded:
  assumes "from_u32 (ih_opcode (header r)) = Some opcode" and "opcode \<noteq> FUSE_FORGET"
    and "opcode = FUSE_INIT \<or> decode ai w opcode r \<noteq> None"
  shows "unwound ai w r = [send_error (ih_unique (header r)) EIO]"
  using assms decode_forget [of ai w opcode r]
  by (auto simp: unwound_def raw_defs send_error_def Let_def
      split: option.splits call.splits request.splits)

end
