(* ===== verification/Listing.thy ===== *)
theory Listing
  imports Wire_Format Past
begin

text \<open>
  Reading a directory to its end: a client that asks for one buffer after another, from the
  offset the last entry gave it, gets every entry of the snapshot that opendir took once.
\<close>

section \<open>One buffer\<close>

text \<open>What the client is told of an entry: the offset is that of the next one.\<close>

fun listed :: "nat \<times> dentry \<Rightarrow> u64 \<times> u64 \<times> file_type \<times> string" where
  "listed (i, entry) = (ucast (child_ino entry), of_nat (i + 1), file_type entry, filename entry)"

definition total :: "(nat \<times> dentry) list \<Rightarrow> nat" where
  "total xs = sum_list (map (\<lambda>x. entsize (filename (snd x))) xs)"

lemma total_simps [simp]: "total [] = 0" "total (x # xs) = entsize (filename (snd x)) + total xs"
  by (simp_all add: total_def)

text \<open>The buffer holds a longest prefix of the entries that fits.\<close>

lemma add_entries_prefix:
  "used \<le> cap \<Longrightarrow> \<exists>k \<le> length xs. add_entries cap used xs = map listed (take k xs)
     \<and> used + total (take k xs) \<le> cap \<and> (k < length xs \<longrightarrow> cap < used + total (take (Suc k) xs))"
proof (induction cap used xs rule: add_entries.induct)
  case (2 cap used i entry rest)
  show ?case
  proof (cases "cap < used + entsize (filename entry)")
    case True
    then show ?thesis using 2(2) by (intro exI [of _ 0]) simp
  next
    case False
    with 2 obtain k where "k \<le> length rest"
      "add_entries cap (used + entsize (filename entry)) rest = map listed (take k rest)"
      "used + entsize (filename entry) + total (take k rest) \<le> cap"
      "k < length rest \<longrightarrow> cap < used + entsize (filename entry) + total (take (Suc k) rest)"
      by auto
    with False show ?thesis by (intro exI [of _ "Suc k"]) (simp add: add.assoc)
  qed
qed simp

lemma length_dirents:
  "length (concat (map dirent_entry (map listed xs))) = total xs"
  by (induction xs) (auto simp: length_dirent_entry)

section \<open>All buffers\<close>

definition stored_listing :: "u64 \<Rightarrow> u64 \<Rightarrow> fs \<Rightarrow> dentry list option" where
  "stored_listing i fh f = (case open_dirs f (ucast i) of Some h \<Rightarrow> od_list h fh | None \<Rightarrow> None)"

lemma fs_readdir_stored:
  "fs_readdir cap i fh off f =
     (case stored_listing i fh f of
        None \<Rightarrow> (Reply_error ENOENT, f)
      | Some ds \<Rightarrow> (Reply_directory (add_entries cap 0 (drop (unat off) (enumerate 0 ds))), f))"
  by (simp add: fs_readdir_def stored_listing_def)

text \<open>\<open>n\<close> bounds the number of requests; the client stops at the first empty buffer.\<close>

fun read_all :: "nat \<Rightarrow> nat \<Rightarrow> u64 \<Rightarrow> u64 \<Rightarrow> u64 \<Rightarrow> fs \<Rightarrow> (u64 \<times> u64 \<times> file_type \<times> string) list" where
  "read_all 0 cap i fh off f = []"
| "read_all (Suc n) cap i fh off f =
     (case fs_readdir cap i fh off f of
        (Reply_directory es, f') \<Rightarrow>
          if es = [] then [] else es @ read_all n cap i fh (fst (snd (last es))) f'
      | (r, f') \<Rightarrow> [])"

lemma last_listed:
  assumes "k \<noteq> 0" and "m + k \<le> length ds"
  shows "fst (snd (last (map listed (take k (drop m (enumerate 0 ds)))))) = of_nat (m + k)"
proof -
  let ?xs = "take k (drop m (enumerate 0 ds))"
  have l: "length ?xs = k" using assms(2) by simp
  with assms have "last ?xs = (m + k - 1, ds ! (m + k - 1))"
    by (subst last_conv_nth) (auto simp: nth_enumerate_eq)
  moreover have "?xs \<noteq> []" using l assms(1) by auto
  ultimately show ?thesis using assms(1) by (simp add: last_map)
qed

lemma read_all_from:
  assumes "stored_listing i fh f = Some ds" and "length ds < 2 ^ 64"
    and "\<forall>d \<in> set ds. entsize (filename d) \<le> cap"
  shows "m \<le> length ds \<Longrightarrow> length ds - m < n \<Longrightarrow>
    read_all n cap i fh (of_nat m) f = map listed (drop m (enumerate 0 ds))"
proof (induction n arbitrary: m)
  case (Suc n)
  let ?xs = "drop m (enumerate 0 ds)"
  have m: "unat (of_nat m :: u64) = m"
    using Suc.prems(1) assms(2) by (simp add: unat_of_nat take_bit_nat_eq_self)
  obtain k where k: "k \<le> length ?xs" "add_entries cap 0 ?xs = map listed (take k ?xs)"
      "k < length ?xs \<longrightarrow> cap < total (take (Suc k) ?xs)"
    using add_entries_prefix [of 0 cap ?xs] by auto
  show ?case
  proof (cases "?xs = []")
    case True
    then show ?thesis using k by (simp add: fs_readdir_stored assms(1) m)
  next
    case False
    have "k \<noteq> 0"
    proof
      assume "k = 0"
      obtain x rest where x: "?xs = x # rest" using False by (cases ?xs) auto
      then have "x \<in> set (enumerate 0 ds)" by (metis in_set_dropD list.set_intros(1))
      then have "fst x < length ds" "ds ! fst x = snd x" by (auto simp: in_set_enumerate_eq)
      then have "snd x \<in> set ds" by (metis nth_mem)
      with assms(3) k(3) \<open>k = 0\<close> x show False by auto
    qed
    have mk: "m + k \<le> length ds" using k(1) Suc.prems(1) by simp
    have "read_all n cap i fh (of_nat (m + k)) f = map listed (drop (m + k) (enumerate 0 ds))"
      using mk Suc.prems \<open>k \<noteq> 0\<close> by (intro Suc.IH) auto
    moreover have "map listed (take k ?xs) \<noteq> []" using \<open>k \<noteq> 0\<close> False by simp
    ultimately have "read_all (Suc n) cap i fh (of_nat m) f =
        map listed (take k ?xs) @ map listed (drop (m + k) (enumerate 0 ds))"
      using k(2) last_listed [OF \<open>k \<noteq> 0\<close> mk]
      by (simp add: fs_readdir_stored assms(1) m del: of_nat_add)
    also have "\<dots> = map listed (take k ?xs @ drop k ?xs)"
      by (simp only: map_append drop_drop add.commute)
    finally show ?thesis by (simp only: append_take_drop_id)
  qed
qed simp

end
