(* ===== verification/Macos.thy ===== *)
theory Macos
  imports Reply_Objects Listing
begin

unbundle bit_operations_syntax

text \<open>
  What is different when the program is compiled for macOS: more constants, three more
  opcodes, the longer attributes and their replies (\<open>fuse/patches/kernel.rs\<close>, \<open>reply.rs\<close>), the
  further arguments of setattr, the dispatch with them (\<open>request.rs\<close>), and a readdir that
  asks the database anew for every buffer (\<open>src/filesystem.rs\<close>, on NetBSD as well).
\<close>

section \<open>Constants\<close>

definition FATTR_CRTIME :: u32 where "FATTR_CRTIME = push_bit 28 1"
definition FATTR_CHGTIME :: u32 where "FATTR_CHGTIME = push_bit 29 1"
definition FATTR_BKUPTIME :: u32 where "FATTR_BKUPTIME = push_bit 30 1"
definition FATTR_FLAGS :: u32 where "FATTR_FLAGS = push_bit 31 1"

definition FUSE_CASE_INSENSITIVE :: u32 where "FUSE_CASE_INSENSITIVE = push_bit 29 1"
definition FUSE_VOL_RENAME :: u32 where "FUSE_VOL_RENAME = push_bit 30 1"
definition FUSE_XTIMES :: u32 where "FUSE_XTIMES = push_bit 31 1"

definition INIT_FLAGS_macos :: u32 where
  "INIT_FLAGS_macos =
     FUSE_ASYNC_READ OR FUSE_CASE_INSENSITIVE OR FUSE_VOL_RENAME OR FUSE_XTIMES"

section \<open>Opcodes and structures\<close>

datatype macos_opcode =
  On_all fuse_opcode | FUSE_SETVOLNAME | FUSE_GETXTIMES | FUSE_EXCHANGE

definition from_u32_macos :: "u32 \<Rightarrow> macos_opcode option" where
  "from_u32_macos n =
     (if n = 61 then Some FUSE_SETVOLNAME else if n = 62 then Some FUSE_GETXTIMES
      else if n = 63 then Some FUSE_EXCHANGE else map_option On_all (from_u32 n))"

record fuse_attr_macos =
  am_ino :: u64
  am_size :: u64
  am_blocks :: u64
  am_atime :: u64
  am_mtime :: u64
  am_ctime :: u64
  am_crtime :: u64
  am_atimensec :: u32
  am_mtimensec :: u32
  am_ctimensec :: u32
  am_crtimensec :: u32
  am_mode :: u32
  am_nlink :: u32
  am_uid :: u32
  am_gid :: u32
  am_rdev :: u32
  am_flags :: u32

definition attr_macos_bytes :: "fuse_attr_macos \<Rightarrow> bytes" where
  "attr_macos_bytes a = le 8 (am_ino a) @ le 8 (am_size a) @ le 8 (am_blocks a) @ le 8 (am_atime a)
     @ le 8 (am_mtime a) @ le 8 (am_ctime a) @ le 8 (am_crtime a) @ le 4 (am_atimensec a)
     @ le 4 (am_mtimensec a) @ le 4 (am_ctimensec a) @ le 4 (am_crtimensec a) @ le 4 (am_mode a)
     @ le 4 (am_nlink a) @ le 4 (am_uid a) @ le 4 (am_gid a) @ le 4 (am_rdev a) @ le 4 (am_flags a)"

definition fuse_attr_from_attr_macos :: "file_attr \<Rightarrow> fuse_attr_macos" where
  "fuse_attr_from_attr_macos a =
     \<lparr>am_ino = fa_ino a, am_size = fa_size a, am_blocks = fa_blocks a,
      am_atime = ts_sec (fa_atime a), am_mtime = ts_sec (fa_mtime a),
      am_ctime = ts_sec (fa_ctime a), am_crtime = ts_sec (fa_crtime a),
      am_atimensec = ts_nsec (fa_atime a), am_mtimensec = ts_nsec (fa_mtime a),
      am_ctimensec = ts_nsec (fa_ctime a), am_crtimensec = ts_nsec (fa_crtime a),
      am_mode = mode_from_kind_and_perm (fa_kind a) (fa_perm a), am_nlink = fa_nlink a,
      am_uid = fa_uid a, am_gid = fa_gid a, am_rdev = fa_rdev a, am_flags = fa_flags a\<rparr>"

record fuse_setattr_in_macos = fuse_setattr_in +
  sm_bkuptime :: u64
  sm_chgtime :: u64
  sm_crtime :: u64
  sm_bkuptimensec :: u32
  sm_chgtimensec :: u32
  sm_crtimensec :: u32
  sm_flags :: u32

record fuse_exchange_in =
  ex_olddir :: u64
  ex_newdir :: u64
  ex_options :: u64

record fuse_getxtimes_out =
  xt_bkuptime :: u64
  xt_crtime :: u64
  xt_bkuptimensec :: u32
  xt_crtimensec :: u32

definition getxtimes_out_bytes :: "fuse_getxtimes_out \<Rightarrow> bytes" where
  "getxtimes_out_bytes x = le 8 (xt_bkuptime x) @ le 8 (xt_crtime x) @ le 4 (xt_bkuptimensec x)
     @ le 4 (xt_crtimensec x)"

section \<open>Replies\<close>

text \<open>The structures around the attributes are those of Linux.\<close>

definition entry_out_macos :: "timespec \<Rightarrow> file_attr \<Rightarrow> u64 \<Rightarrow> bytes" where
  "entry_out_macos ttl attr generation =
     le 8 (fa_ino attr) @ le 8 generation @ le 8 (ts_sec ttl) @ le 8 (ts_sec ttl)
       @ le 4 (ts_nsec ttl) @ le 4 (ts_nsec ttl)
       @ attr_macos_bytes (fuse_attr_from_attr_macos attr)"

definition entry_reply_macos :: "u64 \<Rightarrow> timespec \<Rightarrow> file_attr \<Rightarrow> u64 \<Rightarrow> bytes list" where
  "entry_reply_macos unique ttl attr generation = send unique 0 [entry_out_macos ttl attr generation]"

definition attr_reply_macos :: "u64 \<Rightarrow> timespec \<Rightarrow> file_attr \<Rightarrow> bytes list" where
  "attr_reply_macos unique ttl attr =
     send unique 0 [le 8 (ts_sec ttl) @ le 4 (ts_nsec ttl) @ le 4 (0 :: u32)
       @ attr_macos_bytes (fuse_attr_from_attr_macos attr)]"

definition created_reply_macos ::
  "u64 \<Rightarrow> timespec \<Rightarrow> file_attr \<Rightarrow> u64 \<Rightarrow> u64 \<Rightarrow> u32 \<Rightarrow> bytes list" where
  "created_reply_macos unique ttl attr generation fh fl =
     send unique 0 [entry_out_macos ttl attr generation @ open_out_bytes (open_out fh fl)]"

definition xtimes_reply :: "u64 \<Rightarrow> timespec \<Rightarrow> timespec \<Rightarrow> bytes list" where
  "xtimes_reply unique bkuptime crtime =
     send unique 0 [getxtimes_out_bytes \<lparr>xt_bkuptime = ts_sec bkuptime, xt_crtime = ts_sec crtime,
       xt_bkuptimensec = ts_nsec bkuptime, xt_crtimensec = ts_nsec crtime\<rparr>]"

section \<open>Arguments\<close>

definition setattr_call_macos :: "u64 \<Rightarrow> fuse_setattr_in_macos \<Rightarrow> request" where
  "setattr_call_macos nodeid arg =
     (let given = (\<lambda>fattr. sa_valid arg AND fattr \<noteq> 0) in
      Setattr nodeid
        (if given FATTR_MODE then Some (sa_mode arg) else None)
        (if given FATTR_UID then Some (sa_uid arg) else None)
        (if given FATTR_GID then Some (sa_gid arg) else None)
        (if given FATTR_SIZE then Some (sa_size arg) else None)
        (if given FATTR_ATIME
         then Some \<lparr>ts_sec = sa_atime arg, ts_nsec = sa_atimensec arg\<rparr> else None)
        (if given FATTR_MTIME
         then Some \<lparr>ts_sec = sa_mtime arg, ts_nsec = sa_mtimensec arg\<rparr> else None)
        (if given FATTR_CRTIME
         then Some \<lparr>ts_sec = sm_crtime arg, ts_nsec = sm_crtimensec arg\<rparr> else None)
        (if given FATTR_FLAGS then Some (sm_flags arg) else None))"

text \<open>Without the bits of macOS the call is that of Linux.\<close>

lemma setattr_call_macos_portable:
  assumes "sa_valid arg AND (FATTR_CRTIME OR FATTR_FLAGS) = 0"
  shows "setattr_call_macos nodeid arg = setattr_call nodeid (fuse_setattr_in.truncate arg)"
proof -
  have "sa_valid arg AND FATTR_CRTIME = 0" "sa_valid arg AND FATTR_FLAGS = 0"
    using assms by (simp_all add: bit.conj_disj_distrib or_eq_0_iff)
  then show ?thesis
    by (simp add: setattr_call_macos_def setattr_call_def when_valid_def Let_def
        fuse_setattr_in.truncate_def)
qed

text \<open>The arms of the match that exist on macOS only, and the calls they make.\<close>

datatype macos_call =
    Call call
  | Setvolname string
  | Exchange u64 string u64 string u64
  | Getxtimes u64

record 'it macos_arguments =
  arg_setattr_macos :: "'it \<Rightarrow> (fuse_setattr_in_macos \<times> 'it) option"
  arg_exchange :: "'it \<Rightarrow> (fuse_exchange_in \<times> 'it) option"

definition decode_macos ::
  "'it arguments \<Rightarrow> 'it macos_arguments \<Rightarrow> outside \<Rightarrow> macos_opcode \<Rightarrow> req \<Rightarrow> macos_call option" where
  "decode_macos ai am w opcode r =
     (let it = arg_new ai (payload r); node = ih_nodeid (header r); name = arg_str ai in
      case opcode of
        FUSE_SETVOLNAME \<Rightarrow> with_arg (name it) (\<lambda>n _. Some (Setvolname n))
      | FUSE_EXCHANGE \<Rightarrow>
          with_arg (arg_exchange am it) (\<lambda>arg it. with_arg (name it) (\<lambda>oldname it.
            with_arg (name it) (\<lambda>newname _.
              Some (Exchange (ex_olddir arg) oldname (ex_newdir arg) newname (ex_options arg)))))
      | FUSE_GETXTIMES \<Rightarrow> Some (Getxtimes node)
      | On_all op \<Rightarrow>
          if op = FUSE_SETATTR
          then with_arg (arg_setattr_macos am it) (\<lambda>arg _.
                 Some (Call (To_fs (setattr_call_macos node arg))))
          else map_option Call (decode ai w op r))"

section \<open>Directory listings without a snapshot\<close>

definition fs_readdir_live :: "nat \<Rightarrow> u64 \<Rightarrow> u64 \<Rightarrow> fs \<Rightarrow> reply \<times> fs" where
  "fs_readdir_live cap i offset f =
     (case get_dentry (ucast i) (fs_db f) of
        Inl err \<Rightarrow> (Reply_error ENOENT, f)
      | Inr db_entries \<Rightarrow>
          (Reply_directory (add_entries cap 0 (drop (unat offset) (enumerate 0 db_entries))), f))"

lemma fs_readdir_live_entries:
  "fs_readdir_live cap i off f =
     (Reply_directory (add_entries cap 0 (drop (unat off)
        (enumerate 0 (dentries_of (ucast i) (t_dentry (conn (fs_db f))))))), f)"
  by (simp add: fs_readdir_live_def get_dentry_def)

end
