(* ===== verification/Reply_Tests.thy ===== *)
theory Reply_Tests
  imports Macos
begin

text \<open>
  The unit tests of \<open>fuse/patches/reply.rs\<close>: what each test sends, by the model, and the bytes
  it expects, on Linux and on macOS.
\<close>

type_synonym reply_test = "bytes list \<times> bytes list"

definition test_time :: timespec where
  "test_time = \<lparr>ts_sec = 0x1234, ts_nsec = 0x5678\<rparr>"

definition test_attr :: file_attr where
  "test_attr = \<lparr>fa_ino = 0x11, fa_size = 0x22, fa_blocks = 0x33, fa_atime = test_time,
     fa_mtime = test_time, fa_ctime = test_time, fa_crtime = test_time, fa_kind = RegularFile,
     fa_perm = 0x1A4, fa_nlink = 0x55, fa_uid = 0x66, fa_gid = 0x77, fa_rdev = 0x88, fa_flags = 0x99\<rparr>"

definition test_statvfs :: statvfs where
  "test_statvfs = \<lparr>sv_blocks = 0x11, sv_blocks_free = 0x22, sv_blocks_available = 0x33,
     sv_files = 0x44, sv_files_free = 0x55, sv_block_size = 0x66, sv_name_max = 0x77,
     sv_fragment_size = 0x88\<rparr>"

definition test_dentry :: "u32 \<Rightarrow> file_type \<Rightarrow> string \<Rightarrow> dentry" where
  "test_dentry ino kind name =
     \<lparr>parent_ino = 1, child_ino = ino, filename = name, file_type = kind\<rparr>"

section \<open>Linux\<close>

definition test_reply_raw :: reply_test where
  "test_reply_raw =
    (fst (the (raw_ok [0x12, 0x34, 0x78, 0x56] (reply_new 0xdeadbeef))),
     [[0x14, 0, 0, 0, 0, 0, 0, 0, 0xef, 0xbe, 0xad, 0xde, 0, 0, 0, 0],
      [0x12, 0x34, 0x78, 0x56]])"

definition test_reply_error :: reply_test where
  "test_reply_error =
    (fst (the (raw_send 66 [] (reply_new 0xdeadbeef))),
     [[0x10, 0, 0, 0, 0xbe, 0xff, 0xff, 0xff, 0xef, 0xbe, 0xad, 0xde, 0, 0, 0, 0]])"

definition test_reply_empty :: reply_test where
  "test_reply_empty =
    (empty_ok 0xdeadbeef,
     [[0x10, 0, 0, 0, 0, 0, 0, 0, 0xef, 0xbe, 0xad, 0xde, 0, 0, 0, 0]])"

definition test_reply_data :: reply_test where
  "test_reply_data =
    (data_reply 0xdeadbeef [0xde, 0xad, 0xbe, 0xef],
     [[0x14, 0, 0, 0, 0, 0, 0, 0, 0xef, 0xbe, 0xad, 0xde, 0, 0, 0, 0],
      [0xde, 0xad, 0xbe, 0xef]])"

definition test_reply_entry :: reply_test where
  "test_reply_entry =
    (entry_reply 0xdeadbeef test_time test_attr 0xaa,
     [[0x88, 0, 0, 0, 0, 0, 0, 0, 0xef, 0xbe, 0xad, 0xde, 0, 0, 0, 0],
      [0x11, 0, 0, 0, 0, 0, 0, 0, 0xaa, 0, 0, 0, 0, 0, 0, 0, 0x34, 0x12, 0, 0, 0, 0,
       0, 0, 0x34, 0x12, 0, 0, 0, 0, 0, 0, 0x78, 0x56, 0, 0, 0x78, 0x56, 0, 0, 0x11,
       0, 0, 0, 0, 0, 0, 0, 0x22, 0, 0, 0, 0, 0, 0, 0, 0x33, 0, 0, 0, 0, 0, 0, 0,
       0x34, 0x12, 0, 0, 0, 0, 0, 0, 0x34, 0x12, 0, 0, 0, 0, 0, 0, 0x34, 0x12, 0, 0,
       0, 0, 0, 0, 0x78, 0x56, 0, 0, 0x78, 0x56, 0, 0, 0x78, 0x56, 0, 0, 0xa4, 0x81,
       0, 0, 0x55, 0, 0, 0, 0x66, 0, 0, 0, 0x77, 0, 0, 0, 0x88, 0, 0, 0]])"

definition test_reply_attr :: reply_test where
  "test_reply_attr =
    (attr_reply 0xdeadbeef test_time test_attr,
     [[0x70, 0, 0, 0, 0, 0, 0, 0, 0xef, 0xbe, 0xad, 0xde, 0, 0, 0, 0],
      [0x34, 0x12, 0, 0, 0, 0, 0, 0, 0x78, 0x56, 0, 0, 0, 0, 0, 0, 0x11, 0, 0, 0, 0,
       0, 0, 0, 0x22, 0, 0, 0, 0, 0, 0, 0, 0x33, 0, 0, 0, 0, 0, 0, 0, 0x34, 0x12, 0,
       0, 0, 0, 0, 0, 0x34, 0x12, 0, 0, 0, 0, 0, 0, 0x34, 0x12, 0, 0, 0, 0, 0, 0,
       0x78, 0x56, 0, 0, 0x78, 0x56, 0, 0, 0x78, 0x56, 0, 0, 0xa4, 0x81, 0, 0, 0x55,
       0, 0, 0, 0x66, 0, 0, 0, 0x77, 0, 0, 0, 0x88, 0, 0, 0]])"

definition test_reply_open :: reply_test where
  "test_reply_open =
    (opened_reply 0xdeadbeef 0x1122 0x33,
     [[0x20, 0, 0, 0, 0, 0, 0, 0, 0xef, 0xbe, 0xad, 0xde, 0, 0, 0, 0],
      [0x22, 0x11, 0, 0, 0, 0, 0, 0, 0x33, 0, 0, 0, 0, 0, 0, 0]])"

definition test_reply_write :: reply_test where
  "test_reply_write =
    (written_reply 0xdeadbeef 0x1122,
     [[0x18, 0, 0, 0, 0, 0, 0, 0, 0xef, 0xbe, 0xad, 0xde, 0, 0, 0, 0],
      [0x22, 0x11, 0, 0, 0, 0, 0, 0]])"

definition test_reply_statfs :: reply_test where
  "test_reply_statfs =
    (statfs_reply 0xdeadbeef test_statvfs,
     [[0x60, 0, 0, 0, 0, 0, 0, 0, 0xef, 0xbe, 0xad, 0xde, 0, 0, 0, 0],
      [0x11, 0, 0, 0, 0, 0, 0, 0, 0x22, 0, 0, 0, 0, 0, 0, 0, 0x33, 0, 0, 0, 0, 0, 0,
       0, 0x44, 0, 0, 0, 0, 0, 0, 0, 0x55, 0, 0, 0, 0, 0, 0, 0, 0x66, 0, 0, 0, 0x77,
       0, 0, 0, 0x88, 0, 0, 0, 0, 0, 0, 0, 0, 0, 0, 0, 0, 0, 0, 0, 0, 0, 0, 0, 0, 0,
       0, 0, 0, 0, 0, 0, 0, 0, 0, 0]])"

definition test_reply_create :: reply_test where
  "test_reply_create =
    (created_reply 0xdeadbeef test_time test_attr 0xaa 0xbb 0xcc,
     [[0x98, 0, 0, 0, 0, 0, 0, 0, 0xef, 0xbe, 0xad, 0xde, 0, 0, 0, 0],
      [0x11, 0, 0, 0, 0, 0, 0, 0, 0xaa, 0, 0, 0, 0, 0, 0, 0, 0x34, 0x12, 0, 0, 0, 0,
       0, 0, 0x34, 0x12, 0, 0, 0, 0, 0, 0, 0x78, 0x56, 0, 0, 0x78, 0x56, 0, 0, 0x11,
       0, 0, 0, 0, 0, 0, 0, 0x22, 0, 0, 0, 0, 0, 0, 0, 0x33, 0, 0, 0, 0, 0, 0, 0,
       0x34, 0x12, 0, 0, 0, 0, 0, 0, 0x34, 0x12, 0, 0, 0, 0, 0, 0, 0x34, 0x12, 0, 0,
       0, 0, 0, 0, 0x78, 0x56, 0, 0, 0x78, 0x56, 0, 0, 0x78, 0x56, 0, 0, 0xa4, 0x81,
       0, 0, 0x55, 0, 0, 0, 0x66, 0, 0, 0, 0x77, 0, 0, 0, 0x88, 0, 0, 0, 0xbb, 0, 0,
       0, 0, 0, 0, 0, 0xcc, 0, 0, 0, 0, 0, 0, 0]])"

definition test_reply_lock :: reply_test where
  "test_reply_lock =
    (locked_reply 0xdeadbeef 0x11 0x22 0x33 0x44,
     [[0x28, 0, 0, 0, 0, 0, 0, 0, 0xef, 0xbe, 0xad, 0xde, 0, 0, 0, 0],
      [0x11, 0, 0, 0, 0, 0, 0, 0, 0x22, 0, 0, 0, 0, 0, 0, 0, 0x33, 0, 0, 0, 0x44, 0,
       0, 0]])"

definition test_reply_bmap :: reply_test where
  "test_reply_bmap =
    (bmap_reply 0xdeadbeef 0x1234,
     [[0x18, 0, 0, 0, 0, 0, 0, 0, 0xef, 0xbe, 0xad, 0xde, 0, 0, 0, 0],
      [0x34, 0x12, 0, 0, 0, 0, 0, 0]])"

definition test_reply_directory :: reply_test where
  "test_reply_directory =
    (directory_reply 0xdeadbeef (add_entries 4096 0
       [(0, test_dentry 0xaabb Directory ''hello''), (1, test_dentry 0xccdd RegularFile ''world.rs'')]),
     [[0x50, 0, 0, 0, 0, 0, 0, 0, 0xef, 0xbe, 0xad, 0xde, 0, 0, 0, 0],
      [0xbb, 0xaa, 0, 0, 0, 0, 0, 0, 0x01, 0, 0, 0, 0, 0, 0, 0, 0x05, 0, 0, 0, 0x04,
       0, 0, 0, 0x68, 0x65, 0x6c, 0x6c, 0x6f, 0, 0, 0, 0xdd, 0xcc, 0, 0, 0, 0, 0, 0,
       0x02, 0, 0, 0, 0, 0, 0, 0, 0x08, 0, 0, 0, 0x08, 0, 0, 0, 0x77, 0x6f, 0x72,
       0x6c, 0x64, 0x2e, 0x72, 0x73]])"

definition test_reply_xattr_size :: reply_test where
  "test_reply_xattr_size =
    (size_reply 0xdeadbeef 0x12345678,
     [[0x18, 0, 0, 0, 0, 0, 0, 0, 0xef, 0xbe, 0xad, 0xde, 0, 0, 0, 0],
      [0x78, 0x56, 0x34, 0x12, 0, 0, 0, 0]])"

definition test_reply_xattr_data :: reply_test where
  "test_reply_xattr_data =
    (data_reply 0xdeadbeef [0x11, 0x22, 0x33, 0x44],
     [[0x14, 0, 0, 0, 0, 0, 0, 0, 0xef, 0xbe, 0xad, 0xde, 0, 0, 0, 0],
      [0x11, 0x22, 0x33, 0x44]])"

section \<open>macOS\<close>

definition test_reply_entry_macos :: reply_test where
  "test_reply_entry_macos =
    (entry_reply_macos 0xdeadbeef test_time test_attr 0xaa,
     [[0x98, 0, 0, 0, 0, 0, 0, 0, 0xef, 0xbe, 0xad, 0xde, 0, 0, 0, 0],
      [0x11, 0, 0, 0, 0, 0, 0, 0, 0xaa, 0, 0, 0, 0, 0, 0, 0, 0x34, 0x12, 0, 0, 0, 0,
       0, 0, 0x34, 0x12, 0, 0, 0, 0, 0, 0, 0x78, 0x56, 0, 0, 0x78, 0x56, 0, 0, 0x11,
       0, 0, 0, 0, 0, 0, 0, 0x22, 0, 0, 0, 0, 0, 0, 0, 0x33, 0, 0, 0, 0, 0, 0, 0,
       0x34, 0x12, 0, 0, 0, 0, 0, 0, 0x34, 0x12, 0, 0, 0, 0, 0, 0, 0x34, 0x12, 0, 0,
       0, 0, 0, 0, 0x34, 0x12, 0, 0, 0, 0, 0, 0, 0x78, 0x56, 0, 0, 0x78, 0x56, 0, 0,
       0x78, 0x56, 0, 0, 0x78, 0x56, 0, 0, 0xa4, 0x81, 0, 0, 0x55, 0, 0, 0, 0x66, 0,
       0, 0, 0x77, 0, 0, 0, 0x88, 0, 0, 0, 0x99, 0, 0, 0]])"

definition test_reply_attr_macos :: reply_test where
  "test_reply_attr_macos =
    (attr_reply_macos 0xdeadbeef test_time test_attr,
     [[0x80, 0, 0, 0, 0, 0, 0, 0, 0xef, 0xbe, 0xad, 0xde, 0, 0, 0, 0],
      [0x34, 0x12, 0, 0, 0, 0, 0, 0, 0x78, 0x56, 0, 0, 0, 0, 0, 0, 0x11, 0, 0, 0, 0,
       0, 0, 0, 0x22, 0, 0, 0, 0, 0, 0, 0, 0x33, 0, 0, 0, 0, 0, 0, 0, 0x34, 0x12, 0,
       0, 0, 0, 0, 0, 0x34, 0x12, 0, 0, 0, 0, 0, 0, 0x34, 0x12, 0, 0, 0, 0, 0, 0,
       0x34, 0x12, 0, 0, 0, 0, 0, 0, 0x78, 0x56, 0, 0, 0x78, 0x56, 0, 0, 0x78, 0x56,
       0, 0, 0x78, 0x56, 0, 0, 0xa4, 0x81, 0, 0, 0x55, 0, 0, 0, 0x66, 0, 0, 0, 0x77,
       0, 0, 0, 0x88, 0, 0, 0, 0x99, 0, 0, 0]])"

definition test_reply_xtimes :: reply_test where
  "test_reply_xtimes =
    (xtimes_reply 0xdeadbeef test_time test_time,
     [[0x28, 0, 0, 0, 0, 0, 0, 0, 0xef, 0xbe, 0xad, 0xde, 0, 0, 0, 0],
      [0x34, 0x12, 0, 0, 0, 0, 0, 0, 0x34, 0x12, 0, 0, 0, 0, 0, 0, 0x78, 0x56, 0, 0,
       0x78, 0x56, 0, 0]])"

definition test_reply_create_macos :: reply_test where
  "test_reply_create_macos =
    (created_reply_macos 0xdeadbeef test_time test_attr 0xaa 0xbb 0xcc,
     [[0xa8, 0, 0, 0, 0, 0, 0, 0, 0xef, 0xbe, 0xad, 0xde, 0, 0, 0, 0],
      [0x11, 0, 0, 0, 0, 0, 0, 0, 0xaa, 0, 0, 0, 0, 0, 0, 0, 0x34, 0x12, 0, 0, 0, 0,
       0, 0, 0x34, 0x12, 0, 0, 0, 0, 0, 0, 0x78, 0x56, 0, 0, 0x78, 0x56, 0, 0, 0x11,
       0, 0, 0, 0, 0, 0, 0, 0x22, 0, 0, 0, 0, 0, 0, 0, 0x33, 0, 0, 0, 0, 0, 0, 0,
       0x34, 0x12, 0, 0, 0, 0, 0, 0, 0x34, 0x12, 0, 0, 0, 0, 0, 0, 0x34, 0x12, 0, 0,
       0, 0, 0, 0, 0x34, 0x12, 0, 0, 0, 0, 0, 0, 0x78, 0x56, 0, 0, 0x78, 0x56, 0, 0,
       0x78, 0x56, 0, 0, 0x78, 0x56, 0, 0, 0xa4, 0x81, 0, 0, 0x55, 0, 0, 0, 0x66, 0,
       0, 0, 0x77, 0, 0, 0, 0x88, 0, 0, 0, 0x99, 0, 0, 0, 0xbb, 0, 0, 0, 0, 0, 0, 0,
       0xcc, 0, 0, 0, 0, 0, 0, 0]])"

section \<open>All of them\<close>

definition reply_tests :: "reply_test list" where
  "reply_tests = [test_reply_raw, test_reply_error, test_reply_empty, test_reply_data,
     test_reply_entry, test_reply_attr, test_reply_open, test_reply_write, test_reply_statfs,
     test_reply_create, test_reply_lock, test_reply_bmap, test_reply_directory,
     test_reply_xattr_size, test_reply_xattr_data]"

definition reply_tests_macos :: "reply_test list" where
  "reply_tests_macos = [test_reply_entry_macos, test_reply_attr_macos, test_reply_xtimes,
     test_reply_create_macos]"

lemmas reply_test_defs =
  test_reply_raw_def test_reply_error_def test_reply_empty_def test_reply_data_def
  test_reply_entry_def test_reply_attr_def test_reply_open_def test_reply_write_def
  test_reply_statfs_def test_reply_create_def test_reply_lock_def test_reply_bmap_def
  test_reply_directory_def test_reply_xattr_size_def test_reply_xattr_data_def
  test_reply_entry_macos_def test_reply_attr_macos_def test_reply_xtimes_def
  test_reply_create_macos_def

end
