(* ===== verification/Session_Properties.thy ===== *)
theory Session_Properties
  imports Reply_Tests Sample_History
begin

unbundle bit_operations_syntax

text \<open>
  The properties of the dispatch of kernel messages and of the bytes of the replies.
\<close>

section \<open>An argument iterator for the witnesses\<close>

text \<open>
  It reads the header fields and one number from fixed places; the structures it does not
  need for the witnesses it cannot fetch.
\<close>

definition sample_args :: "bytes arguments" where
  "sample_args = \<lparr>arg_new = (\<lambda>b. b),
     arg_in_header = (\<lambda>b. Some (\<lparr>ih_len = of_le (take 4 b), ih_opcode = of_le (take 4 (drop 4 b)),
       ih_unique = of_le (take 8 (drop 8 b)), ih_nodeid = of_le (take 8 (drop 16 b)), ih_uid = 0,
       ih_gid = 0, ih_pid = 0, ih_padding = 0\<rparr>, drop 40 b)),
     arg_init = (\<lambda>b. Some (\<lparr>ii_major = 7, ii_minor = 8, ii_max_readahead = 0, ii_flags = 1\<rparr>, [])),
     arg_interrupt = (\<lambda>b. None), arg_forget = (\<lambda>b. None), arg_setattr = (\<lambda>b. None),
     arg_mknod = (\<lambda>b. None), arg_mkdir = (\<lambda>b. None), arg_rename = (\<lambda>b. None),
     arg_link = (\<lambda>b. None), arg_open = (\<lambda>b. None), arg_read = (\<lambda>b. None),
     arg_write = (\<lambda>b. None), arg_flush = (\<lambda>b. None), arg_release = (\<lambda>b. None),
     arg_fsync = (\<lambda>b. None), arg_setxattr = (\<lambda>b. None), arg_getxattr = (\<lambda>b. None),
     arg_access = (\<lambda>b. None), arg_lk = (\<lambda>b. None), arg_bmap = (\<lambda>b. None),
     arg_str = (\<lambda>b. Some (map (\<lambda>x. char_of (unat x)) (takeWhile (\<lambda>x. x \<noteq> 0) b), [])),
     arg_path = (\<lambda>b. None), arg_data = (\<lambda>b. Some (b, []))\<rparr>"

definition sample_outside :: outside where
  "sample_outside = \<lparr>o_env = sample_env, o_max_write = 0x4000, o_statvfs = None,
     o_default = (\<lambda>q. Reply_error ENOSYS)\<rparr>"

definition sample_req :: "u32 \<Rightarrow> bytes \<Rightarrow> req" where
  "sample_req opcode d = \<lparr>header = \<lparr>ih_len = of_nat (40 + length d), ih_opcode = opcode, ih_unique = 9,
     ih_nodeid = 1, ih_uid = 0, ih_gid = 0, ih_pid = 0, ih_padding = 0\<rparr>, payload = d\<rparr>"

definition sample_session :: session where
  "sample_session = \<lparr>se_fs = root_fs, proto_major = 0, proto_minor = 0, initialized = False,
     destroyed = False\<rparr>"

section \<open>Sessions\<close>

text \<open>Whatever messages the kernel sends, in any order, the filesystem only goes through
  states its requests lead to, so that everything that holds of reachable states holds during
  every session.\<close>
lemma sessions_reach_reachable_states:
  assumes "session_run ai e se0 se"
  shows "reachable e (se_fs se0) (se_fs se)"
  using assms by (rule session_run_reachable)

lemma sessions_reach_reachable_states_example:
  "\<exists>out se. dispatch sample_args sample_outside (sample_req 26 []) sample_session = Some (out, se)
     \<and> initialized se \<and> reachable sample_env root_fs (se_fs se)"
proof -
  obtain out se where d: "dispatch sample_args sample_outside (sample_req 26 []) sample_session =
      Some (out, se)" and i: "initialized se"
    by (simp add: dispatch_def sample_req_def from_u32_def dispatch_init_def sample_args_def Let_def)
  have "session_run sample_args sample_env sample_session se"
    by (rule session_run.message [OF session_run.idle _ d]) (simp add: sample_outside_def)
  from sessions_reach_reachable_states [OF this] d i show ?thesis
    by (auto simp: sample_session_def)
qed

text \<open>Until an INIT message is accepted, no sequence of messages changes anything: the
  session and the filesystem stay as they were.\<close>
lemma nothing_happens_before_init:
  assumes "session_run ai e se0 se" and "\<not> initialized se"
  shows "se = se0"
  using assms by (rule session_run_uninitialized)

lemma nothing_happens_before_init_example:
  "\<exists>out se. dispatch sample_args sample_outside (sample_req 38 []) sample_session = Some (out, se)
     \<and> se = sample_session"
proof -
  obtain out se where d: "dispatch sample_args sample_outside (sample_req 38 []) sample_session =
      Some (out, se)" and i: "\<not> initialized se"
    by (simp add: dispatch_def sample_req_def from_u32_def sample_session_def Let_def)
  have "session_run sample_args sample_env sample_session se"
    by (rule session_run.message [OF session_run.idle _ d]) (simp add: sample_outside_def)
  from nothing_happens_before_init [OF this i] d show ?thesis by blast
qed

text \<open>A message with an unknown opcode is answered with ENOSYS; before the session is
  initialized every known operation but INIT, and after it was destroyed every known operation
  but INIT and DESTROY, is answered with EIO.  None of them changes the session.\<close>
lemma messages_refused:
  assumes "from_u32 (ih_opcode (header r)) \<noteq> Some FUSE_INIT"
    and "from_u32 (ih_opcode (header r)) = None \<or> \<not> initialized se
      \<or> destroyed se \<and> from_u32 (ih_opcode (header r)) \<noteq> Some FUSE_DESTROY"
  shows "dispatch ai w r se =
    Some ([send_error (ih_unique (header r))
             (if from_u32 (ih_opcode (header r)) = None then ENOSYS else EIO)], se)"
  using assms by (auto simp: dispatch_def Let_def split: option.splits)



text \<open>A message that is dispatched is answered exactly once, unless it is FORGET, which is
  answered never: one reply goes out, its header has the unique id of the request and the
  length of the reply.\<close>
lemma answered_exactly_once:
  assumes "dispatch ai w r se = Some (out, se')"
    and "from_u32 (ih_opcode (header r)) \<noteq> Some FUSE_FORGET"
    and "\<forall>q. o_default w q \<noteq> Reply_none"
  shows "\<exists>m. out = [m] \<and> msg_unique (concat m) = ih_unique (header r)
    \<and> msg_len (concat m) = of_nat (length (concat m))"
  using assms(1)
proof (cases rule: dispatch_cases)
  case (call opcode c)
  have "\<exists>rep. out = send_reply (ih_unique (header r)) rep \<and> rep \<noteq> Reply_none"
  proof (cases c)
    case (To_fs q)
    then obtain rep f where h: "handle (o_env w) (ih_uid (header r)) (ih_gid (header r)) q (se_fs se) =
        Some (rep, f)" "out = send_reply (ih_unique (header r)) rep"
      using call(7) by (auto split: option.splits prod.splits)
    have "opcode \<noteq> FUSE_FORGET" using call(1) assms(2) by auto
    then have "q \<noteq> Init \<and> q \<noteq> Destroy \<and> (\<forall>i n. q \<noteq> Forget i n)"
      using call(6) To_fs by (auto dest: decode_not_life decode_forget)
    then have "rep \<noteq> Reply_none"
      using handle_reply_fits [OF h(1)] by (cases q) auto
    with h(2) show ?thesis by blast
  next
    case Unsupported
    with call(7) show ?thesis
      by (intro exI [of _ "Reply_error ENOSYS"]) simp
  qed (use call(7) assms(3) in auto)
  then show ?thesis using send_reply_single send_message by metis
qed (auto simp: send_error_def empty_ok_def send_message)

lemma answered_exactly_once_example:
  "\<exists>m se. dispatch sample_args sample_outside (sample_req 3 []) sample_session = Some ([m], se)
    \<and> msg_unique (concat m) = 9 \<and> msg_len (concat m) = of_nat (length (concat m))"
proof -
  obtain out se where d: "dispatch sample_args sample_outside (sample_req 3 []) sample_session =
      Some (out, se)"
    by (simp add: dispatch_def sample_req_def from_u32_def sample_session_def Let_def)
  from answered_exactly_once [OF d] show ?thesis
    using d by (auto simp: sample_req_def from_u32_def sample_outside_def)
qed

section \<open>Replies in spite of panics\<close>



section \<open>The unit tests\<close>


end
