(* ===== verification/Listing_Properties.thy ===== *)
theory Listing_Properties
  imports Macos Sample_History
begin

unbundle bit_operations_syntax

text \<open>
  The properties of directory listings and of modes, as the client sees them.
\<close>

section \<open>Listing a directory\<close>

lemma opendir_snapshot:
  assumes "fs_opendir i f = (Reply_opened fh fl, f')" and "\<not> fs_rewind f"
  shows "stored_listing i fh f' = Some (dentries_of (ucast i) (t_dentry (conn (fs_db f))))"
  using assms
  by (auto simp: fs_opendir_def get_dentry_def stored_listing_def Let_def dir_handler_def)

text \<open>C0: A client that opens a directory and reads it to the end, one buffer of \<open>cap\<close> bytes
  after another, gets every entry exactly once, in the order of the names, with the offset of the
  next entry, and within as many requests as there are entries and one more.  The only condition
  is that each entry fits into a buffer by itself.\<close>
theorem directory_read_to_the_end:
  assumes "fs_opendir i f = (Reply_opened fh fl, f')" and "\<not> fs_rewind f"
    and "ds = dentries_of (ucast i) (t_dentry (conn (fs_db f)))" and "length ds < 2 ^ 64"
    and "\<forall>d \<in> set ds. entsize (filename d) \<le> cap" and "length ds < n"
  shows "read_all n cap i fh 0 f' = map listed (enumerate 0 ds)"
  using read_all_from [of i fh f' ds cap 0 n] opendir_snapshot [OF assms(1,2)] assms(3-6) by simp

theorem directory_read_to_the_end_witness:
  "read_all 3 32 1 0 0 (snd (fs_opendir 1 root_fs)) =
     [(1, 1, Directory, ''.''), (1, 2, Directory, ''..'')]"
proof -
  let ?ds = "[\<lparr>parent_ino = 1, child_ino = 1, filename = ''.'', file_type = Directory\<rparr>,
    \<lparr>parent_ino = 1, child_ino = 1, filename = ''..'', file_type = Directory\<rparr>]"
  have o: "fs_opendir 1 root_fs = (Reply_opened 0 0, snd (fs_opendir 1 root_fs))"
    by (simp add: fs_opendir_def get_dentry_def Let_def dir_handler_def open_dir_handler_new_def
        root_fs_def fs_with_def)
  have d: "?ds = dentries_of (ucast (1 :: u64)) (t_dentry (conn (fs_db root_fs)))"
    by (simp add: dentries_of_def root_db_def root_dots_def sample_entry_def
        file_type_to_const.simps const_to_file_type_def db_if_defs)
  show ?thesis
    using directory_read_to_the_end [OF o _ d, of 32 3] by (simp add: entsize_def)
qed

text \<open>C32: The buffer of a directory reply never exceeds the size the kernel asked for, and the
  kernel reads out of it exactly the entries that were added: inode, offset, type and name.\<close>
theorem directory_buffer_parses:
  assumes "fs_readdir cap i fh off f = (Reply_directory es, f')"
    and "\<forall>x \<in> set es. length (snd (snd (snd x))) < 2 ^ 32"
    and "send_reply u (Reply_directory es) = [m]"
  shows "length (msg_body (concat m)) \<le> cap \<and> parse_dirents (msg_body (concat m)) = es"
proof -
  obtain ds where es: "es = add_entries cap 0 (drop (unat off) (enumerate 0 ds))"
    using assms(1) by (auto simp: fs_readdir_stored split: option.splits)
  then obtain k where k: "es = map listed (take k (drop (unat off) (enumerate 0 ds)))"
      "total (take k (drop (unat off) (enumerate 0 ds))) \<le> cap"
    using add_entries_prefix [of 0 cap "drop (unat off) (enumerate 0 ds)"] by auto
  have m: "msg_body (concat m) = concat (map dirent_entry es)"
    using assms(3) by (auto simp: directory_reply_def send_message)
  have "length (concat (map dirent_entry es)) \<le> cap"
    using k(2) by (simp only: k(1) length_dirents)
  with m parse_dirents_entries [OF assms(2)] show ?thesis by simp
qed

theorem directory_buffer_parses_witness:
  "parse_dirents (msg_body (concat (send 7 0
      [concat (map dirent_entry [(1, 1, Directory, ''.''), (1, 2, Directory, ''..'')])]))) =
    [(1, 1, Directory, ''.''), (1, 2, Directory, ''..'')]"
proof -
  let ?f = "snd (fs_opendir 1 root_fs)"
  let ?es = "[(1, 1, Directory, ''.''), (1, 2, Directory, ''..'')] :: (u64 \<times> u64 \<times> file_type \<times> string) list"
  have "fs_opendir 1 root_fs = (Reply_opened 0 0, ?f)"
    by (simp add: fs_opendir_def get_dentry_def Let_def dir_handler_def open_dir_handler_new_def
        root_fs_def fs_with_def)
  from opendir_snapshot [OF this] have "fs_readdir 100 1 0 0 ?f = (Reply_directory ?es, ?f)"
    by (simp add: fs_readdir_stored dentries_of_def root_db_def root_dots_def sample_entry_def
        file_type_to_const.simps const_to_file_type_def db_if_defs entsize_def)
  from directory_buffer_parses [OF this, of 7] show ?thesis by (simp add: directory_reply_def)
qed

section \<open>Modes\<close>

text \<open>The mode sent with the attributes of an inode tells the kernel its type and its
  permission bits, provided the stored permissions carry no type bits but those of the type
  itself, as the modes of mkdir and create do.\<close>
lemma mode_round_trip:
  assumes "(ucast perm :: u32) AND 0xF000 \<in> {0, file_type_to_const kind}"
  shows "mode_kind (at_mode (fuse_attr_from_attr (a\<lparr>fa_kind := kind, fa_perm := perm\<rparr>))) = kind
    \<and> mode_perm (at_mode (fuse_attr_from_attr (a\<lparr>fa_kind := kind, fa_perm := perm\<rparr>))) = perm AND 0xFFF"
proof -
  let ?p = "ucast perm :: u32"
  define c where "c = file_type_to_const kind"
  have m: "mode_from_kind_and_perm kind perm = c OR ?p"
    by (cases kind) (simp_all add: c_def mode_from_kind_and_perm_def s_if_defs db_if_defs)
  have c: "c AND 0xF000 = c" "c AND 0xFFF = 0"
    by (cases kind; simp add: c_def db_if_defs)+
  have "(c OR ?p) AND 0xF000 = c OR (?p AND 0xF000)"
    by (simp add: bit.conj_disj_distrib2 c(1))
  then have "(c OR ?p) AND 0xF000 = c"
    using assms by (auto simp: c_def)
  moreover have "(c OR ?p) AND 0xFFF = ?p AND 0xFFF"
    by (simp add: bit.conj_disj_distrib2 c(2))
  moreover have "(ucast (?p AND 0xFFF) :: u16) = perm AND 0xFFF"
    by (rule bit_word_eqI) (auto simp: bit_simps)
  ultimately show ?thesis
    by (simp add: fuse_attr_from_attr_def m mode_kind_def mode_perm_def c_def)
qed

lemma mode_round_trip_example:
  "mode_kind (at_mode (fuse_attr_from_attr (get_file_attr (root_attr \<lparr>st_sec = 0, st_nsec = 0\<rparr>)))) = Directory
    \<and> mode_perm (at_mode (fuse_attr_from_attr (get_file_attr (root_attr \<lparr>st_sec = 0, st_nsec = 0\<rparr>)))) = 0x1FF"
proof -
  let ?a = "get_file_attr (root_attr \<lparr>st_sec = 0, st_nsec = 0\<rparr>)"
  have "?a\<lparr>fa_kind := Directory, fa_perm := 0x41FF\<rparr> = ?a"
    by (simp add: get_file_attr_def root_attr_def)
  then show ?thesis
    using mode_round_trip [of "0x41FF" Directory ?a] by (simp add: db_if_defs)
qed

section \<open>Listings without a snapshot\<close>

text \<open>
  On macOS and NetBSD readdir lists the entries the directory has now: right after opendir on
  a live mount that is the same, but a rewound mount lists the present instead of the past.
\<close>

lemma readdir_live_agrees:
  assumes "fs_opendir i f = (Reply_opened fh fl, f')" and "\<not> fs_rewind f"
  shows "fst (fs_readdir_live cap i off f') = fst (fs_readdir cap i fh off f')"
  using opendir_snapshot [OF assms] assms(1)
  by (auto simp: fs_readdir_stored fs_readdir_live_entries fs_opendir_def Let_def
      split: if_splits sum.splits)

lemma readdir_live_lists_present:
  assumes "fs_opendir i f = (Reply_opened fh fl, f')" and "fs_rewind f"
    and "sq_temp (fs_db f) = Some tt"
  shows "fst (fs_readdir cap i fh off f') = Reply_directory
      (add_entries cap 0 (drop (unat off) (enumerate 0 (dentries_of (ucast i) (tt_dentry tt)))))
    \<and> fst (fs_readdir_live cap i off f') = Reply_directory
      (add_entries cap 0 (drop (unat off)
        (enumerate 0 (dentries_of (ucast i) (t_dentry (conn (fs_db f)))))))"
  using assms
  by (auto simp: fs_opendir_def get_dentry_at_time_def fs_readdir_stored stored_listing_def
      fs_readdir_live_entries Let_def dir_handler_def)

end
