(* ===== verification/Command_Line.thy ===== *)
theory Command_Line
  imports Schema
begin

text \<open>
  The function \<open>main\<close> (\<open>src/main.rs\<close>) after the arguments have been parsed: the options for
  the mount, the choice of the kind of mount, and its outcome.  The parser (clap) and
  \<open>fuse::mount\<close> are not part of the program; what the parser found is a record.
\<close>

record matches =
  mount_option :: "string list option"
  mount_point :: "string option"
  db_path :: "string option"
  at_time :: "string option"
  syn_mode :: "string option"
  no_time_recording :: bool
  read_only :: bool
  rollback_mode :: bool
  display_license :: bool

definition option_vals :: "matches \<Rightarrow> string list" where
  "option_vals ms =
     [''-o'', ''fsname=temporal-sqlite-fs'', ''-o'', ''default_permissions'', ''-o'', ''allow_other'',
      ''-o'', ''max_write=16384'', ''-o'', ''max_read=16384'']
     @ (case mount_option ms of
          None \<Rightarrow> []
        | Some v \<Rightarrow> concat (map (\<lambda>i. [''-o'', i]) v))"

definition db_syn_mode :: "matches \<Rightarrow> string" where
  "db_syn_mode ms = (case syn_mode ms of Some s \<Rightarrow> s | None \<Rightarrow> ''FULL'')"

text \<open>
  What \<open>main\<close> comes to: an error it prints, or a call of \<open>fuse::mount\<close> with the filesystem,
  the mount point and the options, and the schema the file then has.
\<close>

datatype outcome = Printed error_kind | Mounted fs string "string list" schema

text \<open>
  \<open>files\<close> are the database files; \<open>None\<close> is the panic of a missing mount point.  The
  synchronous and the journal mode do not change what the tables hold.
\<close>

definition main_run ::
  "env \<Rightarrow> codec \<Rightarrow> (string \<Rightarrow> schema \<times> db) \<Rightarrow> matches \<Rightarrow> outcome option" where
  "main_run e c files ms =
     (case mount_point ms of
        None \<Rightarrow> None
      | Some mountpoint \<Rightarrow> Some
          (case db_path ms of
             Some path \<Rightarrow>
               (case mount_path e c (mount_mode (at_time ms) (read_only ms) (no_time_recording ms))
                       (files path) of
                  Inl err \<Rightarrow> Printed err
                | Inr (S, f) \<Rightarrow> Mounted f mountpoint (option_vals ms) S)
           | None \<Rightarrow>
               (case main_mount e c None (at_time ms) (read_only ms) (no_time_recording ms) of
                  Inl err \<Rightarrow> Printed err
                | Inr f \<Rightarrow> Mounted f mountpoint (option_vals ms) full_schema)))"

lemma mount_mode_Past: "mount_mode t ro nt = Past T \<longleftrightarrow> t = Some T"
  by (auto simp: mount_mode_def split: option.splits)

end
