(* ===== verification/Setup_Properties.thy ===== *)
theory Setup_Properties
  imports Command_Line Readable Inode_Types Past Sample_History
begin

text \<open>
  The properties of the file under the store: when its triggers exist, which states it can be
  in, and how large what it stores can grow.
\<close>

section \<open>Tables and triggers\<close>

text \<open>C0: \<open>init\<close> on a file without tables issues twenty statements, each committed by itself.
  When it dies after \<open>n\<close> of them, some later runs of \<open>init\<close>, complete or cut short in their
  turn, bring the file to the full set of tables and triggers exactly if it died between two
  blocks; inside a block the missing audit table or trigger is never created again, because the
  block is skipped when its table exists.\<close>
theorem interrupted_setup:
  assumes "init_schema n [] = Crashed S \<or> init_schema n [] = Done 0 S"
  shows "(\<exists>ms. set full_schema \<subseteq> set (later_inits ms S)) \<longleftrightarrow> n mod 5 = 0"
proof -
  from assms have "S = take n full_schema \<and> n \<le> 20"
    by (auto simp: init_empty full_schema_code split: if_splits)
  then show ?thesis using repaired_iff [of n] by simp
qed

theorem interrupted_setup_witness:
  "\<not> set full_schema \<subseteq> set (later_inits [20] [Table ''metadata'', Table ''metadata_audit''])"
proof -
  have "init_schema 2 [] = Crashed [Table ''metadata'', Table ''metadata_audit'']"
    by (simp add: init_empty full_schema_code numeral_2_eq_2)
  then show ?thesis
    using interrupted_setup [of 2 "[Table ''metadata'', Table ''metadata_audit'']"] by auto
qed

text \<open>What \<open>main\<close> comes to for a path without tables.\<close>

lemma fresh_file_main:
  assumes "mount_point ms = Some p" and "db_path ms = Some path" and "files path = ([], d)"
  shows "main_run e c files ms = Some
    (case mount_mode (at_time ms) (read_only ms) (no_time_recording ms) of
       Past T \<Rightarrow> Printed (SqliteError NoSuchTable)
     | md \<Rightarrow> (case mount_file e c md d of
         Inl err \<Rightarrow> Printed err | Inr f \<Rightarrow> Mounted f p (option_vals ms) full_schema))"
  using assms
  by (simp add: main_run_def mount_path_fresh split: mode.split sum.split)

section \<open>The life of a file\<close>



section \<open>Bounds\<close>

text \<open>C0: On a database whose blocks are no longer than 4096 bytes and numbered from 1 to
  \<open>2 ^ 20\<close>, a mount in any mode and any sequence of requests leave only such blocks, as long as
  the data of every single write are shorter than \<open>2 ^ 31\<close> bytes, whatever offsets and sizes the
  requests name.\<close>
theorem blocks_stay_bounded:
  assumes "mount_file e c md d = Inr f" and "blocks_bounded d"
    and "serve e qs f = Some f'" and "list_all (\<lambda>(u, g, q). small_request q) qs"
  shows "blocks_bounded (conn (fs_db f'))"
  using serve_bounded [OF assms(3,4)] mount_bounded [OF assms(1,2)] by blast

theorem blocks_stay_bounded_witness:
  "\<exists>f'. serve sample_env [(0, 0, Create 1 ''a'' 0x1A4), (0, 0, Setattr 2 None None None (Some 5000) None None None None)]
      root_fs = Some f' \<and> blocks_bounded (conn (fs_db f'))"
proof -
  let ?qs = "[(0, 0, Create 1 ''a'' 0x1A4), (0, 0, Setattr 2 None None None (Some 5000) None None None None)]
    :: (u32 \<times> u32 \<times> request) list"
  have "serve sample_env ?qs root_fs \<noteq> None" by code_simp
  then obtain f' where f': "serve sample_env ?qs root_fs = Some f'" by blast
  have "mount_file sample_env sample_codec Live empty_db = Inr root_fs"
    by (simp add: mount_file_def root_mount)
  from blocks_stay_bounded [OF this bounded_empty f'] f' show ?thesis by simp
qed

section \<open>Readable inodes\<close>

text \<open>C0: Whoever has a name can be looked at.  If the clock and the times given to setattr
  stay in the years 0000 to 9999, then after a mount that is not rewound and any sequence of
  requests getattr answers, for every entry of every directory, with the attributes of the
  inode the entry names, as long as there are fewer than \<open>2 ^ 32\<close> entries.\<close>

theorem named_inodes_stay_readable:
  assumes "mount_file e c md d = Inr f" and "\<not> fs_rewind f"
    and "db_wf d" and "times_readable d" and "clock_ok e"
    and "serve e qs f = Some f'" and "list_all (\<lambda>(u, g, q). timely_request e q) qs"
    and "names (conn (fs_db f')) (p, n) = Some (i, k)"
    and "length (t_dentry (conn (fs_db f'))) < 4294967296"
  shows "\<exists>a. fs_getattr (ucast i) f' = (Reply_attr ONE_SEC a, f') \<and> fa_ino a = ucast i"
proof -
  note run = serve_reachable [OF assms(6) reachable.start]
  have wf: "db_wf (conn (fs_db f'))"
    using wf_h.mount_R [OF assms(1) run] assms(3) by (simp add: keeps_wf_def)
  have rw: "\<not> fs_rewind f'"
    using reachable_same_mode [OF run] assms(2) by (simp add: same_mode_def)
  have "times_readable (conn (fs_db f'))"
    using serve_readable [OF assms(6,5,7)] mount_readable [OF assms(1,5,4)] by blast
  from readable_named_inode [OF wf this le_less_trans [OF length_filter_le assms(9)] assms(8)] rw
  show ?thesis
    by (auto simp: fs_getattr_def get_inode_def get_file_attr_def)
qed

theorem named_inodes_stay_readable_witness:
  "\<exists>f' a. serve sample_env [(0, 0, Create 1 ''a'' 0x1A4), (0, 0, Setattr 2 None None None None
         (Some \<lparr>ts_sec = 5, ts_nsec = 0\<rparr>) None None None)] root_fs = Some f'
     \<and> fs_getattr 2 f' = (Reply_attr ONE_SEC a, f')"
proof -
  let ?q = "[(0, 0, Create 1 ''a'' 0x1A4), (0, 0, Setattr 2 None None None None
      (Some \<lparr>ts_sec = 5, ts_nsec = 0\<rparr>) None None None)] :: (u32 \<times> u32 \<times> request) list"
  let ?ok = "\<lambda>f'. names (conn (fs_db f')) (1, ''a'') = Some (2, RegularFile)
      \<and> length (t_dentry (conn (fs_db f'))) = 3"
  have "case serve sample_env ?q root_fs of None \<Rightarrow> False | Some f' \<Rightarrow> ?ok f'"
    by code_simp
  then obtain f' where f: "serve sample_env ?q root_fs = Some f'" "?ok f'"
    by (auto split: option.splits)
  have mount: "mount_file sample_env sample_codec Live empty_db = Inr root_fs"
    by (simp add: mount_file_def root_mount)
  have rows: "times_readable empty_db" by (simp add: times_readable_def empty_db_def)
  have timely: "list_all (\<lambda>(u, g, q). timely_request sample_env q) ?q" by code_simp
  have "\<exists>a. fs_getattr (ucast (2 :: u32)) f' = (Reply_attr ONE_SEC a, f') \<and> fa_ino a = ucast (2 :: u32)"
    by (rule named_inodes_stay_readable [OF mount _ db_wf_empty rows clock_ok_sample f(1) timely conjunct1 [OF f(2)]])
      (simp_all add: conjunct2 [OF f(2)])
  with f(1) show ?thesis by auto
qed

section \<open>Inode numbers\<close>

text \<open>C16: An inode number names one file for ever.  Over any mounts, requests and crashes, an inode whose
  number was handed out before is one that was there before, and its type has not changed: a
  number is never used again for another file, and no request turns a file into a directory.\<close>

theorem numbers_keep_their_type:
  assumes "evolves e c d d'" and "i \<le> autoinc d" and "get_inode_local i d' = Inr (Some a)"
  shows "\<exists>m \<in> set (t_meta d). m_id m = i \<and> const_to_file_type (m_kind m) = a_kind a"
  using types_h.evolves_R [OF assms(1)] assms(3,2) by (rule type_before)

theorem numbers_keep_their_type_witness:
  "\<exists>a. get_inode_local 1 late_db = Inr (Some a) \<and> a_kind a = Directory"
proof -
  have "case get_inode_local 1 late_db of Inr (Some a) \<Rightarrow> True | _ \<Rightarrow> False" by code_simp
  then obtain a where a: "get_inode_local 1 late_db = Inr (Some a)"
    by (auto split: sum.splits option.splits)
  have "\<forall>m \<in> set (t_meta root_db). const_to_file_type (m_kind m) = Directory" by code_simp
  moreover have "1 \<le> autoinc root_db" by code_simp
  ultimately show ?thesis
    using numbers_keep_their_type [OF late_evolves _ a] a by auto
qed

end
