(* ===== verification/Crash_Spec.thy ===== *)
theory Crash_Spec
  imports Directory_Spec Histories
begin

text \<open>
  What a crash means for the abstract name space and for the bytes of a file, and what the next
  mount makes of it.
\<close>

section \<open>Statements that leave the tree alone\<close>

definition same_tree :: "db \<Rightarrow> db \<Rightarrow> bool" where
  "same_tree d d' \<longleftrightarrow> t_dentry d' = t_dentry d \<and> m_id ` set (t_meta d') = m_id ` set (t_meta d)"

interpretation same_tree: step_relation same_tree
  by unfold_locales (simp_all add: same_tree_def)

lemma same_tree_stmts:
  "keeps same_tree (meta_update e i f)" "keeps same_tree (data_upsert e ext r)"
  by (auto simp: keeps_def same_tree_def stmt_defs split: stmt_splits)

lemma same_tree_times:
  "keeps same_tree (update_atime e i t)" "keeps same_tree (update_mtime e i t)"
  "keeps same_tree (update_ctime e i t)"
  by (simp_all add: update_time_defs same_tree_stmts)

lemmas same_tree_parts = same_tree.keeps_intros same_tree_stmts same_tree_times

lemma get_data_same_tree: "get_data e i b n s = (r, s') \<Longrightarrow> same_tree (conn s) (conn s')"
  unfolding get_data_def
  by (erule keeps_transact_conn [rotated 2]) (auto intro!: same_tree_parts same_tree.refl)

lemma get_data_at_time_same_tree:
  assumes "get_data_at_time e i b n s = (r, s')"
  shows "same_tree (conn s) (conn s')"
proof (cases "sq_temp s")
  case (Some tt)
  from assms show ?thesis
    unfolding get_data_at_time_def Some option.case
    by (elim keeps_transact_conn [rotated 2]) (auto intro!: same_tree_parts same_tree.refl)
qed (use assms in \<open>simp add: get_data_at_time_def same_tree.refl\<close>)

lemma write_data_same_tree: "write_data e i b xs n s = (r, s') \<Longrightarrow> same_tree (conn s) (conn s')"
  unfolding write_data_def
  by (erule keeps_transact_conn [rotated 2])
    (auto intro!: same_tree_parts same_tree.refl split: option.split)

lemma same_tree_names: "same_tree d d' \<Longrightarrow> names d' = names d"
  by (rule names_cong) (simp add: same_tree_def)

lemma write_commits_same_tree:
  assumes "s' \<in> set (write_commits (\<lambda>b. get_data e i b n) (write_data e i) off sz data bs s)"
  shows "same_tree (conn s) (conn s')"
proof -
  have loop: "same_tree (conn s) (conn t)"
    if "write_loop (\<lambda>b. get_data e i b n) (write_data e i) off sz data cs s = Some (r, t)" for cs r t
    by (rule write_loop_keeps [of "\<lambda>s t. same_tree (conn s) (conn t)", OF _ _ _ _ order.refl that])
      (auto intro: same_tree.refl same_tree.trans get_data_same_tree write_data_same_tree)
  from write_commits_rounds [OF assms] show ?thesis
    by (auto dest: loop get_data_same_tree intro: same_tree.trans)
qed

section \<open>Deleting inodes sweeps entries\<close>

text \<open>What a deletion of inodes leaves of the names: those in directories that are still there.\<close>

definition swept :: "db \<Rightarrow> db \<Rightarrow> bool" where
  "swept d d' \<longleftrightarrow> (\<forall>j. has_inode j d' \<longrightarrow> has_inode j d)
     \<and> (\<forall>p n. names d' (p, n) = (if has_inode p d' then names d (p, n) else None))"

lemma names_dead_parent: "db_wf d \<Longrightarrow> \<not> has_inode p d \<Longrightarrow> names d (p, n) = None"
proof (cases "names d (p, n)")
  case (Some v)
  moreover assume "db_wf d" "\<not> has_inode p d"
  ultimately show ?thesis using dentry_row [of d p n "fst v" "snd v"] by simp
qed

lemma swept_refl: "db_wf d \<Longrightarrow> swept d d"
  by (simp add: swept_def names_dead_parent)

lemma swept_trans: "swept d d1 \<Longrightarrow> swept d1 d2 \<Longrightarrow> swept d d2"
  by (simp add: swept_def)

lemma same_tree_swept: "db_wf d \<Longrightarrow> same_tree d d' \<Longrightarrow> swept d d'"
  using swept_refl [of d] same_tree_names [of d d'] by (simp add: swept_def same_tree_def has_inode_def)

lemma delete_swept:
  assumes "db_wf (conn s)" and "delete_inode_if_noref e i s = (r, s')"
  shows "swept (conn s) (conn s')"
proof (cases "referenced i (conn s)")
  case True
  with delete_inode_if_noref_kept [OF assms(1)] assms show ?thesis by (simp add: swept_refl)
next
  case un: False
  show ?thesis
  proof (cases "has_inode i (conn s)")
    case True
    from delete_inode_if_noref_removed [OF assms(1) un True, of e] assms(2)
    have rm: "inode_removed i (conn s) (conn s')" by auto
    from rm inode_removed_content(2) [OF rm] show ?thesis
      by (auto simp: swept_def inode_removed_def without_children_def names_dead_parent [OF assms(1)])
  next
    case False
    then have "filter (\<lambda>m. m_id m = i) (t_meta (conn s)) = []" "filter (\<lambda>m. m_id m \<noteq> i) (t_meta (conn s)) = t_meta (conn s)"
      by (auto simp: has_inode_def filter_empty_conv filter_id_conv)
    then have "t_dentry (conn s') = t_dentry (conn s)" "t_meta (conn s') = t_meta (conn s)"
      using assms(2)
      by (auto simp: delete_inode_if_noref_def transact_def tx_defs meta_delete_def split: if_splits)
    then show ?thesis
      using same_tree_swept [OF assms(1)] by (simp add: same_tree_def)
  qed
qed

lemma drop_swept:
  "db_wf (conn (fs_db f)) \<Longrightarrow> drop_inode e i f = (r, f') \<Longrightarrow> swept (conn (fs_db f)) (conn (fs_db f'))"
  by (auto simp: drop_inode_def swept_refl delete_swept split: if_splits prod.splits)

lemma foldl_swept:
  "db_wf (conn s) \<Longrightarrow>
   swept (conn s) (conn (foldl (\<lambda>s key. snd (delete_inode_if_noref e key s)) s keys))"
proof (induction keys arbitrary: s)
  case (Cons key keys)
  let ?t = "snd (delete_inode_if_noref e key s)"
  have t: "delete_inode_if_noref e key s = (fst (delete_inode_if_noref e key s), ?t)" by simp
  have "db_wf (conn ?t)" by (rule wf_op [OF wf.delete_inode_if_noref_R [OF t] Cons.prems])
  from Cons.IH [OF this] delete_swept [OF Cons.prems t] show ?case
    by (simp add: swept_trans)
qed (simp add: swept_refl)

section \<open>The transactions of a request and the name space\<close>

lemma snd_collapse: "snd p = s \<Longrightarrow> p = (fst p, s)"
  by auto

lemma unlink_atomic:
  assumes wf: "db_wf (conn (fs_db f))" and rw: "\<not> fs_read_only f"
    and s: "s = snd (delete_dentry e (ucast p) n (fs_db f))" and h: "fs_unlink e p n f = (r, f')"
  shows "swept (conn s) (conn (fs_db f'))"
proof -
  obtain q where q: "delete_dentry e (ucast p) n (fs_db f) = (q, s)" using snd_collapse [OF s [symmetric]] by blast
  have wf': "db_wf (conn s)" by (rule wf_op [OF wf.delete_dentry_R [OF q] wf])
  with h q rw show ?thesis
    by (cases q) (auto simp: fs_unlink_def swept_refl split: prod.splits sum.splits
        dest: drop_swept [of "f\<lparr>fs_db := s\<rparr>", simplified])
qed

lemma rename_atomic:
  assumes wf: "db_wf (conn (fs_db f))" and rw: "\<not> fs_read_only f"
    and s: "s = snd (move_dentry e (ucast p) n (ucast np) nn (fs_db f))"
    and h: "fs_rename e p n np nn f = (r, f')"
  shows "swept (conn s) (conn (fs_db f'))"
proof -
  obtain q where q: "move_dentry e (ucast p) n (ucast np) nn (fs_db f) = (q, s)"
    using snd_collapse [OF s [symmetric]] by blast
  have wf': "db_wf (conn s)" by (rule wf_op [OF wf.move_dentry_R [OF q] wf])
  with h q rw show ?thesis
    by (cases q) (auto simp: fs_rename_def swept_refl split: prod.splits sum.splits option.splits
        dest: drop_swept [of "f\<lparr>fs_db := s\<rparr>", simplified])
qed

lemma rmdir_atomic:
  assumes wf: "db_wf (conn (fs_db f))" and rw: "\<not> fs_read_only f"
    and lk: "lookup e (ucast p) n (fs_db f) = (Inr (Some attr), t)"
    and emp: "check_directory_is_empty (a_ino attr) t = Inr True"
    and s: "s = snd (delete_dentry e (ucast p) n t)" and h: "fs_rmdir e p n f = (r, f')"
  shows "swept (conn s) (conn (fs_db f'))"
proof -
  obtain q where q: "delete_dentry e (ucast p) n t = (q, s)" using snd_collapse [OF s [symmetric]] by blast
  have "db_wf (conn t)" by (rule wf_op [OF wf.lookup_R [OF lk] wf])
  then have wf': "db_wf (conn s)" by (rule wf_op [OF wf.delete_dentry_R [OF q]])
  with h q rw lk emp show ?thesis
    by (cases q) (auto simp: fs_rmdir_def Let_def swept_refl split: prod.splits sum.splits
        dest: drop_swept [of "f\<lparr>fs_db := s\<rparr>", simplified])
qed

lemma symlink_atomic:
  assumes wf: "db_wf (conn (fs_db f))" and rw: "\<not> fs_read_only f"
    and s: "s = snd (add_inode_and_dentry e (ucast p) n
      (new_attr (utc_now e (conn (fs_db f))) Symlink 0x1FF ruid rgid) (fs_db f))"
    and h: "fs_symlink e ruid rgid p n data f = (r, f')"
  shows "swept (conn s) (conn (fs_db f'))"
proof -
  obtain q where q: "add_inode_and_dentry e (ucast p) n
      (new_attr (utc_now e (conn (fs_db f))) Symlink 0x1FF ruid rgid) (fs_db f) = (q, s)"
    using snd_collapse [OF s [symmetric]] by blast
  have wf': "db_wf (conn s)" by (rule wf_op [OF wf.add_inode_and_dentry_R [OF q] wf]) simp
  with h q rw show ?thesis
    by (cases q) (auto simp: fs_symlink_def Let_def swept_refl split: if_splits prod.splits sum.splits
        dest!: write_data_same_tree intro: same_tree_swept)
qed

lemma lookup_same_names: "db_wf (conn s) \<Longrightarrow> names (conn (snd (lookup e p n s))) = names (conn s)"
  using lookup_ok [of s e p n] by fastforce

lemma read_commits_same_names:
  assumes "s \<in> set (request_commits e ruid rgid (Read i off sz) f)"
  shows "names (conn s) = names (conn (fs_db f))"
proof -
  from assms have s: "s \<in> set (read_commits (unat sz)
       (\<lambda>b. if \<not> fs_rewind f then get_data e (ucast i) b (get_db_block_size (fs_db f))
            else get_data_at_time e (ucast i) b (get_db_block_size (fs_db f)))
       (ucast off) sz (fs_db f))" by simp
  have "same_tree (conn (fs_db f)) (conn s)"
    by (rule read_commits_keeps [where Q = "\<lambda>s t. same_tree (conn s) (conn t)", OF _ _ _ s])
      (auto intro: same_tree.refl same_tree.trans get_data_same_tree get_data_at_time_same_tree
        split: if_splits)
  then show ?thesis by (rule same_tree_names)
qed

lemma destroy_atomic:
  assumes wf: "db_wf (conn (fs_db f))" and rw: "\<not> fs_read_only f"
    and s: "s = foldl (\<lambda>s key. snd (delete_inode_if_noref e key s)) (fs_db f) (take k (map fst (lookup_count f)))"
    and h: "fs_destroy e f = (r, f')"
  shows "swept (conn s) (conn (fs_db f'))"
proof -
  let ?keys = "map fst (lookup_count f)"
  let ?run = "foldl (\<lambda>s key. snd (delete_inode_if_noref e key s))"
  have "db_wf (conn s)"
    using wf.hr_destroy [where ext = "sq_ext (fs_db f)" and e = e and s = "fs_db f" and keys = "take k ?keys"] wf
    by (simp add: s conn_rel_def keeps_wf_def)
  from foldl_swept [OF this, of e "drop k ?keys"] have "swept (conn s) (conn (?run (fs_db f) (take k ?keys @ drop k ?keys)))"
    by (simp add: s del: append_take_drop_id)
  with h rw show ?thesis by (auto simp: fs_destroy_def)
qed

lemma commits_atomic:
  assumes wf: "db_wf (conn (fs_db f))" and h: "handle e ruid rgid q f = Some (r, f')"
    and s: "s \<in> set (request_commits e ruid rgid q f)"
  shows "names (conn s) = names (conn (fs_db f)) \<or> swept (conn s) (conn (fs_db f'))"
proof (cases q)
  case Destroy
  with assms show ?thesis by (auto split: if_splits intro: destroy_atomic)
next
  case (Rmdir p n)
  obtain x t where t: "lookup e (ucast p) n (fs_db f) = (x, t)" by fastforce
  have nt: "names (conn t) = names (conn (fs_db f))"
    using lookup_same_names [OF wf, of e "ucast p" n] t by simp
  have rw: "\<not> fs_read_only f" using s Rmdir by (cases "fs_read_only f") simp_all
  show ?thesis
  proof (cases "s = t")
    case False
    obtain attr where a: "x = Inr (Some attr)" "check_directory_is_empty (a_ino attr) t = Inr True"
        "s = snd (delete_dentry e (ucast p) n t)"
    proof (cases x)
      case (Inr v)
      with s Rmdir t rw False show ?thesis
        by (cases v; cases "check_directory_is_empty (a_ino (the v)) t = Inr True") (auto intro: that)
    qed (use s Rmdir t rw False in simp)
    with Rmdir h show ?thesis
      using rmdir_atomic [OF wf rw t [unfolded a(1)] a(2,3)] by simp
  qed (simp add: nt)
next
  case (Write i off data)
  with s show ?thesis
    by (auto simp: Let_def split: if_splits dest: write_commits_same_tree same_tree_names)
next
  case (Read i off sz)
  with s show ?thesis using read_commits_same_names by blast
next
  case (Create p n mode)
  with s show ?thesis by (auto simp: lookup_same_names [OF wf] split: if_splits)
qed (use assms in \<open>auto split: if_splits intro: unlink_atomic rename_atomic symlink_atomic\<close>)

section \<open>The next mount\<close>

text \<open>A database whose root directory is complete: init has nothing to add but bdata.\<close>

definition settled :: "db \<Rightarrow> bool" where
  "settled d \<longleftrightarrow> has_inode 1 d \<and> names d (1, ''.'') \<noteq> None \<and> names d (1, ''..'') \<noteq> None"

lemma entry_settled: "names d (1, n) \<noteq> None \<Longrightarrow> length (filter (\<lambda>r. d_parent r = 1 \<and> d_name r = n) (t_dentry d)) \<noteq> 0"
  by (auto simp: names_None_iff tab_get_None_iff dentry_key_def filter_empty_conv)

lemma apply_diffs_bdata: "snd (apply_diffs ext d) = d\<lparr>t_bdata := t_bdata (snd (apply_diffs ext d))\<rparr>"
  using apply_diffs_only [of ext d] by (cases "snd (apply_diffs ext d)"; cases d) simp

lemma init_settled:
  assumes "settled (conn s)"
  shows "\<exists>b. init e s = (Inr (), s\<lparr>conn := (conn s)\<lparr>t_bdata := b\<rparr>\<rparr>)"
proof -
  have "length (filter (\<lambda>m. m_id m = 1) (t_meta (conn s))) \<noteq> 0"
    using assms by (auto simp: settled_def has_inode_def filter_empty_conv)
  then have "transact (init_inode e) s = (Inr (), s)"
    by (simp add: transact_def init_inode_def tx_defs)
  moreover have "transact (init_entry e n) s = (Inr (), s)" if "n = ''.'' \<or> n = ''..''" for n
    using that assms entry_settled [of "conn s" n]
    by (auto simp: settled_def transact_def init_entry_def tx_defs)
  ultimately show ?thesis
    using apply_diffs_bdata [of "sq_ext s" "conn s"]
    by (intro exI [of _ "t_bdata (snd (apply_diffs (sq_ext s) (conn s)))"]) (simp add: init_def)
qed

lemma live_mount_settled:
  assumes "settled d"
  shows "\<exists>f b. mount_file e c Live d = Inr f \<and> conn (fs_db f) = d\<lparr>t_bdata := b\<rparr> \<and> \<not> fs_rewind f"
proof -
  obtain b where "init e (sqlite_new c d) = (Inr (), (sqlite_new c d)\<lparr>conn := d\<lparr>t_bdata := b\<rparr>\<rparr>)"
    using init_settled [of "sqlite_new c d" e] assms by (auto simp: sqlite_new_def)
  then show ?thesis
    by (auto simp: mount_file_def fs_new_def fs_with_def)
qed

lemma db_wf_bdata: "db_wf (d\<lparr>t_bdata := b\<rparr>) = db_wf d"
  by (simp add: db_wf_def has_inode_def numbered_logs_def)

lemma names_bdata [simp]: "names (d\<lparr>t_bdata := b\<rparr>) = names d"
  by (rule names_cong) simp

lemma mount_and_sweep:
  assumes "db_wf d" and "settled d"
  shows "\<exists>f f'. mount_file e c Live d = Inr f \<and> fs_init e f = (Reply_none, f')
    \<and> (\<forall>i. has_inode i (conn (fs_db f')) \<longleftrightarrow> referenced i d)
    \<and> (\<forall>i. referenced i d \<longrightarrow> content i (conn (fs_db f')) = content i d
         \<and> db_size i (conn (fs_db f')) = db_size i d)
    \<and> (\<forall>p n. names (conn (fs_db f')) (p, n) = (if referenced p d then names d (p, n) else None))"
proof -
  obtain f b where f: "mount_file e c Live d = Inr f" "conn (fs_db f) = d\<lparr>t_bdata := b\<rparr>" "\<not> fs_rewind f"
    using live_mount_settled [OF assms(2)] by blast
  have "content i (d\<lparr>t_bdata := b\<rparr>) = content i d" "db_size i (d\<lparr>t_bdata := b\<rparr>) = db_size i d"
    "referenced i (d\<lparr>t_bdata := b\<rparr>) = referenced i d" for i
    by (simp_all add: content_def db_size_def referenced_def)
  with f inode_sweep [of "fs_db f" e] assms(1) show ?thesis
    by (auto simp: fs_init_def db_wf_bdata)
qed

section \<open>A torn write\<close>

lemma write_commits_torn:
  assumes can: "can_write c (ucast i) f" and data: "data \<noteq> []"
    and fits: "unat (ucast off :: u32) + length data < 4294967296"
    and s: "s \<in> set (request_commits e ruid rgid (Write i off data) f)"
  shows "\<exists>k. (\<forall>p < 4294967296. content (ucast i) (conn s) p =
            overlay (unat (ucast off :: u32)) (cut_data (unat (ucast off :: u32)) k data)
              (content (ucast i) (conn (fs_db f)) p) p)
    \<and> db_size (ucast i) (conn s) = (if k = 0 then db_size (ucast i) (conn (fs_db f))
          else max (db_size (ucast i) (conn (fs_db f)))
            (unat (ucast off :: u32) + length (cut_data (unat (ucast off :: u32)) k data)))
    \<and> only_file (ucast i) (conn (fs_db f)) (conn s)"
proof -
  let ?i = "ucast i :: u32" and ?off = "ucast off :: u32" and ?n = "of_nat (length data) :: u32"
  let ?get = "\<lambda>b. get_data e ?i b (get_db_block_size (fs_db f))"
  let ?bs = "block_range (start_block ?off) (end_block ?off ?n)"
  have un: "unat ?n = length data"
    using fits by (intro unat_u32_of_nat) simp
  have w: "write_fits ?off ?n" "length data < 4294967296"
    using data fits by (simp_all add: write_fits_def un)
  have ok: "writable c ?i (fs_db f) (fs_db f)"
    using can by (simp add: writable_def can_write_def)
  have "s \<in> set (write_commits ?get (write_data e ?i) ?off ?n data ?bs (fs_db f))"
    using s can by (simp add: Let_def can_write_def)
  from write_commits_rounds [OF this] obtain k r t
    where loop: "write_loop ?get (write_data e ?i) ?off ?n data (take k ?bs) (fs_db f) = Some (r, t)"
      and t: "s = t \<or> (\<exists>b r. ?get b t = (r, s))" by fastforce
  from disk.write_loop_prefix [OF w ok, of e "get_db_block_size (fs_db f)" k] loop
  have T: "writable c ?i (fs_db f) t"
      "db_size ?i (conn t) = (if k = 0 then db_size ?i (conn (fs_db f))
         else max (db_size ?i (conn (fs_db f))) (unat ?off + length (cut_data (unat ?off) k data)))"
      "\<forall>p < 4294967296. content ?i (conn t) p =
         overlay (unat ?off) (cut_data (unat ?off) k data) (content ?i (conn (fs_db f)) p) p"
    by (auto simp: content_def)
  have same: "content ?i (conn s) = content ?i (conn t)" "db_size ?i (conn s) = db_size ?i (conn t)"
      "only_file ?i (conn t) (conn s)"
  proof -
    have "s = t \<or> read_only_change ?i (conn t) (conn s)"
      using t get_data_ok [of e ?i _ "get_db_block_size (fs_db f)" t] by (metis prod.inject)
    then show "content ?i (conn s) = content ?i (conn t)" "db_size ?i (conn s) = db_size ?i (conn t)"
        "only_file ?i (conn t) (conn s)"
      by (auto simp: read_only_change_def content_def)
  qed
  then show ?thesis
    using T by (intro exI [of _ k]) (auto simp: writable_def intro: only_file_trans)
qed

end
