(* ===== verification/Crash_Properties.thy ===== *)
theory Crash_Properties
  imports Crash_Spec Name_Properties
begin

text \<open>
  The properties of crashes: requests are atomic for the name space, a torn write is a shorter
  write, and the next mount repairs what a crash left.  The invariants of every history
  (\<open>Mount_Properties\<close>, \<open>Setup_Properties\<close>) hold after crashes as well, as histories contain them.
\<close>

section \<open>Names\<close>

text \<open>C12: Requests are atomic for the name space.  Whenever the program dies during a request, the
  name space in the database is the one before the request, or the one after it but for entries
  of directories that the request deletes with their last name.\<close>

theorem requests_are_atomic:
  assumes "db_wf (conn (fs_db f))" and "handle e ruid rgid q f = Some (r, f')"
    and "s \<in> set (crash_states e ruid rgid q f)"
  shows "names (conn s) = names (conn (fs_db f)) \<or> swept (conn s) (conn (fs_db f'))"
  using commits_atomic [OF assms(1,2), of s] assms(3) by (auto simp: crash_states_def)

text \<open>The sample directory \<open>e\<close> loses its name, and the program dies.\<close>

definition sample_crash :: sqlite where
  "sample_crash = snd (delete_dentry sample_env 1 ''e'' (fs_db sample_fs))"

lemma sample_crash:
  "sample_crash \<in> set (crash_states sample_env 0 0 (Unlink 1 ''e'') sample_fs)"
  "names (conn sample_crash) = without_children 4 (without_entry 1 ''e'' (names sample_db))"
  "same_files sample_db (conn sample_crash)"
proof -
  show "sample_crash \<in> set (crash_states sample_env 0 0 (Unlink 1 ''e'') sample_fs)"
    by (simp add: crash_states_def sample_crash_def)
  obtain s' where "delete_dentry sample_env 1 ''e'' (fs_db sample_fs) = (Inr 4, s')"
      "names (conn s') = without_children 4 (without_entry 1 ''e'' (names sample_db))"
      "same_files sample_db (conn s')"
    using delete_dentry_names [of "fs_db sample_fs" 1 "''e''" 4 Directory sample_env]
    by (auto simp: names_sample_db)
  then show "names (conn sample_crash) = without_children 4 (without_entry 1 ''e'' (names sample_db))"
    and "same_files sample_db (conn sample_crash)"
    by (simp_all add: sample_crash_def)
qed

theorem requests_are_atomic_witness:
  "swept (conn sample_crash) (conn (fs_db (snd (fs_unlink sample_env 1 ''e'' sample_fs))))"
proof -
  have h: "handle sample_env 0 0 (Unlink 1 ''e'') sample_fs = Some
      (fst (fs_unlink sample_env 1 ''e'' sample_fs), snd (fs_unlink sample_env 1 ''e'' sample_fs))"
    by simp
  have "names (conn sample_crash) (1, ''e'') \<noteq> names sample_db (1, ''e'')"
    by (simp add: sample_crash(2) without_children_def without_entry_def dot_name_def names_sample_db)
  then have "names (conn sample_crash) \<noteq> names (conn (fs_db sample_fs))" by auto
  then show ?thesis
    using requests_are_atomic [OF _ h sample_crash(1)] by (simp add: sample_wf)
qed

section \<open>Data\<close>

text \<open>C13: A torn write is a shorter write.  A write that is cut short by a crash, on a mount that
  can write, leaves the file as a write of the data up to the end of some block would: no byte
  beyond is changed, no byte before is missing, the size covers what was written, and nothing
  but this file is touched.\<close>

theorem torn_write_is_a_prefix:
  assumes "can_write c (ucast i) f" and "data \<noteq> []"
    and "unat (ucast off :: u32) + length data < 4294967296"
    and "s \<in> set (crash_states e ruid rgid (Write i off data) f)"
  shows "\<exists>k. (\<forall>p < 4294967296. content (ucast i) (conn s) p =
            overlay (unat (ucast off :: u32)) (cut_data (unat (ucast off :: u32)) k data)
              (content (ucast i) (conn (fs_db f)) p) p)
    \<and> db_size (ucast i) (conn s) = (if k = 0 then db_size (ucast i) (conn (fs_db f))
          else max (db_size (ucast i) (conn (fs_db f)))
            (unat (ucast off :: u32) + length (cut_data (unat (ucast off :: u32)) k data)))
    \<and> only_file (ucast i) (conn (fs_db f)) (conn s)"
proof (cases "s = fs_db f")
  case True
  then show ?thesis
    using overlay_cut_data [of _ "unat (ucast off :: u32)" 0 data]
    by (intro exI [of _ 0]) (auto simp: overlay_def cut_data_def)
next
  case False
  with assms(4) have "s \<in> set (request_commits e ruid rgid (Write i off data) f)"
    by (simp add: crash_states_def)
  then show ?thesis by (rule write_commits_torn [OF assms(1-3)])
qed

theorem torn_write_is_a_prefix_witness:
  "\<exists>k. \<forall>p < 4294967296. content 2 (conn (snd (get_data sample_env 2 1 4096 (fs_db sample_fs)))) p =
      overlay 0 (cut_data 0 k [1, 2, 3]) (content 2 sample_db p) p"
proof -
  have "snd (get_data sample_env 2 1 4096 (fs_db sample_fs)) \<in>
      set (crash_states sample_env 0 0 (Write 2 0 [1, 2, 3]) sample_fs)"
  proof -
    obtain pre t where t: "get_data sample_env 2 1 4096 (fs_db sample_fs) = (Inr pre, t)"
      using get_data_ok by blast
    have "block_range (start_block 0) (end_block 0 3) = [1]"
      by (simp add: block_range_def start_block_def end_block_def BLOCK_SIZE_def)
    moreover have "b_end_index 0 3 1 \<noteq> BLOCK_SIZE"
      by (simp add: b_end_index_def end_block_def BLOCK_SIZE_def)
    ultimately show ?thesis
      using t by (simp add: crash_states_def get_db_block_size_def BLOCK_SIZE_def Let_def)
  qed
  from torn_write_is_a_prefix [OF _ _ _ this, of sample_codec] show ?thesis
    by (auto simp: sample_can_write)
qed

section \<open>The next mount\<close>

text \<open>C11: The next mount repairs what a crash left.  After a crash during any request, if the root
  directory is complete, a live mount of the database succeeds, and its first request leaves
  exactly the inodes some entry refers to, with their contents and sizes, and every entry of a
  directory that is left.\<close>

theorem crash_is_repaired:
  assumes "db_wf (conn (fs_db f))" and "s \<in> set (crash_states e ruid rgid q f)"
    and "settled (conn s)"
  shows "\<exists>f1 f2. mount_file e' c Live (conn s) = Inr f1 \<and> fs_init e' f1 = (Reply_none, f2)
    \<and> (\<forall>i. has_inode i (conn (fs_db f2)) \<longleftrightarrow> referenced i (conn s))
    \<and> (\<forall>i. referenced i (conn s) \<longrightarrow> content i (conn (fs_db f2)) = content i (conn s)
         \<and> db_size i (conn (fs_db f2)) = db_size i (conn s))
    \<and> (\<forall>p n. names (conn (fs_db f2)) (p, n) =
         (if referenced p (conn s) then names (conn s) (p, n) else None))"
proof -
  have "db_wf (conn s)"
    using wf.crash_conn_rel [OF assms(2), of "sq_ext (fs_db f)"] assms(1)
    by (simp add: conn_rel_def keeps_wf_def)
  then show ?thesis by (rule mount_and_sweep [OF _ assms(3)])
qed

theorem crash_is_repaired_witness:
  "\<exists>f1 f2. mount_file sample_env sample_codec Live (conn sample_crash) = Inr f1
     \<and> fs_init sample_env f1 = (Reply_none, f2)
     \<and> has_inode 3 (conn (fs_db f2)) \<and> \<not> has_inode 4 (conn (fs_db f2))"
proof -
  have N: "names (conn sample_crash) (q, m) =
      (if q = 4 \<or> (q, m) = (1, ''e'') then None else names sample_db (q, m))" for q m
    by (simp add: sample_crash(2) without_children_def without_entry_def dot_name_def)
  have "settled (conn sample_crash)"
    using same_files_has_inode [OF sample_crash(3)]
    by (simp add: settled_def N names_sample_db sample_has)
  from crash_is_repaired [OF _ sample_crash(1) this, of sample_env sample_codec]
  obtain f1 f2 where f: "mount_file sample_env sample_codec Live (conn sample_crash) = Inr f1"
      "fs_init sample_env f1 = (Reply_none, f2)"
      "\<forall>i. has_inode i (conn (fs_db f2)) \<longleftrightarrow> referenced i (conn sample_crash)"
    by (auto simp: sample_wf)
  have "names (conn sample_crash) (1, ''d'') = Some (3, Directory)"
    by (simp add: N names_sample_db)
  then have "referenced 3 (conn sample_crash)" by (auto simp: referenced_def)
  moreover have "names (conn sample_crash) (q, m) \<noteq> Some (4, ty)" for q m ty
    by (simp add: N names_sample_db)
  then have "\<not> referenced 4 (conn sample_crash)" by (auto simp: referenced_def)
  ultimately show ?thesis using f by blast
qed

end
