(* ===== verification/Netbsd.thy ===== *)
theory Netbsd
  imports Reply_Objects
begin

unbundle bit_operations_syntax

text \<open>
  What is different when the program is compiled for NetBSD (\<open>fuse/patches/kernel.rs\<close>,
  \<open>reply.rs\<close>, \<open>request.rs\<close>): longer attributes and requests, and fields that are unsigned
  where the rest of the program has signed ones.  The conversions panic (\<open>None\<close>) on a value
  that does not fit; readdir is the one of the theory on macOS.
\<close>

section \<open>Conversions\<close>

text \<open>
  \<open>try_into().unwrap()\<close> between the signed and the unsigned type of one width: the top bit has
  to be clear, in either direction.
\<close>

definition try_into :: "'a::len word \<Rightarrow> 'a word option" where
  "try_into x = (if sint x < 0 then None else Some x)"

fun timespec_new :: "u64 option \<Rightarrow> u32 option \<Rightarrow> timespec option" where
  "timespec_new (Some s) (Some n) = Some \<lparr>ts_sec = s, ts_nsec = n\<rparr>"
| "timespec_new _ _ = None"

section \<open>Structures\<close>

record fuse_attr_netbsd = fuse_attr +
  an_blksize :: u32
  an_padding :: u32

definition attr_netbsd_bytes :: "fuse_attr_netbsd \<Rightarrow> bytes" where
  "attr_netbsd_bytes a = attr_bytes (fuse_attr.truncate a) @ le 4 (an_blksize a) @ le 4 (an_padding a)"

definition fuse_attr_from_attr_netbsd :: "file_attr \<Rightarrow> fuse_attr_netbsd" where
  "fuse_attr_from_attr_netbsd a =
     fuse_attr.extend (fuse_attr_from_attr a) (fuse_attr_netbsd.fields 0 0)"

record fuse_create_in =
  cr_flags :: u32
  cr_mode :: u32
  cr_umask :: u32
  cr_padding :: u32

record fuse_read_in_netbsd =
  rn_fh :: u64
  rn_offset :: u64
  rn_size :: u32
  rn_read_flags :: u32
  rn_lock_owner :: u64
  rn_flags :: u32
  rn_padding :: u32

record fuse_write_in_netbsd =
  wn_fh :: u64
  wn_offset :: u64
  wn_size :: u32
  wn_write_flags :: u32
  wn_lock_owner :: u64
  wn_flags :: u32
  wn_padding :: u32

section \<open>Replies\<close>

definition entry_out_netbsd :: "timespec \<Rightarrow> file_attr \<Rightarrow> u64 \<Rightarrow> bytes option" where
  "entry_out_netbsd ttl attr generation =
     (case try_into (ts_nsec ttl) of None \<Rightarrow> None | Some nsec \<Rightarrow> Some
        (le 8 (fa_ino attr) @ le 8 generation @ le 8 (ts_sec ttl) @ le 8 (ts_sec ttl)
          @ le 4 nsec @ le 4 nsec @ attr_netbsd_bytes (fuse_attr_from_attr_netbsd attr)))"

definition entry_reply_netbsd :: "u64 \<Rightarrow> timespec \<Rightarrow> file_attr \<Rightarrow> u64 \<Rightarrow> bytes list option" where
  "entry_reply_netbsd unique ttl attr generation =
     map_option (\<lambda>x. send unique 0 [x]) (entry_out_netbsd ttl attr generation)"

definition attr_reply_netbsd :: "u64 \<Rightarrow> timespec \<Rightarrow> file_attr \<Rightarrow> bytes list option" where
  "attr_reply_netbsd unique ttl attr =
     (case try_into (ts_sec ttl) of None \<Rightarrow> None | Some sec \<Rightarrow>
      case try_into (ts_nsec ttl) of None \<Rightarrow> None | Some nsec \<Rightarrow> Some
        (send unique 0 [le 8 sec @ le 4 nsec @ le 4 (0 :: u32)
           @ attr_netbsd_bytes (fuse_attr_from_attr_netbsd attr)]))"

definition created_reply_netbsd ::
  "u64 \<Rightarrow> timespec \<Rightarrow> file_attr \<Rightarrow> u64 \<Rightarrow> u64 \<Rightarrow> u32 \<Rightarrow> bytes list option" where
  "created_reply_netbsd unique ttl attr generation fh fl =
     map_option (\<lambda>x. send unique 0 [x @ open_out_bytes (open_out fh fl)])
       (entry_out_netbsd ttl attr generation)"

text \<open>
  With the second the program grants, none of them panics, and the attributes are those of Linux
  with eight zero bytes behind them.
\<close>

lemma attr_netbsd_zeros:
  "attr_netbsd_bytes (fuse_attr_from_attr_netbsd attr) =
     attr_bytes (fuse_attr_from_attr attr) @ replicate 8 0"
  by (simp add: attr_netbsd_bytes_def fuse_attr_from_attr_netbsd_def fuse_attr_from_attr_def
      fuse_attr.extend_def fuse_attr.truncate_def fuse_attr_netbsd.fields_def numeral_eq_Suc)

lemma replies_netbsd_total:
  "entry_reply_netbsd unique ONE_SEC attr generation \<noteq> None"
  "attr_reply_netbsd unique ONE_SEC attr \<noteq> None"
  "created_reply_netbsd unique ONE_SEC attr generation fh fl \<noteq> None"
  by (simp_all add: entry_reply_netbsd_def attr_reply_netbsd_def created_reply_netbsd_def
      entry_out_netbsd_def ONE_SEC_def try_into_def)

section \<open>Arguments\<close>

text \<open>The fields of \<open>fuse_setattr_in\<close> are those of Linux, with unsigned times.\<close>

definition setattr_call_netbsd :: "u64 \<Rightarrow> fuse_setattr_in \<Rightarrow> request option" where
  "setattr_call_netbsd nodeid arg =
     (let time = (\<lambda>fattr sec nsec.
            if sa_valid arg AND fattr = 0 then Some None
            else map_option Some (timespec_new (try_into sec) (try_into nsec))) in
      case time FATTR_ATIME (sa_atime arg) (sa_atimensec arg) of None \<Rightarrow> None | Some atime \<Rightarrow>
      case time FATTR_MTIME (sa_mtime arg) (sa_mtimensec arg) of None \<Rightarrow> None | Some mtime \<Rightarrow> Some
        (Setattr nodeid
           (when_valid arg FATTR_MODE (sa_mode arg))
           (when_valid arg FATTR_UID (sa_uid arg))
           (when_valid arg FATTR_GID (sa_gid arg))
           (when_valid arg FATTR_SIZE (sa_size arg)) atime mtime None None))"

record 'it netbsd_arguments =
  arg_read_netbsd :: "'it \<Rightarrow> (fuse_read_in_netbsd \<times> 'it) option"
  arg_write_netbsd :: "'it \<Rightarrow> (fuse_write_in_netbsd \<times> 'it) option"
  arg_create :: "'it \<Rightarrow> (fuse_create_in \<times> 'it) option"

definition decode_netbsd ::
  "'it arguments \<Rightarrow> 'it netbsd_arguments \<Rightarrow> outside \<Rightarrow> fuse_opcode \<Rightarrow> req \<Rightarrow> call option" where
  "decode_netbsd ai an w opcode r =
     (let it = arg_new ai (payload r); node = ih_nodeid (header r) in
      if opcode = FUSE_SETATTR then
        with_arg (arg_setattr ai it) (\<lambda>arg _. map_option To_fs (setattr_call_netbsd node arg))
      else if opcode = FUSE_READ then
        with_arg (arg_read_netbsd an it) (\<lambda>arg _.
          map_option (\<lambda>off. To_fs (Read node off (rn_size arg))) (try_into (rn_offset arg)))
      else if opcode = FUSE_WRITE then
        with_arg (arg_write_netbsd an it) (\<lambda>arg it. with_arg (arg_data ai it) (\<lambda>d _.
          if length d = unat (wn_size arg)
          then map_option (\<lambda>off. To_fs (Write node off d)) (try_into (wn_offset arg)) else None))
      else if opcode = FUSE_READDIR then
        with_arg (arg_read_netbsd an it) (\<lambda>arg _.
          map_option (\<lambda>off. To_fs (Readdir (unat (rn_size arg)) node (rn_fh arg) off))
            (try_into (rn_offset arg)))
      else if opcode = FUSE_CREATE then
        with_arg (arg_create an it) (\<lambda>arg it. with_arg (arg_str ai it) (\<lambda>n _.
          Some (To_fs (Create node n (cr_mode arg)))))
      else decode ai w opcode r)"

text \<open>Times of which none is negative reach setattr as they do on Linux.\<close>

lemma setattr_call_netbsd_Some:
  "setattr_call_netbsd nodeid arg = Some q \<Longrightarrow> q = setattr_call nodeid arg"
  by (auto simp: setattr_call_netbsd_def setattr_call_def when_valid_def try_into_def Let_def
      split: if_splits option.splits)

end
