(* ===== verification/Spec2Isabelle.thy ===== *)
theory Spec2Isabelle
  imports File_Properties Name_Properties Life_Properties Past_Properties Rewind_Limits
    Mount_Properties Session_Properties Listing_Properties Setup_Properties Crash_Properties Netbsd
begin

text \<open>
  A model of sqlitefs_temporal, a FUSE filesystem that keeps its files in an SQLite database and
  records every change in audit tables, so that the filesystem can be mounted as it was at an
  earlier time.  File names below are relative to \<open>src/\<close>.

  The program and its parts.  The kernel sends messages; \<open>fuse/patches/request.rs\<close> decodes a
  message, checks the state of the session and calls one method of \<open>SqliteFs\<close>
  (\<open>src/filesystem.rs\<close>) with a reply object (\<open>fuse/patches/reply.rs\<close>), which sends one message
  back in the format of \<open>fuse/patches/kernel.rs\<close>.  A method of \<open>SqliteFs\<close> works through the
  operations of \<open>Sqlite\<close> (\<open>src/db_module/sqlite.rs\<close>, behind the trait of \<open>src/db_module.rs\<close>), each
  of which is one transaction of SQL statements.  Triggers append an audit row for every row a
  statement changes.  \<open>init\<close> rebuilds a copy of the blocks from the audit table of data, and a
  mount at a past time reads temporary tables computed from the audit tables.  \<open>src/main.rs\<close>
  chooses the kind of mount.

  The theories, from the bottom up.

  \<^item> \<open>Prelude\<close>: words, options and sums, tables as lists of rows found by a key, byte slices.
  \<^item> \<open>Sqerror\<close> (\<open>src/sqerror.rs\<close>): \<open>error_kind\<close>; a transaction is a function from a database to an
    error or a result and a database (\<open>tx\<close>, with \<open>tbind\<close> for Rust's \<open>?\<close>).  The locale
    \<open>step_relation\<close> gives the combinators for a relation every step keeps.
  \<^item> \<open>Attributes\<close> (\<open>src/db_module.rs\<close>): file types, times, \<open>db_file_attr\<close>, \<open>dentry\<close>,
    \<open>get_file_attr\<close>.
  \<^item> \<open>Store\<close>: the rows of the tables, the audit rows, the record \<open>db\<close>, and one definition per kind
    of SQL statement with its constraints, cascades and triggers (\<open>meta_insert\<close>, \<open>dentry_update\<close>,
    \<open>data_upsert\<close> and so on).  \<open>Store_Laws\<close>: the locales \<open>guarded_store_relation\<close>
    (a relation kept as long as blocks and times are legal), \<open>any_write_relation\<close> (kept by
    every statement of the code) and \<open>store_relation\<close> (kept by every statement), the
    interface between the statements and the code above them, and interpretations for
    well-formed tables (\<open>db_wf\<close>: keys, foreign keys, numbered audit rows) and growing audit
    tables.  \<open>Journal\<close>: the tables agree with their audit tables (locale \<open>wf_agreement\<close>).
  \<^item> \<open>Diffs\<close> (\<open>get_max_creation_seq\<close>, \<open>apply_diffs\<close>), \<open>Inodes\<close>, \<open>Dentries\<close>, \<open>Blocks\<close> (the operations of
    \<open>Sqlite\<close> on inodes, entries, blocks and extended attributes; \<open>sqlite\<close> is the connection
    object), \<open>Mount\<close> (the constructors of \<open>Sqlite\<close>, the temporary tables \<open>rewound_tables\<close>, \<open>init\<close>).
  \<^item> \<open>FsState\<close>, \<open>FsNames\<close>, \<open>FsData\<close>, \<open>FsHandles\<close> (\<open>src/filesystem.rs\<close>): the record \<open>fs\<close> and one
    definition \<open>fs_<method>\<close> per method; \<open>None\<close> is a panic.  \<open>Requests\<close>: the handlers as a state
    machine (\<open>handle\<close>, \<open>fs_step\<close>, \<open>reachable\<close>).  \<open>Crashes\<close>: the transactions of every request and
    of \<open>init\<close>, one after the other, and so what a crash can leave (\<open>crash_states\<close>,
    \<open>init_commits\<close>); \<open>Crash_Spec\<close>: what that means for names, bytes and the next mount.
  \<^item> \<open>Content\<close> and \<open>Files\<close>: a file as a sequence of bytes over blocks; the loops of read and write
    are proved once in the locales \<open>block_device\<close> and \<open>writable_device\<close>, which the live and the
    rewound tables interpret.  \<open>Namespace\<close> and \<open>Directory_Spec\<close>: the entries as a map from parent
    and name to inode and type, and every name handler as an update of it.
  \<^item> \<open>Rewind\<close>, \<open>Histories\<close>, \<open>Past\<close>, \<open>Mounts\<close>: mounting (\<open>mount_file\<close>), histories of mounts,
    requests and crashes (\<open>evolves\<close>, locale \<open>history_relation\<close>), and what a mount at a past
    time recovers.
  \<^item> \<open>Schema\<close>: the tables and triggers of the file and their creation by \<open>init\<close>, statement by
    statement, so that it can be cut short; the life of a file (\<open>mount_path\<close>, \<open>file_history\<close>).
    \<open>Command_Line\<close> (\<open>src/main.rs\<close>): \<open>main\<close> on parsed arguments.  \<open>Block_Bounds\<close>: the size and
    the numbers of blocks.  \<open>Readable\<close>: which times SQLite stores and which inodes can be read
    back.  \<open>Inode_Types\<close>: inode numbers are not used twice and types do not change.
  \<^item> \<open>Kernel\<close>, \<open>Wire\<close>, \<open>Dispatch\<close>, \<open>Sessions\<close> (\<open>fuse/patches\<close>): opcodes and structures, the bytes of
    replies, decoding and dispatch, and a session as a state machine over messages.
    \<open>Wire_Format\<close> reads the bytes back, as the kernel does.  \<open>Reply_Objects\<close>: the reply object and
    what it sends when a handler panics.  \<open>Listing\<close>: a client that reads a directory to its end.
    \<open>Macos\<close> and \<open>Netbsd\<close>: what is compiled on these systems only.  \<open>Reply_Tests\<close>: the unit tests
    of \<open>reply.rs\<close> with the bytes they expect.
  \<^item> \<open>Samples\<close> and \<open>Sample_History\<close>: concrete databases and mounts for the witnesses.

  What is shown.  \<open>File_Properties\<close>: a write is read back, changes its range only, reads end and
  return the content, truncation clears what it cuts off.  \<open>Name_Properties\<close> and
  \<open>Life_Properties\<close>: the name handlers refine updates of the map of names, refusals change
  nothing, lookups are counted, orphans are swept, symbolic links.  \<open>Past_Properties\<close>,
  \<open>Mount_Properties\<close> and \<open>Rewind_Limits\<close>: the invariants of every history, the audit tables
  determine the tables, a live mount rebuilds the blocks, a rewound mount answers getattr,
  listings and extended attributes as the filesystem did at the time, and the three cases in
  which it does not; what each kind of mount leaves alone.  \<open>Session_Properties\<close> and
  \<open>Listing_Properties\<close>: every message is answered exactly once, in spite of panics, with a reply
  of the right kind and length, the bytes are those of the unit tests, and directory listings
  are complete.  \<open>Setup_Properties\<close>: when the triggers exist, how large blocks grow, that what has
  a name can be looked at, and that numbers keep their type.  \<open>Crash_Properties\<close>: requests are
  atomic for the name space, a torn write is a shorter write, and the next mount repairs what a
  crash left; the invariants of histories hold after crashes too, as histories contain them.

  Assumptions, which are hypotheses of the theorems that need them.  \<open>codec\<close> stands for the
  extension functions compress, uncompress, delta_create and delta_apply: \<open>codec_ok\<close> says that
  a delta applied to what it was made from gives back the new bytes, \<open>codec_total\<close> that making
  one does not fail.  \<open>env\<close> holds the clock, the text of the stamps, the range of chrono, and the
  column SQLite picks for a bare column of an aggregate; clock and stamps are read as functions
  of the number of audit rows.  What rewinding recovers needs stamps that increase from one
  audit row of a key to the next, and a time that separates the changes before from those after;
  \<open>Rewind_Limits\<close> shows what equal stamps do.  The argument iterator, the session record,
  \<open>MAX_WRITE_SIZE\<close> and the default methods of the trait belong to the fuse crate and are
  arguments of the definitions of \<open>Dispatch\<close>; \<open>statvfs\<close> of the host is an argument of
  \<open>fs_statfs\<close>.  Arithmetic wraps, as in a release build.  Constants of libc are those of Linux,
  words are little-endian, and names are valid UTF-8 (the code panics on others).  The rows of a
  query without an order come in the order of insertion; the theorems that depend on one row
  per key have the key as a hypothesis.

  Bounds.  A file has less than 4 GiB, as sizes and offsets are 32 bits wide: the theorems on
  writes ask for a range that ends below, and lemmas of \<open>File_Properties\<close> show what happens at
  the edge.  A read ends for sizes up to \<open>2 ^ 32 - 4096\<close>.  An audit table of \<open>2 ^ 32\<close> rows or more
  cannot be mounted, because \<open>seq\<close> is read as a u32.  Fuel is used twice: in \<open>read_all\<close>,
  a client, where one request more than there are entries is enough, and in \<open>read_commits\<close>,
  which gets the size of the read, as each round takes at least one byte of it.  Twenty
  statements are enough for \<open>init\<close>.

  Not modelled.  SQLite itself: parsing, storage, locking, the journal modes; a transaction
  commits or leaves the database as it was, whatever the crash.  The C
  sources of the extensions, the fuse crate, clap, chrono, the conversions of errors to the
  failure crate and all logging.  Handlers run one after the other, as the session loop calls
  them, so that the mutexes are never contended.  Of macOS and NetBSD the kernel interface, the
  replies, the decoding and readdir are modelled, but not their values of the constants of libc.
  The tests of the program under \<open>tests/\<close>.

  Next steps: the invariants of the directory tree under the requests a kernel sends, and crashes
  together with the rewound view of the time before them.
\<close>

end
